(* ===== verification/Prelude.thy ===== *)
theory Prelude
  imports Main "HOL-Library.Word"
begin

text \<open>
  Shared vocabulary of the development: the machine integers and byte strings of the Rust
  sources, \<open>Result\<close> values as sums (\<open>Inl\<close> is the error), the cursor-style readers of
  \<^verbatim>\<open>src/src/wire/codecs.rs\<close> as state-passing decoders, the checked and saturating
  arithmetic of the standard library, big-endian byte images of integers, decimal printing and
  parsing, and UTF-8 validation. Unchecked \<open>+\<close>, \<open>-\<close> and \<open>*\<close> on words wrap, as they do in the
  release profile of \<^verbatim>\<open>Cargo.toml\<close> (overflow checks are off there).
\<close>

section \<open>Types\<close>

type_synonym u8 = "8 word"
type_synonym u16 = "16 word"
type_synonym u32 = "32 word"
type_synonym u64 = "64 word"
type_synonym bytes = "8 word list"

named_theorems wire_rt \<open>read-after-write equations of the wire primitives\<close>
named_theorems enc_simps \<open>unfolding rules of the encoders\<close>
named_theorems dec_simps \<open>unfolding rules of the decoders\<close>

section \<open>Results\<close>

definition rbind :: "'e + 'a \<Rightarrow> ('a \<Rightarrow> 'e + 'b) \<Rightarrow> 'e + 'b" where
  "rbind r f = (case r of Inl e \<Rightarrow> Inl e | Inr a \<Rightarrow> f a)"

definition rmap :: "('a \<Rightarrow> 'b) \<Rightarrow> 'e + 'a \<Rightarrow> 'e + 'b" where
  "rmap f r = rbind r (\<lambda>a. Inr (f a))"

definition ok_or :: "'a option \<Rightarrow> 'e \<Rightarrow> 'e + 'a" where
  "ok_or x e = (case x of None \<Rightarrow> Inl e | Some a \<Rightarrow> Inr a)"

definition is_ok :: "'e + 'a \<Rightarrow> bool" where
  "is_ok r = (case r of Inl _ \<Rightarrow> False | Inr _ \<Rightarrow> True)"

lemma rbind_simps [simp]:
  "rbind (Inl e) f = Inl e"
  "rbind (Inr a) f = f a"
  by (simp_all add: rbind_def)

lemma rmap_simps [simp]:
  "rmap f (Inl e) = Inl e"
  "rmap f (Inr a) = Inr (f a)"
  by (simp_all add: rmap_def)

lemma rbind_cong [fundef_cong]:
  "r = r' \<Longrightarrow> (\<And>a. r' = Inr a \<Longrightarrow> f a = g a) \<Longrightarrow> rbind r f = rbind r' g"
  by (auto simp: rbind_def split: sum.splits)

lemma rbind_eq_Inr: "rbind r f = Inr b \<longleftrightarrow> (\<exists>a. r = Inr a \<and> f a = Inr b)"
  by (auto simp: rbind_def split: sum.splits)

lemma ok_or_simps [simp]:
  "ok_or None e = Inl e"
  "ok_or (Some a) e = Inr a"
  by (simp_all add: ok_or_def)

lemma ok_or_eq_Inr: "ok_or x e = Inr a \<longleftrightarrow> x = Some a"
  by (cases x) simp_all

lemma is_ok_simps [simp]: "is_ok (Inr a)" "\<not> is_ok (Inl e)"
  by (simp_all add: is_ok_def)

text \<open>A loop whose body returns a \<open>Result\<close> and is left by the first error.\<close>

fun rfold :: "('s \<Rightarrow> 'a \<Rightarrow> 'e + 's) \<Rightarrow> 's \<Rightarrow> 'a list \<Rightarrow> 'e + 's" where
  "rfold f s [] = Inr s"
| "rfold f s (x # xs) = rbind (f s x) (\<lambda>s'. rfold f s' xs)"

lemma rfold_invariant:
  assumes "rfold f s xs = Inr s'" and "P s"
    and "\<And>s x s'. P s \<Longrightarrow> x \<in> set xs \<Longrightarrow> f s x = Inr s' \<Longrightarrow> P s'"
  shows "P s'"
  using assms
proof (induction xs arbitrary: s)
  case (Cons x xs)
  from Cons.prems(1) obtain t where t: "f s x = Inr t" "rfold f t xs = Inr s'"
    by (auto simp: rbind_eq_Inr)
  have "P t" by (rule Cons.prems(3) [OF Cons.prems(2) _ t(1)]) simp
  then show ?case by (rule Cons.IH [OF t(2)]) (rule Cons.prems(3), auto)
qed simp

lemma rfold_append: "rfold f s (xs @ ys) = rbind (rfold f s xs) (\<lambda>s'. rfold f s' ys)"
  by (induction xs arbitrary: s) (auto simp: rbind_def split: sum.splits)

lemma rfold_simulation:
  assumes "\<And>s x. x \<in> set xs \<Longrightarrow> g (h s) (k x) = rmap h (f s x)"
  shows "rfold g (h s) (map k xs) = rmap h (rfold f s xs)"
  using assms
proof (induction xs arbitrary: s)
  case (Cons x xs)
  then show ?case by (cases "f s x") auto
qed simp

section \<open>Decoders and encoders\<close>

text \<open>
  A decoder takes the slice the Rust cursor points at and returns the value with the rest of
  the slice. \<open>dbind\<close> is the question-mark operator followed by the rest of the function.
\<close>

type_synonym ('e, 'a) decoder = "bytes \<Rightarrow> 'e + 'a \<times> bytes"

definition dbind :: "('e, 'a) decoder \<Rightarrow> ('a \<Rightarrow> ('e, 'b) decoder) \<Rightarrow> ('e, 'b) decoder" where
  "dbind p f = (\<lambda>buf. case p buf of Inl e \<Rightarrow> Inl e | Inr (a, rest) \<Rightarrow> f a rest)"

definition dret :: "'a \<Rightarrow> ('e, 'a) decoder" where
  "dret a = (\<lambda>buf. Inr (a, buf))"

definition dfail :: "'e \<Rightarrow> ('e, 'a) decoder" where
  "dfail e = (\<lambda>buf. Inl e)"

lemma dbind_run: "dbind p f buf = (case p buf of Inl e \<Rightarrow> Inl e | Inr (a, rest) \<Rightarrow> f a rest)"
  by (simp add: dbind_def)

lemma dbind_Inr [simp]: "p buf = Inr (a, rest) \<Longrightarrow> dbind p f buf = f a rest"
  by (simp add: dbind_def)

lemma dbind_Inl [simp]: "p buf = Inl e \<Longrightarrow> dbind p f buf = Inl e"
  by (simp add: dbind_def)

lemma dret_run [simp]: "dret a buf = Inr (a, buf)"
  by (simp add: dret_def)

lemma dfail_run [simp]: "dfail e buf = Inl e"
  by (simp add: dfail_def)

lemma dbind_eq_Inr:
  "dbind p f buf = Inr x \<longleftrightarrow> (\<exists>a rest. p buf = Inr (a, rest) \<and> f a rest = Inr x)"
  by (auto simp: dbind_def split: sum.splits)

text \<open>
  Reading a value \<open>n\<close> times in a row (\<open>for _ in 0..n\<close> pushing onto a vector).
\<close>

fun read_n :: "('e, 'a) decoder \<Rightarrow> nat \<Rightarrow> ('e, 'a list) decoder" where
  "read_n p 0 buf = Inr ([], buf)"
| "read_n p (Suc n) buf =
     (case p buf of Inl e \<Rightarrow> Inl e
      | Inr (a, rest) \<Rightarrow>
          (case read_n p n rest of Inl e \<Rightarrow> Inl e | Inr (as, rest') \<Rightarrow> Inr (a # as, rest')))"

lemma read_n_concat:
  assumes "\<And>x rest. x \<in> set xs \<Longrightarrow> p (enc x @ rest) = Inr (x, rest)"
  shows "read_n p (length xs) (concat (map enc xs) @ rest) = Inr (xs, rest)"
  using assms by (induction xs) auto

lemma read_n_length: "read_n p n buf = Inr (xs, rest) \<Longrightarrow> length xs = n"
  by (induction n arbitrary: buf xs rest) (auto split: sum.splits prod.splits)

text \<open>
  An encoder that can fail is the list of the blocks it appends, in order; the first error
  aborts it, as the question-mark operator does.
\<close>

fun enc_seq :: "('e + bytes) list \<Rightarrow> 'e + bytes" where
  "enc_seq [] = Inr []"
| "enc_seq (Inl e # ps) = Inl e"
| "enc_seq (Inr b # ps) = (case enc_seq ps of Inl e \<Rightarrow> Inl e | Inr bs \<Rightarrow> Inr (b @ bs))"

lemma enc_seq_all_Inr:
  "(\<And>x. x \<in> set xs \<Longrightarrow> f x = Inr (g x)) \<Longrightarrow> enc_seq (map f xs) = Inr (concat (map g xs))"
  by (induction xs) auto

lemma enc_seq_append:
  "enc_seq (xs @ ys) = rbind (enc_seq xs) (\<lambda>b. rbind (enc_seq ys) (\<lambda>c. Inr (b @ c)))"
proof (induction xs)
  case Nil
  then show ?case by (simp add: rbind_def split: sum.splits)
next
  case (Cons x xs)
  then show ?case by (cases x) (auto simp: rbind_def split: sum.splits)
qed

section \<open>Integers\<close>

definition checked_add :: "'a::len word \<Rightarrow> 'a word \<Rightarrow> 'a word option" where
  "checked_add a b = (if unat a + unat b < 2 ^ LENGTH('a) then Some (a + b) else None)"

definition checked_sub :: "'a::len word \<Rightarrow> 'a word \<Rightarrow> 'a word option" where
  "checked_sub a b = (if b \<le> a then Some (a - b) else None)"

definition checked_mul :: "'a::len word \<Rightarrow> 'a word \<Rightarrow> 'a word option" where
  "checked_mul a b = (if unat a * unat b < 2 ^ LENGTH('a) then Some (a * b) else None)"

definition saturating_add :: "'a::len word \<Rightarrow> 'a word \<Rightarrow> 'a word" where
  "saturating_add a b = (if unat a + unat b < 2 ^ LENGTH('a) then a + b else - 1)"

definition saturating_sub :: "'a::len word \<Rightarrow> 'a word \<Rightarrow> 'a word" where
  "saturating_sub a b = (if b \<le> a then a - b else 0)"

definition saturating_mul :: "'a::len word \<Rightarrow> 'a word \<Rightarrow> 'a word" where
  "saturating_mul a b = (if unat a * unat b < 2 ^ LENGTH('a) then a * b else - 1)"

definition abs_diff :: "'a::len word \<Rightarrow> 'a word \<Rightarrow> 'a word" where
  "abs_diff a b = (if a \<le> b then b - a else a - b)"

lemma checked_add_Some: "checked_add a b = Some c \<Longrightarrow> unat c = unat a + unat b"
  by (auto simp: checked_add_def unat_word_ariths split: if_splits)

lemma checked_sub_Some: "checked_sub a b = Some c \<Longrightarrow> unat a = unat c + unat b"
  by (auto simp: checked_sub_def unat_sub word_le_nat_alt split: if_splits)

lemma checked_mul_Some: "checked_mul a b = Some c \<Longrightarrow> unat c = unat a * unat b"
  by (auto simp: checked_mul_def unat_word_ariths split: if_splits)

lemma unat_saturating_add:
  "unat (saturating_add (a::'a::len word) b) = min (unat a + unat b) (2 ^ LENGTH('a) - 1)"
proof (cases "unat a + unat b < 2 ^ LENGTH('a)")
  case True
  then show ?thesis by (simp add: saturating_add_def unat_word_ariths)
next
  case False
  then show ?thesis by (simp add: saturating_add_def unsigned_minus_1_eq_mask mask_eq_exp_minus_1)
qed

lemma unat_saturating_sub: "unat (saturating_sub a b) = unat a - unat b"
  by (auto simp: saturating_sub_def unat_sub word_le_nat_alt)

lemma unat_of_nat_len: "n < 2 ^ LENGTH('a) \<Longrightarrow> unat (of_nat n :: 'a::len word) = n"
  by (simp add: unat_of_nat)

section \<open>Big-endian byte images\<close>

fun be_bytes :: "nat \<Rightarrow> nat \<Rightarrow> bytes" where
  "be_bytes 0 x = []"
| "be_bytes (Suc n) x = be_bytes n (x div 256) @ [word_of_nat (x mod 256)]"

definition be_val :: "bytes \<Rightarrow> nat" where
  "be_val bs = foldl (\<lambda>acc b. acc * 256 + unat b) 0 bs"

definition le_bytes :: "nat \<Rightarrow> nat \<Rightarrow> bytes" where
  "le_bytes n x = rev (be_bytes n x)"

definition le_val :: "bytes \<Rightarrow> nat" where
  "le_val bs = be_val (rev bs)"

lemma length_be_bytes [simp]: "length (be_bytes n x) = n"
  by (induction n arbitrary: x) simp_all

lemma length_le_bytes [simp]: "length (le_bytes n x) = n"
  by (simp add: le_bytes_def)

lemma be_val_Nil [simp]: "be_val [] = 0"
  by (simp add: be_val_def)

lemma be_val_snoc [simp]: "be_val (bs @ [b]) = be_val bs * 256 + unat b"
  by (simp add: be_val_def)

lemma unat_byte_lt [simp]: "unat (b :: u8) < 256"
  using unsigned_less [of b] by simp

lemma be_val_less: "be_val bs < 256 ^ length bs"
proof (induction bs rule: rev_induct)
  case (snoc b bs)
  have "be_val (bs @ [b]) < be_val bs * 256 + 256" by simp
  also have "\<dots> = (be_val bs + 1) * 256" by simp
  also have "\<dots> \<le> 256 ^ length bs * 256" using snoc by (intro mult_right_mono) auto
  finally show ?case by simp
qed simp

lemma be_val_be_bytes [simp]: "be_val (be_bytes n x) = x mod 256 ^ n"
proof (induction n arbitrary: x)
  case (Suc n)
  have "x mod 256 < (256::nat)" by simp
  then have "unat (word_of_nat (x mod 256) :: u8) = x mod 256"
    by (simp add: unat_of_nat)
  then have "be_val (be_bytes (Suc n) x) = (x div 256) mod 256 ^ n * 256 + x mod 256"
    by (simp add: Suc)
  also have "\<dots> = x mod (256 * 256 ^ n)"
    by (simp add: mod_mult2_eq)
  finally show ?case by simp
qed simp

lemma be_bytes_be_val [simp]: "be_bytes (length bs) (be_val bs) = bs"
proof (induction bs rule: rev_induct)
  case (snoc b bs)
  have "be_val (bs @ [b]) div 256 = be_val bs" by simp
  moreover have "be_val (bs @ [b]) mod 256 = unat b" by simp
  ultimately show ?case using snoc by simp
qed simp

lemma le_val_le_bytes [simp]: "le_val (le_bytes n x) = x mod 256 ^ n"
  by (simp add: le_val_def le_bytes_def)

lemma be_bytes_inj: "be_bytes n x = be_bytes n y \<Longrightarrow> x mod 256 ^ n = y mod 256 ^ n"
  by (metis be_val_be_bytes)

lemma le_bytes_inj: "le_bytes n x = le_bytes n y \<Longrightarrow> x mod 256 ^ n = y mod 256 ^ n"
  by (metis le_val_le_bytes)

lemma be_val_append: "be_val (as @ bs) = be_val as * 256 ^ length bs + be_val bs"
proof (induction bs rule: rev_induct)
  case (snoc b bs)
  have "be_val (as @ bs @ [b]) = be_val (as @ bs) * 256 + unat b"
    by (simp flip: append_assoc)
  then show ?case using snoc by (simp add: algebra_simps)
qed simp

section \<open>Decimal strings\<close>

definition digit_char :: "nat \<Rightarrow> char" where
  "digit_char d = char_of (48 + d)"

fun dec_nat :: "nat \<Rightarrow> string" where
  "dec_nat n = (if n < 10 then [digit_char n] else dec_nat (n div 10) @ [digit_char (n mod 10)])"

declare dec_nat.simps [simp del]

definition is_ascii_digit :: "char \<Rightarrow> bool" where
  "is_ascii_digit c = (48 \<le> (of_char c :: nat) \<and> (of_char c :: nat) \<le> 57)"

definition dec_val :: "string \<Rightarrow> nat" where
  "dec_val s = foldl (\<lambda>acc c. acc * 10 + (of_char c - 48)) 0 s"

text \<open>
  \<open>str::parse::<u64>\<close>: an optional plus sign, then at least one digit, and no overflow.
\<close>

definition parse_u64 :: "string \<Rightarrow> u64 option" where
  "parse_u64 s =
     (let ds = (case s of [] \<Rightarrow> [] | c # cs \<Rightarrow> if c = CHR ''+'' \<and> cs \<noteq> [] then cs else s)
      in if ds = [] \<or> \<not> list_all is_ascii_digit ds \<or> 2 ^ 64 \<le> dec_val ds then None
         else Some (of_nat (dec_val ds)))"

lemma of_char_digit_char: "d < 10 \<Longrightarrow> (of_char (digit_char d) :: nat) = 48 + d"
  by (simp add: digit_char_def)

lemma is_ascii_digit_digit_char: "d < 10 \<Longrightarrow> is_ascii_digit (digit_char d)"
  by (simp add: is_ascii_digit_def of_char_digit_char)

lemma dec_nat_digits: "list_all is_ascii_digit (dec_nat n)"
proof (induction n rule: dec_nat.induct)
  case (1 n)
  then show ?case
    by (subst dec_nat.simps) (simp add: is_ascii_digit_digit_char)
qed

lemma dec_nat_nonempty [simp]: "dec_nat n \<noteq> []"
  by (subst dec_nat.simps) simp

lemma dec_val_snoc [simp]: "dec_val (s @ [c]) = dec_val s * 10 + (of_char c - 48)"
  by (simp add: dec_val_def)

lemma dec_val_single [simp]: "dec_val [c] = of_char c - 48"
  by (simp add: dec_val_def)

lemma dec_val_dec_nat [simp]: "dec_val (dec_nat n) = n"
proof (induction n rule: dec_nat.induct)
  case (1 n)
  then show ?case
    by (subst dec_nat.simps) (simp add: of_char_digit_char)
qed

lemma not_digit_sep: "\<not> is_ascii_digit CHR ''x''" "\<not> is_ascii_digit CHR ''/''"
    "\<not> is_ascii_digit CHR ''+''" "\<not> is_ascii_digit CHR '':''"
  by (simp_all add: is_ascii_digit_def)

lemma dec_nat_no_sep: "CHR ''x'' \<notin> set (dec_nat n)" "CHR ''/'' \<notin> set (dec_nat n)"
    "CHR ''+'' \<notin> set (dec_nat n)"
  using dec_nat_digits [of n] not_digit_sep by (auto simp: list_all_iff)

lemma parse_u64_dec_nat: "n < 2 ^ 64 \<Longrightarrow> parse_u64 (dec_nat n) = Some (of_nat n)"
proof -
  assume n: "n < 2 ^ 64"
  have "(case dec_nat n of [] \<Rightarrow> []
      | c # cs \<Rightarrow> if c = CHR ''+'' \<and> cs \<noteq> [] then cs else dec_nat n) = dec_nat n"
    using dec_nat_no_sep(3) [of n] by (cases "dec_nat n") auto
  then show ?thesis using n dec_nat_digits [of n] by (simp add: parse_u64_def)
qed

lemma dec_nat_inj: "dec_nat m = dec_nat n \<Longrightarrow> m = n"
  by (metis dec_val_dec_nat)

section \<open>Separated strings\<close>

text \<open>\<open>str::split\<close> and \<open>join\<close> at a separator character.\<close>

fun split_on :: "char \<Rightarrow> string \<Rightarrow> string list" where
  "split_on c [] = [[]]"
| "split_on c (x # xs) =
     (if x = c then [] # split_on c xs
      else case split_on c xs of [] \<Rightarrow> [[x]] | p # ps \<Rightarrow> (x # p) # ps)"

fun join_with :: "char \<Rightarrow> string list \<Rightarrow> string" where
  "join_with c [] = []"
| "join_with c [p] = p"
| "join_with c (p # q # ps) = p @ c # join_with c (q # ps)"

lemma split_on_nonempty [simp]: "split_on c s \<noteq> []"
  by (induction s) (auto split: list.splits)

lemma split_on_no_sep: "c \<notin> set s \<Longrightarrow> split_on c s = [s]"
  by (induction s) auto

lemma split_on_append_sep: "c \<notin> set s \<Longrightarrow> split_on c (s @ c # t) = s # split_on c t"
  by (induction s) auto

lemma split_on_parts: "p \<in> set (split_on c s) \<Longrightarrow> c \<notin> set p"
  by (induction s arbitrary: p) (auto split: if_splits list.splits)

lemma join_split: "join_with c (split_on c s) = s"
proof (induction s)
  case (Cons x s)
  obtain p ps where sp: "split_on c s = p # ps" by (cases "split_on c s") auto
  with Cons show ?case by (cases ps) auto
qed simp

lemma split_join: "ps \<noteq> [] \<Longrightarrow> \<forall>p \<in> set ps. c \<notin> set p \<Longrightarrow> split_on c (join_with c ps) = ps"
  by (induction c ps rule: join_with.induct) (auto simp: split_on_no_sep split_on_append_sep)

lemma join_append:
  "ps \<noteq> [] \<Longrightarrow> qs \<noteq> [] \<Longrightarrow> join_with c (ps @ qs) = join_with c ps @ c # join_with c qs"
proof (induction c ps rule: join_with.induct)
  case (2 c p)
  then show ?case by (cases qs) auto
qed auto

section \<open>Strings and UTF-8\<close>

text \<open>
  Rust strings are UTF-8 byte sequences; here they are \<open>string\<close>s whose characters are those
  bytes. \<open>utf8_step\<close> is one iteration of the standard library's chunk decoder on a non-empty
  slice: whether the leading sequence is well formed, and how many bytes it spans.
\<close>

definition bytes_of_string :: "string \<Rightarrow> bytes" where
  "bytes_of_string s = map (\<lambda>c. word_of_nat (of_char c)) s"

definition string_of_bytes :: "bytes \<Rightarrow> string" where
  "string_of_bytes bs = map (\<lambda>b. char_of (unat b)) bs"

definition byte_at :: "bytes \<Rightarrow> nat \<Rightarrow> u8" where
  "byte_at buf i = (if i < length buf then buf ! i else 0)"

definition is_cont :: "u8 \<Rightarrow> bool" where
  "is_cont b = (0x80 \<le> b \<and> b \<le> 0xBF)"

definition utf8_second_ok :: "u8 \<Rightarrow> u8 \<Rightarrow> bool" where
  "utf8_second_ok b c =
     (if b = 0xE0 then 0xA0 \<le> c \<and> c \<le> 0xBF
      else if b = 0xED then 0x80 \<le> c \<and> c \<le> 0x9F
      else if b = 0xF0 then 0x90 \<le> c \<and> c \<le> 0xBF
      else if b = 0xF4 then 0x80 \<le> c \<and> c \<le> 0x8F
      else is_cont c)"

definition utf8_step :: "bytes \<Rightarrow> bool \<times> nat" where
  "utf8_step buf =
     (let b = byte_at buf 0 in
      if b < 0x80 then (True, 1)
      else if 0xC2 \<le> b \<and> b \<le> 0xDF then
        (if is_cont (byte_at buf 1) then (True, 2) else (False, 1))
      else if 0xE0 \<le> b \<and> b \<le> 0xEF then
        (if \<not> utf8_second_ok b (byte_at buf 1) then (False, 1)
         else if is_cont (byte_at buf 2) then (True, 3) else (False, 2))
      else if 0xF0 \<le> b \<and> b \<le> 0xF4 then
        (if \<not> utf8_second_ok b (byte_at buf 1) then (False, 1)
         else if \<not> is_cont (byte_at buf 2) then (False, 2)
         else if is_cont (byte_at buf 3) then (True, 4) else (False, 3))
      else (False, 1))"

lemma utf8_step_pos: "0 < snd (utf8_step buf)"
  by (simp add: utf8_step_def Let_def)

function valid_utf8 :: "bytes \<Rightarrow> bool" where
  "valid_utf8 buf =
     (if buf = [] then True
      else fst (utf8_step buf) \<and> valid_utf8 (drop (snd (utf8_step buf)) buf))"
  by pat_completeness auto
termination
  by (relation "measure length") (auto simp: utf8_step_pos)

function from_utf8_lossy :: "bytes \<Rightarrow> string" where
  "from_utf8_lossy buf =
     (if buf = [] then []
      else (if fst (utf8_step buf) then string_of_bytes (take (snd (utf8_step buf)) buf)
            else string_of_bytes [0xEF, 0xBF, 0xBD]) @
           from_utf8_lossy (drop (snd (utf8_step buf)) buf))"
  by pat_completeness auto
termination
  by (relation "measure length") (auto simp: utf8_step_pos)

declare valid_utf8.simps [simp del] from_utf8_lossy.simps [simp del]

lemma valid_utf8_Nil [simp]: "valid_utf8 []"
  by (simp add: valid_utf8.simps)

lemma from_utf8_lossy_valid: "valid_utf8 buf \<Longrightarrow> from_utf8_lossy buf = string_of_bytes buf"
proof (induction buf rule: valid_utf8.induct)
  case (1 buf)
  show ?case
  proof (cases "buf = []")
    case True
    then show ?thesis by (simp add: from_utf8_lossy.simps string_of_bytes_def)
  next
    case False
    have "string_of_bytes buf =
        string_of_bytes (take (snd (utf8_step buf)) buf) @
        string_of_bytes (drop (snd (utf8_step buf)) buf)"
      unfolding string_of_bytes_def by (metis append_take_drop_id map_append)
    with 1 False show ?thesis
      by (simp add: valid_utf8.simps [of buf] from_utf8_lossy.simps [of buf])
  qed
qed

end
