(* ===== verification/Action.thy ===== *)
theory Action
  imports Prelude
begin

text \<open>
  Stateful fallible code. An action takes the state and returns its \<open>Result\<close> together with the new
  state, also when it fails: what was written before an early return stays written. \<open>abind\<close> is the
  question-mark operator, \<open>acase\<close> a \<open>match\<close> on the result of a call. \<open>maintains I m Q\<close> says that
  \<open>m\<close> keeps the state invariant \<open>I\<close> however it ends and that a value it returns satisfies \<open>Q\<close>.
\<close>

named_theorems maintains_intros \<open>rules for the invariants of actions\<close>

type_synonym ('s, 'e, 'a) action = "'s \<Rightarrow> ('e + 'a) \<times> 's"

definition abind :: "('s, 'e, 'a) action \<Rightarrow> ('a \<Rightarrow> ('s, 'e, 'b) action) \<Rightarrow> ('s, 'e, 'b) action" where
  "abind m f = (\<lambda>s. case m s of (Inl e, s') \<Rightarrow> (Inl e, s') | (Inr a, s') \<Rightarrow> f a s')"

definition aret :: "'a \<Rightarrow> ('s, 'e, 'a) action" where
  "aret a = (\<lambda>s. (Inr a, s))"

definition afail :: "'e \<Rightarrow> ('s, 'e, 'a) action" where
  "afail e = (\<lambda>s. (Inl e, s))"

definition alift :: "'e + 'a \<Rightarrow> ('s, 'e, 'a) action" where
  "alift r = (\<lambda>s. (r, s))"

definition acase :: "('s, 'e, 'a) action \<Rightarrow> ('e + 'a \<Rightarrow> ('s, 'f, 'b) action) \<Rightarrow> ('s, 'f, 'b) action" where
  "acase m f = (\<lambda>s. case m s of (r, s') \<Rightarrow> f r s')"

definition amap_err :: "('e \<Rightarrow> 'f) \<Rightarrow> ('s, 'e, 'a) action \<Rightarrow> ('s, 'f, 'a) action" where
  "amap_err g m = (\<lambda>s. case m s of (Inl e, s') \<Rightarrow> (Inl (g e), s') | (Inr a, s') \<Rightarrow> (Inr a, s'))"

definition aignore :: "('s, 'e, 'a) action \<Rightarrow> ('s, 'f, unit) action" where
  "aignore m = (\<lambda>s. case m s of (_, s') \<Rightarrow> (Inr (), s'))"

definition aget :: "('s \<Rightarrow> 'a) \<Rightarrow> ('s, 'e, 'a) action" where
  "aget g = (\<lambda>s. (Inr (g s), s))"

definition amodify :: "('s \<Rightarrow> 's) \<Rightarrow> ('s, 'e, unit) action" where
  "amodify g = (\<lambda>s. (Inr (), g s))"

text \<open>A \<open>for\<close> loop whose body may return early with an error.\<close>

fun aforeach :: "'a list \<Rightarrow> ('a \<Rightarrow> ('s, 'e, unit) action) \<Rightarrow> ('s, 'e, unit) action" where
  "aforeach [] f = aret ()"
| "aforeach (x # xs) f = abind (f x) (\<lambda>_. aforeach xs f)"

text \<open>A \<open>for\<close> loop that returns the first value its body finds.\<close>

fun afind :: "'a list \<Rightarrow> ('a \<Rightarrow> ('s, 'e, 'b option) action) \<Rightarrow> ('s, 'e, 'b option) action" where
  "afind [] f = aret None"
| "afind (x # xs) f =
     abind (f x) (\<lambda>r. case r of Some b \<Rightarrow> aret (Some b) | None \<Rightarrow> afind xs f)"

text \<open>A \<open>for\<close> loop that pushes what its body gives.\<close>

fun acollect :: "'a list \<Rightarrow> ('a \<Rightarrow> ('s, 'e, 'b option) action) \<Rightarrow> ('s, 'e, 'b list) action" where
  "acollect [] f = aret []"
| "acollect (x # xs) f =
     abind (f x) (\<lambda>r. abind (acollect xs f) (\<lambda>bs.
       aret (case r of Some b \<Rightarrow> b # bs | None \<Rightarrow> bs)))"

text \<open>An action on a part of the state.\<close>

definition azoom :: "('w \<Rightarrow> 's) \<Rightarrow> ('s \<Rightarrow> 'w \<Rightarrow> 'w) \<Rightarrow> ('s, 'e, 'a) action \<Rightarrow> ('w, 'e, 'a) action" where
  "azoom g u m = (\<lambda>w. case m (g w) of (r, s') \<Rightarrow> (r, u s' w))"

lemma abind_run: "abind m f s = (case m s of (Inl e, s') \<Rightarrow> (Inl e, s') | (Inr a, s') \<Rightarrow> f a s')"
  by (simp add: abind_def)

lemma acase_run: "acase m f s = (case m s of (r, s') \<Rightarrow> f r s')"
  by (simp add: acase_def)

lemma action_runs [simp]:
  "aret a s = (Inr a, s)"
  "afail e s = (Inl e, s)"
  "alift r s = (r, s)"
  "aget g s = (Inr (g s), s)"
  "amodify h s = (Inr (), h s)"
  by (simp_all add: aret_def afail_def alift_def aget_def amodify_def)

lemma abind_Inr: "m s = (Inr a, s') \<Longrightarrow> abind m f s = f a s'"
  by (simp add: abind_def)

lemma abind_Inl: "m s = (Inl e, s') \<Longrightarrow> abind m f s = (Inl e, s')"
  by (simp add: abind_def)

lemma abind_eq_Inr:
  "abind m f s = (Inr b, t) \<longleftrightarrow> (\<exists>a s'. m s = (Inr a, s') \<and> f a s' = (Inr b, t))"
  by (auto simp: abind_def split: prod.splits sum.splits)

section \<open>Invariants of actions\<close>

definition maintains :: "('s \<Rightarrow> bool) \<Rightarrow> ('s, 'e, 'a) action \<Rightarrow> ('a \<Rightarrow> bool) \<Rightarrow> bool" where
  "maintains I m Q \<longleftrightarrow> (\<forall>s. I s \<longrightarrow> I (snd (m s)) \<and> (\<forall>a. fst (m s) = Inr a \<longrightarrow> Q a))"

lemma maintainsI:
  "(\<And>s r s'. I s \<Longrightarrow> m s = (r, s') \<Longrightarrow> I s' \<and> (\<forall>a. r = Inr a \<longrightarrow> Q a)) \<Longrightarrow> maintains I m Q"
  unfolding maintains_def by (metis prod.collapse)

lemma maintainsD:
  "maintains I m Q \<Longrightarrow> I s \<Longrightarrow> m s = (r, s') \<Longrightarrow> I s' \<and> (\<forall>a. r = Inr a \<longrightarrow> Q a)"
  by (fastforce simp: maintains_def)

lemma maintains_aret [maintains_intros]: "Q a \<Longrightarrow> maintains I (aret a) Q"
  by (simp add: maintains_def)

lemma maintains_afail [maintains_intros]: "maintains I (afail e) Q"
  by (simp add: maintains_def)

lemma maintains_alift [maintains_intros]: "(\<And>a. r = Inr a \<Longrightarrow> Q a) \<Longrightarrow> maintains I (alift r) Q"
  by (simp add: maintains_def)

lemma maintains_aget [maintains_intros]: "(\<And>s. I s \<Longrightarrow> Q (g s)) \<Longrightarrow> maintains I (aget g) Q"
  by (simp add: maintains_def)

lemma maintains_abind:
  assumes "maintains I m P" and "\<And>a. P a \<Longrightarrow> maintains I (f a) Q"
  shows "maintains I (abind m f) Q"
  using assms by (fastforce simp: maintains_def abind_def split: prod.splits sum.splits)

lemma maintains_acase:
  assumes "maintains I m P" and "\<And>r. (\<And>a. r = Inr a \<Longrightarrow> P a) \<Longrightarrow> maintains I (f r) Q"
  shows "maintains I (acase m f) Q"
proof (rule maintainsI)
  fix s r s' assume s: "I s" and run: "acase m f s = (r, s')"
  obtain r1 s1 where m: "m s = (r1, s1)" by fastforce
  then have "I s1" "\<And>a. r1 = Inr a \<Longrightarrow> P a" using maintainsD [OF assms(1) s] by auto
  then show "I s' \<and> (\<forall>a. r = Inr a \<longrightarrow> Q a)"
    using maintainsD [OF assms(2), of r1 s1 r s'] m run by (auto simp: acase_def)
qed

lemma maintains_amap_err:
  "maintains I m Q \<Longrightarrow> maintains I (amap_err g m) Q"
  by (fastforce simp: maintains_def amap_err_def split: prod.splits sum.splits)

lemma maintains_aignore:
  "maintains I m P \<Longrightarrow> Q () \<Longrightarrow> maintains I (aignore m) Q"
  by (fastforce simp: maintains_def aignore_def split: prod.splits)

lemma maintains_weaken: "maintains I m P \<Longrightarrow> (\<And>a. P a \<Longrightarrow> Q a) \<Longrightarrow> maintains I m Q"
  by (auto simp: maintains_def)

lemma maintains_aforeach:
  assumes "\<And>x. x \<in> set xs \<Longrightarrow> maintains I (f x) (\<lambda>_. True)"
  shows "maintains I (aforeach xs f) (\<lambda>_. True)"
  using assms
  by (induction xs) (auto intro!: maintains_aret maintains_abind [where P = "\<lambda>_. True"])

lemma maintains_afind:
  assumes "\<And>x. x \<in> set xs \<Longrightarrow> maintains I (f x) (\<lambda>r. \<forall>b. r = Some b \<longrightarrow> Q b)"
  shows "maintains I (afind xs f) (\<lambda>r. \<forall>b. r = Some b \<longrightarrow> Q b)"
  using assms
proof (induction xs)
  case (Cons x xs)
  show ?case
    using Cons
    by (auto intro!: maintains_aret maintains_abind [where P = "\<lambda>r. \<forall>b. r = Some b \<longrightarrow> Q b"]
        split: option.splits)
qed (auto intro: maintains_aret)

lemma maintains_acollect:
  assumes "\<And>x. x \<in> set xs \<Longrightarrow> maintains I (f x) (\<lambda>_. True)"
  shows "maintains I (acollect xs f) (\<lambda>_. True)"
  using assms
  by (induction xs) (auto intro!: maintains_aret maintains_abind [where P = "\<lambda>_. True"])

lemma maintains_if [maintains_intros]:
  "(b \<Longrightarrow> maintains I m Q) \<Longrightarrow> (\<not> b \<Longrightarrow> maintains I n Q) \<Longrightarrow> maintains I (if b then m else n) Q"
  by simp

lemma maintains_case_option [maintains_intros]:
  "(x = None \<Longrightarrow> maintains I m Q) \<Longrightarrow> (\<And>a. x = Some a \<Longrightarrow> maintains I (f a) Q) \<Longrightarrow>
     maintains I (case x of None \<Rightarrow> m | Some a \<Rightarrow> f a) Q"
  by (cases x) auto

lemma maintains_case_sum [maintains_intros]:
  "(\<And>e. r = Inl e \<Longrightarrow> maintains I (g e) Q) \<Longrightarrow> (\<And>a. r = Inr a \<Longrightarrow> maintains I (f a) Q) \<Longrightarrow>
     maintains I (case r of Inl e \<Rightarrow> g e | Inr a \<Rightarrow> f a) Q"
  by (cases r) auto

lemma maintains_case_prod [maintains_intros]:
  "(\<And>a b. p = (a, b) \<Longrightarrow> maintains I (f a b) Q) \<Longrightarrow> maintains I (case p of (a, b) \<Rightarrow> f a b) Q"
  by (cases p) auto

lemma maintains_abind_unit:
  "maintains I m (\<lambda>_. True) \<Longrightarrow> (\<And>a. maintains I (f a) Q) \<Longrightarrow> maintains I (abind m f) Q"
  using maintains_abind [of I m "\<lambda>_. True" f Q] by simp

lemma maintains_acase_any:
  "maintains I m (\<lambda>_. True) \<Longrightarrow> (\<And>r. maintains I (f r) Q) \<Longrightarrow> maintains I (acase m f) Q"
  using maintains_acase [of I m "\<lambda>_. True" f Q] by simp

lemma maintains_alift_eq: "maintains I (alift r) (\<lambda>a. r = Inr a)"
  by (simp add: maintains_def)

lemma maintains_abind_alift:
  "(\<And>a. r = Inr a \<Longrightarrow> maintains I (f a) Q) \<Longrightarrow> maintains I (abind (alift r) f) Q"
  using maintains_abind [OF maintains_alift_eq] by blast

lemma maintains_snd: "maintains I m Q \<Longrightarrow> I w \<Longrightarrow> I (snd (m w))"
  by (auto simp: maintains_def)

lemma maintains_abind_aget:
  "(\<And>a. maintains I (f a) Q) \<Longrightarrow> maintains I (abind (aget g) f) Q"
  by (simp add: maintains_def abind_def)

end
