(* ===== verification/External.thy ===== *)
theory External
  imports Prelude
begin

text \<open>
  The third-party code the sources call, as parameters of the model. A \<open>crypto\<close> record bundles
  the functions of the \<^verbatim>\<open>sha2\<close>, \<^verbatim>\<open>secp256k1\<close> and \<^verbatim>\<open>hex\<close> crates; every definition that uses
  one of them takes the record as an argument. What the theorems need of them is stated by the
  predicates below, and \<open>model_crypto\<close> is a concrete instance at which they hold.

  A \<open>PublicKey\<close> is its 33-byte compressed serialization and a \<open>SecretKey\<close> its 32 secret bytes.
\<close>

datatype PublicKey = PublicKey (serialize: bytes)
datatype SecretKey = SecretKey (secret_bytes: bytes)

record crypto =
  sha256 :: "bytes \<Rightarrow> bytes"
  sign_ecdsa :: "bytes \<Rightarrow> SecretKey \<Rightarrow> bytes"
  sig_from_compact :: "bytes \<Rightarrow> bool"
  verify_ecdsa :: "bytes \<Rightarrow> bytes \<Rightarrow> PublicKey \<Rightarrow> bool"
  pk_from_slice :: "bytes \<Rightarrow> PublicKey option"
  hex_encode :: "bytes \<Rightarrow> string"
  hex_decode :: "string \<Rightarrow> bytes option"

text \<open>
  ECDSA: a signature made with the secret key of a pair is a well-formed 64-byte compact
  signature and verifies under the public key of the pair.
\<close>

definition key_pair :: "'a crypto_scheme \<Rightarrow> SecretKey \<Rightarrow> PublicKey \<Rightarrow> bool" where
  "key_pair C sk pk \<longleftrightarrow>
     (\<forall>d. length (sign_ecdsa C d sk) = 64 \<and> sig_from_compact C (sign_ecdsa C d sk) \<and>
          verify_ecdsa C d (sign_ecdsa C d sk) pk)"

text \<open>\<^verbatim>\<open>Sha256::digest\<close> yields 32 bytes.\<close>

definition sha_len :: "'a crypto_scheme \<Rightarrow> bool" where
  "sha_len C \<longleftrightarrow> (\<forall>m. length (sha256 C m) = 32)"

text \<open>\<^verbatim>\<open>hex::encode\<close> is inverted by \<^verbatim>\<open>hex::decode\<close> and prints hexadecimal digits only.\<close>

definition hex_ok :: "'a crypto_scheme \<Rightarrow> bool" where
  "hex_ok C \<longleftrightarrow> (\<forall>b. hex_decode C (hex_encode C b) = Some b) \<and>
     (\<forall>b. set (hex_encode C b) \<subseteq> set ''0123456789abcdef'')"

text \<open>\<^verbatim>\<open>PublicKey::from_slice\<close> inverts \<^verbatim>\<open>PublicKey::serialize\<close> on the keys in use.\<close>

definition pk_ok :: "'a crypto_scheme \<Rightarrow> PublicKey \<Rightarrow> bool" where
  "pk_ok C pk \<longleftrightarrow> length (serialize pk) = 33 \<and> pk_from_slice C (serialize pk) = Some pk"

section \<open>A concrete instance\<close>

definition nibble_char :: "nat \<Rightarrow> char" where
  "nibble_char n = ''0123456789abcdef'' ! n"

definition nibble_val :: "char \<Rightarrow> nat option" where
  "nibble_val c = List.find (\<lambda>n. nibble_char n = c) [0..<16]"

definition lower_hex :: "bytes \<Rightarrow> string" where
  "lower_hex bs = concat (map (\<lambda>b. [nibble_char (unat b div 16), nibble_char (unat b mod 16)]) bs)"

fun unhex :: "string \<Rightarrow> bytes option" where
  "unhex [] = Some []"
| "unhex [c] = None"
| "unhex (c # d # cs) =
     (case (nibble_val c, nibble_val d, unhex cs) of
        (Some x, Some y, Some bs) \<Rightarrow> Some (word_of_nat (x * 16 + y) # bs)
      | _ \<Rightarrow> None)"

definition model_digest :: "bytes \<Rightarrow> bytes" where
  "model_digest m = be_bytes 32 (be_val (1 # m))"

definition model_sign :: "bytes \<Rightarrow> SecretKey \<Rightarrow> bytes" where
  "model_sign d sk = be_bytes 32 (be_val d) @ be_bytes 32 (be_val (secret_bytes sk))"

definition model_pk :: "SecretKey \<Rightarrow> PublicKey" where
  "model_pk sk = PublicKey (2 # be_bytes 32 (be_val (secret_bytes sk)))"

definition model_crypto :: crypto where
  "model_crypto =
     \<lparr>sha256 = model_digest,
      sign_ecdsa = model_sign,
      sig_from_compact = (\<lambda>s. length s = 64),
      verify_ecdsa = (\<lambda>d s pk. s = be_bytes 32 (be_val d) @ drop 1 (serialize pk)),
      pk_from_slice = (\<lambda>b. if length b = 33 then Some (PublicKey b) else None),
      hex_encode = lower_hex,
      hex_decode = unhex\<rparr>"

lemma model_crypto_sel [simp]:
  "sha256 model_crypto = model_digest"
  "sign_ecdsa model_crypto = model_sign"
  "sig_from_compact model_crypto s = (length s = 64)"
  "verify_ecdsa model_crypto d s pk = (s = be_bytes 32 (be_val d) @ drop 1 (serialize pk))"
  "hex_encode model_crypto = lower_hex"
  "hex_decode model_crypto = unhex"
  by (simp_all add: model_crypto_def)

lemma nibble_val_char: "n < 16 \<Longrightarrow> nibble_val (nibble_char n) = Some n"
proof -
  have "list_all (\<lambda>n. nibble_val (nibble_char n) = Some n) [0..<16]" by code_simp
  then show "n < 16 \<Longrightarrow> nibble_val (nibble_char n) = Some n" by (simp add: list_all_iff)
qed

lemma nibble_char_set: "n < 16 \<Longrightarrow> nibble_char n \<in> set ''0123456789abcdef''"
  unfolding nibble_char_def by (rule nth_mem) simp

lemma unhex_lower_hex: "unhex (lower_hex bs) = Some bs"
proof (induction bs)
  case (Cons b bs)
  have "unat b div 16 < 16" using unat_byte_lt [of b] by linarith
  then have "nibble_val (nibble_char (unat b div 16)) = Some (unat b div 16)"
    "nibble_val (nibble_char (unat b mod 16)) = Some (unat b mod 16)"
    by (simp_all add: nibble_val_char)
  with Cons show ?case by (simp add: lower_hex_def)
qed (simp add: lower_hex_def)

lemma lower_hex_set: "set (lower_hex bs) \<subseteq> set ''0123456789abcdef''"
proof
  fix c assume "c \<in> set (lower_hex bs)"
  then obtain b where "c = nibble_char (unat (b :: u8) div 16) \<or> c = nibble_char (unat b mod 16)"
    by (auto simp: lower_hex_def)
  moreover have "unat b div 16 < 16" using unat_byte_lt [of b] by linarith
  ultimately show "c \<in> set ''0123456789abcdef''"
    using nibble_char_set [of "unat b div 16"] nibble_char_set [of "unat b mod 16"] by auto
qed

lemma model_hex_ok: "hex_ok model_crypto"
  using lower_hex_set by (simp add: hex_ok_def unhex_lower_hex)

lemma model_sha_len: "sha_len model_crypto"
  by (simp add: sha_len_def model_digest_def)

lemma model_key_pair: "key_pair model_crypto sk (model_pk sk)"
  by (simp add: key_pair_def model_sign_def model_pk_def)

lemma model_pk_ok: "pk_ok model_crypto (model_pk sk)"
  by (simp add: pk_ok_def model_pk_def model_crypto_def)

end
