(* ===== verification/Codecs.thy ===== *)
theory Codecs
  imports External
begin

text \<open>
  Model of \<^verbatim>\<open>src/src/wire/codecs.rs\<close>: the primitive readers and writers, BOLT varints with their
  minimal-encoding rule, length-delimited bodies, the \<open>update_add_htlc\<close> body and the validation of
  trailing TLV streams. A writer is the list of bytes it appends to its buffer; a reader is a
  decoder on the cursor. The locales \<open>prefix_codec\<close> and \<open>body_codec\<close> state what the message
  layer relies on: a self-delimiting codec reads back what it wrote and leaves the rest, and a
  body codec (one that swallows a trailing TLV stream) reads back a whole body.
\<close>

section \<open>Errors and constants\<close>

datatype DecodeError = Eof | Invalid string

datatype EncodeError =
    EncodeOverflow u64
  | VarsizeTooLarge nat
  | InvalidOnionLength nat nat
  | InvalidUtf8 string

type_synonym 'a wire_decoder = "(DecodeError, 'a) decoder"
type_synonym encode_result = "EncodeError + bytes"

definition UINT64_OVERFLOW_MAX :: u64 where
  "UINT64_OVERFLOW_MAX = 0x7FFFFFFFFFFFFFFF"

definition TLV_TYPE_HIGH_RANGE :: u64 where
  "TLV_TYPE_HIGH_RANGE = 0x100000000"

definition ONION_ROUTING_PACKET_SIZE :: nat where
  "ONION_ROUTING_PACKET_SIZE = 1366"

section \<open>Primitive readers\<close>

definition read_u8 :: "u8 wire_decoder" where
  "read_u8 buf = (case buf of [] \<Rightarrow> Inl Eof | b # bs \<Rightarrow> Inr (b, bs))"

definition read_u16 :: "u16 wire_decoder" where
  "read_u16 buf =
     (if length buf < 2 then Inl Eof else Inr (word_of_nat (be_val (take 2 buf)), drop 2 buf))"

definition read_u32 :: "u32 wire_decoder" where
  "read_u32 buf =
     (if length buf < 4 then Inl Eof else Inr (word_of_nat (be_val (take 4 buf)), drop 4 buf))"

definition read_u64 :: "u64 wire_decoder" where
  "read_u64 buf =
     (if length buf < 8 then Inl Eof else Inr (word_of_nat (be_val (take 8 buf)), drop 8 buf))"

definition read_u64_overflow :: "u64 wire_decoder" where
  "read_u64_overflow =
     dbind read_u64 (\<lambda>v.
       if v > UINT64_OVERFLOW_MAX
       then dfail (Invalid (''uint64overflow: value '' @ dec_nat (unat v) @ '' exceeds 2^63 - 1''))
       else dret v)"

definition read_bool :: "bool wire_decoder" where
  "read_bool = dbind read_u8 (\<lambda>b. dret (b \<noteq> 0))"

definition read_bytes :: "nat \<Rightarrow> bytes wire_decoder" where
  "read_bytes n buf = (if length buf < n then Inl Eof else Inr (take n buf, drop n buf))"

definition read_varsize :: "bytes wire_decoder" where
  "read_varsize = dbind read_u16 (\<lambda>len buf.
     if length buf < unat len then Inl Eof else Inr (take (unat len) buf, drop (unat len) buf))"

definition read_remaining :: "bytes wire_decoder" where
  "read_remaining buf = Inr (buf, [])"

definition read_32 :: "bytes wire_decoder" where
  "read_32 = read_bytes 32"

definition read_signature :: "bytes wire_decoder" where
  "read_signature = read_bytes 64"

section \<open>Primitive writers\<close>

definition write_u8 :: "u8 \<Rightarrow> bytes" where
  "write_u8 v = [v]"

definition write_u16 :: "u16 \<Rightarrow> bytes" where
  "write_u16 v = be_bytes 2 (unat v)"

definition write_u32 :: "u32 \<Rightarrow> bytes" where
  "write_u32 v = be_bytes 4 (unat v)"

definition write_u64 :: "u64 \<Rightarrow> bytes" where
  "write_u64 v = be_bytes 8 (unat v)"

definition write_u64_overflow :: "u64 \<Rightarrow> encode_result" where
  "write_u64_overflow v =
     (if v > UINT64_OVERFLOW_MAX then Inl (EncodeOverflow v) else Inr (be_bytes 8 (unat v)))"

definition write_bool :: "bool \<Rightarrow> bytes" where
  "write_bool v = [if v then 1 else 0]"

definition write_varsize :: "bytes \<Rightarrow> encode_result" where
  "write_varsize data =
     (if length data > 65535 then Inl (VarsizeTooLarge (length data))
      else Inr (be_bytes 2 (unat (word_of_nat (length data) :: u16)) @ data))"

definition write_bytes :: "bytes \<Rightarrow> bytes" where
  "write_bytes data = data"

definition write_32 :: "bytes \<Rightarrow> bytes" where
  "write_32 arr = arr"

definition write_signature :: "bytes \<Rightarrow> bytes" where
  "write_signature arr = arr"

definition write_u64_le :: "u64 \<Rightarrow> bytes" where
  "write_u64_le v = le_bytes 8 (unat v)"

definition write_u32_le :: "u32 \<Rightarrow> bytes" where
  "write_u32_le v = le_bytes 4 (unat v)"

definition write_u64_overflow_le :: "u64 \<Rightarrow> encode_result" where
  "write_u64_overflow_le v =
     (if v > UINT64_OVERFLOW_MAX then Inl (EncodeOverflow v) else Inr (le_bytes 8 (unat v)))"

section \<open>Varints and length-delimited bodies\<close>

definition write_varint :: "u64 \<Rightarrow> bytes" where
  "write_varint v =
     (if v < 0xfd then [ucast v]
      else if v \<le> 0xffff then 0xfd # write_u16 (ucast v)
      else if v \<le> 0xffffffff then 0xfe # write_u32 (ucast v)
      else 0xff # write_u64 v)"

definition read_varint :: "u64 wire_decoder" where
  "read_varint = dbind read_u8 (\<lambda>prefix.
     if prefix = 0xff then dbind read_u64 (\<lambda>v.
       if v < TLV_TYPE_HIGH_RANGE
       then dfail (Invalid ''non-minimal varint: 0xff prefix for value < 0x100000000'')
       else dret v)
     else if prefix = 0xfe then dbind read_u32 (\<lambda>w. let v = ucast w :: u64 in
       if v < 0x10000
       then dfail (Invalid ''non-minimal varint: 0xfe prefix for value < 0x10000'')
       else dret v)
     else if prefix = 0xfd then dbind read_u16 (\<lambda>w. let v = ucast w :: u64 in
       if v < 0xfd
       then dfail (Invalid ''non-minimal varint: 0xfd prefix for value < 0xfd'')
       else dret v)
     else dret (ucast prefix))"

definition write_length_delimited :: "bytes \<Rightarrow> encode_result" where
  "write_length_delimited body = Inr (write_varint (word_of_nat (length body)) @ body)"

definition read_length_delimited :: "bytes wire_decoder" where
  "read_length_delimited = dbind read_varint (\<lambda>len buf.
     if length buf < unat len then Inl Eof else Inr (take (unat len) buf, drop (unat len) buf))"

section \<open>Reading back the primitives\<close>

lemmas reader_defs = read_u8_def read_u16_def read_u32_def read_u64_def read_u64_overflow_def
  read_bool_def read_bytes_def read_varsize_def read_remaining_def read_32_def read_signature_def

lemmas writer_defs = write_u8_def write_u16_def write_u32_def write_u64_def write_bool_def
  write_bytes_def write_32_def write_signature_def

lemma read_u8_Cons [wire_rt]: "read_u8 (b # rest) = Inr (b, rest)"
  by (simp add: read_u8_def)

lemma read_u8_write [wire_rt]: "read_u8 (write_u8 v @ rest) = Inr (v, rest)"
  by (simp add: read_u8_def write_u8_def)

lemma unat_mod_self [simp]:
  "unat (v :: u16) mod 65536 = unat v"
  "unat (w :: u32) mod 4294967296 = unat w"
  "unat (x :: u64) mod 18446744073709551616 = unat x"
  using unsigned_less [of v, where 'a = nat] unsigned_less [of w, where 'a = nat]
    unsigned_less [of x, where 'a = nat] by simp_all

lemma read_u16_write [wire_rt]: "read_u16 (write_u16 v @ rest) = Inr (v, rest)"
  by (simp add: read_u16_def write_u16_def)

lemma read_u32_write [wire_rt]: "read_u32 (write_u32 v @ rest) = Inr (v, rest)"
  by (simp add: read_u32_def write_u32_def)

lemma read_u64_write [wire_rt]: "read_u64 (write_u64 v @ rest) = Inr (v, rest)"
  by (simp add: read_u64_def write_u64_def)

lemma read_u64_overflow_write [wire_rt]:
  "v \<le> UINT64_OVERFLOW_MAX \<Longrightarrow> read_u64_overflow (write_u64 v @ rest) = Inr (v, rest)"
  by (simp add: read_u64_overflow_def dbind_run read_u64_write not_less)

lemma write_u64_overflow_ok [enc_simps]:
  "v \<le> UINT64_OVERFLOW_MAX \<Longrightarrow> write_u64_overflow v = Inr (write_u64 v)"
  by (simp add: write_u64_overflow_def write_u64_def)

lemma write_u64_overflow_le_ok [enc_simps]:
  "v \<le> UINT64_OVERFLOW_MAX \<Longrightarrow> write_u64_overflow_le v = Inr (write_u64_le v)"
  by (simp add: write_u64_overflow_le_def write_u64_le_def)

lemma read_bool_write [wire_rt]: "read_bool (write_bool v @ rest) = Inr (v, rest)"
  by (simp add: read_bool_def write_bool_def dbind_run read_u8_def)

lemma read_bytes_append [wire_rt]: "length a = n \<Longrightarrow> read_bytes n (a @ rest) = Inr (a, rest)"
  by (simp add: read_bytes_def)

lemma read_32_write [wire_rt]: "length a = 32 \<Longrightarrow> read_32 (write_32 a @ rest) = Inr (a, rest)"
  by (simp add: read_32_def write_32_def read_bytes_append)

lemma read_signature_write [wire_rt]:
  "length a = 64 \<Longrightarrow> read_signature (write_signature a @ rest) = Inr (a, rest)"
  by (simp add: read_signature_def write_signature_def read_bytes_append)

definition varsize_image :: "bytes \<Rightarrow> bytes" where
  "varsize_image data = write_u16 (word_of_nat (length data)) @ data"

lemma write_varsize_ok [enc_simps]:
  "length data \<le> 65535 \<Longrightarrow> write_varsize data = Inr (varsize_image data)"
  by (simp add: write_varsize_def varsize_image_def write_u16_def)

lemma read_varsize_image [wire_rt]:
  "length data \<le> 65535 \<Longrightarrow> read_varsize (varsize_image data @ rest) = Inr (data, rest)"
  by (simp add: read_varsize_def varsize_image_def dbind_run read_u16_write unat_of_nat_len)

lemma read_remaining_run [wire_rt]: "read_remaining buf = Inr (buf, [])"
  by (simp add: read_remaining_def)

text \<open>Conversely, a successful read determines the bytes that were consumed.\<close>

lemma be_bytes_take:
  assumes "n \<le> length buf" and "256 ^ n = (2::nat) ^ LENGTH('a::len)"
  shows "be_bytes n (unat (word_of_nat (be_val (take n buf)) :: 'a word)) = take n buf"
proof -
  have len: "length (take n buf) = n" using assms(1) by simp
  have "be_val (take n buf) < 2 ^ LENGTH('a)"
    using be_val_less [of "take n buf"] assms(2) len by simp
  then have "unat (word_of_nat (be_val (take n buf)) :: 'a word) = be_val (take n buf)"
    by (rule unat_of_nat_len)
  then show ?thesis using be_bytes_be_val [of "take n buf"] len by simp
qed

lemma read_u8_inv: "read_u8 buf = Inr (v, rest) \<Longrightarrow> buf = v # rest"
  by (auto simp: read_u8_def split: list.splits)

lemma read_u16_inv: "read_u16 buf = Inr (v, rest) \<Longrightarrow> buf = write_u16 v @ rest"
  using be_bytes_take [of 2 buf, where 'a = 16]
  by (auto simp: read_u16_def write_u16_def split: if_splits)

lemma read_u32_inv: "read_u32 buf = Inr (v, rest) \<Longrightarrow> buf = write_u32 v @ rest"
  using be_bytes_take [of 4 buf, where 'a = 32]
  by (auto simp: read_u32_def write_u32_def split: if_splits)

lemma read_u64_inv: "read_u64 buf = Inr (v, rest) \<Longrightarrow> buf = write_u64 v @ rest"
  using be_bytes_take [of 8 buf, where 'a = 64]
  by (auto simp: read_u64_def write_u64_def split: if_splits)

lemma read_u64_overflow_inv:
  "read_u64_overflow buf = Inr (v, rest) \<Longrightarrow>
     buf = write_u64 v @ rest \<and> v \<le> UINT64_OVERFLOW_MAX"
  by (auto simp: read_u64_overflow_def dbind_eq_Inr split: if_splits dest: read_u64_inv)

lemma read_bytes_inv: "read_bytes n buf = Inr (a, rest) \<Longrightarrow> buf = a @ rest \<and> length a = n"
  by (auto simp: read_bytes_def split: if_splits)

lemma read_32_inv: "read_32 buf = Inr (a, rest) \<Longrightarrow> buf = write_32 a @ rest \<and> length a = 32"
  by (auto simp: read_32_def write_32_def dest: read_bytes_inv)

lemma read_signature_inv:
  "read_signature buf = Inr (a, rest) \<Longrightarrow> buf = write_signature a @ rest \<and> length a = 64"
  by (auto simp: read_signature_def write_signature_def dest: read_bytes_inv)

lemma read_varsize_inv:
  assumes "read_varsize buf = Inr (a, rest)"
  shows "buf = varsize_image a @ rest \<and> length a \<le> 65535"
proof -
  from assms obtain len r where r: "read_u16 buf = Inr (len, r)" and n: "unat len \<le> length r"
    and a: "a = take (unat len) r" and rest: "rest = drop (unat len) r"
    by (auto simp: read_varsize_def dbind_eq_Inr split: if_splits)
  have "unat len < 65536" using unsigned_less [of len, where 'a = nat] by simp
  moreover have "length a = unat len" using a n by simp
  ultimately show ?thesis using read_u16_inv [OF r] a rest by (simp add: varsize_image_def)
qed

lemmas wire_inv = read_u8_inv read_u16_inv read_u32_inv read_u64_inv read_u64_overflow_inv
  read_bytes_inv read_32_inv read_signature_inv read_varsize_inv

lemma read_varint_u8 [simp]:
  "read_varint (b # rest) =
     (if b = 0xff then dbind read_u64 (\<lambda>v.
         if v < TLV_TYPE_HIGH_RANGE
         then dfail (Invalid ''non-minimal varint: 0xff prefix for value < 0x100000000'')
         else dret v) rest
      else if b = 0xfe then dbind read_u32 (\<lambda>w. let v = ucast w :: u64 in
         if v < 0x10000
         then dfail (Invalid ''non-minimal varint: 0xfe prefix for value < 0x10000'')
         else dret v) rest
      else if b = 0xfd then dbind read_u16 (\<lambda>w. let v = ucast w :: u64 in
         if v < 0xfd
         then dfail (Invalid ''non-minimal varint: 0xfd prefix for value < 0xfd'')
         else dret v) rest
      else Inr (ucast b, rest))"
  by (simp add: read_varint_def dbind_run read_u8_def)

lemma unat_ucast_u64:
  fixes b :: u8 and c :: u16 and d :: u32
  shows "unat (ucast (v :: u64) :: u8) = unat v mod 0x100"
  "unat (ucast (v :: u64) :: u16) = unat v mod 0x10000"
  "unat (ucast (v :: u64) :: u32) = unat v mod 0x100000000"
  "unat (ucast b :: u64) = unat b"
  "unat (ucast c :: u64) = unat c"
  "unat (ucast d :: u64) = unat d"
  using less_trans [OF unat_byte_lt [of b], of "2 ^ 64"] unsigned_less [of c, where 'a = nat]
    unsigned_less [of d, where 'a = nat]
  by (simp_all add: unsigned_ucast_eq take_bit_eq_mod)

lemma ucast_up_down_u64:
  "(v :: u64) < 0x100 \<Longrightarrow> ucast (ucast v :: u8) = v"
  "(v :: u64) < 0x10000 \<Longrightarrow> ucast (ucast v :: u16) = v"
  "(v :: u64) < 0x100000000 \<Longrightarrow> ucast (ucast v :: u32) = v"
  by (simp_all add: word_unat_eq_iff unat_ucast_u64 word_less_nat_alt)

lemma ucast_down_up_u64:
  "ucast (ucast (b :: u8) :: u64) = b"
  "ucast (ucast (c :: u16) :: u64) = c"
  "ucast (ucast (d :: u32) :: u64) = d"
  by (simp_all add: word_unat_eq_iff unat_ucast_u64)

lemma read_varint_write [wire_rt]: "read_varint (write_varint v @ rest) = Inr (v, rest)"
proof -
  consider "v < 0xfd" | "0xfd \<le> v" "v \<le> 0xffff" | "0xffff < v" "v \<le> 0xffffffff"
    | "0xffffffff < v" by fastforce
  then show ?thesis
  proof cases
    case 1
    then have "unat (ucast v :: u8) < 0xfd"
      by (simp add: unat_ucast_u64 word_less_nat_alt)
    then have "(ucast v :: u8) \<noteq> 0xfd \<and> (ucast v :: u8) \<noteq> 0xfe \<and> (ucast v :: u8) \<noteq> 0xff"
      by auto
    moreover have "ucast (ucast v :: u8) = v"
      using 1 by (intro ucast_up_down_u64(1)) (simp add: word_less_nat_alt)
    ultimately show ?thesis using 1 by (simp add: write_varint_def)
  next
    case 2
    then have "ucast (ucast v :: u16) = v"
      by (intro ucast_up_down_u64(2)) (simp add: word_less_nat_alt word_le_nat_alt)
    moreover from 2 have "\<not> v < 0xfd" by (simp add: not_less)
    ultimately show ?thesis
      using 2 by (simp add: write_varint_def dbind_run read_u16_write)
  next
    case 3
    then have "ucast (ucast v :: u32) = v"
      by (intro ucast_up_down_u64(3)) (simp add: word_less_nat_alt word_le_nat_alt)
    moreover from 3 have "\<not> v < 0x10000" "\<not> v < 0xfd" "\<not> v \<le> 0xffff"
      by (simp_all add: word_less_nat_alt word_le_nat_alt)
    ultimately show ?thesis
      using 3 by (simp add: write_varint_def dbind_run read_u32_write)
  next
    case 4
    then have "\<not> v < TLV_TYPE_HIGH_RANGE" "\<not> v < 0xfd" "\<not> v \<le> 0xffff"
      by (simp_all add: word_less_nat_alt word_le_nat_alt TLV_TYPE_HIGH_RANGE_def)
    with 4 show ?thesis
      by (auto simp: write_varint_def dbind_run read_u64_write)
  qed
qed

lemma read_varint_inv:
  assumes "read_varint buf = Inr (v, rest)"
  shows "buf = write_varint v @ rest"
proof -
  obtain b bs where buf: "buf = b # bs"
    using assms by (cases buf) (auto simp: read_varint_def dbind_run read_u8_def)
  consider "b = 0xff" | "b = 0xfe" | "b = 0xfd" | "b \<noteq> 0xff" "b \<noteq> 0xfe" "b \<noteq> 0xfd" by blast
  then show ?thesis
  proof cases
    case 1
    with assms buf have "read_u64 bs = Inr (v, rest)" and "\<not> v < TLV_TYPE_HIGH_RANGE"
      by (auto simp: dbind_eq_Inr split: if_splits)
    moreover from this have "\<not> v < 0xfd" "\<not> v \<le> 0xffff" "\<not> v \<le> 0xffffffff"
      by (simp_all add: word_less_nat_alt word_le_nat_alt TLV_TYPE_HIGH_RANGE_def)
    ultimately show ?thesis using 1 buf by (auto simp: write_varint_def dest: read_u64_inv)
  next
    case 2
    with assms buf obtain w where w: "read_u32 bs = Inr (w, rest)" and v: "v = ucast w"
      and ge: "\<not> v < 0x10000"
      by (auto simp: dbind_eq_Inr Let_def split: if_splits)
    have "unat w < 4294967296" using unsigned_less [of w, where 'a = nat] by simp
    then have "v \<le> 0xffffffff" "\<not> v < 0xfd" "\<not> v \<le> 0xffff"
      using ge v by (simp_all add: word_less_nat_alt word_le_nat_alt unat_ucast_u64)
    then show ?thesis
      using 2 buf v w by (auto simp: write_varint_def ucast_down_up_u64 dest: read_u32_inv)
  next
    case 3
    with assms buf obtain w where w: "read_u16 bs = Inr (w, rest)" and v: "v = ucast w"
      and ge: "\<not> v < 0xfd"
      by (auto simp: dbind_eq_Inr Let_def split: if_splits)
    have "unat w < 65536" using unsigned_less [of w, where 'a = nat] by simp
    then have "v \<le> 0xffff"
      using v by (simp add: word_le_nat_alt unat_ucast_u64)
    then show ?thesis
      using 3 buf v w ge by (auto simp: write_varint_def ucast_down_up_u64 dest: read_u16_inv)
  next
    case 4
    with assms buf have v: "v = ucast b" "rest = bs" by auto
    have "unat b \<noteq> 255" "unat b \<noteq> 254" "unat b \<noteq> 253"
      using 4 by (auto simp: word_unat_eq_iff)
    then have "unat b < 253" using unat_byte_lt [of b] by linarith
    then have "v < 0xfd"
      using v by (simp add: word_less_nat_alt unat_ucast_u64)
    then show ?thesis using v buf by (simp add: write_varint_def ucast_down_up_u64)
  qed
qed

definition ld_image :: "bytes \<Rightarrow> bytes" where
  "ld_image body = write_varint (word_of_nat (length body)) @ body"

lemma write_length_delimited_ok [enc_simps]: "write_length_delimited body = Inr (ld_image body)"
  by (simp add: write_length_delimited_def ld_image_def)

lemma read_length_delimited_image [wire_rt]:
  "length body < 2 ^ 64 \<Longrightarrow> read_length_delimited (ld_image body @ rest) = Inr (body, rest)"
  by (simp add: read_length_delimited_def ld_image_def dbind_run read_varint_write unat_of_nat_len)

lemma read_length_delimited_inv:
  assumes "read_length_delimited buf = Inr (body, rest)"
  shows "buf = ld_image body @ rest \<and> length body < 2 ^ 64"
proof -
  from assms obtain len r where r: "read_varint buf = Inr (len, r)" and n: "unat len \<le> length r"
    and body: "body = take (unat len) r" and rest: "rest = drop (unat len) r"
    by (auto simp: read_length_delimited_def dbind_eq_Inr split: if_splits)
  have "length body = unat len" using body n by simp
  moreover have "unat len < 2 ^ 64" using unsigned_less [of len, where 'a = nat] by simp
  ultimately show ?thesis using read_varint_inv [OF r] body rest by (simp add: ld_image_def)
qed

lemma read_varint_shorter: "read_varint buf = Inr (v, rest) \<Longrightarrow> length rest < length buf"
  by (drule read_varint_inv) (auto simp: write_varint_def write_u16_def write_u32_def write_u64_def)

section \<open>TLV streams\<close>

function validate_tlv_loop :: "bytes \<Rightarrow> u64 option \<Rightarrow> DecodeError + unit" where
  "validate_tlv_loop buf prev_tag =
     (if buf = [] then Inr ()
      else case read_varint buf of Inl e \<Rightarrow> Inl e | Inr (tag, buf1) \<Rightarrow>
        (case read_varint buf1 of Inl e \<Rightarrow> Inl e | Inr (len, buf2) \<Rightarrow>
          (if length buf2 < unat len then Inl Eof
           else case read_bytes (unat len) buf2 of Inl e \<Rightarrow> Inl e | Inr (_, buf3) \<Rightarrow>
             (if (case prev_tag of None \<Rightarrow> False | Some pt \<Rightarrow> tag \<le> pt)
              then Inl (Invalid ''TLV tags must be strictly monotonically increasing'')
              else if tag < TLV_TYPE_HIGH_RANGE \<and> tag mod 2 = 0
              then Inl (Invalid (''unknown even TLV type '' @ dec_nat (unat tag)))
              else validate_tlv_loop buf3 (Some tag)))))"
  by pat_completeness auto
termination
  by (relation "measure (length \<circ> fst)")
    (auto dest!: read_varint_shorter read_bytes_inv)

declare validate_tlv_loop.simps [simp del]

definition validate_tlv_stream :: "bytes \<Rightarrow> DecodeError + unit" where
  "validate_tlv_stream data = (if data = [] then Inr () else validate_tlv_loop data None)"

lemma validate_tlv_stream_Nil [simp]: "validate_tlv_stream [] = Inr ()"
  by (simp add: validate_tlv_stream_def)

text \<open>
  What the validator accepts: the concatenation of canonically encoded records whose types
  increase strictly, none of them a mandatory (even, below \<open>2^32\<close>) type.
\<close>

definition tlv_record :: "u64 \<times> bytes \<Rightarrow> bytes" where
  "tlv_record r = write_varint (fst r) @ ld_image (snd r)"

definition tlv_type_ok :: "u64 \<Rightarrow> bool" where
  "tlv_type_ok t \<longleftrightarrow> \<not> (t < TLV_TYPE_HIGH_RANGE \<and> t mod 2 = 0)"

definition tlv_ascending :: "u64 option \<Rightarrow> u64 list \<Rightarrow> bool" where
  "tlv_ascending prev ts \<longleftrightarrow> sorted_wrt (<) (case prev of None \<Rightarrow> ts | Some p \<Rightarrow> p # ts)"

definition tlv_stream_of :: "u64 option \<Rightarrow> bytes \<Rightarrow> (u64 \<times> bytes) list \<Rightarrow> bool" where
  "tlv_stream_of prev data rs \<longleftrightarrow>
     data = concat (map tlv_record rs) \<and> tlv_ascending prev (map fst rs) \<and>
     (\<forall>(t, v) \<in> set rs. tlv_type_ok t \<and> length v < 2 ^ 64)"

lemma tlv_ascending_Cons:
  "tlv_ascending prev (t # ts) \<longleftrightarrow>
     \<not> (case prev of None \<Rightarrow> False | Some p \<Rightarrow> t \<le> p) \<and> tlv_ascending (Some t) ts"
  by (cases prev) (force simp: tlv_ascending_def)+

lemma validate_tlv_loop_sound:
  "validate_tlv_loop buf prev = Inr () \<Longrightarrow> \<exists>rs. tlv_stream_of prev buf rs"
proof (induction buf prev rule: validate_tlv_loop.induct)
  case (1 buf prev)
  show ?case
  proof (cases "buf = []")
    case True
    then have "tlv_stream_of prev buf []"
      by (simp add: tlv_stream_of_def tlv_ascending_def split: option.splits)
    then show ?thesis ..
  next
    case False
    with "1.prems" obtain tag buf1 len buf2 v buf3 where
      tag: "read_varint buf = Inr (tag, buf1)" and len: "read_varint buf1 = Inr (len, buf2)"
      and n: "\<not> length buf2 < unat len" and v: "read_bytes (unat len) buf2 = Inr (v, buf3)"
      and asc: "\<not> (case prev of None \<Rightarrow> False | Some pt \<Rightarrow> tag \<le> pt)"
      and ok: "\<not> (tag < TLV_TYPE_HIGH_RANGE \<and> tag mod 2 = 0)"
      and rec: "validate_tlv_loop buf3 (Some tag) = Inr ()"
      by (subst (asm) validate_tlv_loop.simps) (auto split: sum.splits if_splits)
    from "1.IH" [OF False tag _ len _ n v _ asc ok rec] obtain rs
      where rs: "tlv_stream_of (Some tag) buf3 rs" by auto
    have lv: "length v = unat len" and b2: "buf2 = v @ buf3"
      using read_bytes_inv [OF v] by auto
    have "unat len < 2 ^ 64" using unsigned_less [of len, where 'a = nat] by simp
    moreover have "buf = tlv_record (tag, v) @ buf3"
      using read_varint_inv [OF tag] read_varint_inv [OF len] b2 lv
      by (simp add: tlv_record_def ld_image_def)
    ultimately have "tlv_stream_of prev buf ((tag, v) # rs)"
      using rs asc ok lv
      by (simp add: tlv_stream_of_def tlv_ascending_Cons tlv_type_ok_def)
    then show ?thesis ..
  qed
qed

lemma validate_tlv_loop_complete:
  "tlv_stream_of prev buf rs \<Longrightarrow> validate_tlv_loop buf prev = Inr ()"
proof (induction rs arbitrary: buf prev)
  case Nil
  then show ?case by (simp add: tlv_stream_of_def validate_tlv_loop.simps)
next
  case (Cons r rs)
  obtain t v where r: "r = (t, v)" by (cases r)
  let ?rest = "concat (map tlv_record rs)"
  from Cons.prems r have buf: "buf = write_varint t @ ld_image v @ ?rest"
    and asc: "\<not> (case prev of None \<Rightarrow> False | Some p \<Rightarrow> t \<le> p)"
    and ok: "tlv_type_ok t" and lv: "length v < 2 ^ 64"
    and rec: "tlv_stream_of (Some t) ?rest rs"
    by (auto simp: tlv_stream_of_def tlv_ascending_Cons tlv_record_def)
  have ne: "buf \<noteq> []" using buf by (auto simp: write_varint_def)
  have tag: "read_varint buf = Inr (t, ld_image v @ ?rest)"
    using buf by (simp add: read_varint_write)
  have len: "read_varint (ld_image v @ ?rest) = Inr (word_of_nat (length v), v @ ?rest)"
    by (simp add: ld_image_def read_varint_write)
  have un: "unat (word_of_nat (length v) :: u64) = length v"
    using lv by (simp add: unat_of_nat_len)
  have val: "read_bytes (length v) (v @ ?rest) = Inr (v, ?rest)"
    by (simp add: read_bytes_append)
  show ?case
    using asc ok Cons.IH [OF rec]
    by (subst validate_tlv_loop.simps) (simp add: ne tag len un val tlv_type_ok_def)
qed

lemma validate_tlv_stream_iff:
  "validate_tlv_stream data = Inr () \<longleftrightarrow> (\<exists>rs. tlv_stream_of None data rs)"
  unfolding validate_tlv_stream_def
  using validate_tlv_loop_sound [of data None] validate_tlv_loop_complete [of None data]
  by (auto simp: tlv_stream_of_def tlv_ascending_def intro: exI [of _ "[]"])

text \<open>
  Variable-length integers are canonical: reading yields a value and a rest exactly when the
  input is the encoding of that value followed by the rest, so no value has a second encoding.
\<close>

lemma varint_canonical:
  "read_varint buf = Inr (v, rest) \<longleftrightarrow> buf = write_varint v @ rest"
  using read_varint_inv by (auto simp: read_varint_write)

text \<open>
  C34. The TLV validator accepts exactly the streams BOLT 1 allows: concatenations of canonically
  encoded records with strictly increasing types, none of which is even and below \<open>2^32\<close>.
\<close>

theorem tlv_stream_accepted:
  "validate_tlv_stream data = Inr () \<longleftrightarrow> (\<exists>rs. data = concat (map tlv_record rs) \<and>
     sorted_wrt (<) (map fst rs) \<and> list_all (\<lambda>(t, v). tlv_type_ok t \<and> length v < 2 ^ 64) rs)"
  unfolding validate_tlv_stream_iff tlv_stream_of_def
  by (simp add: tlv_ascending_def list_all_iff)

section \<open>\<open>update_add_htlc\<close>\<close>

record UpdateAddHtlc =
  htlc_channel_id :: bytes
  htlc_id :: u64
  htlc_amount_msat :: u64
  htlc_payment_hash :: bytes
  htlc_cltv_expiry :: u32
  htlc_onion_routing_packet :: bytes
  htlc_tlv_stream :: bytes

definition encode_update_add_htlc_body :: "UpdateAddHtlc \<Rightarrow> encode_result" where
  "encode_update_add_htlc_body h =
     enc_seq
       [Inr (write_32 (htlc_channel_id h)),
        write_u64_overflow (htlc_id h),
        write_u64_overflow (htlc_amount_msat h),
        Inr (write_32 (htlc_payment_hash h)),
        Inr (write_u32 (htlc_cltv_expiry h)),
        (if length (htlc_onion_routing_packet h) \<noteq> ONION_ROUTING_PACKET_SIZE
         then Inl (InvalidOnionLength ONION_ROUTING_PACKET_SIZE
                    (length (htlc_onion_routing_packet h)))
         else Inr (write_bytes (htlc_onion_routing_packet h))),
        Inr (write_bytes (htlc_tlv_stream h))]"

definition validated :: "bytes \<Rightarrow> unit wire_decoder" where
  "validated tlv buf = (case validate_tlv_stream tlv of Inl e \<Rightarrow> Inl e | Inr _ \<Rightarrow> Inr ((), buf))"

definition decode_update_add_htlc_body :: "UpdateAddHtlc wire_decoder" where
  "decode_update_add_htlc_body =
     dbind read_32 (\<lambda>channel_id.
     dbind read_u64_overflow (\<lambda>id.
     dbind read_u64_overflow (\<lambda>amount_msat.
     dbind read_32 (\<lambda>payment_hash.
     dbind read_u32 (\<lambda>cltv_expiry.
     dbind (read_bytes ONION_ROUTING_PACKET_SIZE) (\<lambda>onion.
     dbind read_remaining (\<lambda>tlv_stream.
     dbind (validated tlv_stream) (\<lambda>_.
     dret \<lparr>htlc_channel_id = channel_id, htlc_id = id, htlc_amount_msat = amount_msat,
           htlc_payment_hash = payment_hash, htlc_cltv_expiry = cltv_expiry,
           htlc_onion_routing_packet = onion, htlc_tlv_stream = tlv_stream\<rparr>))))))))"

definition wf_htlc :: "UpdateAddHtlc \<Rightarrow> bool" where
  "wf_htlc h \<longleftrightarrow>
     length (htlc_channel_id h) = 32 \<and> length (htlc_payment_hash h) = 32 \<and>
     length (htlc_onion_routing_packet h) = ONION_ROUTING_PACKET_SIZE \<and>
     htlc_id h \<le> UINT64_OVERFLOW_MAX \<and> htlc_amount_msat h \<le> UINT64_OVERFLOW_MAX \<and>
     validate_tlv_stream (htlc_tlv_stream h) = Inr ()"

definition htlc_image :: "UpdateAddHtlc \<Rightarrow> bytes" where
  "htlc_image h =
     write_32 (htlc_channel_id h) @ write_u64 (htlc_id h) @ write_u64 (htlc_amount_msat h) @
     write_32 (htlc_payment_hash h) @ write_u32 (htlc_cltv_expiry h) @
     htlc_onion_routing_packet h @ htlc_tlv_stream h"

lemma validated_ok [simp]: "validate_tlv_stream t = Inr () \<Longrightarrow> validated t buf = Inr ((), buf)"
  by (simp add: validated_def)

lemma validated_inv: "validated t buf = Inr (u, rest) \<Longrightarrow>
    rest = buf \<and> validate_tlv_stream t = Inr ()"
  by (auto simp: validated_def split: sum.splits)

lemma encode_htlc_ok [enc_simps]:
  "wf_htlc h \<Longrightarrow> encode_update_add_htlc_body h = Inr (htlc_image h)"
  by (simp add: encode_update_add_htlc_body_def wf_htlc_def htlc_image_def enc_simps
      write_bytes_def)

lemma decode_htlc_image [wire_rt]:
  "wf_htlc h \<Longrightarrow> decode_update_add_htlc_body (htlc_image h) = Inr (h, [])"
  by (simp add: decode_update_add_htlc_body_def wf_htlc_def htlc_image_def wire_rt dbind_run)

lemma decode_htlc_inv:
  assumes "decode_update_add_htlc_body buf = Inr (h, rest)"
  shows "buf = htlc_image h \<and> rest = [] \<and> wf_htlc h"
proof -
  from assms obtain cid r1 i r2 amt r3 ph r4 ce r5 on r6 where
    "read_32 buf = Inr (cid, r1)" "read_u64_overflow r1 = Inr (i, r2)"
    "read_u64_overflow r2 = Inr (amt, r3)" "read_32 r3 = Inr (ph, r4)"
    "read_u32 r4 = Inr (ce, r5)" "read_bytes ONION_ROUTING_PACKET_SIZE r5 = Inr (on, r6)"
    "validate_tlv_stream r6 = Inr ()" "rest = []"
    "h = \<lparr>htlc_channel_id = cid, htlc_id = i, htlc_amount_msat = amt, htlc_payment_hash = ph,
          htlc_cltv_expiry = ce, htlc_onion_routing_packet = on, htlc_tlv_stream = r6\<rparr>"
    by (auto simp: decode_update_add_htlc_body_def dbind_eq_Inr read_remaining_def
        dest!: validated_inv)
  then show ?thesis
    by (auto simp: wf_htlc_def htlc_image_def dest!: wire_inv)
qed

lemma length_htlc_image: "wf_htlc h \<Longrightarrow> length (htlc_image h) = 1450 + length (htlc_tlv_stream h)"
  by (simp add: htlc_image_def wf_htlc_def write_32_def write_u64_def write_u32_def
      ONION_ROUTING_PACKET_SIZE_def)

section \<open>Codec contracts\<close>

text \<open>
  A body codec reads back a whole message body; a prefix codec is self-delimiting, so it also
  works in front of other data.
\<close>

locale body_codec =
  fixes enc :: "'a \<Rightarrow> encode_result" and dec :: "'a wire_decoder" and wf :: "'a \<Rightarrow> bool"
  assumes enc_total: "wf x \<Longrightarrow> is_ok (enc x)"
    and dec_enc: "wf x \<Longrightarrow> enc x = Inr bs \<Longrightarrow> dec bs = Inr (x, [])"
begin

lemma roundtrip: "wf x \<Longrightarrow> \<exists>bs. enc x = Inr bs \<and> dec bs = Inr (x, [])"
  using enc_total [of x] dec_enc [of x] by (cases "enc x") auto

lemma enc_inj_on_wf: "wf x \<Longrightarrow> wf y \<Longrightarrow> enc x = enc y \<Longrightarrow> x = y"
  using roundtrip [of x] dec_enc [of y] by auto

end

locale prefix_codec =
  fixes enc :: "'a \<Rightarrow> encode_result" and dec :: "'a wire_decoder" and wf :: "'a \<Rightarrow> bool"
  assumes penc_total: "wf x \<Longrightarrow> is_ok (enc x)"
    and pdec_enc: "wf x \<Longrightarrow> enc x = Inr bs \<Longrightarrow> dec (bs @ rest) = Inr (x, rest)"

sublocale prefix_codec \<subseteq> body_codec enc dec wf
  using penc_total pdec_enc [where rest = "[]"] by unfold_locales auto

interpretation htlc_codec: body_codec encode_update_add_htlc_body decode_update_add_htlc_body wf_htlc
  by unfold_locales (auto simp: enc_simps wire_rt)

end
