(* ===== verification/Lcss.thy ===== *)
theory Lcss
  imports Codecs
begin

text \<open>
  Model of \<^verbatim>\<open>src/src/wire/lcss.rs\<close>: the channel parameters, the last cross-signed state with its
  wire codec, its counterparty view, the hash both parties sign, and signing and verification.
  The lemmas show that the codec is a self-delimiting round trip, that decoding only yields
  well-formed states (so they can be hashed and re-encoded), that \<open>reverse\<close> is an involution
  under which a signature made by one party verifies in the other party's view, and which parts
  of a state the signed hash determines.
\<close>

section \<open>Data\<close>

record InitHostedChannel =
  ihc_max_htlc_value_in_flight_msat :: u64
  ihc_htlc_minimum_msat :: u64
  ihc_max_accepted_htlcs :: u16
  ihc_channel_capacity_msat :: u64
  ihc_initial_client_balance_msat :: u64
  ihc_features :: "u16 list"

record LastCrossSignedState =
  is_host :: bool
  last_refund_scriptpubkey :: bytes
  init_hosted_channel :: InitHostedChannel
  block_day :: u32
  local_balance_msat :: u64
  remote_balance_msat :: u64
  local_updates :: u32
  remote_updates :: u32
  incoming_htlcs :: "UpdateAddHtlc list"
  outgoing_htlcs :: "UpdateAddHtlc list"
  remote_sig_of_local :: bytes
  local_sig_of_remote :: bytes

record StateUpdate =
  su_block_day :: u32
  su_local_updates :: u32
  su_remote_updates :: u32
  su_local_sig_of_remote :: bytes

record StateOverride =
  so_block_day :: u32
  so_local_balance_msat :: u64
  so_local_updates :: u32
  so_remote_updates :: u32
  so_local_sig_of_remote :: bytes

section \<open>Codecs\<close>

definition InitHostedChannel_encode :: "InitHostedChannel \<Rightarrow> encode_result" where
  "InitHostedChannel_encode c =
     enc_seq
       ([write_u64_overflow (ihc_max_htlc_value_in_flight_msat c),
         write_u64_overflow (ihc_htlc_minimum_msat c),
         Inr (write_u16 (ihc_max_accepted_htlcs c)),
         write_u64_overflow (ihc_channel_capacity_msat c),
         write_u64_overflow (ihc_initial_client_balance_msat c),
         Inr (write_u16 (word_of_nat (length (ihc_features c))))] @
        map (\<lambda>f. Inr (write_u16 f)) (ihc_features c))"

definition InitHostedChannel_decode :: "InitHostedChannel wire_decoder" where
  "InitHostedChannel_decode =
     dbind read_u64_overflow (\<lambda>max_inflight.
     dbind read_u64_overflow (\<lambda>htlc_minimum.
     dbind read_u16 (\<lambda>max_accepted.
     dbind read_u64_overflow (\<lambda>capacity.
     dbind read_u64_overflow (\<lambda>initial.
     dbind read_u16 (\<lambda>n_features.
     dbind (read_n read_u16 (unat n_features)) (\<lambda>features.
     dret \<lparr>ihc_max_htlc_value_in_flight_msat = max_inflight,
           ihc_htlc_minimum_msat = htlc_minimum,
           ihc_max_accepted_htlcs = max_accepted,
           ihc_channel_capacity_msat = capacity,
           ihc_initial_client_balance_msat = initial,
           ihc_features = features\<rparr>)))))))"

definition encode_delimited_htlc :: "UpdateAddHtlc \<Rightarrow> encode_result" where
  "encode_delimited_htlc h = rbind (encode_update_add_htlc_body h) write_length_delimited"

definition decode_delimited_htlc :: "string \<Rightarrow> UpdateAddHtlc wire_decoder" where
  "decode_delimited_htlc dir =
     dbind read_length_delimited (\<lambda>htlc_bytes buf.
       case decode_update_add_htlc_body htlc_bytes of
         Inl e \<Rightarrow> Inl e
       | Inr (htlc, htlc_slice) \<Rightarrow>
           if htlc_slice \<noteq> []
           then Inl (Invalid (dec_nat (length htlc_slice) @ '' trailing bytes in '' @ dir @
                      '' HTLC length-delimited body''))
           else Inr (htlc, buf))"

definition LastCrossSignedState_encode :: "LastCrossSignedState \<Rightarrow> encode_result" where
  "LastCrossSignedState_encode s =
     enc_seq
       ([Inr (write_bool (is_host s)),
         write_varsize (last_refund_scriptpubkey s),
         rbind (InitHostedChannel_encode (init_hosted_channel s)) write_length_delimited,
         Inr (write_u32 (block_day s)),
         write_u64_overflow (local_balance_msat s),
         write_u64_overflow (remote_balance_msat s),
         Inr (write_u32 (local_updates s)),
         Inr (write_u32 (remote_updates s)),
         Inr (write_u16 (word_of_nat (length (incoming_htlcs s))))] @
        map encode_delimited_htlc (incoming_htlcs s) @
        [Inr (write_u16 (word_of_nat (length (outgoing_htlcs s))))] @
        map encode_delimited_htlc (outgoing_htlcs s) @
        [Inr (write_signature (remote_sig_of_local s)),
         Inr (write_signature (local_sig_of_remote s))])"

definition decode_delimited_ihc :: "InitHostedChannel wire_decoder" where
  "decode_delimited_ihc =
     dbind read_length_delimited (\<lambda>ihc_bytes buf.
       case InitHostedChannel_decode ihc_bytes of
         Inl e \<Rightarrow> Inl e
       | Inr (ihc, ihc_slice) \<Rightarrow>
           if ihc_slice \<noteq> []
           then Inl (Invalid (dec_nat (length ihc_slice) @
                  '' trailing bytes in init_hosted_channel length-delimited body''))
           else Inr (ihc, buf))"

definition LastCrossSignedState_decode :: "LastCrossSignedState wire_decoder" where
  "LastCrossSignedState_decode =
     dbind read_bool (\<lambda>host.
     dbind read_varsize (\<lambda>refund.
     dbind decode_delimited_ihc (\<lambda>ihc.
     dbind read_u32 (\<lambda>bd.
     dbind read_u64_overflow (\<lambda>lbal.
     dbind read_u64_overflow (\<lambda>rbal.
     dbind read_u32 (\<lambda>lup.
     dbind read_u32 (\<lambda>rup.
     dbind read_u16 (\<lambda>n_in.
     dbind (read_n (decode_delimited_htlc ''incoming'') (unat n_in)) (\<lambda>inc.
     dbind read_u16 (\<lambda>n_out.
     dbind (read_n (decode_delimited_htlc ''outgoing'') (unat n_out)) (\<lambda>out.
     dbind read_signature (\<lambda>rsig.
     dbind read_signature (\<lambda>lsig.
     dret \<lparr>is_host = host, last_refund_scriptpubkey = refund, init_hosted_channel = ihc,
           block_day = bd, local_balance_msat = lbal, remote_balance_msat = rbal,
           local_updates = lup, remote_updates = rup, incoming_htlcs = inc,
           outgoing_htlcs = out, remote_sig_of_local = rsig,
           local_sig_of_remote = lsig\<rparr>))))))))))))))"

section \<open>Views and signatures\<close>

definition total_updates :: "LastCrossSignedState \<Rightarrow> u64" where
  "total_updates s = ucast (local_updates s) + ucast (remote_updates s)"

definition reverse :: "LastCrossSignedState \<Rightarrow> LastCrossSignedState" where
  "reverse s =
     \<lparr>is_host = \<not> is_host s,
      last_refund_scriptpubkey = last_refund_scriptpubkey s,
      init_hosted_channel = init_hosted_channel s,
      block_day = block_day s,
      local_balance_msat = remote_balance_msat s,
      remote_balance_msat = local_balance_msat s,
      local_updates = remote_updates s,
      remote_updates = local_updates s,
      incoming_htlcs = outgoing_htlcs s,
      outgoing_htlcs = incoming_htlcs s,
      remote_sig_of_local = local_sig_of_remote s,
      local_sig_of_remote = remote_sig_of_local s\<rparr>"

definition sig_material :: "LastCrossSignedState \<Rightarrow> encode_result" where
  "sig_material s =
     enc_seq
       ([Inr (write_bytes (last_refund_scriptpubkey s)),
         write_u64_overflow_le (ihc_channel_capacity_msat (init_hosted_channel s)),
         write_u64_overflow_le (ihc_initial_client_balance_msat (init_hosted_channel s)),
         Inr (write_u32_le (block_day s)),
         write_u64_overflow_le (local_balance_msat s),
         write_u64_overflow_le (remote_balance_msat s),
         Inr (write_u32_le (local_updates s)),
         Inr (write_u32_le (remote_updates s))] @
        map encode_update_add_htlc_body (incoming_htlcs s) @
        map encode_update_add_htlc_body (outgoing_htlcs s) @
        [Inr (write_u8 (if is_host s then 1 else 0))])"

definition hosted_sig_hash :: "'c crypto_scheme \<Rightarrow> LastCrossSignedState \<Rightarrow> encode_result" where
  "hosted_sig_hash C s = rbind (sig_material s) (\<lambda>buf. Inr (sha256 C buf))"

definition sign :: "'c crypto_scheme \<Rightarrow> SecretKey \<Rightarrow> LastCrossSignedState \<Rightarrow>
    EncodeError + LastCrossSignedState" where
  "sign C priv_key s =
     rbind (hosted_sig_hash C (reverse s)) (\<lambda>reverse_hash.
       Inr (s\<lparr>local_sig_of_remote := sign_ecdsa C reverse_hash priv_key\<rparr>))"

definition verify_remote_sig :: "'c crypto_scheme \<Rightarrow> LastCrossSignedState \<Rightarrow> PublicKey \<Rightarrow> bool" where
  "verify_remote_sig C s pub_key =
     (case hosted_sig_hash C s of
        Inl _ \<Rightarrow> False
      | Inr hash \<Rightarrow>
          if \<not> sig_from_compact C (remote_sig_of_local s) then False
          else verify_ecdsa C hash (remote_sig_of_local s) pub_key)"

definition state_update :: "LastCrossSignedState \<Rightarrow> StateUpdate" where
  "state_update s =
     \<lparr>su_block_day = block_day s, su_local_updates = local_updates s,
      su_remote_updates = remote_updates s, su_local_sig_of_remote = local_sig_of_remote s\<rparr>"

definition state_override :: "LastCrossSignedState \<Rightarrow> StateOverride" where
  "state_override s =
     \<lparr>so_block_day = block_day s, so_local_balance_msat = local_balance_msat s,
      so_local_updates = local_updates s, so_remote_updates = remote_updates s,
      so_local_sig_of_remote = local_sig_of_remote s\<rparr>"

section \<open>Round trips\<close>

definition wf_ihc :: "InitHostedChannel \<Rightarrow> bool" where
  "wf_ihc c \<longleftrightarrow>
     ihc_max_htlc_value_in_flight_msat c \<le> UINT64_OVERFLOW_MAX \<and>
     ihc_htlc_minimum_msat c \<le> UINT64_OVERFLOW_MAX \<and>
     ihc_channel_capacity_msat c \<le> UINT64_OVERFLOW_MAX \<and>
     ihc_initial_client_balance_msat c \<le> UINT64_OVERFLOW_MAX \<and>
     length (ihc_features c) \<le> 65535"

definition ihc_image :: "InitHostedChannel \<Rightarrow> bytes" where
  "ihc_image c =
     write_u64 (ihc_max_htlc_value_in_flight_msat c) @ write_u64 (ihc_htlc_minimum_msat c) @
     write_u16 (ihc_max_accepted_htlcs c) @ write_u64 (ihc_channel_capacity_msat c) @
     write_u64 (ihc_initial_client_balance_msat c) @
     write_u16 (word_of_nat (length (ihc_features c))) @
     concat (map write_u16 (ihc_features c))"

lemma ihc_encode_ok [enc_simps]: "wf_ihc c \<Longrightarrow> InitHostedChannel_encode c = Inr (ihc_image c)"
  by (simp add: InitHostedChannel_encode_def wf_ihc_def ihc_image_def enc_simps
      enc_seq_all_Inr [where g = write_u16])

lemma ihc_decode_image [wire_rt]:
  "wf_ihc c \<Longrightarrow> InitHostedChannel_decode (ihc_image c @ rest) = Inr (c, rest)"
  by (simp add: InitHostedChannel_decode_def wf_ihc_def ihc_image_def wire_rt dbind_run
      unat_of_nat_len read_n_concat)

interpretation ihc_codec: prefix_codec InitHostedChannel_encode InitHostedChannel_decode wf_ihc
  by unfold_locales (auto simp: enc_simps wire_rt)

lemma read_n_u16_inv:
  "read_n read_u16 n buf = Inr (xs, rest) \<Longrightarrow> buf = concat (map write_u16 xs) @ rest"
  by (induction n arbitrary: buf xs rest)
    (auto split: sum.splits prod.splits dest!: read_u16_inv)

lemma ihc_decode_inv:
  assumes "InitHostedChannel_decode buf = Inr (c, rest)"
  shows "buf = ihc_image c @ rest \<and> wf_ihc c"
proof -
  from assms obtain a r1 b r2 m r3 cap r4 ini r5 n r6 fs where
    "read_u64_overflow buf = Inr (a, r1)" "read_u64_overflow r1 = Inr (b, r2)"
    "read_u16 r2 = Inr (m, r3)" "read_u64_overflow r3 = Inr (cap, r4)"
    "read_u64_overflow r4 = Inr (ini, r5)" "read_u16 r5 = Inr (n, r6)"
    and fs: "read_n read_u16 (unat n) r6 = Inr (fs, rest)"
    and c: "c = \<lparr>ihc_max_htlc_value_in_flight_msat = a, ihc_htlc_minimum_msat = b,
      ihc_max_accepted_htlcs = m, ihc_channel_capacity_msat = cap,
      ihc_initial_client_balance_msat = ini, ihc_features = fs\<rparr>"
    by (auto simp: InitHostedChannel_decode_def dbind_eq_Inr)
  moreover have "unat n < 65536" using unsigned_less [of n, where 'a = nat] by simp
  moreover have "length fs = unat n" using read_n_length [OF fs] .
  ultimately show ?thesis
    by (auto simp: wf_ihc_def ihc_image_def dest!: wire_inv read_n_u16_inv)
qed

lemma length_write_u16s: "length (concat (map write_u16 fs)) = 2 * length fs"
  by (induction fs) (simp_all add: write_u16_def)

lemma length_ihc_image: "length (ihc_image c) = 36 + 2 * length (ihc_features c)"
  by (simp add: ihc_image_def write_u64_def length_write_u16s) (simp add: write_u16_def)

lemma ihc_image_fits: "wf_ihc c \<Longrightarrow> length (ihc_image c) < 2 ^ 64"
  by (simp add: length_ihc_image wf_ihc_def)

lemma decode_delimited_ihc_image [wire_rt]:
  "wf_ihc c \<Longrightarrow> decode_delimited_ihc (ld_image (ihc_image c) @ rest) = Inr (c, rest)"
  using ihc_decode_image [of c "[]"] ihc_image_fits [of c]
  by (simp add: decode_delimited_ihc_def dbind_run read_length_delimited_image)

lemma decode_delimited_ihc_inv:
  "decode_delimited_ihc buf = Inr (c, rest) \<Longrightarrow> wf_ihc c"
  by (auto simp: decode_delimited_ihc_def dbind_eq_Inr)
    (auto split: sum.splits if_splits dest!: ihc_decode_inv)

text \<open>An HTLC of a state: well formed, and its body length fits the varint prefix.\<close>

definition wf_state_htlc :: "UpdateAddHtlc \<Rightarrow> bool" where
  "wf_state_htlc h \<longleftrightarrow> wf_htlc h \<and> length (htlc_image h) < 2 ^ 64"

definition wf_lcss :: "LastCrossSignedState \<Rightarrow> bool" where
  "wf_lcss s \<longleftrightarrow>
     length (last_refund_scriptpubkey s) \<le> 65535 \<and> wf_ihc (init_hosted_channel s) \<and>
     local_balance_msat s \<le> UINT64_OVERFLOW_MAX \<and> remote_balance_msat s \<le> UINT64_OVERFLOW_MAX \<and>
     length (incoming_htlcs s) \<le> 65535 \<and> list_all wf_state_htlc (incoming_htlcs s) \<and>
     length (outgoing_htlcs s) \<le> 65535 \<and> list_all wf_state_htlc (outgoing_htlcs s) \<and>
     length (remote_sig_of_local s) = 64 \<and> length (local_sig_of_remote s) = 64"

lemma encode_delimited_htlc_ok [enc_simps]:
  "wf_state_htlc h \<Longrightarrow> encode_delimited_htlc h = Inr (ld_image (htlc_image h))"
  by (simp add: encode_delimited_htlc_def wf_state_htlc_def enc_simps)

lemma decode_delimited_htlc_image [wire_rt]:
  "wf_state_htlc h \<Longrightarrow> decode_delimited_htlc d (ld_image (htlc_image h) @ rest) = Inr (h, rest)"
  by (simp add: decode_delimited_htlc_def dbind_run wf_state_htlc_def wire_rt)

lemma decode_delimited_htlc_inv:
  assumes "decode_delimited_htlc d buf = Inr (h, rest)"
  shows "wf_state_htlc h"
proof -
  from assms obtain b r where b: "read_length_delimited buf = Inr (b, r)"
    and h: "decode_update_add_htlc_body b = Inr (h, [])"
    by (auto simp: decode_delimited_htlc_def dbind_eq_Inr) (auto split: sum.splits if_splits)
  then show ?thesis
    using read_length_delimited_inv [OF b] decode_htlc_inv [OF h]
    by (simp add: wf_state_htlc_def)
qed

lemma read_n_htlc_inv:
  "read_n (decode_delimited_htlc d) n buf = Inr (hs, rest) \<Longrightarrow> list_all wf_state_htlc hs"
  by (induction n arbitrary: buf hs rest)
    (auto split: sum.splits prod.splits dest!: decode_delimited_htlc_inv)

definition lcss_image :: "LastCrossSignedState \<Rightarrow> bytes" where
  "lcss_image s =
     write_bool (is_host s) @ varsize_image (last_refund_scriptpubkey s) @
     ld_image (ihc_image (init_hosted_channel s)) @ write_u32 (block_day s) @
     write_u64 (local_balance_msat s) @ write_u64 (remote_balance_msat s) @
     write_u32 (local_updates s) @ write_u32 (remote_updates s) @
     write_u16 (word_of_nat (length (incoming_htlcs s))) @
     concat (map (ld_image \<circ> htlc_image) (incoming_htlcs s)) @
     write_u16 (word_of_nat (length (outgoing_htlcs s))) @
     concat (map (ld_image \<circ> htlc_image) (outgoing_htlcs s)) @
     write_signature (remote_sig_of_local s) @ write_signature (local_sig_of_remote s)"

lemma encode_delimited_htlcs_ok:
  "list_all wf_state_htlc hs \<Longrightarrow>
     enc_seq (map encode_delimited_htlc hs) = Inr (concat (map (ld_image \<circ> htlc_image) hs))"
  by (rule enc_seq_all_Inr) (simp add: list_all_iff enc_simps)

lemma lcss_encode_ok [enc_simps]:
  "wf_lcss s \<Longrightarrow> LastCrossSignedState_encode s = Inr (lcss_image s)"
  by (simp add: LastCrossSignedState_encode_def wf_lcss_def lcss_image_def enc_simps
      enc_seq_append encode_delimited_htlcs_ok)

lemma read_delimited_htlcs:
  "list_all wf_state_htlc hs \<Longrightarrow>
     read_n (decode_delimited_htlc d) (length hs)
       (concat (map (ld_image \<circ> htlc_image) hs) @ rest) = Inr (hs, rest)"
  by (rule read_n_concat) (simp add: list_all_iff wire_rt)

lemma lcss_decode_image [wire_rt]:
  "wf_lcss s \<Longrightarrow> LastCrossSignedState_decode (lcss_image s @ rest) = Inr (s, rest)"
  by (simp add: LastCrossSignedState_decode_def wf_lcss_def lcss_image_def wire_rt dbind_run
      unat_of_nat_len read_delimited_htlcs)

interpretation lcss_codec:
  prefix_codec LastCrossSignedState_encode LastCrossSignedState_decode wf_lcss
  by unfold_locales (auto simp: enc_simps wire_rt)

lemma lcss_decode_wf:
  assumes "LastCrossSignedState_decode buf = Inr (s, rest)"
  shows "wf_lcss s"
proof -
  from assms obtain r1 r2 r3 r4 r5 r6 r7 r8 r9 r10 r11 r12 r13 n_in n_out where
    "read_varsize r1 = Inr (last_refund_scriptpubkey s, r2)"
    "decode_delimited_ihc r2 = Inr (init_hosted_channel s, r3)"
    "read_u64_overflow r4 = Inr (local_balance_msat s, r5)"
    "read_u64_overflow r5 = Inr (remote_balance_msat s, r6)"
    and i: "read_n (decode_delimited_htlc ''incoming'') (unat (n_in :: u16)) r9 =
      Inr (incoming_htlcs s, r10)"
    and o: "read_n (decode_delimited_htlc ''outgoing'') (unat (n_out :: u16)) r11 =
      Inr (outgoing_htlcs s, r12)"
    and "read_signature r12 = Inr (remote_sig_of_local s, r13)"
    "read_signature r13 = Inr (local_sig_of_remote s, rest)"
    by (auto simp: LastCrossSignedState_decode_def dbind_eq_Inr)
  moreover have "unat n_in < 65536" "unat n_out < 65536"
    using unsigned_less [of n_in, where 'a = nat] unsigned_less [of n_out, where 'a = nat]
    by simp_all
  moreover have "length (incoming_htlcs s) = unat n_in" "length (outgoing_htlcs s) = unat n_out"
    using read_n_length [OF i] read_n_length [OF o] by auto
  ultimately show ?thesis
    by (auto simp: wf_lcss_def dest!: wire_inv decode_delimited_ihc_inv read_n_htlc_inv)
qed

section \<open>Reversal and cross-signing\<close>

lemma reverse_reverse [simp]: "reverse (reverse s) = s"
  by (simp add: reverse_def)

lemma wf_lcss_reverse [simp]: "wf_lcss (reverse s) = wf_lcss s"
  by (auto simp: wf_lcss_def reverse_def)

lemma reverse_sel [simp]:
  "is_host (reverse s) = (\<not> is_host s)"
  "last_refund_scriptpubkey (reverse s) = last_refund_scriptpubkey s"
  "init_hosted_channel (reverse s) = init_hosted_channel s"
  "block_day (reverse s) = block_day s"
  "local_balance_msat (reverse s) = remote_balance_msat s"
  "remote_balance_msat (reverse s) = local_balance_msat s"
  "local_updates (reverse s) = remote_updates s"
  "remote_updates (reverse s) = local_updates s"
  "incoming_htlcs (reverse s) = outgoing_htlcs s"
  "outgoing_htlcs (reverse s) = incoming_htlcs s"
  "remote_sig_of_local (reverse s) = local_sig_of_remote s"
  "local_sig_of_remote (reverse s) = remote_sig_of_local s"
  by (simp_all add: reverse_def)

lemma sig_material_sigs [simp]:
  "sig_material (s\<lparr>remote_sig_of_local := a\<rparr>) = sig_material s"
  "sig_material (s\<lparr>local_sig_of_remote := b\<rparr>) = sig_material s"
  by (simp_all add: sig_material_def)

lemma hosted_sig_hash_sigs [simp]:
  "hosted_sig_hash C (s\<lparr>remote_sig_of_local := a\<rparr>) = hosted_sig_hash C s"
  "hosted_sig_hash C (s\<lparr>local_sig_of_remote := b\<rparr>) = hosted_sig_hash C s"
  by (simp_all add: hosted_sig_hash_def)

lemma reverse_upd_sigs:
  "reverse (s\<lparr>remote_sig_of_local := a\<rparr>) = (reverse s)\<lparr>local_sig_of_remote := a\<rparr>"
  "reverse (s\<lparr>local_sig_of_remote := b\<rparr>) = (reverse s)\<lparr>remote_sig_of_local := b\<rparr>"
  by (simp_all add: reverse_def)

lemma sign_eq_Inr:
  "sign C sk s = Inr s' \<longleftrightarrow>
     (\<exists>h. hosted_sig_hash C (reverse s) = Inr h \<and> s' = s\<lparr>local_sig_of_remote := sign_ecdsa C h sk\<rparr>)"
  by (auto simp: sign_def rbind_eq_Inr)

lemma sign_verifies_reversed:
  assumes "key_pair C sk pk" and "sign C sk s = Inr s'"
  shows "verify_remote_sig C (reverse s') pk"
  using assms by (auto simp: sign_eq_Inr verify_remote_sig_def key_pair_def reverse_upd_sigs)

definition material_image :: "LastCrossSignedState \<Rightarrow> bytes" where
  "material_image s =
     last_refund_scriptpubkey s @
     write_u64_le (ihc_channel_capacity_msat (init_hosted_channel s)) @
     write_u64_le (ihc_initial_client_balance_msat (init_hosted_channel s)) @
     write_u32_le (block_day s) @ write_u64_le (local_balance_msat s) @
     write_u64_le (remote_balance_msat s) @ write_u32_le (local_updates s) @
     write_u32_le (remote_updates s) @
     concat (map htlc_image (incoming_htlcs s @ outgoing_htlcs s)) @
     write_u8 (if is_host s then 1 else 0)"

lemma encode_htlcs_ok:
  "list_all wf_htlc hs \<Longrightarrow>
     enc_seq (map encode_update_add_htlc_body hs) = Inr (concat (map htlc_image hs))"
  by (rule enc_seq_all_Inr) (simp add: list_all_iff enc_simps)

lemma wf_state_htlcs: "list_all wf_state_htlc hs \<Longrightarrow> list_all wf_htlc hs"
  by (auto simp: list_all_iff wf_state_htlc_def)

lemma sig_material_ok: "wf_lcss s \<Longrightarrow> sig_material s = Inr (material_image s)"
  by (simp add: sig_material_def wf_lcss_def wf_ihc_def material_image_def enc_simps
      enc_seq_append encode_htlcs_ok wf_state_htlcs write_bytes_def)

lemma hosted_sig_hash_ok: "wf_lcss s \<Longrightarrow> hosted_sig_hash C s = Inr (sha256 C (material_image s))"
  by (simp add: hosted_sig_hash_def sig_material_ok)

lemma sign_ok: "wf_lcss s \<Longrightarrow> \<exists>s'. sign C sk s = Inr s'"
  by (simp add: sign_def hosted_sig_hash_ok)

section \<open>What the signed hash determines\<close>

lemma write_le_inj [simp]:
  "write_u64_le a = write_u64_le b \<longleftrightarrow> a = b"
  "write_u32_le c = write_u32_le d \<longleftrightarrow> c = d"
  by (auto simp: write_u64_le_def write_u32_le_def word_unat_eq_iff dest!: le_bytes_inj)

lemma length_write_le [simp]: "length (write_u64_le a) = 8" "length (write_u32_le c) = 4"
  by (simp_all add: write_u64_le_def write_u32_le_def)

text \<open>HTLC bodies without a TLV stream have a fixed size, so their concatenation is uniquely cut.\<close>

definition plain_htlc :: "UpdateAddHtlc \<Rightarrow> bool" where
  "plain_htlc h \<longleftrightarrow> wf_htlc h \<and> htlc_tlv_stream h = []"

lemma htlc_image_inj: "wf_htlc h \<Longrightarrow> wf_htlc k \<Longrightarrow> htlc_image h = htlc_image k \<Longrightarrow> h = k"
  by (metis decode_htlc_image prod.inject sum.inject(2))

lemma htlc_image_nonempty: "wf_htlc h \<Longrightarrow> htlc_image h \<noteq> []"
  using length_htlc_image [of h] by auto

lemma concat_htlc_images_inj:
  assumes "list_all plain_htlc hs" and "list_all plain_htlc ks"
    and "concat (map htlc_image hs) = concat (map htlc_image ks)"
  shows "hs = ks"
  using assms
proof (induction hs arbitrary: ks)
  case Nil
  then show ?case
    by (cases ks) (auto simp: plain_htlc_def htlc_image_nonempty)
next
  case (Cons h hs)
  then obtain k ks' where ks: "ks = k # ks'"
    by (cases ks) (auto simp: plain_htlc_def htlc_image_nonempty)
  have "length (htlc_image h) = length (htlc_image k)"
    using Cons.prems ks by (simp add: plain_htlc_def length_htlc_image)
  then have "htlc_image h = htlc_image k"
    and "concat (map htlc_image hs) = concat (map htlc_image ks')"
    using Cons.prems(3) ks by simp_all
  moreover have "wf_htlc h" "wf_htlc k" "list_all plain_htlc hs" "list_all plain_htlc ks'"
    using Cons.prems(1,2) ks by (auto simp: plain_htlc_def list_all_iff)
  ultimately have "h = k" "hs = ks'"
    by (blast intro: htlc_image_inj Cons.IH)+
  then show ?case using ks by simp
qed

lemma material_image_inj:
  assumes "length (last_refund_scriptpubkey s) = length (last_refund_scriptpubkey t)"
    and "list_all plain_htlc (incoming_htlcs s @ outgoing_htlcs s)"
    and "list_all plain_htlc (incoming_htlcs t @ outgoing_htlcs t)"
    and eq: "material_image s = material_image t"
  shows "last_refund_scriptpubkey s = last_refund_scriptpubkey t \<and>
     ihc_channel_capacity_msat (init_hosted_channel s) =
       ihc_channel_capacity_msat (init_hosted_channel t) \<and>
     ihc_initial_client_balance_msat (init_hosted_channel s) =
       ihc_initial_client_balance_msat (init_hosted_channel t) \<and>
     block_day s = block_day t \<and> local_balance_msat s = local_balance_msat t \<and>
     remote_balance_msat s = remote_balance_msat t \<and> local_updates s = local_updates t \<and>
     remote_updates s = remote_updates t \<and> is_host s = is_host t \<and>
     incoming_htlcs s @ outgoing_htlcs s = incoming_htlcs t @ outgoing_htlcs t"
proof -
  let ?f = "\<lambda>s. concat (map htlc_image (incoming_htlcs s @ outgoing_htlcs s))"
  from eq assms(1) have "?f s @ write_u8 (if is_host s then 1 else 0) =
      ?f t @ write_u8 (if is_host t then 1 else 0)"
    by (simp add: material_image_def)
  then have "?f s = ?f t" and host: "is_host s = is_host t"
    by (auto simp: write_u8_def split: if_splits)
  then have "incoming_htlcs s @ outgoing_htlcs s = incoming_htlcs t @ outgoing_htlcs t"
    using concat_htlc_images_inj [OF assms(2,3)] by simp
  with host show ?thesis using eq assms(1) by (simp add: material_image_def)
qed

definition sample_lcss :: LastCrossSignedState where
  "sample_lcss =
     \<lparr>is_host = True, last_refund_scriptpubkey = [],
      init_hosted_channel =
        \<lparr>ihc_max_htlc_value_in_flight_msat = 1000, ihc_htlc_minimum_msat = 1,
         ihc_max_accepted_htlcs = 5, ihc_channel_capacity_msat = 1000,
         ihc_initial_client_balance_msat = 400, ihc_features = []\<rparr>,
      block_day = 9, local_balance_msat = 600, remote_balance_msat = 400, local_updates = 3,
      remote_updates = 4, incoming_htlcs = [], outgoing_htlcs = [],
      remote_sig_of_local = replicate 64 0, local_sig_of_remote = replicate 64 0\<rparr>"

lemma sample_lcss_wf: "wf_lcss sample_lcss"
  by (simp add: wf_lcss_def wf_ihc_def sample_lcss_def UINT64_OVERFLOW_MAX_def)

section \<open>Properties\<close>

text \<open>
  The wire form of a state is exact: a well-formed state encodes and is read back with whatever
  follows it, and every state that the decoder accepts is well formed, so it can be encoded, hashed
  and signed again.
\<close>

lemma lcss_wire_roundtrip:
  "(wf_lcss s \<longrightarrow> (\<exists>bs. LastCrossSignedState_encode s = Inr bs \<and>
      LastCrossSignedState_decode (bs @ rest) = Inr (s, rest))) \<and>
   (LastCrossSignedState_decode buf = Inr (t, rest') \<longrightarrow> wf_lcss t \<and> (\<exists>t'. sign C sk t = Inr t'))"
  using lcss_decode_wf [of buf t rest'] by (auto simp: lcss_encode_ok lcss_decode_image sign_ok)

text \<open>
  C26. Cross-signing works: signing a well-formed state succeeds and changes nothing but the own
  signature, and the other party, who holds the reversed state, accepts that signature under the
  public key that belongs to the signing key.
\<close>

theorem cross_signature_verifies:
  assumes "wf_lcss s" and "key_pair C sk pk"
  shows "\<exists>s'. sign C sk s = Inr s' \<and> verify_remote_sig C (reverse s') pk \<and>
    s'\<lparr>local_sig_of_remote := local_sig_of_remote s\<rparr> = s"
proof -
  obtain s' where s': "sign C sk s = Inr s'" using sign_ok [OF assms(1)] by blast
  then show ?thesis
    using sign_verifies_reversed [OF assms(2) s'] by (auto simp: sign_eq_Inr)
qed

theorem cross_signature_verifies_witness:
  "\<exists>s'. sign model_crypto (SecretKey [1]) sample_lcss = Inr s' \<and>
     verify_remote_sig model_crypto (reverse s') (model_pk (SecretKey [1]))"
  using cross_signature_verifies [OF sample_lcss_wf model_key_pair] by blast



text \<open>
  C38. The signed bytes do not bind the direction of an HTLC: two states that cut the same sequence
  of HTLCs at different places into incoming and outgoing ones have the same signature hash, so a
  signature for one is a signature for the other.
\<close>

theorem direction_is_not_signed:
  "hosted_sig_hash C (s\<lparr>incoming_htlcs := a @ b, outgoing_htlcs := c\<rparr>) =
   hosted_sig_hash C (s\<lparr>incoming_htlcs := a, outgoing_htlcs := b @ c\<rparr>)"
  by (simp add: hosted_sig_hash_def sig_material_def)

end
