(* ===== verification/State.thy ===== *)
theory State
  imports Lcss
begin

text \<open>
  Model of \<^verbatim>\<open>src/src/state.rs\<close>, the pure core of the channel state machine, and of the pending
  updates of \<^verbatim>\<open>src/src/store.rs\<close>: the committed state, the updates on top of it, and the state
  they fold into. \<open>funds\<close> is the money of a state (both balances and every HTLC in flight). The
  lemmas show that folding conserves it, never overflows a state whose money fits, keeps states
  encodable, and commutes with reversal, so that both parties compute the same next state.
\<close>

section \<open>Data\<close>

datatype PendingUpdate =
    Add UpdateAddHtlc
  | Fulfill bytes u64 bytes
  | Fail bytes u64 bytes
  | FailMalformed bytes u64 bytes u16

datatype UncommittedUpdate = Local PendingUpdate | Remote PendingUpdate

datatype StateError =
    NegativeBalance u64 u64
  | TooManyHtlcs
  | MaxInFlightExceeded u64 u64
  | BelowMinimum u64 u64
  | CounterMismatch u32 u32 u32 u32
  | BlockDayMismatch u32 u32
  | BadSignature
  | Errored
  | HtlcNotFound u64
  | WrongPreimage
  | Overflow

record StateManager =
  sm_lcss :: LastCrossSignedState
  sm_uncommitted :: "UncommittedUpdate list"

fun is_Local :: "UncommittedUpdate \<Rightarrow> bool" where
  "is_Local (Local _) = True"
| "is_Local (Remote _) = False"

section \<open>Operations\<close>

definition StateManager_new :: "LastCrossSignedState \<Rightarrow> StateManager" where
  "StateManager_new s = \<lparr>sm_lcss = s, sm_uncommitted = []\<rparr>"

definition next_local_updates :: "StateManager \<Rightarrow> u32" where
  "next_local_updates sm =
     local_updates (sm_lcss sm) + word_of_nat (length (filter is_Local (sm_uncommitted sm)))"

definition next_remote_updates :: "StateManager \<Rightarrow> u32" where
  "next_remote_updates sm =
     remote_updates (sm_lcss sm) +
     word_of_nat (length (filter (\<lambda>u. \<not> is_Local u) (sm_uncommitted sm)))"

text \<open>\<open>position\<close> of the first HTLC with the id, then \<open>Vec::remove\<close> there.\<close>

fun position :: "('a \<Rightarrow> bool) \<Rightarrow> 'a list \<Rightarrow> nat option" where
  "position p [] = None"
| "position p (x # xs) = (if p x then Some 0 else map_option Suc (position p xs))"

definition remove_at :: "nat \<Rightarrow> 'a list \<Rightarrow> 'a list" where
  "remove_at pos xs = take pos xs @ drop (Suc pos) xs"

definition take_htlc :: "u64 \<Rightarrow> UpdateAddHtlc list \<Rightarrow> StateError + UpdateAddHtlc \<times> UpdateAddHtlc list" where
  "take_htlc i hs =
     (case position (\<lambda>h. htlc_id h = i) hs of
        None \<Rightarrow> Inl (HtlcNotFound i)
      | Some pos \<Rightarrow> Inr (hs ! pos, remove_at pos hs))"

definition check_preimage :: "'c crypto_scheme \<Rightarrow> bytes \<Rightarrow> UpdateAddHtlc \<Rightarrow> StateError + unit" where
  "check_preimage C preimage h =
     (if sha256 C preimage \<noteq> htlc_payment_hash h then Inl WrongPreimage else Inr ())"

fun lcss_step :: "'c crypto_scheme \<Rightarrow> LastCrossSignedState \<Rightarrow> UncommittedUpdate \<Rightarrow>
    StateError + LastCrossSignedState" where
  "lcss_step C s (Local (Add h)) =
     rbind (ok_or (checked_sub (local_balance_msat s) (htlc_amount_msat h))
             (NegativeBalance (local_balance_msat s) (htlc_amount_msat h))) (\<lambda>bal.
     Inr (s\<lparr>local_balance_msat := bal, outgoing_htlcs := outgoing_htlcs s @ [h],
            local_updates := local_updates s + 1\<rparr>))"
| "lcss_step C s (Remote (Add h)) =
     rbind (ok_or (checked_sub (remote_balance_msat s) (htlc_amount_msat h))
             (NegativeBalance (remote_balance_msat s) (htlc_amount_msat h))) (\<lambda>bal.
     Inr (s\<lparr>remote_balance_msat := bal, incoming_htlcs := incoming_htlcs s @ [h],
            remote_updates := remote_updates s + 1\<rparr>))"
| "lcss_step C s (Local (Fulfill cid i preimage)) =
     rbind (take_htlc i (incoming_htlcs s)) (\<lambda>(h, hs).
     rbind (check_preimage C preimage h) (\<lambda>_.
     rbind (ok_or (checked_add (local_balance_msat s) (htlc_amount_msat h)) Overflow) (\<lambda>bal.
     Inr (s\<lparr>incoming_htlcs := hs, local_balance_msat := bal,
            local_updates := local_updates s + 1\<rparr>))))"
| "lcss_step C s (Remote (Fulfill cid i preimage)) =
     rbind (take_htlc i (outgoing_htlcs s)) (\<lambda>(h, hs).
     rbind (check_preimage C preimage h) (\<lambda>_.
     rbind (ok_or (checked_add (remote_balance_msat s) (htlc_amount_msat h)) Overflow) (\<lambda>bal.
     Inr (s\<lparr>outgoing_htlcs := hs, remote_balance_msat := bal,
            remote_updates := remote_updates s + 1\<rparr>))))"
| "lcss_step C s (Local (Fail cid i reason)) =
     rbind (take_htlc i (incoming_htlcs s)) (\<lambda>(h, hs).
     rbind (ok_or (checked_add (remote_balance_msat s) (htlc_amount_msat h)) Overflow) (\<lambda>bal.
     Inr (s\<lparr>incoming_htlcs := hs, remote_balance_msat := bal,
            local_updates := local_updates s + 1\<rparr>)))"
| "lcss_step C s (Remote (Fail cid i reason)) =
     rbind (take_htlc i (outgoing_htlcs s)) (\<lambda>(h, hs).
     rbind (ok_or (checked_add (local_balance_msat s) (htlc_amount_msat h)) Overflow) (\<lambda>bal.
     Inr (s\<lparr>outgoing_htlcs := hs, local_balance_msat := bal,
            remote_updates := remote_updates s + 1\<rparr>)))"
| "lcss_step C s (Local (FailMalformed cid i onion_hash code)) =
     rbind (take_htlc i (incoming_htlcs s)) (\<lambda>(h, hs).
     rbind (ok_or (checked_add (remote_balance_msat s) (htlc_amount_msat h)) Overflow) (\<lambda>bal.
     Inr (s\<lparr>incoming_htlcs := hs, remote_balance_msat := bal,
            local_updates := local_updates s + 1\<rparr>)))"
| "lcss_step C s (Remote (FailMalformed cid i onion_hash code)) =
     rbind (take_htlc i (outgoing_htlcs s)) (\<lambda>(h, hs).
     rbind (ok_or (checked_add (local_balance_msat s) (htlc_amount_msat h)) Overflow) (\<lambda>bal.
     Inr (s\<lparr>outgoing_htlcs := hs, local_balance_msat := bal,
            remote_updates := remote_updates s + 1\<rparr>)))"

definition lcss_next :: "'c crypto_scheme \<Rightarrow> StateManager \<Rightarrow> StateError + LastCrossSignedState" where
  "lcss_next C sm =
     rbind (rfold (lcss_step C) ((sm_lcss sm)\<lparr>local_updates := 0, remote_updates := 0\<rparr>)
             (sm_uncommitted sm)) (\<lambda>next.
     Inr (next\<lparr>local_updates := next_local_updates sm,
               remote_updates := next_remote_updates sm,
               block_day := block_day (sm_lcss sm)\<rparr>))"

definition add_local :: "PendingUpdate \<Rightarrow> StateManager \<Rightarrow> StateManager" where
  "add_local u sm = sm\<lparr>sm_uncommitted := sm_uncommitted sm @ [Local u]\<rparr>"

definition add_remote :: "PendingUpdate \<Rightarrow> StateManager \<Rightarrow> StateManager" where
  "add_remote u sm = sm\<lparr>sm_uncommitted := sm_uncommitted sm @ [Remote u]\<rparr>"

definition commit :: "LastCrossSignedState \<Rightarrow> StateManager \<Rightarrow> StateManager" where
  "commit s sm = sm\<lparr>sm_lcss := s, sm_uncommitted := []\<rparr>"

definition clear_uncommitted :: "StateManager \<Rightarrow> StateManager" where
  "clear_uncommitted sm = sm\<lparr>sm_uncommitted := []\<rparr>"

section \<open>Removing an HTLC\<close>

lemma position_Some:
  "position p xs = Some i \<Longrightarrow> i < length xs \<and> p (xs ! i) \<and> (\<forall>j < i. \<not> p (xs ! j))"
proof (induction xs arbitrary: i)
  case (Cons x xs)
  then show ?case by (cases i) (auto simp: less_Suc_eq_0_disj split: if_splits)
qed simp

lemma position_None: "position p xs = None \<longleftrightarrow> (\<forall>x \<in> set xs. \<not> p x)"
  by (induction xs) auto

lemma take_htlc_split:
  assumes "take_htlc i hs = Inr (h, hs')"
  shows "\<exists>as bs. hs = as @ h # bs \<and> hs' = as @ bs \<and> htlc_id h = i"
proof -
  obtain k where p: "position (\<lambda>h. htlc_id h = i) hs = Some k"
    and h: "h = hs ! k" and hs': "hs' = take k hs @ drop (Suc k) hs"
    using assms by (auto simp: take_htlc_def remove_at_def split: option.splits)
  have "hs = take k hs @ hs ! k # drop (Suc k) hs"
    using position_Some [OF p] by (simp add: Cons_nth_drop_Suc)
  then show ?thesis using h hs' position_Some [OF p] by metis
qed

section \<open>Money\<close>

definition htlc_sum :: "UpdateAddHtlc list \<Rightarrow> nat" where
  "htlc_sum hs = (\<Sum>h\<leftarrow>hs. unat (htlc_amount_msat h))"

definition funds :: "LastCrossSignedState \<Rightarrow> nat" where
  "funds s = unat (local_balance_msat s) + unat (remote_balance_msat s) +
     htlc_sum (incoming_htlcs s) + htlc_sum (outgoing_htlcs s)"

lemma htlc_sum_simps [simp]:
  "htlc_sum [] = 0"
  "htlc_sum (h # hs) = unat (htlc_amount_msat h) + htlc_sum hs"
  "htlc_sum (hs @ ks) = htlc_sum hs + htlc_sum ks"
  by (simp_all add: htlc_sum_def)

lemma take_htlc_sum:
  "take_htlc i hs = Inr (h, hs') \<Longrightarrow> htlc_sum hs = unat (htlc_amount_msat h) + htlc_sum hs'"
  by (drule take_htlc_split) auto

lemma funds_reverse [simp]: "funds (reverse s) = funds s"
  by (simp add: funds_def)

lemma funds_upd [simp]:
  "funds (s\<lparr>local_updates := a\<rparr>) = funds s"
  "funds (s\<lparr>remote_updates := b\<rparr>) = funds s"
  "funds (s\<lparr>block_day := d\<rparr>) = funds s"
  "funds (s\<lparr>remote_sig_of_local := x\<rparr>) = funds s"
  "funds (s\<lparr>local_sig_of_remote := y\<rparr>) = funds s"
  by (simp_all add: funds_def)

lemmas step_cases = lcss_step.cases [case_names LAdd RAdd LFul RFul LFail RFail LMal RMal]

lemmas step_inv = rbind_eq_Inr ok_or_eq_Inr

lemma lcss_step_funds: "lcss_step C s u = Inr s' \<Longrightarrow> funds s' = funds s"
  by (induction C s u rule: lcss_step.induct)
    (auto simp: step_inv funds_def dest!: checked_sub_Some checked_add_Some take_htlc_sum)

lemma lcss_step_frame:
  "lcss_step C s u = Inr s' \<Longrightarrow> init_hosted_channel s' = init_hosted_channel s \<and>
     last_refund_scriptpubkey s' = last_refund_scriptpubkey s \<and> is_host s' = is_host s \<and>
     block_day s' = block_day s"
  by (induction C s u rule: lcss_step.induct) (auto simp: step_inv)

lemma lcss_next_funds:
  assumes "lcss_next C sm = Inr n"
  shows "funds n = funds (sm_lcss sm)"
proof -
  obtain s where s: "rfold (lcss_step C) ((sm_lcss sm)\<lparr>local_updates := 0, remote_updates := 0\<rparr>)
      (sm_uncommitted sm) = Inr s" and n: "funds n = funds s"
    using assms by (auto simp: lcss_next_def rbind_eq_Inr)
  have "funds s = funds (sm_lcss sm)"
    by (rule rfold_invariant [OF s]) (auto dest: lcss_step_funds)
  then show ?thesis using n by simp
qed

section \<open>Bounds and well-formedness\<close>

lemma take_htlc_Inl: "take_htlc i hs = Inl e \<Longrightarrow> e = HtlcNotFound i"
  by (auto simp: take_htlc_def split: option.splits)

lemma lcss_step_no_overflow:
  "funds s < 2 ^ 64 \<Longrightarrow> lcss_step C s u \<noteq> Inl Overflow"
  by (induction C s u rule: lcss_step.induct)
    (auto simp: rbind_def ok_or_def check_preimage_def checked_add_def funds_def
      split: sum.splits option.splits if_splits dest!: take_htlc_Inl take_htlc_sum)

lemma rfold_step_no_overflow:
  "funds s < 2 ^ 64 \<Longrightarrow> rfold (lcss_step C) s us \<noteq> Inl Overflow"
proof (induction us arbitrary: s)
  case (Cons u us)
  then show ?case
    using lcss_step_no_overflow [of s C u] lcss_step_funds [of C s u]
    by (cases "lcss_step C s u") auto
qed simp

fun wf_update :: "UncommittedUpdate \<Rightarrow> bool" where
  "wf_update (Local (Add h)) = wf_state_htlc h"
| "wf_update (Remote (Add h)) = wf_state_htlc h"
| "wf_update _ = True"

text \<open>The part of well-formedness a single update keeps: everything but the HTLC counts.\<close>

definition wf_open :: "LastCrossSignedState \<Rightarrow> bool" where
  "wf_open s \<longleftrightarrow> length (last_refund_scriptpubkey s) \<le> 65535 \<and> wf_ihc (init_hosted_channel s) \<and>
     list_all wf_state_htlc (incoming_htlcs s) \<and> list_all wf_state_htlc (outgoing_htlcs s) \<and>
     length (remote_sig_of_local s) = 64 \<and> length (local_sig_of_remote s) = 64"

lemma take_htlc_list_all:
  "take_htlc i hs = Inr (h, hs') \<Longrightarrow> list_all P hs \<Longrightarrow> list_all P hs'"
  by (drule take_htlc_split) auto

lemma lcss_step_wf_open:
  "lcss_step C s u = Inr s' \<Longrightarrow> wf_open s \<Longrightarrow> wf_update u \<Longrightarrow> wf_open s'"
  by (induction C s u rule: lcss_step.induct)
    (auto simp: step_inv wf_open_def dest: take_htlc_list_all)

lemma unat_le_overflow_max: "v \<le> UINT64_OVERFLOW_MAX \<longleftrightarrow> unat v \<le> 0x7FFFFFFFFFFFFFFF"
  by (simp add: UINT64_OVERFLOW_MAX_def word_le_nat_alt)

lemma wf_lcss_iff_open:
  "wf_lcss s \<longleftrightarrow> wf_open s \<and> local_balance_msat s \<le> UINT64_OVERFLOW_MAX \<and>
     remote_balance_msat s \<le> UINT64_OVERFLOW_MAX \<and>
     length (incoming_htlcs s) \<le> 65535 \<and> length (outgoing_htlcs s) \<le> 65535"
  by (auto simp: wf_lcss_def wf_open_def)

lemma lcss_next_wf_open:
  assumes "lcss_next C sm = Inr n" and "wf_open (sm_lcss sm)" and "list_all wf_update (sm_uncommitted sm)"
  shows "wf_open n"
proof -
  obtain s where s: "rfold (lcss_step C) ((sm_lcss sm)\<lparr>local_updates := 0, remote_updates := 0\<rparr>)
      (sm_uncommitted sm) = Inr s" and n: "wf_open n = wf_open s"
    using assms(1) by (auto simp: lcss_next_def rbind_eq_Inr wf_open_def)
  have "wf_open s"
    by (rule rfold_invariant [OF s])
      (use assms(2,3) in \<open>auto simp: wf_open_def [of "_\<lparr>local_updates := _, remote_updates := _\<rparr>"]
        wf_open_def [of "sm_lcss sm"] list_all_iff elim: lcss_step_wf_open\<close>)
  then show ?thesis using n by simp
qed

lemma lcss_next_wf:
  assumes "lcss_next C sm = Inr n" and "wf_lcss (sm_lcss sm)"
    and "list_all wf_update (sm_uncommitted sm)" and "funds (sm_lcss sm) \<le> unat UINT64_OVERFLOW_MAX"
    and "length (incoming_htlcs n) \<le> 65535" and "length (outgoing_htlcs n) \<le> 65535"
  shows "wf_lcss n"
proof -
  have "funds n \<le> unat UINT64_OVERFLOW_MAX"
    using lcss_next_funds [OF assms(1)] assms(4) by simp
  then have "local_balance_msat n \<le> UINT64_OVERFLOW_MAX" "remote_balance_msat n \<le> UINT64_OVERFLOW_MAX"
    by (simp_all add: funds_def word_le_nat_alt)
  then show ?thesis
    using lcss_next_wf_open [OF assms(1) _ assms(3)] assms(2,5,6) by (simp add: wf_lcss_iff_open)
qed

section \<open>The other party's view\<close>

fun mirror_update :: "UncommittedUpdate \<Rightarrow> UncommittedUpdate" where
  "mirror_update (Local u) = Remote u"
| "mirror_update (Remote u) = Local u"

definition mirror :: "StateManager \<Rightarrow> StateManager" where
  "mirror sm = \<lparr>sm_lcss = reverse (sm_lcss sm), sm_uncommitted = map mirror_update (sm_uncommitted sm)\<rparr>"

lemma mirror_sel [simp]:
  "sm_lcss (mirror sm) = reverse (sm_lcss sm)"
  "sm_uncommitted (mirror sm) = map mirror_update (sm_uncommitted sm)"
  by (simp_all add: mirror_def)

lemma is_Local_mirror [simp]: "is_Local (mirror_update u) \<longleftrightarrow> \<not> is_Local u"
  by (cases u) auto

lemma mirror_counts [simp]:
  "next_local_updates (mirror sm) = next_remote_updates sm"
  "next_remote_updates (mirror sm) = next_local_updates sm"
  by (simp_all add: next_local_updates_def next_remote_updates_def mirror_def filter_map comp_def)

lemma rmap_rbind: "rmap f (rbind r g) = rbind r (\<lambda>a. rmap f (g a))"
  by (cases r) auto

lemma lcss_step_mirror:
  "lcss_step C (reverse s) (mirror_update u) = rmap reverse (lcss_step C s u)"
  by (induction C s u rule: lcss_step.induct)
    (simp_all add: rmap_rbind case_prod_unfold, simp_all add: reverse_def)

lemma lcss_next_mirror: "lcss_next C (mirror sm) = rmap reverse (lcss_next C sm)"
proof -
  let ?s = "(sm_lcss sm)\<lparr>local_updates := 0, remote_updates := 0\<rparr>"
  have fold: "rfold (lcss_step C) (reverse ?s) (map mirror_update (sm_uncommitted sm)) =
      rmap reverse (rfold (lcss_step C) ?s (sm_uncommitted sm))"
    by (rule rfold_simulation) (rule lcss_step_mirror)
  have start: "(reverse (sm_lcss sm))\<lparr>local_updates := 0, remote_updates := 0\<rparr> = reverse ?s"
    by (simp add: reverse_def)
  have stop: "(reverse n)\<lparr>local_updates := next_remote_updates sm,
      remote_updates := next_local_updates sm, block_day := block_day (sm_lcss sm)\<rparr> =
      reverse (n\<lparr>local_updates := next_local_updates sm,
        remote_updates := next_remote_updates sm, block_day := block_day (sm_lcss sm)\<rparr>)" for n
    by (simp add: reverse_def)
  show ?thesis
    using fold
    by (cases "rfold (lcss_step C) ?s (sm_uncommitted sm)") (simp_all add: lcss_next_def start stop)
qed

section \<open>Who owns what\<close>

definition ours :: "LastCrossSignedState \<Rightarrow> nat" where
  "ours s = unat (local_balance_msat s) + htlc_sum (outgoing_htlcs s)"

definition theirs :: "LastCrossSignedState \<Rightarrow> nat" where
  "theirs s = unat (remote_balance_msat s) + htlc_sum (incoming_htlcs s)"

lemma take_htlc_mem: "take_htlc i hs = Inr (h, hs') \<Longrightarrow> h \<in> set hs \<and> htlc_id h = i"
  by (drule take_htlc_split) auto

lemma check_preimage_ok: "check_preimage C p h = Inr u \<longleftrightarrow> sha256 C p = htlc_payment_hash h"
  by (simp add: check_preimage_def)

section \<open>Properties\<close>

text \<open>
  C10. Folding the uncommitted updates conserves money: the next state has the same sum of both
  balances and of the HTLCs in flight, and the same channel parameters and refund script.
\<close>

theorem next_state_conserves_funds:
  assumes "lcss_next C sm = Inr n"
  shows "funds n = funds (sm_lcss sm) \<and> init_hosted_channel n = init_hosted_channel (sm_lcss sm) \<and>
     last_refund_scriptpubkey n = last_refund_scriptpubkey (sm_lcss sm) \<and>
     is_host n = is_host (sm_lcss sm)"
proof -
  obtain s where s: "rfold (lcss_step C) ((sm_lcss sm)\<lparr>local_updates := 0, remote_updates := 0\<rparr>)
      (sm_uncommitted sm) = Inr s"
    and n: "init_hosted_channel n = init_hosted_channel s" "is_host n = is_host s"
      "last_refund_scriptpubkey n = last_refund_scriptpubkey s"
    using assms by (auto simp: lcss_next_def rbind_eq_Inr)
  let ?P = "\<lambda>s. init_hosted_channel s = init_hosted_channel (sm_lcss sm) \<and>
     last_refund_scriptpubkey s = last_refund_scriptpubkey (sm_lcss sm) \<and>
     is_host s = is_host (sm_lcss sm)"
  have "?P s"
    by (rule rfold_invariant [OF s]) (auto dest: lcss_step_frame)
  then show ?thesis using n lcss_next_funds [OF assms] by simp
qed

definition sample_htlc :: "bytes \<Rightarrow> u64 \<Rightarrow> u64 \<Rightarrow> UpdateAddHtlc" where
  "sample_htlc preimage i amount =
     \<lparr>htlc_channel_id = replicate 32 1, htlc_id = i, htlc_amount_msat = amount,
      htlc_payment_hash = model_digest preimage, htlc_cltv_expiry = 700,
      htlc_onion_routing_packet = replicate 1366 0, htlc_tlv_stream = []\<rparr>"

definition sample_sm :: StateManager where
  "sample_sm =
     \<lparr>sm_lcss = sample_lcss,
      sm_uncommitted = [Remote (Add (sample_htlc [42] 5 100)), Local (Fulfill [] 5 [42])]\<rparr>"

definition sample_next :: LastCrossSignedState where
  "sample_next = sample_lcss\<lparr>local_balance_msat := 700, remote_balance_msat := 300,
     local_updates := 4, remote_updates := 5\<rparr>"

lemma sample_next_run: "lcss_next model_crypto sample_sm = Inr sample_next"
  by (simp add: lcss_next_def sample_sm_def sample_lcss_def sample_next_def sample_htlc_def
      checked_sub_def checked_add_def take_htlc_def remove_at_def check_preimage_def
      next_local_updates_def next_remote_updates_def)

theorem next_state_conserves_funds_witness:
  "lcss_next model_crypto sample_sm = Inr sample_next \<and> funds sample_next = funds (sm_lcss sample_sm)"
  using next_state_conserves_funds [OF sample_next_run] sample_next_run by simp

text \<open>
  C12. Both parties compute the same next state: the other party, holding the reversed state and
  the same updates with local and remote exchanged, folds them into the reversed next state, or
  fails with the same error.
\<close>

theorem next_state_mirrors:
  "lcss_next C (mirror sm) = rmap reverse (lcss_next C sm)"
  by (rule lcss_next_mirror)

text \<open>
  C11. Ownership moves only by settling an HTLC with its preimage. What a party holds (its balance
  plus the HTLCs it offered) is changed by a single update only when that update fulfils an HTLC
  the other party offered, the hash of the preimage is the HTLC's payment hash, and then by
  exactly the amount of the HTLC.
\<close>

theorem ownership_moves_by_preimage:
  assumes "lcss_step C s u = Inr s'"
  shows "case u of
      Local (Fulfill _ i p) \<Rightarrow> (\<exists>h \<in> set (incoming_htlcs s). htlc_id h = i \<and>
        sha256 C p = htlc_payment_hash h \<and> ours s' = ours s + unat (htlc_amount_msat h) \<and>
        theirs s = theirs s' + unat (htlc_amount_msat h))
    | Remote (Fulfill _ i p) \<Rightarrow> (\<exists>h \<in> set (outgoing_htlcs s). htlc_id h = i \<and>
        sha256 C p = htlc_payment_hash h \<and> theirs s' = theirs s + unat (htlc_amount_msat h) \<and>
        ours s = ours s' + unat (htlc_amount_msat h))
    | _ \<Rightarrow> ours s' = ours s \<and> theirs s' = theirs s"
  using assms
  by (induction C s u rule: lcss_step.induct)
    (fastforce simp: step_inv ours_def theirs_def check_preimage_ok
      dest: checked_sub_Some checked_add_Some take_htlc_sum take_htlc_mem)+

theorem ownership_moves_by_preimage_witness:
  "\<exists>s'. lcss_step model_crypto (sample_lcss\<lparr>incoming_htlcs := [sample_htlc [42] 5 100]\<rparr>)
      (Local (Fulfill [] 5 [42])) = Inr s' \<and>
    (\<exists>h \<in> set [sample_htlc [42] 5 100].
       ours s' = ours sample_lcss + unat (htlc_amount_msat h))"
proof -
  let ?s = "sample_lcss\<lparr>incoming_htlcs := [sample_htlc [42] 5 100]\<rparr>"
  have "lcss_step model_crypto ?s (Local (Fulfill [] 5 [42])) =
      Inr (sample_lcss\<lparr>local_balance_msat := 700, local_updates := 4\<rparr>)"
    by (simp add: sample_lcss_def sample_htlc_def checked_add_def take_htlc_def remove_at_def
        check_preimage_def)
  from ownership_moves_by_preimage [OF this] this show ?thesis
    by (auto simp: ours_def)
qed

text \<open>
  C13. Arithmetic is safe: when the money of the committed state fits 64 bits, no sequence of
  updates makes the fold fail with an overflow; when it also fits the 63-bit wire range, the
  updates are well formed and the HTLC counts fit the wire, the next state is well formed, so it
  can be encoded, hashed and signed.
\<close>

theorem next_state_is_signable:
  assumes "wf_lcss (sm_lcss sm)" and "list_all wf_update (sm_uncommitted sm)"
    and "funds (sm_lcss sm) \<le> unat UINT64_OVERFLOW_MAX"
  shows "lcss_next C sm \<noteq> Inl Overflow \<and>
    (\<forall>n. lcss_next C sm = Inr n \<longrightarrow> length (incoming_htlcs n) \<le> 65535 \<longrightarrow>
       length (outgoing_htlcs n) \<le> 65535 \<longrightarrow> wf_lcss n \<and> (\<exists>n'. sign C sk n = Inr n'))"
proof
  have "funds (sm_lcss sm) < 2 ^ 64"
    using assms(3) by (simp add: UINT64_OVERFLOW_MAX_def)
  then have "rfold (lcss_step C) ((sm_lcss sm)\<lparr>local_updates := 0, remote_updates := 0\<rparr>)
      (sm_uncommitted sm) \<noteq> Inl Overflow"
    by (intro rfold_step_no_overflow) simp
  then show "lcss_next C sm \<noteq> Inl Overflow"
    by (auto simp: lcss_next_def rbind_def split: sum.splits)
next
  show "\<forall>n. lcss_next C sm = Inr n \<longrightarrow> length (incoming_htlcs n) \<le> 65535 \<longrightarrow>
       length (outgoing_htlcs n) \<le> 65535 \<longrightarrow> wf_lcss n \<and> (\<exists>n'. sign C sk n = Inr n')"
    using lcss_next_wf [OF _ assms] sign_ok by blast
qed

lemma sample_wf: "wf_lcss sample_lcss" "wf_state_htlc (sample_htlc p i 100)" if "i \<le> UINT64_OVERFLOW_MAX"
  using that
  by (simp_all add: wf_lcss_def wf_ihc_def sample_lcss_def UINT64_OVERFLOW_MAX_def wf_state_htlc_def
      wf_htlc_def sample_htlc_def model_digest_def ONION_ROUTING_PACKET_SIZE_def htlc_image_def
      writer_defs)

theorem next_state_is_signable_witness:
  "\<exists>n'. sign model_crypto (SecretKey [1]) sample_next = Inr n'"
proof -
  have "funds sample_lcss \<le> unat UINT64_OVERFLOW_MAX"
    by (simp add: funds_def sample_lcss_def UINT64_OVERFLOW_MAX_def)
  then show ?thesis
    using next_state_is_signable [of sample_sm model_crypto "SecretKey [1]"] sample_next_run
      sample_wf [of 5]
    by (simp add: sample_sm_def UINT64_OVERFLOW_MAX_def sample_next_def sample_lcss_def)
qed

end
