(* ===== verification/Config.thy ===== *)
theory Config
  imports Prelude
begin

text \<open>
  Model of \<^verbatim>\<open>src/src/config.rs\<close>: the channel policy, branding, the plugin configuration with its
  validation and colour parsing, and provisioning secrets. The file system and the \<^verbatim>\<open>url\<close> crate
  are parameters. A slice out of bounds or off a character boundary panics in Rust; that is \<open>Inl\<close>
  in \<open>rgb_color\<close>.
\<close>

datatype ConfigError =
    InvalidColor string
  | LogoTooLarge string nat
  | LogoReadError string string
  | InvalidContactUrl string
  | BalanceExceedsCapacity u64 u64

record ChannelPolicy =
  pol_channel_capacity_msat :: u64
  pol_initial_client_balance_msat :: u64
  pol_max_htlc_value_in_flight_msat :: u64
  pol_htlc_minimum_msat :: u64
  pol_max_accepted_htlcs :: u16
  pol_fee_base_msat :: u32
  pol_fee_proportional_millionths :: u32
  pol_cltv_expiry_delta :: u16

definition ChannelPolicy_default :: ChannelPolicy where
  "ChannelPolicy_default =
     \<lparr>pol_channel_capacity_msat = 100000000, pol_initial_client_balance_msat = 0,
      pol_max_htlc_value_in_flight_msat = 100000000, pol_htlc_minimum_msat = 1000,
      pol_max_accepted_htlcs = 12, pol_fee_base_msat = 0,
      pol_fee_proportional_millionths = 1000, pol_cltv_expiry_delta = 6\<rparr>"

record Branding =
  bcfg_contact_url :: "string option"
  bcfg_color :: "string option"
  bcfg_logo_path :: "string option"

record Config =
  cfg_policy :: ChannelPolicy
  cfg_branding :: Branding
  cfg_require_secret :: bool
  cfg_preimage_scan :: bool
  cfg_hsm_secret_path :: string
  cfg_chain_hash :: bytes
  cfg_network :: string

definition Config_default :: Config where
  "Config_default =
     \<lparr>cfg_policy = ChannelPolicy_default,
      cfg_branding = \<lparr>bcfg_contact_url = None, bcfg_color = None, bcfg_logo_path = None\<rparr>,
      cfg_require_secret = True, cfg_preimage_scan = True, cfg_hsm_secret_path = [],
      cfg_chain_hash = replicate 32 0, cfg_network = []\<rparr>"

record ChannelSecret =
  sec_secret :: string
  sec_capacity_msat :: u64
  sec_initial_balance_msat :: u64
  sec_consumed :: bool

section \<open>Validation\<close>

definition hex_digit_val :: "char \<Rightarrow> nat option" where
  "hex_digit_val c =
     (let n = of_char c :: nat in
      if 48 \<le> n \<and> n \<le> 57 then Some (n - 48)
      else if 97 \<le> n \<and> n \<le> 102 then Some (n - 87)
      else if 65 \<le> n \<and> n \<le> 70 then Some (n - 55)
      else None)"

text \<open>The pattern \<open>^#[0-9a-fA-F]{6}$\<close>.\<close>

definition hex_color_match :: "string \<Rightarrow> bool" where
  "hex_color_match s \<longleftrightarrow>
     (case s of [] \<Rightarrow> False
      | c # ds \<Rightarrow> c = CHR ''#'' \<and> length ds = 6 \<and> list_all (\<lambda>d. hex_digit_val d \<noteq> None) ds)"

text \<open>
  \<open>url_ok\<close> is \<open>url::Url::parse(url).is_ok()\<close>; \<open>metadata_len\<close> is the length \<open>std::fs::metadata\<close>
  reports, or its error.
\<close>

definition Config_validate :: "(string \<Rightarrow> bool) \<Rightarrow> (string \<Rightarrow> string + nat) \<Rightarrow> Config \<Rightarrow>
    ConfigError + unit" where
  "Config_validate url_ok metadata_len c =
     (if pol_initial_client_balance_msat (cfg_policy c) > pol_channel_capacity_msat (cfg_policy c)
      then Inl (BalanceExceedsCapacity (pol_initial_client_balance_msat (cfg_policy c))
                  (pol_channel_capacity_msat (cfg_policy c)))
      else
      rbind (case bcfg_color (cfg_branding c) of None \<Rightarrow> Inr ()
             | Some color \<Rightarrow>
                 if \<not> hex_color_match color then Inl (InvalidColor color) else Inr ()) (\<lambda>_.
      rbind (case bcfg_contact_url (cfg_branding c) of None \<Rightarrow> Inr ()
             | Some url \<Rightarrow>
                 if \<not> url_ok url then Inl (InvalidContactUrl url) else Inr ()) (\<lambda>_.
      case bcfg_logo_path (cfg_branding c) of None \<Rightarrow> Inr ()
      | Some path \<Rightarrow>
          (case metadata_len path of Inl e \<Rightarrow> Inl (LogoReadError path e)
           | Inr len \<Rightarrow> if len > 65535 then Inl (LogoTooLarge path len) else Inr ()))))"

text \<open>\<open>u8::from_str_radix(s, 16)\<close> on a two-character string; a leading plus sign is allowed.\<close>

definition hex_pair :: "string \<Rightarrow> u8 option" where
  "hex_pair s =
     (case s of
        [c, d] \<Rightarrow>
          (if c = CHR ''+'' then map_option word_of_nat (hex_digit_val d)
           else case (hex_digit_val c, hex_digit_val d) of
             (Some x, Some y) \<Rightarrow> Some (word_of_nat (x * 16 + y))
           | _ \<Rightarrow> None)
      | _ \<Rightarrow> None)"

definition is_boundary :: "string \<Rightarrow> nat \<Rightarrow> bool" where
  "is_boundary s i \<longleftrightarrow>
     i = length s \<or> (i < length s \<and> \<not> is_cont (word_of_nat (of_char (s ! i))))"

definition str_slice :: "string \<Rightarrow> nat \<Rightarrow> nat \<Rightarrow> unit + string" where
  "str_slice s i j =
     (if i \<le> j \<and> is_boundary s i \<and> is_boundary s j then Inr (take (j - i) (drop i s)) else Inl ())"

definition rgb_color :: "Config \<Rightarrow> unit + bytes option" where
  "rgb_color c =
     (case bcfg_color (cfg_branding c) of None \<Rightarrow> Inr None
      | Some color \<Rightarrow>
          rbind (str_slice color 1 (length color)) (\<lambda>hex.
          rbind (str_slice hex 0 2) (\<lambda>rs. case hex_pair rs of None \<Rightarrow> Inr None | Some r \<Rightarrow>
          rbind (str_slice hex 2 4) (\<lambda>gs. case hex_pair gs of None \<Rightarrow> Inr None | Some g \<Rightarrow>
          rbind (str_slice hex 4 6) (\<lambda>bs. case hex_pair bs of None \<Rightarrow> Inr None | Some b \<Rightarrow>
          Inr (Some [r, g, b]))))))"

definition logo_bytes :: "(string \<Rightarrow> bytes option) \<Rightarrow> Config \<Rightarrow> bytes option" where
  "logo_bytes read_file c =
     (case bcfg_logo_path (cfg_branding c) of None \<Rightarrow> None
      | Some path \<Rightarrow>
          (case read_file path of None \<Rightarrow> None
           | Some data \<Rightarrow> if length data > 65535 then None else Some data))"

section \<open>Lemmas\<close>

lemma hex_digit_ascii: "hex_digit_val c \<noteq> None \<Longrightarrow> c \<noteq> CHR ''+'' \<and> (of_char c :: nat) < 128"
  by (auto simp: hex_digit_val_def Let_def split: if_splits)

lemma hex_digit_not_cont:
  assumes "hex_digit_val c \<noteq> None"
  shows "\<not> is_cont (word_of_nat (of_char c))"
proof -
  have "(of_char c :: nat) < 128" using hex_digit_ascii [OF assms] by simp
  then show ?thesis by (simp add: is_cont_def word_le_nat_alt unat_of_nat)
qed

lemma validate_color:
  assumes "Config_validate u m c = Inr ()"
  shows "case bcfg_color (cfg_branding c) of None \<Rightarrow> True | Some s \<Rightarrow> hex_color_match s"
  using assms
  by (auto simp: Config_validate_def rbind_eq_Inr split: if_splits option.splits)

lemma hex_color_split:
  assumes "hex_color_match s"
  shows "\<exists>a b c d e f. s = [CHR ''#'', a, b, c, d, e, f] \<and>
    hex_digit_val a \<noteq> None \<and> hex_digit_val b \<noteq> None \<and> hex_digit_val c \<noteq> None \<and>
    hex_digit_val d \<noteq> None \<and> hex_digit_val e \<noteq> None \<and> hex_digit_val f \<noteq> None"
  using assms
  by (auto simp: hex_color_match_def eval_nat_numeral length_Suc_conv split: list.splits)

lemma hex_pair_digits:
  "hex_digit_val a \<noteq> None \<Longrightarrow> hex_digit_val b \<noteq> None \<Longrightarrow> \<exists>v. hex_pair [a, b] = Some v"
  using hex_digit_ascii [of a] by (auto simp: hex_pair_def)

section \<open>Properties\<close>

text \<open>
  Parsing the colour of a validated configuration never panics and gives three bytes whenever
  a colour is configured; the initial client balance is at most the capacity, so the unchecked
  subtraction that opens a channel does not wrap for the validated policy.
\<close>

lemma validated_config_is_safe:
  assumes "Config_validate u m c = Inr ()"
  shows "(case bcfg_color (cfg_branding c) of None \<Rightarrow> rgb_color c = Inr None
          | Some _ \<Rightarrow> (\<exists>r g b. rgb_color c = Inr (Some [r, g, b]))) \<and>
    unat (pol_channel_capacity_msat (cfg_policy c) - pol_initial_client_balance_msat (cfg_policy c)) +
      unat (pol_initial_client_balance_msat (cfg_policy c)) =
      unat (pol_channel_capacity_msat (cfg_policy c))"
proof
  show "case bcfg_color (cfg_branding c) of None \<Rightarrow> rgb_color c = Inr None
      | Some _ \<Rightarrow> (\<exists>r g b. rgb_color c = Inr (Some [r, g, b]))"
  proof (cases "bcfg_color (cfg_branding c)")
    case None
    then show ?thesis by (simp add: rgb_color_def)
  next
    case (Some s)
    then obtain a1 a2 b1 b2 c1 c2 where s: "s = [CHR ''#'', a1, a2, b1, b2, c1, c2]"
      and ok: "hex_digit_val a1 \<noteq> None" "hex_digit_val a2 \<noteq> None" "hex_digit_val b1 \<noteq> None"
        "hex_digit_val b2 \<noteq> None" "hex_digit_val c1 \<noteq> None" "hex_digit_val c2 \<noteq> None"
      using validate_color [OF assms] hex_color_split [of s] by auto
    obtain r g b where "hex_pair [a1, a2] = Some r" "hex_pair [b1, b2] = Some g"
        "hex_pair [c1, c2] = Some b"
      using hex_pair_digits ok by meson
    then have "rgb_color c = Inr (Some [r, g, b])"
      using Some s hex_digit_not_cont [OF ok(1)] hex_digit_not_cont [OF ok(3)]
        hex_digit_not_cont [OF ok(5)]
      by (simp add: rgb_color_def str_slice_def is_boundary_def)
    then show ?thesis using Some by simp
  qed
next
  have "pol_initial_client_balance_msat (cfg_policy c) \<le> pol_channel_capacity_msat (cfg_policy c)"
    using assms by (auto simp: Config_validate_def not_less split: if_splits)
  then show "unat (pol_channel_capacity_msat (cfg_policy c) -
      pol_initial_client_balance_msat (cfg_policy c)) +
      unat (pol_initial_client_balance_msat (cfg_policy c)) =
      unat (pol_channel_capacity_msat (cfg_policy c))"
    by (simp add: unat_sub word_le_nat_alt)
qed

end
