(* ===== verification/Store.thy ===== *)
theory Store
  imports Action State Config
begin

text \<open>
  Model of \<^verbatim>\<open>src/src/store.rs\<close>: the persisted records, the \<open>Store\<close> trait as a record of
  operations on a store state, the typed JSON helpers with the bounded compare-and-swap loop, the
  subtree deletion and the in-memory store. Stored values have a type of their own, which stands
  for the JSON bytes; serialisation (\<^verbatim>\<open>serde_json\<close>) is a \<open>serde\<close> parameter. The locale \<open>store_laws\<close>
  is the contract the channel logic relies on; \<open>MemoryStore\<close> is shown to satisfy it.
\<close>

section \<open>Persisted data\<close>

datatype StoreError =
    NotFound "string list"
  | GenerationMismatch u64 u64
  | AlreadyExists "string list"
  | Backend string

record 'v GenerationValue =
  gv_generation :: u64
  gv_bytes :: 'v

record ChannelRoutingPolicy =
  rp_fee_base_msat :: u32
  rp_fee_proportional_millionths :: u32
  rp_cltv_expiry_delta :: u16
  rp_htlc_maximum_msat :: u64

definition from_policy :: "ChannelPolicy \<Rightarrow> ChannelRoutingPolicy" where
  "from_policy p =
     \<lparr>rp_fee_base_msat = pol_fee_base_msat p,
      rp_fee_proportional_millionths = pol_fee_proportional_millionths p,
      rp_cltv_expiry_delta = pol_cltv_expiry_delta p,
      rp_htlc_maximum_msat = pol_channel_capacity_msat p\<rparr>"

record ChannelData =
  cd_lcss :: LastCrossSignedState
  cd_uncommitted :: "UncommittedUpdate list"
  cd_local_errors :: "string list"
  cd_remote_errors :: "string list"
  cd_suspended :: bool
  cd_proposed_override :: "LastCrossSignedState option"
  cd_last_refund_scriptpubkey :: bytes
  cd_established :: bool
  cd_accepting_resize_sat :: "u64 option"
  cd_routing_policy :: "ChannelRoutingPolicy option"
  cd_channel_update_pending :: bool

record ForwardLink =
  fl_incoming_scid :: u64
  fl_incoming_htlc_id :: u64
  fl_outgoing_scid :: u64
  fl_outgoing_htlc_id :: u64
  fl_upstream_cltv_expiry :: "u32 option"
  fl_hosted_commit_deadline_unix :: "u64 option"
  fl_payment_hash :: bytes
  fl_shared_secret :: "bytes option"

record Meta =
  meta_next_ledger_seq :: u64
  meta_current_block_height :: u32

section \<open>The store trait\<close>

type_synonym key = "string list"

record ('st, 'v) store_ops =
  store_get :: "key \<Rightarrow> ('st, StoreError, 'v GenerationValue) action"
  store_exists :: "key \<Rightarrow> ('st, StoreError, bool) action"
  store_create :: "key \<Rightarrow> 'v \<Rightarrow> ('st, StoreError, unit) action"
  store_update :: "key \<Rightarrow> 'v \<Rightarrow> u64 \<Rightarrow> ('st, StoreError, unit) action"
  store_delete :: "key \<Rightarrow> ('st, StoreError, unit) action"
  store_list :: "key \<Rightarrow> ('st, StoreError, key list) action"

text \<open>\<open>serde_json::to_vec\<close> and \<open>from_slice\<close> at one type, with their error texts.\<close>

record ('t, 'v) serde =
  to_vec :: "'t \<Rightarrow> string + 'v"
  from_slice :: "'v \<Rightarrow> string + 't"

text \<open>What is serialised is read back.\<close>

definition serde_ok :: "('t, 'v) serde \<Rightarrow> bool" where
  "serde_ok D \<longleftrightarrow> (\<forall>x v. to_vec D x = Inr v \<longrightarrow> from_slice D v = Inr x)"

section \<open>Typed helpers\<close>

definition map_err :: "('e \<Rightarrow> 'f) \<Rightarrow> 'e + 'a \<Rightarrow> 'f + 'a" where
  "map_err g r = (case r of Inl e \<Rightarrow> Inl (g e) | Inr a \<Rightarrow> Inr a)"

lemma map_err_simps [simp]: "map_err g (Inl e) = Inl (g e)" "map_err g (Inr a) = Inr a"
  by (simp_all add: map_err_def)

lemma map_err_eq_Inr [simp]: "map_err g r = Inr a \<longleftrightarrow> r = Inr a"
  by (cases r) auto

definition get_json :: "('st, 'v) store_ops \<Rightarrow> ('t, 'v) serde \<Rightarrow> key \<Rightarrow>
    ('st, StoreError, 't \<times> u64) action" where
  "get_json S D key =
     abind (store_get S key) (\<lambda>gv.
     abind (alift (map_err (\<lambda>e. Backend (''deserialize error: '' @ e)) (from_slice D (gv_bytes gv))))
       (\<lambda>val. aret (val, gv_generation gv)))"

definition create_json :: "('st, 'v) store_ops \<Rightarrow> ('t, 'v) serde \<Rightarrow> key \<Rightarrow> 't \<Rightarrow>
    ('st, StoreError, unit) action" where
  "create_json S D key value =
     abind (alift (map_err (\<lambda>e. Backend (''serialize error: '' @ e)) (to_vec D value)))
       (\<lambda>bytes. store_create S key bytes)"

definition update_json :: "('st, 'v) store_ops \<Rightarrow> ('t, 'v) serde \<Rightarrow> key \<Rightarrow> 't \<Rightarrow> u64 \<Rightarrow>
    ('st, StoreError, unit) action" where
  "update_json S D key value expected_generation =
     abind (alift (map_err (\<lambda>e. Backend (''serialize error: '' @ e)) (to_vec D value)))
       (\<lambda>bytes. store_update S key bytes expected_generation)"

text \<open>
  \<open>cas_json\<close>: the argument counts the attempts left, from ten. The last attempt returns a
  generation conflict as it is.
\<close>

fun cas_attempts :: "('st, 'v) store_ops \<Rightarrow> ('t, 'v) serde \<Rightarrow> key \<Rightarrow> ('t \<Rightarrow> StoreError + ('r \<times> 't)) \<Rightarrow>
    nat \<Rightarrow> ('st, StoreError, 'r) action" where
  "cas_attempts S D key f 0 = afail (Backend ''CAS retries exhausted'')"
| "cas_attempts S D key f (Suc left) =
     acase (get_json S D key) (\<lambda>r. case r of
       Inl (NotFound _) \<Rightarrow> afail (NotFound key)
     | Inl e \<Rightarrow> afail e
     | Inr (val, gen) \<Rightarrow>
         abind (alift (f val)) (\<lambda>(result, val').
         acase (update_json S D key val' gen) (\<lambda>u. case u of
           Inr _ \<Rightarrow> aret result
         | Inl e \<Rightarrow> (case e of
             GenerationMismatch _ _ \<Rightarrow> if 0 < left then cas_attempts S D key f left else afail e
           | _ \<Rightarrow> afail e))))"

definition cas_json :: "('st, 'v) store_ops \<Rightarrow> ('t, 'v) serde \<Rightarrow> key \<Rightarrow> ('t \<Rightarrow> StoreError + ('r \<times> 't)) \<Rightarrow>
    ('st, StoreError, 'r) action" where
  "cas_json S D key f = cas_attempts S D key f 10"

text \<open>
  \<open>delete_subtree\<close>: a depth-first walk with an explicit stack (its top is the head of the list).
  For an arbitrary store the walk need not end; \<open>None\<close> is not returning.
\<close>

partial_function (option) delete_subtree_loop ::
    "('st, 'v) store_ops \<Rightarrow> (key \<times> bool) list \<Rightarrow> nat \<Rightarrow> 'st \<Rightarrow> ((StoreError + nat) \<times> 'st) option" where
  "delete_subtree_loop S pending deleted st =
     (case pending of [] \<Rightarrow> Some (Inr deleted, st)
      | (key, visited) # rest \<Rightarrow>
          if visited then
            (case store_exists S key st of
               (Inl e, st1) \<Rightarrow> Some (Inl e, st1)
             | (Inr present, st1) \<Rightarrow>
                 if \<not> present then delete_subtree_loop S rest deleted st1
                 else (case store_delete S key st1 of
                     (Inr _, st2) \<Rightarrow> delete_subtree_loop S rest (deleted + 1) st2
                   | (Inl (NotFound _), st2) \<Rightarrow> delete_subtree_loop S rest deleted st2
                   | (Inl e, st2) \<Rightarrow> Some (Inl e, st2)))
          else
            (case store_list S key st of
               (Inl e, st1) \<Rightarrow> Some (Inl e, st1)
             | (Inr children, st1) \<Rightarrow>
                 delete_subtree_loop S
                   (rev (map (\<lambda>child. (child, False)) children) @ (key, True) # rest) deleted st1))"

definition delete_subtree :: "('st, 'v) store_ops \<Rightarrow> key \<Rightarrow> 'st \<Rightarrow> ((StoreError + nat) \<times> 'st) option" where
  "delete_subtree S root st = delete_subtree_loop S [(root, False)] 0 st"

section \<open>The in-memory store\<close>

text \<open>
  A \<open>BTreeMap\<close> is an association list in key order. Keys are joined with slashes.
\<close>

type_synonym 'v MemoryStore = "(string \<times> (u64 \<times> 'v)) list"

fun str_less :: "string \<Rightarrow> string \<Rightarrow> bool" where
  "str_less _ [] = False"
| "str_less [] (_ # _) = True"
| "str_less (a # as) (b # bs) =
     (if (of_char a :: nat) < of_char b then True
      else if (of_char b :: nat) < of_char a then False else str_less as bs)"

fun bt_insert :: "string \<Rightarrow> 'a \<Rightarrow> (string \<times> 'a) list \<Rightarrow> (string \<times> 'a) list" where
  "bt_insert k v [] = [(k, v)]"
| "bt_insert k v ((a, b) # xs) =
     (if str_less k a then (k, v) # (a, b) # xs
      else if k = a then (k, v) # xs
      else (a, b) # bt_insert k v xs)"

definition bt_remove :: "string \<Rightarrow> (string \<times> 'a) list \<Rightarrow> (string \<times> 'a) list" where
  "bt_remove k xs = filter (\<lambda>(a, _). a \<noteq> k) xs"

definition key_to_string :: "key \<Rightarrow> string" where
  "key_to_string k = join_with (CHR ''/'') k"

definition strip_prefix :: "string \<Rightarrow> string \<Rightarrow> string option" where
  "strip_prefix p s = (if take (length p) s = p then Some (drop (length p) s) else None)"

definition mem_get :: "key \<Rightarrow> ('v MemoryStore, StoreError, 'v GenerationValue) action" where
  "mem_get key inner =
     (case map_of inner (key_to_string key) of
        Some (g, b) \<Rightarrow> (Inr \<lparr>gv_generation = g, gv_bytes = b\<rparr>, inner)
      | None \<Rightarrow> (Inl (NotFound key), inner))"

definition mem_exists :: "key \<Rightarrow> ('v MemoryStore, StoreError, bool) action" where
  "mem_exists key inner = (Inr (map_of inner (key_to_string key) \<noteq> None), inner)"

definition mem_create :: "key \<Rightarrow> 'v \<Rightarrow> ('v MemoryStore, StoreError, unit) action" where
  "mem_create key value inner =
     (if map_of inner (key_to_string key) \<noteq> None then (Inl (AlreadyExists key), inner)
      else (Inr (), bt_insert (key_to_string key) (0, value) inner))"

definition mem_update :: "key \<Rightarrow> 'v \<Rightarrow> u64 \<Rightarrow> ('v MemoryStore, StoreError, unit) action" where
  "mem_update key value expected inner =
     (case map_of inner (key_to_string key) of
        Some (g, _) \<Rightarrow>
          if g \<noteq> expected then (Inl (GenerationMismatch expected g), inner)
          else (Inr (), bt_insert (key_to_string key) (g + 1, value) inner)
      | None \<Rightarrow> (Inl (NotFound key), inner))"

definition mem_delete :: "key \<Rightarrow> ('v MemoryStore, StoreError, unit) action" where
  "mem_delete key inner = (Inr (), bt_remove (key_to_string key) inner)"

definition mem_children :: "key \<Rightarrow> 'v MemoryStore \<Rightarrow> key list" where
  "mem_children prefix inner =
     (let prefix_str = (if prefix = [] then [] else key_to_string prefix @ ''/'')
      in foldl (\<lambda>result (k, _).
           case strip_prefix prefix_str k of None \<Rightarrow> result
           | Some rest \<Rightarrow>
               let parts = split_on (CHR ''/'') rest; child = prefix @ [parts ! 0]
               in if child \<in> set result then result else result @ [child]) [] inner)"

definition mem_list :: "key \<Rightarrow> ('v MemoryStore, StoreError, key list) action" where
  "mem_list prefix inner = (Inr (mem_children prefix inner), inner)"

definition memory_store :: "('v MemoryStore, 'v) store_ops" where
  "memory_store =
     \<lparr>store_get = mem_get, store_exists = mem_exists, store_create = mem_create,
      store_update = mem_update, store_delete = mem_delete, store_list = mem_list\<rparr>"

section \<open>The store contract\<close>

text \<open>
  \<open>view\<close> is the content of a store. A read does not change it and reports it; a successful write
  applies it, with the generation counted from zero; a write refused because of the content
  changes nothing; after any other error the write may or may not have happened. A create never
  replaces an entry and an update never replaces one of another generation.
\<close>

definition write_outcome :: "StoreError + unit \<Rightarrow> 'm \<Rightarrow> 'm \<Rightarrow> 'm \<Rightarrow> bool" where
  "write_outcome r before applied after \<longleftrightarrow>
     (case r of Inr _ \<Rightarrow> after = applied
      | Inl (Backend _) \<Rightarrow> after = before \<or> after = applied
      | Inl _ \<Rightarrow> after = before)"

lemma write_outcome_cases: "write_outcome r b a x \<Longrightarrow> x = b \<or> x = a"
  by (auto simp: write_outcome_def split: sum.splits StoreError.splits)

lemma write_outcome_simps [simp]:
  "write_outcome (Inr u) b a x = (x = a)"
  "write_outcome (Inl (AlreadyExists k)) b a x = (x = b)"
  "write_outcome (Inl (NotFound k)) b a x = (x = b)"
  "write_outcome (Inl (GenerationMismatch g h)) b a x = (x = b)"
  by (simp_all add: write_outcome_def)

locale store_laws =
  fixes S :: "('st, 'v) store_ops"
    and view :: "'st \<Rightarrow> key \<Rightarrow> (u64 \<times> 'v) option"
    and good_key :: "key \<Rightarrow> bool"
  assumes get_law: "good_key k \<Longrightarrow> store_get S k st = (r, st') \<Longrightarrow> view st' = view st \<and>
      (case r of Inr gv \<Rightarrow> view st k = Some (gv_generation gv, gv_bytes gv)
       | Inl (NotFound _) \<Rightarrow> view st k = None | Inl _ \<Rightarrow> True)"
    and exists_law: "good_key k \<Longrightarrow> store_exists S k st = (rb, st') \<Longrightarrow> view st' = view st \<and>
      (\<forall>b. rb = Inr b \<longrightarrow> b = (view st k \<noteq> None))"
    and create_law: "good_key k \<Longrightarrow> store_create S k v st = (ru, st') \<Longrightarrow>
      write_outcome ru (view st) ((view st)(k \<mapsto> (0, v))) (view st') \<and>
      (ru = Inr () \<longrightarrow> view st k = None) \<and> (\<forall>k'. ru = Inl (AlreadyExists k') \<longrightarrow> view st k \<noteq> None) \<and>
      (view st k \<noteq> None \<longrightarrow> view st' = view st)"
    and update_law: "good_key k \<Longrightarrow> store_update S k v g st = (ru, st') \<Longrightarrow>
      write_outcome ru (view st) ((view st)(k \<mapsto> (g + 1, v))) (view st') \<and>
      (ru = Inr () \<longrightarrow> (\<exists>old. view st k = Some (g, old))) \<and>
      ((\<nexists>old. view st k = Some (g, old)) \<longrightarrow> view st' = view st)"
    and delete_law: "good_key k \<Longrightarrow> store_delete S k st = (ru, st') \<Longrightarrow>
      write_outcome ru (view st) ((view st)(k := None)) (view st')"
    and list_law: "(p \<noteq> [] \<Longrightarrow> good_key p) \<Longrightarrow> store_list S p st = (rl, st') \<Longrightarrow> view st' = view st \<and>
      (\<forall>ks. rl = Inr ks \<longrightarrow> set ks = {take (Suc (length p)) k | k.
         view st k \<noteq> None \<and> take (length p) k = p \<and> length p < length k})"
    and view_law: "view st k \<noteq> None \<Longrightarrow> good_key k"
begin

lemma get_json_law:
  assumes "good_key k" and "get_json S D k st = (r, st')"
  shows "view st' = view st \<and>
    (case r of Inr (x, g) \<Rightarrow> \<exists>v. view st k = Some (g, v) \<and> from_slice D v = Inr x
     | Inl (NotFound _) \<Rightarrow> view st k = None | Inl _ \<Rightarrow> True)"
proof (cases "store_get S k st")
  case (Pair r1 st1)
  with get_law [OF assms(1) Pair] assms(2) show ?thesis
    by (cases r1) (auto simp: get_json_def abind_run map_err_def split: sum.splits StoreError.splits)
qed

lemma create_json_law:
  assumes "good_key k" and "create_json S D k x st = (r, st')"
  shows "(view st' = view st \<or> (\<exists>v. to_vec D x = Inr v \<and> view st' = (view st)(k \<mapsto> (0, v)))) \<and>
    (r = Inr () \<longrightarrow> view st k = None \<and> (\<exists>v. to_vec D x = Inr v \<and> view st' = (view st)(k \<mapsto> (0, v)))) \<and>
    (\<forall>k'. r = Inl (AlreadyExists k') \<longrightarrow> view st k \<noteq> None \<and> view st' = view st)"
proof (cases "to_vec D x")
  case (Inl e)
  then show ?thesis using assms(2) by (auto simp: create_json_def abind_run)
next
  case (Inr v)
  then have "store_create S k v st = (r, st')"
    using assms(2) by (auto simp: create_json_def abind_run)
  note law = create_law [OF assms(1) this]
  show ?thesis using law write_outcome_cases [OF conjunct1 [OF law]] Inr by auto
qed

lemma update_json_law:
  assumes "good_key k" and "update_json S D k x g st = (r, st')"
  shows "(view st' = view st \<or> (\<exists>v. to_vec D x = Inr v \<and> view st' = (view st)(k \<mapsto> (g + 1, v)))) \<and>
    (r = Inr () \<longrightarrow> (\<exists>v. to_vec D x = Inr v \<and> view st' = (view st)(k \<mapsto> (g + 1, v))))"
proof (cases "to_vec D x")
  case (Inl e)
  then show ?thesis using assms(2) by (auto simp: update_json_def abind_run)
next
  case (Inr v)
  then have "store_update S k v g st = (r, st')"
    using assms(2) by (auto simp: update_json_def abind_run)
  note law = update_law [OF assms(1) this]
  show ?thesis using law write_outcome_cases [OF conjunct1 [OF law]] Inr by auto
qed

end

section \<open>The in-memory store satisfies the contract\<close>

definition good_key :: "key \<Rightarrow> bool" where
  "good_key k \<longleftrightarrow> k \<noteq> [] \<and> (\<forall>p \<in> set k. CHR ''/'' \<notin> set p)"

definition mem_view :: "'v MemoryStore \<Rightarrow> key \<Rightarrow> (u64 \<times> 'v) option" where
  "mem_view inner k = (if good_key k then map_of inner (key_to_string k) else None)"

lemma map_of_bt_insert [simp]: "map_of (bt_insert k v xs) = (map_of xs)(k \<mapsto> v)"
  by (induction k v xs rule: bt_insert.induct) auto

lemma map_of_bt_remove [simp]: "map_of (bt_remove k xs) = (map_of xs)(k := None)"
  by (induction xs) (auto simp: bt_remove_def)

lemma key_to_string_inj:
  "good_key k \<Longrightarrow> good_key k' \<Longrightarrow> key_to_string k = key_to_string k' \<longleftrightarrow> k = k'"
  unfolding good_key_def key_to_string_def by (metis split_join)

lemma good_key_split: "good_key (split_on CHR ''/'' s)"
  using split_on_parts by (auto simp: good_key_def)

lemma key_to_string_split: "key_to_string (split_on CHR ''/'' s) = s"
  by (simp add: key_to_string_def join_split)

lemma mem_view_upd:
  "good_key k \<Longrightarrow> mem_view (bt_insert (key_to_string k) e inner) = (mem_view inner)(k \<mapsto> e)"
  "good_key k \<Longrightarrow> mem_view (bt_remove (key_to_string k) inner) = (mem_view inner)(k := None)"
  by (auto simp: mem_view_def fun_eq_iff key_to_string_inj)

lemma mem_children_foldl:
  "set (foldl (\<lambda>result (k, _).
      case strip_prefix ps k of None \<Rightarrow> result
      | Some rest \<Rightarrow> let parts = split_on (CHR ''/'') rest; child = p @ [parts ! 0]
          in if child \<in> set result then result else result @ [child]) acc inner) =
   set acc \<union> {p @ [split_on (CHR ''/'') rest ! 0] | k rest. k \<in> fst ` set inner \<and>
     strip_prefix ps k = Some rest}"
proof (induction inner arbitrary: acc)
  case (Cons x xs)
  obtain k e where x: "x = (k, e)" by (cases x)
  show ?case
    unfolding foldl.simps x by (subst Cons) (auto simp: Let_def split: option.splits)
qed simp

lemma strip_prefix_Some: "strip_prefix p s = Some r \<longleftrightarrow> s = p @ r"
  by (auto simp: strip_prefix_def) (metis append_take_drop_id)

lemma child_of_key:
  assumes "p \<noteq> [] \<Longrightarrow> good_key p" and "good_key k"
  shows "strip_prefix (if p = [] then [] else key_to_string p @ ''/'') (key_to_string k) = Some rest \<longleftrightarrow>
    take (length p) k = p \<and> length p < length k \<and> rest = key_to_string (drop (length p) k)"
    (is "?lhs = ?rhs")
proof (cases "p = []")
  case True
  then show ?thesis using assms(2) by (auto simp: strip_prefix_Some good_key_def)
next
  case False
  show ?thesis
  proof
    assume ?lhs
    then have "key_to_string k = key_to_string (p @ split_on CHR ''/'' rest)"
      using False by (simp add: strip_prefix_Some key_to_string_def join_append join_split)
    moreover have "good_key (p @ split_on CHR ''/'' rest)"
      using assms(1) False good_key_split [of rest] by (auto simp: good_key_def)
    ultimately have "k = p @ split_on CHR ''/'' rest"
      using assms(2) key_to_string_inj by blast
    then show ?rhs by (simp add: key_to_string_split)
  next
    assume r: ?rhs
    then have "k = p @ drop (length p) k" "drop (length p) k \<noteq> []"
      by (metis append_take_drop_id, simp)
    then have "key_to_string k = key_to_string p @ CHR ''/'' # key_to_string (drop (length p) k)"
      using False join_append [of p "drop (length p) k"] by (metis key_to_string_def)
    then show ?lhs using r False by (simp add: strip_prefix_Some)
  qed
qed

lemma good_key_drop: "good_key k \<Longrightarrow> n < length k \<Longrightarrow> good_key (drop n k)"
  by (auto simp: good_key_def dest: in_set_dropD)

lemma split_key_to_string: "good_key k \<Longrightarrow> split_on CHR ''/'' (key_to_string k) = k"
  by (simp add: good_key_def key_to_string_def split_join)

lemma child_is_take:
  assumes "good_key k" and "take (length p) k = p" and "length p < length k"
  shows "p @ [split_on CHR ''/'' (key_to_string (drop (length p) k)) ! 0] = take (Suc (length p)) k"
  using assms split_key_to_string [OF good_key_drop [OF assms(1,3)]]
  by (simp add: take_Suc_conv_app_nth)

lemma mem_view_dom: "(mem_view inner k \<noteq> None) = (good_key k \<and> key_to_string k \<in> fst ` set inner)"
  by (simp add: mem_view_def map_of_eq_None_iff del: not_None_eq)

lemma mem_children_set:
  assumes "p \<noteq> [] \<Longrightarrow> good_key p"
  shows "set (mem_children p inner) = {take (Suc (length p)) k | k.
    mem_view inner k \<noteq> None \<and> take (length p) k = p \<and> length p < length k}" (is "?L = ?R")
proof -
  let ?ps = "if p = [] then [] else key_to_string p @ ''/''"
  have L: "?L = {p @ [split_on (CHR ''/'') rest ! 0] | s rest. s \<in> fst ` set inner \<and>
      strip_prefix ?ps s = Some rest}"
    by (simp add: mem_children_def mem_children_foldl del: if_split)
  show ?thesis
  proof
    show "?L \<subseteq> ?R"
    proof
      fix c assume "c \<in> ?L"
      then obtain s rest where c: "c = p @ [split_on (CHR ''/'') rest ! 0]"
        and s: "s \<in> fst ` set inner" and sp: "strip_prefix ?ps s = Some rest"
        unfolding L by blast
      let ?k = "split_on CHR ''/'' s"
      have "take (length p) ?k = p \<and> length p < length ?k \<and> rest = key_to_string (drop (length p) ?k)"
        using child_of_key [OF assms good_key_split [of s], of rest] sp
        unfolding key_to_string_split by blast
      moreover have "mem_view inner ?k \<noteq> None"
        using s by (simp add: mem_view_dom good_key_split key_to_string_split del: not_None_eq)
      ultimately show "c \<in> ?R"
        using c child_is_take [OF good_key_split [of s], of p] by (intro CollectI exI [of _ ?k]) simp
    qed
    show "?R \<subseteq> ?L"
    proof
      fix c assume "c \<in> ?R"
      then obtain k where c: "c = take (Suc (length p)) k" and v: "mem_view inner k \<noteq> None"
        and k: "take (length p) k = p" "length p < length k" by blast
      have g: "good_key k" and s: "key_to_string k \<in> fst ` set inner"
        using v mem_view_dom by blast+
      let ?r = "key_to_string (drop (length p) k)"
      have "strip_prefix ?ps (key_to_string k) = Some ?r"
        using child_of_key [OF assms g, of ?r] k by (simp del: if_split)
      moreover have "c = p @ [split_on (CHR ''/'') ?r ! 0]"
        using child_is_take [OF g k] c by simp
      ultimately show "c \<in> ?L" unfolding L using s by blast
    qed
  qed
qed

text \<open>A lawful store for the keys the program uses: paths whose components contain no slash.\<close>

locale keyed_store = store_laws S view good_key
  for S :: "('st, 'v) store_ops" and view :: "'st \<Rightarrow> key \<Rightarrow> (u64 \<times> 'v) option"

interpretation mem: keyed_store memory_store mem_view
proof unfold_locales
  fix k :: key and st st' :: "'v MemoryStore" and r
  assume "good_key k" "store_get memory_store k st = (r, st')"
  then show "mem_view st' = mem_view st \<and>
      (case r of Inr gv \<Rightarrow> mem_view st k = Some (gv_generation gv, gv_bytes gv)
       | Inl (NotFound _) \<Rightarrow> mem_view st k = None | Inl _ \<Rightarrow> True)"
    by (auto simp: memory_store_def mem_get_def mem_view_def split: option.splits)
next
  fix k :: key and st st' :: "'v MemoryStore" and rb
  assume "good_key k" "store_exists memory_store k st = (rb, st')"
  then show "mem_view st' = mem_view st \<and> (\<forall>b. rb = Inr b \<longrightarrow> b = (mem_view st k \<noteq> None))"
    by (auto simp: memory_store_def mem_exists_def mem_view_def)
next
  fix k :: key and v and st st' :: "'v MemoryStore" and ru
  assume "good_key k" "store_create memory_store k v st = (ru, st')"
  then show "write_outcome ru (mem_view st) ((mem_view st)(k \<mapsto> (0, v))) (mem_view st') \<and>
      (ru = Inr () \<longrightarrow> mem_view st k = None) \<and>
      (\<forall>k'. ru = Inl (AlreadyExists k') \<longrightarrow> mem_view st k \<noteq> None) \<and>
      (mem_view st k \<noteq> None \<longrightarrow> mem_view st' = mem_view st)"
    by (cases "map_of st (key_to_string k)")
      (auto simp: memory_store_def mem_create_def mem_view_upd, auto simp: mem_view_def)
next
  fix k :: key and v g and st st' :: "'v MemoryStore" and ru
  assume "good_key k" "store_update memory_store k v g st = (ru, st')"
  then show "write_outcome ru (mem_view st) ((mem_view st)(k \<mapsto> (g + 1, v))) (mem_view st') \<and>
      (ru = Inr () \<longrightarrow> (\<exists>old. mem_view st k = Some (g, old))) \<and>
      ((\<nexists>old. mem_view st k = Some (g, old)) \<longrightarrow> mem_view st' = mem_view st)"
    by (auto simp: memory_store_def mem_update_def mem_view_upd split: if_splits option.splits)
      (auto simp: mem_view_def)
next
  fix k :: key and st st' :: "'v MemoryStore" and ru
  assume "good_key k" "store_delete memory_store k st = (ru, st')"
  then show "write_outcome ru (mem_view st) ((mem_view st)(k := None)) (mem_view st')"
    by (auto simp: memory_store_def mem_delete_def mem_view_upd)
next
  fix p :: key and st st' :: "'v MemoryStore" and rl
  assume "p \<noteq> [] \<Longrightarrow> good_key p" "store_list memory_store p st = (rl, st')"
  then show "mem_view st' = mem_view st \<and> (\<forall>ks. rl = Inr ks \<longrightarrow> set ks =
      {take (Suc (length p)) k | k. mem_view st k \<noteq> None \<and> take (length p) k = p \<and> length p < length k})"
    using mem_children_set [of p st] by (auto simp: memory_store_def mem_list_def)
next
  fix k :: key and st :: "'v MemoryStore"
  assume "mem_view st k \<noteq> None"
  then show "good_key k" by (simp add: mem_view_def split: if_splits)
qed

end
