(* ===== verification/Node.thy ===== *)
theory Node
  imports Action External
begin

text \<open>
  Model of \<^verbatim>\<open>src/src/node.rs\<close>: the \<open>NodeActions\<close> trait as a record of operations on the state of
  the outside world, and the recording \<open>MockNode\<close>. The notification call, which nothing in the
  channel logic uses, is left out.
\<close>

datatype NodeError = Rpc string | NodeNotFound string | Io string

datatype PaymentStatus = Succeeded bytes | Failed bytes | Pending | Unknown

datatype HtlcResolution =
    Resolve bytes
  | ResolveFail bytes
  | FailMessage u16 bytes
  | Continue

record SendOnionParams =
  sop_onion :: bytes
  sop_payment_hash :: bytes
  sop_first_scid :: u64
  sop_first_amount_msat :: u64
  sop_first_delay :: u16
  sop_label :: string
  sop_group_id :: u64
  sop_part_id :: u64

record NodeInfo =
  ni_network :: string
  ni_chain_hash :: bytes
  ni_block_height :: u32
  ni_our_pubkey :: PublicKey

record 'nd node_ops =
  node_send_custom_msg :: "PublicKey \<Rightarrow> bytes \<Rightarrow> ('nd, NodeError, unit) action"
  node_send_onion :: "SendOnionParams \<Rightarrow> ('nd, NodeError, unit) action"
  node_inspect_outgoing_payment :: "bytes \<Rightarrow> string \<Rightarrow> ('nd, NodeError, PaymentStatus) action"
  node_get_block_height :: "('nd, NodeError, u32) action"
  node_get_raw_block_by_height :: "u32 \<Rightarrow> ('nd, NodeError, string) action"
  node_new_address :: "('nd, NodeError, string) action"
  node_resolve_htlc :: "string \<Rightarrow> HtlcResolution \<Rightarrow> ('nd, NodeError, unit) action"
  node_get_info :: "('nd, NodeError, NodeInfo) action"
  node_store_preimage :: "bytes \<Rightarrow> bytes \<Rightarrow> ('nd, NodeError, unit) action"
  node_lookup_preimage :: "bytes \<Rightarrow> ('nd, NodeError, bytes option) action"
  node_delete_preimage :: "bytes \<Rightarrow> ('nd, NodeError, unit) action"

section \<open>The mock node\<close>

record MockNode =
  mn_sent_messages :: "(PublicKey \<times> bytes) list"
  mn_sent_onions :: "SendOnionParams list"
  mn_block_height :: u32
  mn_preimages :: "bytes \<rightharpoonup> bytes"
  mn_htlc_resolutions :: "(string \<times> HtlcResolution) list"
  mn_payment_results :: "string \<rightharpoonup> PaymentStatus"
  mn_send_onion_error :: "string option"
  mn_send_custom_msg_error :: "string option"
  mn_send_custom_msg_fail_after :: "(nat \<times> string) option"
  mn_node_info :: "NodeInfo option"
  mn_raw_blocks :: "u32 \<rightharpoonup> string"

definition MockNode_new :: "u32 \<Rightarrow> PublicKey \<Rightarrow> string \<Rightarrow> MockNode" where
  "MockNode_new height our_pubkey network =
     \<lparr>mn_sent_messages = [], mn_sent_onions = [], mn_block_height = height,
      mn_preimages = Map.empty, mn_htlc_resolutions = [], mn_payment_results = Map.empty,
      mn_send_onion_error = None, mn_send_custom_msg_error = None,
      mn_send_custom_msg_fail_after = None,
      mn_node_info = Some \<lparr>ni_network = network, ni_chain_hash = replicate 32 0,
        ni_block_height = height, ni_our_pubkey = our_pubkey\<rparr>,
      mn_raw_blocks = Map.empty\<rparr>"

definition mock_send_custom_msg :: "PublicKey \<Rightarrow> bytes \<Rightarrow> (MockNode, NodeError, unit) action" where
  "mock_send_custom_msg peer msg n =
     (case mn_send_custom_msg_error n of
        Some message \<Rightarrow> (Inl (Rpc message), n\<lparr>mn_send_custom_msg_error := None\<rparr>)
      | None \<Rightarrow>
          (case mn_send_custom_msg_fail_after n of
             Some (0, message) \<Rightarrow>
               (Inl (Rpc message), n\<lparr>mn_send_custom_msg_fail_after := None\<rparr>)
           | Some (Suc successes, message) \<Rightarrow>
               (Inr (), n\<lparr>mn_send_custom_msg_fail_after := Some (successes, message),
                          mn_sent_messages := mn_sent_messages n @ [(peer, msg)]\<rparr>)
           | None \<Rightarrow> (Inr (), n\<lparr>mn_sent_messages := mn_sent_messages n @ [(peer, msg)]\<rparr>)))"

definition mock_send_onion :: "SendOnionParams \<Rightarrow> (MockNode, NodeError, unit) action" where
  "mock_send_onion p n =
     (case mn_send_onion_error n of
        Some message \<Rightarrow> (Inl (Rpc message), n\<lparr>mn_send_onion_error := None\<rparr>)
      | None \<Rightarrow> (Inr (), n\<lparr>mn_sent_onions := mn_sent_onions n @ [p]\<rparr>))"

definition mock_inspect_outgoing_payment :: "bytes \<Rightarrow> string \<Rightarrow>
    (MockNode, NodeError, PaymentStatus) action" where
  "mock_inspect_outgoing_payment payment_hash label n =
     (case mn_payment_results n label of Some s \<Rightarrow> (Inr s, n) | None \<Rightarrow> (Inr Unknown, n))"

definition mock_get_block_height :: "(MockNode, NodeError, u32) action" where
  "mock_get_block_height n = (Inr (mn_block_height n), n)"

definition mock_get_raw_block_by_height :: "u32 \<Rightarrow> (MockNode, NodeError, string) action" where
  "mock_get_raw_block_by_height height n =
     (ok_or (mn_raw_blocks n height)
        (NodeNotFound (''raw block at height '' @ dec_nat (unat height))), n)"

definition mock_new_address :: "(MockNode, NodeError, string) action" where
  "mock_new_address n = (Inr ''bc1qmockaddress'', n)"

definition mock_resolve_htlc :: "string \<Rightarrow> HtlcResolution \<Rightarrow> (MockNode, NodeError, unit) action" where
  "mock_resolve_htlc result_key resolution n =
     (Inr (), n\<lparr>mn_htlc_resolutions := mn_htlc_resolutions n @ [(result_key, resolution)]\<rparr>)"

definition mock_get_info :: "(MockNode, NodeError, NodeInfo) action" where
  "mock_get_info n = (ok_or (mn_node_info n) (NodeNotFound ''node_info''), n)"

definition mock_store_preimage :: "bytes \<Rightarrow> bytes \<Rightarrow> (MockNode, NodeError, unit) action" where
  "mock_store_preimage payment_hash preimage n =
     (Inr (), n\<lparr>mn_preimages := (mn_preimages n)(payment_hash \<mapsto> preimage)\<rparr>)"

definition mock_lookup_preimage :: "bytes \<Rightarrow> (MockNode, NodeError, bytes option) action" where
  "mock_lookup_preimage payment_hash n = (Inr (mn_preimages n payment_hash), n)"

definition mock_delete_preimage :: "bytes \<Rightarrow> (MockNode, NodeError, unit) action" where
  "mock_delete_preimage payment_hash n =
     (Inr (), n\<lparr>mn_preimages := (mn_preimages n)(payment_hash := None)\<rparr>)"

definition mock_node :: "MockNode node_ops" where
  "mock_node =
     \<lparr>node_send_custom_msg = mock_send_custom_msg, node_send_onion = mock_send_onion,
      node_inspect_outgoing_payment = mock_inspect_outgoing_payment,
      node_get_block_height = mock_get_block_height,
      node_get_raw_block_by_height = mock_get_raw_block_by_height,
      node_new_address = mock_new_address, node_resolve_htlc = mock_resolve_htlc,
      node_get_info = mock_get_info, node_store_preimage = mock_store_preimage,
      node_lookup_preimage = mock_lookup_preimage, node_delete_preimage = mock_delete_preimage\<rparr>"

lemma mock_node_sel [simp]:
  "node_send_custom_msg mock_node = mock_send_custom_msg"
  "node_send_onion mock_node = mock_send_onion"
  "node_get_block_height mock_node = mock_get_block_height"
  "node_get_raw_block_by_height mock_node = mock_get_raw_block_by_height"
  "node_resolve_htlc mock_node = mock_resolve_htlc"
  "node_store_preimage mock_node = mock_store_preimage"
  "node_lookup_preimage mock_node = mock_lookup_preimage"
  "node_inspect_outgoing_payment mock_node = mock_inspect_outgoing_payment"
  by (simp_all add: mock_node_def)

section \<open>The preimage store of a node\<close>

text \<open>
  What the channel logic relies on when it saves a preimage before it answers: a preimage that was
  stored is found again, and other preimages stay as they were.
\<close>

locale preimage_store =
  fixes N :: "'nd node_ops" and known :: "'nd \<Rightarrow> bytes \<rightharpoonup> bytes"
  assumes store_law: "node_store_preimage N h p nd = (Inr (), nd') \<Longrightarrow> known nd' = (known nd)(h \<mapsto> p)"
    and lookup_law: "node_lookup_preimage N h nd = (Inr q, nd'') \<Longrightarrow> known nd'' = known nd \<and> q = known nd h"
begin

lemma stored_is_found:
  "node_store_preimage N h p nd = (Inr (), nd1) \<Longrightarrow> node_lookup_preimage N h nd1 = (Inr q, nd2) \<Longrightarrow>
     q = Some p"
  using store_law lookup_law by fastforce

end

interpretation mock: preimage_store mock_node mn_preimages
  by unfold_locales (auto simp: mock_store_preimage_def mock_lookup_preimage_def)

end
