(* ===== verification/Ledger.thy ===== *)
theory Ledger
  imports Store
begin

text \<open>
  Model of \<^verbatim>\<open>src/src/ledger.rs\<close>: ledger events, the sequence counter in the meta record, the
  record-once marker and the queries. The wall clock the source reads is an argument (\<open>now\<close>, zero
  when the clock is before the epoch). Serialisers of the stored types are parameters.
\<close>

datatype LedgerEventType =
    ChannelOpen | HtlcForwarded | HtlcFulfilled | HtlcFailed | Override | Resize | FeeEarned

record LedgerEvent =
  le_seq :: u64
  le_event_id :: "string option"
  le_peer_pubkey :: string
  le_event_type :: LedgerEventType
  le_amount_msat :: u64
  le_fee_msat :: u64
  le_payment_hash :: "string option"
  le_timestamp :: u64

record ('st, 'v) ledger_env =
  lg_store :: "('st, 'v) store_ops"
  lg_hex_encode :: "bytes \<Rightarrow> string"
  lg_meta :: "(Meta, 'v) serde"
  lg_event :: "(LedgerEvent, 'v) serde"
  lg_marker :: "(bool, 'v) serde"

definition meta_key :: key where
  "meta_key = [''canopus'', ''meta'']"

definition ledger_key :: "u64 \<Rightarrow> key" where
  "ledger_key seq = [''canopus'', ''ledger'', dec_nat (unat seq)]"

definition marker_key :: "string \<Rightarrow> key" where
  "marker_key event_id = [''canopus'', ''ledger_event_ids'', event_id]"

definition record_inner :: "('st, 'v) ledger_env \<Rightarrow> u64 \<Rightarrow> string \<Rightarrow> LedgerEventType \<Rightarrow> u64 \<Rightarrow> u64 \<Rightarrow>
    bytes option \<Rightarrow> string option \<Rightarrow> ('st, StoreError, unit) action" where
  "record_inner L now peer_pubkey event_type amount_msat fee_msat payment_hash event_id =
     abind
       (acase (get_json (lg_store L) (lg_meta L) meta_key) (\<lambda>r. case r of
          Inr (m, g) \<Rightarrow> aret (m, g)
        | Inl (NotFound _) \<Rightarrow>
            (let meta = \<lparr>meta_next_ledger_seq = 0, meta_current_block_height = 0\<rparr> in
             abind (create_json (lg_store L) (lg_meta L) meta_key meta) (\<lambda>_. aret (meta, 0)))
        | Inl e \<Rightarrow> afail e))
       (\<lambda>(meta, gen).
     let seq = meta_next_ledger_seq meta in
     abind (update_json (lg_store L) (lg_meta L) meta_key
             (meta\<lparr>meta_next_ledger_seq := seq + 1\<rparr>) gen) (\<lambda>_.
     create_json (lg_store L) (lg_event L) (ledger_key seq)
       \<lparr>le_seq = seq, le_event_id = event_id, le_peer_pubkey = peer_pubkey,
        le_event_type = event_type, le_amount_msat = amount_msat, le_fee_msat = fee_msat,
        le_payment_hash = map_option (lg_hex_encode L) payment_hash, le_timestamp = now\<rparr>))"

definition ledger_record :: "('st, 'v) ledger_env \<Rightarrow> u64 \<Rightarrow> string \<Rightarrow> LedgerEventType \<Rightarrow> u64 \<Rightarrow> u64 \<Rightarrow>
    bytes option \<Rightarrow> ('st, StoreError, unit) action" where
  "ledger_record L now peer_pubkey event_type amount_msat fee_msat payment_hash =
     record_inner L now peer_pubkey event_type amount_msat fee_msat payment_hash None"

definition record_once :: "('st, 'v) ledger_env \<Rightarrow> u64 \<Rightarrow> string \<Rightarrow> string \<Rightarrow> LedgerEventType \<Rightarrow> u64 \<Rightarrow>
    u64 \<Rightarrow> bytes option \<Rightarrow> ('st, StoreError, unit) action" where
  "record_once L now event_id peer_pubkey event_type amount_msat fee_msat payment_hash =
     abind (store_exists (lg_store L) (marker_key event_id)) (\<lambda>present.
     if present then aret ()
     else abind (record_inner L now peer_pubkey event_type amount_msat fee_msat payment_hash
                   (Some event_id)) (\<lambda>_.
       acase (create_json (lg_store L) (lg_marker L) (marker_key event_id) True) (\<lambda>r. case r of
         Inr _ \<Rightarrow> aret ()
       | Inl (AlreadyExists _) \<Rightarrow> aret ()
       | Inl e \<Rightarrow> afail e)))"

definition list_events :: "('st, 'v) ledger_env \<Rightarrow> string option \<Rightarrow>
    ('st, StoreError, LedgerEvent list) action" where
  "list_events L peer_pubkey =
     abind (store_list (lg_store L) [''canopus'', ''ledger'']) (\<lambda>children.
     abind (acollect children (\<lambda>child.
              acase (get_json (lg_store L) (lg_event L) child) (\<lambda>r. case r of
                Inl _ \<Rightarrow> aret None
              | Inr (event, _) \<Rightarrow>
                  (case peer_pubkey of
                     Some pk \<Rightarrow> aret (if le_peer_pubkey event \<noteq> pk then None else Some event)
                   | None \<Rightarrow> aret (Some event)))))
       (\<lambda>events. aret (sort_key (\<lambda>e. unat (le_seq e)) events)))"

definition balance_step :: "u64 \<Rightarrow> LedgerEvent \<Rightarrow> u64" where
  "balance_step balance event =
     (case le_event_type event of
        ChannelOpen \<Rightarrow> saturating_add balance (le_amount_msat event)
      | HtlcFulfilled \<Rightarrow> saturating_add balance (le_amount_msat event)
      | HtlcForwarded \<Rightarrow> saturating_sub balance (le_amount_msat event)
      | FeeEarned \<Rightarrow> saturating_add balance (le_fee_msat event)
      | _ \<Rightarrow> balance)"

definition channel_balance :: "('st, 'v) ledger_env \<Rightarrow> string \<Rightarrow> ('st, StoreError, u64) action" where
  "channel_balance L peer_pubkey =
     abind (list_events L (Some peer_pubkey)) (\<lambda>events. aret (foldl balance_step 0 events))"

section \<open>Keys\<close>

lemma good_ledger_keys [simp]:
  "good_key meta_key" "good_key (ledger_key seq)"
  "CHR ''/'' \<notin> set event_id \<Longrightarrow> good_key (marker_key event_id)"
  using dec_nat_no_sep(2) by (auto simp: good_key_def meta_key_def ledger_key_def marker_key_def)

lemma ledger_keys_distinct [simp]:
  "meta_key \<noteq> ledger_key seq" "ledger_key seq \<noteq> meta_key"
  "marker_key e \<noteq> meta_key" "marker_key e \<noteq> ledger_key seq"
  by (simp_all add: meta_key_def ledger_key_def marker_key_def)

text \<open>A key the ledger writes.\<close>

definition is_ledger_key :: "key \<Rightarrow> bool" where
  "is_ledger_key k \<longleftrightarrow> k = meta_key \<or> (\<exists>s. k = ledger_key s) \<or> (\<exists>e. k = marker_key e)"

section \<open>What recording changes\<close>

text \<open>
  The contract of a lawful store that the ledger uses, and what the ledger gives on top of it.
\<close>

context keyed_store
begin

lemma create_json_keeps:
  assumes "good_key k" and "k' \<noteq> k \<or> x \<noteq> None"
  shows "maintains (\<lambda>st. view st k' = x) (create_json S D k v) (\<lambda>_. True)"
proof (rule maintainsI)
  fix st r st' assume ok: "view st k' = x" and run: "create_json S D k v st = (r, st')"
  have "view st' k' = view st k'"
  proof (cases "k' = k")
    case True
    then show ?thesis
      using assms(2) ok run create_law [OF assms(1), of "projr (to_vec D v)" st r st']
      by (cases "to_vec D v") (auto simp: create_json_def abind_run)
  qed (use create_json_law [OF assms(1) run] in auto)
  then show "view st' k' = x \<and> (\<forall>a. r = Inr a \<longrightarrow> True)" using ok by simp
qed

lemma update_json_keeps:
  assumes "good_key k" and "k' \<noteq> k"
  shows "maintains (\<lambda>st. view st k' = x) (update_json S D k v g) (\<lambda>_. True)"
  by (rule maintainsI) (use update_json_law [OF assms(1)] assms(2) in fastforce)

lemma get_json_keeps: "good_key k \<Longrightarrow> maintains (\<lambda>st. view st k' = x) (get_json S D k) (\<lambda>_. True)"
  by (rule maintainsI) (use get_json_law in fastforce)

lemma exists_keeps: "good_key k \<Longrightarrow> maintains (\<lambda>st. view st k' = x) (store_exists S k) (\<lambda>_. True)"
  by (rule maintainsI) (use exists_law in fastforce)

text \<open>Only the sequence counter is ever replaced: what the ledger has recorded stays.\<close>

lemma record_inner_keeps:
  assumes "lg_store L = S" and "k' \<noteq> meta_key" and "x \<noteq> None \<or> \<not> is_ledger_key k'"
  shows "maintains (\<lambda>st. view st k' = x) (record_inner L now q t a f h e) (\<lambda>_. True)"
proof -
  have key: "k' \<noteq> ledger_key n \<or> x \<noteq> None" for n
    using assms(3) by (auto simp: is_ledger_key_def)
  show ?thesis
    unfolding record_inner_def Let_def assms(1)
    by (rule maintains_abind_unit, rule maintains_acase_any)
      (use assms(2) key in \<open>auto intro!: get_json_keeps maintains_aret maintains_afail
        maintains_abind_unit create_json_keeps update_json_keeps split: sum.split StoreError.split\<close>)
qed

lemma record_once_keeps:
  assumes "lg_store L = S" and "k' \<noteq> meta_key" and "x \<noteq> None \<or> \<not> is_ledger_key k'"
    and "CHR ''/'' \<notin> set i"
  shows "maintains (\<lambda>st. view st k' = x) (record_once L now i q t a f h) (\<lambda>_. True)"
proof -
  have key: "k' \<noteq> marker_key i \<or> x \<noteq> None"
    using assms(3) by (auto simp: is_ledger_key_def)
  show ?thesis
    unfolding record_once_def assms(1)
    by (intro maintains_abind_unit maintains_if maintains_aret record_inner_keeps assms(1-3) maintains_acase_any)
      (use assms(4) key in \<open>auto intro!: exists_keeps create_json_keeps maintains_aret maintains_afail
        split: sum.split StoreError.split\<close>)
qed

text \<open>Success leaves the marker behind.\<close>

lemma record_once_marks:
  assumes "lg_store L = S" and "CHR ''/'' \<notin> set i"
    and run: "record_once L now i q t a f h st = (Inr (), st')"
  shows "view st' (marker_key i) \<noteq> None"
proof -
  obtain b st1 where ex: "store_exists S (marker_key i) st = (Inr b, st1)"
    using run by (auto simp: record_once_def assms(1) abind_eq_Inr)
  show ?thesis
  proof (cases b)
    case True
    then show ?thesis
      using exists_law [OF good_ledger_keys(3) [OF assms(2)] ex] ex run
      by (auto simp: record_once_def assms(1) abind_run)
  next
    case False
    obtain st2 r where c: "create_json S (lg_marker L) (marker_key i) True st2 = (r, st')"
      and "r = Inr () \<or> (\<exists>k. r = Inl (AlreadyExists k))"
      using run ex False
      by (auto simp: record_once_def assms(1) abind_run acase_run
          split: prod.splits sum.splits StoreError.splits)
    then show ?thesis
      using create_json_law [OF good_ledger_keys(3) [OF assms(2)] c] by (metis fun_upd_same option.discI)
  qed
qed

lemma record_once_again:
  assumes "lg_store L = S" and "CHR ''/'' \<notin> set i" and "view st (marker_key i) \<noteq> None"
    and run: "record_once L now i q t a f h st = (r, st')"
  shows "view st' = view st"
proof -
  obtain b st1 where ex: "store_exists S (marker_key i) st = (b, st1)" by fastforce
  then have "view st1 = view st" and "\<forall>x. b = Inr x \<longrightarrow> x"
    using exists_law [OF _ ex] assms(2,3) by auto
  then show ?thesis
    using run ex by (cases b) (auto simp: record_once_def assms(1) abind_run)
qed

end

section \<open>Properties\<close>

text \<open>
  C20. The ledger is idempotent and append-only. Once an event has been recorded under an id,
  recording the id again, whatever else the call says, changes nothing in the store. No call, also
  not one that fails, alters or removes an entry other than the sequence counter.
\<close>

theorem ledger_records_once:
  assumes "keyed_store S view" and "lg_store L = S" and "CHR ''/'' \<notin> set i"
  shows "(record_once L now i q t a f h st = (Inr (), st1) \<longrightarrow>
      record_once L now' i q' t' a' f' h' st1 = (r, st2) \<longrightarrow> view st2 = view st1) \<and>
    (record_once L now i q t a f h st = (r', st') \<longrightarrow> k \<noteq> meta_key \<longrightarrow> view st k = Some v \<longrightarrow>
      view st' k = Some v)"
proof -
  note marks = keyed_store.record_once_marks [OF assms]
    and again = keyed_store.record_once_again [OF assms]
  have "maintains (\<lambda>st. view st k = Some v) (record_once L now i q t a f h) (\<lambda>_. True)"
    if "k \<noteq> meta_key" for k v
    using keyed_store.record_once_keeps [OF assms(1,2) that _ assms(3)] by blast
  then show ?thesis using marks again maintainsD by meson
qed

text \<open>A ledger over the in-memory store, with one constructor for each stored type.\<close>

datatype ledger_value = LMeta Meta | LEvent LedgerEvent | LMarker bool

definition sample_ledger :: "(ledger_value MemoryStore, ledger_value) ledger_env" where
  "sample_ledger =
     \<lparr>lg_store = memory_store, lg_hex_encode = (\<lambda>b. replicate (length b) CHR ''0''),
      lg_meta = \<lparr>to_vec = (\<lambda>x. Inr (LMeta x)),
        from_slice = (\<lambda>v. case v of LMeta x \<Rightarrow> Inr x | _ \<Rightarrow> Inl ''invalid type'')\<rparr>,
      lg_event = \<lparr>to_vec = (\<lambda>x. Inr (LEvent x)),
        from_slice = (\<lambda>v. case v of LEvent x \<Rightarrow> Inr x | _ \<Rightarrow> Inl ''invalid type'')\<rparr>,
      lg_marker = \<lparr>to_vec = (\<lambda>x. Inr (LMarker x)),
        from_slice = (\<lambda>v. case v of LMarker x \<Rightarrow> Inr x | _ \<Rightarrow> Inl ''invalid type'')\<rparr>\<rparr>"

definition sample_record :: "(ledger_value MemoryStore, StoreError, unit) action" where
  "sample_record = record_once sample_ledger 9 ''p:0:0:open'' ''p'' ChannelOpen 5 0 None"

lemma sample_record_run: "fst (sample_record []) = Inr ()"
  by (simp add: sample_record_def record_once_def record_inner_def sample_ledger_def memory_store_def
      abind_run acase_run mem_exists_def mem_create_def mem_get_def mem_update_def get_json_def
      create_json_def update_json_def Let_def key_to_string_def meta_key_def ledger_key_def marker_key_def)

theorem ledger_records_once_witness:
  "fst (sample_record []) = Inr () \<and>
   mem_view (snd (sample_record (snd (sample_record [])))) = mem_view (snd (sample_record []))"
proof -
  have run: "sample_record [] = (Inr (), snd (sample_record []))"
    using sample_record_run by (metis prod.collapse)
  have store: "lg_store sample_ledger = memory_store" by (simp add: sample_ledger_def)
  show ?thesis
    using ledger_records_once [OF mem.keyed_store_axioms store, of "''p:0:0:open''" 9 "''p''" ChannelOpen 5 0
        None "[]" "snd (sample_record [])" 9 "''p''" ChannelOpen 5 0 None
        "fst (sample_record (snd (sample_record [])))" "snd (sample_record (snd (sample_record [])))"]
      run sample_record_run by (simp add: sample_record_def)
qed

end
