(* ===== verification/Sphinx.thy ===== *)
theory Sphinx
  imports Codecs
begin

unbundle bit_operations_syntax

text \<open>
  Model of \<^verbatim>\<open>src/src/sphinx.rs\<close>: BOLT-4 onion peeling and construction, the hop payload TLVs and
  failure wrapping. The curve, HMAC and ChaCha20 operations of the crates are flds of
  \<open>sphinx_crypto\<close>; the session key the source draws from the operating system is an argument.
  \<open>usize\<close> has 64 bits. A Rust panic is the value \<open>Panic\<close>.
\<close>

section \<open>Parameters\<close>

record sphinx_crypto = crypto +
  scalar_from_be :: "bytes \<Rightarrow> bool"
  pk_mul_tweak :: "PublicKey \<Rightarrow> bytes \<Rightarrow> PublicKey option"
  sk_mul_tweak :: "SecretKey \<Rightarrow> bytes \<Rightarrow> SecretKey option"
  pk_from_secret_key :: "SecretKey \<Rightarrow> PublicKey"
  hmac_mac :: "bytes \<Rightarrow> bytes \<Rightarrow> bytes"
  chacha20_keystream :: "bytes \<Rightarrow> nat \<Rightarrow> bytes"

section \<open>Data\<close>

datatype SphinxError =
    InvalidSize nat
  | UnsupportedVersion u8
  | HmacFailed
  | InvalidEphemeralKey
  | EcdhFailed
  | InvalidPayload string
  | UnsupportedPayload string

datatype sphinx_fault = Err SphinxError | Panic

record PeeledOnion =
  po_short_channel_id :: u64
  po_amt_to_forward :: u64
  po_outgoing_cltv_value :: u32
  po_next_onion :: bytes
  po_shared_secret :: bytes

record PayloadFields =
  pf_short_channel_id :: "u64 option"
  pf_amt_to_forward :: "u64 option"
  pf_outgoing_cltv_value :: "u32 option"

definition ONION_ROUTING_INFO_SIZE :: nat where "ONION_ROUTING_INFO_SIZE = 1300"
definition ONION_PACKET_SIZE :: nat where "ONION_PACKET_SIZE = 1366"
definition KEY_RHO :: bytes where "KEY_RHO = bytes_of_string ''rho''"
definition KEY_MU :: bytes where "KEY_MU = bytes_of_string ''mu''"
definition KEY_UM :: bytes where "KEY_UM = bytes_of_string ''um''"

section \<open>Keys and streams\<close>

definition hmac_sha256 :: "'c sphinx_crypto_scheme \<Rightarrow> bytes \<Rightarrow> bytes \<Rightarrow> bytes" where
  "hmac_sha256 C key data = hmac_mac C key data"

definition derive_keys :: "'c sphinx_crypto_scheme \<Rightarrow> bytes \<Rightarrow> bytes \<times> bytes \<times> bytes" where
  "derive_keys C shared_secret =
     (hmac_sha256 C KEY_RHO shared_secret, hmac_sha256 C KEY_MU shared_secret,
      hmac_sha256 C KEY_UM shared_secret)"

definition ecdh :: "'c sphinx_crypto_scheme \<Rightarrow> SecretKey \<Rightarrow> PublicKey \<Rightarrow> sphinx_fault + bytes" where
  "ecdh C privkey pubkey =
     (if \<not> scalar_from_be C (secret_bytes privkey) then Inl (Err EcdhFailed)
      else rbind (ok_or (pk_mul_tweak C pubkey (secret_bytes privkey)) (Err EcdhFailed)) (\<lambda>point.
        Inr (sha256 C (serialize point))))"

definition constant_time_eq :: "bytes \<Rightarrow> bytes \<Rightarrow> bool" where
  "constant_time_eq a b =
     (if length a \<noteq> length b then False
      else foldl (\<lambda>acc (l, r). acc OR (l XOR r)) 0 (zip a b) = 0)"

definition chacha20_stream :: "'c sphinx_crypto_scheme \<Rightarrow> bytes \<Rightarrow> nat \<Rightarrow> bytes" where
  "chacha20_stream C key len = chacha20_keystream C key len"

fun xor_in_place :: "bytes \<Rightarrow> bytes \<Rightarrow> bytes" where
  "xor_in_place (d # ds) (s # ss) = (d XOR s) # xor_in_place ds ss"
| "xor_in_place ds [] = ds"
| "xor_in_place [] ss = []"

definition blinding_factor :: "'c sphinx_crypto_scheme \<Rightarrow> PublicKey \<Rightarrow> bytes \<Rightarrow> bytes" where
  "blinding_factor C pubkey shared_secret = sha256 C (serialize pubkey @ shared_secret)"

definition blind_pubkey :: "'c sphinx_crypto_scheme \<Rightarrow> PublicKey \<Rightarrow> bytes \<Rightarrow> sphinx_fault + PublicKey" where
  "blind_pubkey C pubkey factor =
     (if \<not> scalar_from_be C factor then Inl (Err InvalidEphemeralKey)
      else ok_or (pk_mul_tweak C pubkey factor) (Err InvalidEphemeralKey))"

section \<open>Hop payloads\<close>

definition invalid_payload :: "string \<Rightarrow> sphinx_fault" where
  "invalid_payload s = Err (InvalidPayload s)"

definition be_tu :: "bytes \<Rightarrow> nat \<Rightarrow> sphinx_fault + u64" where
  "be_tu value max_len =
     (if value = [] \<or> length value > max_len \<or> length value > 8
      then Inl (invalid_payload ''invalid integer length'')
      else if length value > 1 \<and> value ! 0 = 0
      then Inl (invalid_payload ''non-minimal truncated integer'')
      else Inr (word_of_nat (be_val value)))"

definition read_bigsize :: "bytes \<Rightarrow> sphinx_fault + u64 \<times> nat" where
  "read_bigsize data =
     (case data of [] \<Rightarrow> Inl (invalid_payload ''empty varint'')
      | b # rest \<Rightarrow>
        if b = 0xfd then
          (if length data < 3 then Inl (invalid_payload ''short varint'')
           else let value = word_of_nat (be_val (take 2 rest)) :: u64 in
             if value < 0xfd then Inl (invalid_payload ''non-canonical bigsize'')
             else Inr (value, 3))
        else if b = 0xfe then
          (if length data < 5 then Inl (invalid_payload ''short varint'')
           else let value = word_of_nat (be_val (take 4 rest)) :: u64 in
             if value \<le> 0xffff then Inl (invalid_payload ''non-canonical bigsize'')
             else Inr (value, 5))
        else if b = 0xff then
          (if length data < 9 then Inl (invalid_payload ''short varint'')
           else let value = word_of_nat (be_val (take 8 rest)) :: u64 in
             if value \<le> 0xffffffff then Inl (invalid_payload ''non-canonical bigsize'')
             else Inr (value, 9))
        else Inr (ucast b, 1))"

text \<open>
  The record match of \<open>parse_tlv_payload\<close>.
\<close>

definition tlv_field :: "u64 \<Rightarrow> bytes \<Rightarrow> PayloadFields \<Rightarrow> sphinx_fault + PayloadFields" where
  "tlv_field tlv_type value flds =
     (if tlv_type = 2 then
        rbind (be_tu value 8) (\<lambda>v. Inr (flds\<lparr>pf_amt_to_forward := Some v\<rparr>))
      else if tlv_type = 4 then
        rbind (be_tu value 4) (\<lambda>v. Inr (flds\<lparr>pf_outgoing_cltv_value := Some (ucast v)\<rparr>))
      else if tlv_type = 6 then
        (if length value \<noteq> 8 then Inl (invalid_payload ''short_channel_id must be 8 bytes'')
         else Inr (flds\<lparr>pf_short_channel_id := Some (word_of_nat (be_val value))\<rparr>))
      else if tlv_type = 8 \<or> tlv_type = 16 \<or> tlv_type = 18 then Inr flds
      else if tlv_type = 10 \<or> tlv_type = 12 then
        Inl (Err (UnsupportedPayload ''blinded payment payloads are not supported''))
      else if tlv_type mod 2 = 0 then
        Inl (invalid_payload (''unknown even TLV type '' @ dec_nat (unat tlv_type)))
      else Inr flds)"

text \<open>
  The loop. The bound check adds two \<open>usize\<close> values without a check, so it wraps at \<open>2^64\<close>; a
  wrapped end is below the start and slicing there panics.
\<close>

lemma read_bigsize_size: "read_bigsize data = Inr (v, n) \<Longrightarrow> 1 \<le> n \<and> n \<le> length data"
  by (auto simp: read_bigsize_def Let_def split: list.splits if_splits)

function parse_tlv_loop :: "bytes \<Rightarrow> nat \<Rightarrow> u64 option \<Rightarrow> PayloadFields \<Rightarrow>
    sphinx_fault + PayloadFields" where
  "parse_tlv_loop data consumed last_type flds =
     (if \<not> consumed < length data then Inr flds
      else case read_bigsize (drop consumed data) of Inl e \<Rightarrow> Inl e | Inr (tlv_type, type_len) \<Rightarrow>
        (if (case last_type of None \<Rightarrow> False | Some prev \<Rightarrow> tlv_type \<le> prev)
         then Inl (invalid_payload ''TLV types must be strictly increasing'')
         else let consumed1 = consumed + type_len in
         case read_bigsize (drop consumed1 data) of Inl e \<Rightarrow> Inl e | Inr (len, len_size) \<Rightarrow>
           (let consumed2 = consumed1 + len_size;
                value_end = (consumed2 + unat len) mod 2 ^ 64 in
            if value_end > length data then Inl (invalid_payload ''TLV value out of bounds'')
            else if value_end < consumed2 then Inl Panic
            else case tlv_field tlv_type (take (value_end - consumed2) (drop consumed2 data)) flds
              of Inl e \<Rightarrow> Inl e
              | Inr flds' \<Rightarrow> parse_tlv_loop data value_end (Some tlv_type) flds')))"
  by pat_completeness auto
termination
  by (relation "measure (\<lambda>(data, consumed, _). length data - consumed)")
    (auto simp: Let_def dest!: read_bigsize_size)

declare parse_tlv_loop.simps [simp del]

definition parse_tlv_payload :: "bytes \<Rightarrow> bool \<Rightarrow> sphinx_fault + PayloadFields" where
  "parse_tlv_payload data is_final =
     rbind (parse_tlv_loop data 0 None
             \<lparr>pf_short_channel_id = None, pf_amt_to_forward = None,
              pf_outgoing_cltv_value = None\<rparr>) (\<lambda>flds.
     if pf_amt_to_forward flds = None then Inl (invalid_payload ''missing amt_to_forward'')
     else if pf_outgoing_cltv_value flds = None
     then Inl (invalid_payload ''missing outgoing_cltv_value'')
     else if \<not> is_final \<and> pf_short_channel_id flds = None
     then Inl (invalid_payload ''missing short_channel_id for non-final payload'')
     else Inr flds)"

section \<open>Peeling\<close>

definition unwrap_or :: "'a \<Rightarrow> 'a option \<Rightarrow> 'a" where
  "unwrap_or d x = (case x of None \<Rightarrow> d | Some a \<Rightarrow> a)"

definition unwrap_panic :: "'a option \<Rightarrow> sphinx_fault + 'a" where
  "unwrap_panic x = ok_or x Panic"

definition peel_onion :: "'c sphinx_crypto_scheme \<Rightarrow> SecretKey \<Rightarrow> bytes \<Rightarrow> bytes \<Rightarrow>
    sphinx_fault + PeeledOnion" where
  "peel_onion C node_privkey onion associated_data =
     (if length onion \<noteq> ONION_PACKET_SIZE then Inl (Err (InvalidSize (length onion)))
      else let version = onion ! 0 in
      if version \<noteq> 0 then Inl (Err (UnsupportedVersion version))
      else rbind (ok_or (pk_from_slice C (take 33 (drop 1 onion))) (Err InvalidEphemeralKey))
        (\<lambda>ephemeral_pubkey.
      let hop_data = take ONION_ROUTING_INFO_SIZE (drop 34 onion);
          hmac_in_packet = take 32 (drop (34 + ONION_ROUTING_INFO_SIZE) onion) in
      rbind (ecdh C node_privkey ephemeral_pubkey) (\<lambda>shared_secret.
      let (rho, mu, _) = derive_keys C shared_secret;
          computed_hmac = hmac_sha256 C mu (hop_data @ associated_data) in
      if \<not> constant_time_eq computed_hmac hmac_in_packet then Inl (Err HmacFailed)
      else
      let unwrapped = xor_in_place (hop_data @ replicate ONION_ROUTING_INFO_SIZE 0)
            (chacha20_stream C rho (ONION_ROUTING_INFO_SIZE * 2)) in
      rbind (read_bigsize unwrapped) (\<lambda>(payload_len, len_size).
      if payload_len < 2 then Inl (invalid_payload ''payload length below minimum'')
      else
      let payload_end = len_size + unat payload_len;
          next_hmac_end = payload_end + 32 in
      if \<not> payload_end < 2 ^ 64 then Inl (invalid_payload ''payload length overflow'')
      else if \<not> next_hmac_end < 2 ^ 64 then Inl (invalid_payload ''next hmac overflow'')
      else if next_hmac_end > length unwrapped
      then Inl (invalid_payload ''payload exceeds onion routing info'')
      else
      let payload = take (unat payload_len) (drop len_size unwrapped);
          next_hmac = take 32 (drop payload_end unwrapped);
          remaining = drop next_hmac_end unwrapped in
      if length remaining < ONION_ROUTING_INFO_SIZE
      then Inl (invalid_payload ''not enough forwarding payload'')
      else
      let is_final = list_all (\<lambda>b. b = 0) next_hmac in
      rbind (parse_tlv_payload payload is_final) (\<lambda>flds.
      rbind (if is_final then Inr []
             else rbind (blind_pubkey C ephemeral_pubkey
                          (blinding_factor C ephemeral_pubkey shared_secret)) (\<lambda>next_ephemeral.
               Inr ([version] @ serialize next_ephemeral @
                    take ONION_ROUTING_INFO_SIZE remaining @ next_hmac))) (\<lambda>next_onion.
      rbind (unwrap_panic (pf_amt_to_forward flds)) (\<lambda>amt.
      rbind (unwrap_panic (pf_outgoing_cltv_value flds)) (\<lambda>cltv.
      Inr \<lparr>po_short_channel_id = unwrap_or 0 (pf_short_channel_id flds),
           po_amt_to_forward = amt, po_outgoing_cltv_value = cltv,
           po_next_onion = next_onion, po_shared_secret = shared_secret\<rparr>))))))))"

definition wrap_failure :: "'c sphinx_crypto_scheme \<Rightarrow> bytes \<Rightarrow> bytes \<Rightarrow> bytes" where
  "wrap_failure C shared_secret failure_message =
     (let (_, _, um) = derive_keys C shared_secret;
          prefix = be_bytes 2 (unat (word_of_nat (length failure_message) :: u16)) @ failure_message;
          padded = take 256 (prefix @ replicate 256 0)
      in xor_in_place padded (chacha20_stream C um 256))"

section \<open>Construction\<close>

definition write_bigsize :: "u64 \<Rightarrow> bytes" where
  "write_bigsize value =
     (if value < 0xfd then [ucast value]
      else if value \<le> 0xffff then 0xfd # be_bytes 2 (unat (ucast value :: u16))
      else if value \<le> 0xffffffff then 0xfe # be_bytes 4 (unat (ucast value :: u32))
      else 0xff # be_bytes 8 (unat value))"

definition bigsize_len :: "u64 \<Rightarrow> nat" where
  "bigsize_len value =
     (if value < 0xfd then 1 else if value \<le> 0xffff then 3 else if value \<le> 0xffffffff then 5 else 9)"

definition encoded_hop_data_len :: "nat \<Rightarrow> nat" where
  "encoded_hop_data_len payload_len = bigsize_len (word_of_nat payload_len) + payload_len + 32"

text \<open>The bytes from the first non-zero one; of zero, the last byte.\<close>

definition minimal_be :: "u64 \<Rightarrow> bytes" where
  "minimal_be value =
     (let bytes = be_bytes 8 (unat value)
      in case dropWhile (\<lambda>b. b = 0) bytes of [] \<Rightarrow> [last bytes] | b # bs \<Rightarrow> b # bs)"

definition write_tlv_u64 :: "u64 \<Rightarrow> u64 \<Rightarrow> bytes" where
  "write_tlv_u64 tlv_type value =
     write_bigsize tlv_type @ write_bigsize (word_of_nat (length (minimal_be value))) @
     minimal_be value"

definition build_payload :: "u64 \<Rightarrow> u32 \<Rightarrow> u64 option \<Rightarrow> bytes option \<Rightarrow> bytes" where
  "build_payload amount_msat cltv_expiry short_channel_id payment_secret =
     write_tlv_u64 2 amount_msat @ write_tlv_u64 4 (ucast cltv_expiry) @
     (case short_channel_id of None \<Rightarrow> []
      | Some scid \<Rightarrow> write_bigsize 6 @ write_bigsize 8 @ be_bytes 8 (unat scid)) @
     (case payment_secret of None \<Rightarrow> []
      | Some secret \<Rightarrow>
          let amount_bytes = dropWhile (\<lambda>b. b = 0) (be_bytes 8 (unat amount_msat))
          in write_bigsize 8 @ write_bigsize (33 + word_of_nat (length amount_bytes)) @ secret @
             [word_of_nat (length amount_bytes)] @ amount_bytes)"

text \<open>
  The shared secrets of the hops, deriving each hop's ephemeral key from the previous one.
\<close>

fun hop_secrets :: "'c sphinx_crypto_scheme \<Rightarrow> SecretKey \<Rightarrow> (PublicKey \<times> bytes) list \<Rightarrow>
    sphinx_fault + bytes list" where
  "hop_secrets C ephemeral_secret [] = Inr []"
| "hop_secrets C ephemeral_secret ((pubkey, _) # hops) =
     rbind (ecdh C ephemeral_secret pubkey) (\<lambda>shared_secret.
     let blinding = blinding_factor C (pk_from_secret_key C ephemeral_secret) shared_secret in
     if \<not> scalar_from_be C blinding then Inl (Err InvalidEphemeralKey)
     else rbind (ok_or (sk_mul_tweak C ephemeral_secret blinding) (Err InvalidEphemeralKey))
       (\<lambda>next_secret. rbind (hop_secrets C next_secret hops) (\<lambda>rest. Inr (shared_secret # rest))))"

text \<open>One iteration of the layering loop, from the last hop to the first.\<close>

definition wrap_hop :: "'c sphinx_crypto_scheme \<Rightarrow> bytes \<Rightarrow> bytes option \<Rightarrow> bytes \<times> bytes \<Rightarrow>
    bytes \<times> bytes \<Rightarrow> sphinx_fault + bytes \<times> bytes" where
  "wrap_hop C associated_data filler hop st =
     (let (payload, shared_secret) = hop;
          (hop_payloads, next_hmac) = st;
          hop_data = write_bigsize (word_of_nat (length payload)) @ payload @ next_hmac in
      if length hop_data > ONION_ROUTING_INFO_SIZE then Inl (invalid_payload ''payload too large'')
      else
      let (rho, mu, _) = derive_keys C shared_secret;
          shifted = xor_in_place
            (hop_data @ take (ONION_ROUTING_INFO_SIZE - length hop_data) hop_payloads)
            (chacha20_stream C rho ONION_ROUTING_INFO_SIZE) in
      rbind (case filler of None \<Rightarrow> Inr shifted
             | Some f \<Rightarrow>
                 if length f > ONION_ROUTING_INFO_SIZE - length hop_data
                 then Inl (invalid_payload ''filler too large'')
                 else Inr (take (ONION_ROUTING_INFO_SIZE - length f) shifted @ f)) (\<lambda>shifted'.
      Inr (shifted', hmac_sha256 C mu (shifted' @ associated_data))))"

definition create_payment_onion :: "'c sphinx_crypto_scheme \<Rightarrow> SecretKey \<Rightarrow>
    (PublicKey \<times> bytes) list \<Rightarrow> bytes \<Rightarrow> sphinx_fault + bytes" where
  "create_payment_onion C session_secret hops associated_data =
     (if hops = [] then Inl (invalid_payload ''empty route'')
      else if length hops > 2
      then Inl (Err (UnsupportedPayload ''test onion construction supports at most two hops''))
      else rbind (hop_secrets C session_secret hops) (\<lambda>shared_secrets.
      let final_filler =
            (if length hops = 2 then
               let first_shift = encoded_hop_data_len (length (snd (hops ! 0)));
                   (rho, _, _) = derive_keys C (shared_secrets ! 0);
                   stream = chacha20_stream C rho (ONION_ROUTING_INFO_SIZE * 2)
               in Some (take first_shift (drop ONION_ROUTING_INFO_SIZE stream))
             else None);
          layers = rev (zip (map snd hops) shared_secrets) in
      rbind (case layers of [] \<Rightarrow> Inr (replicate ONION_ROUTING_INFO_SIZE 0, replicate 32 0)
             | l # ls \<Rightarrow>
                 rbind (wrap_hop C associated_data final_filler l
                         (replicate ONION_ROUTING_INFO_SIZE 0, replicate 32 0))
                   (\<lambda>st. rfold (\<lambda>st hop. wrap_hop C associated_data None hop st) st ls))
        (\<lambda>(hop_payloads, next_hmac).
      Inr ([0] @ serialize (pk_from_secret_key C session_secret) @ hop_payloads @ next_hmac))))"

definition create_onion :: "'c sphinx_crypto_scheme \<Rightarrow> SecretKey \<Rightarrow> PublicKey \<Rightarrow> u64 \<Rightarrow> u32 \<Rightarrow>
    u64 \<Rightarrow> bytes option \<Rightarrow> bytes \<Rightarrow> sphinx_fault + bytes" where
  "create_onion C session_secret recipient_pubkey amount_msat cltv_expiry short_channel_id
     payment_secret associated_data =
     create_payment_onion C session_secret
       [(recipient_pubkey, build_payload amount_msat cltv_expiry
          (if short_channel_id \<noteq> 0 then Some short_channel_id else None) payment_secret)]
       associated_data"

definition create_single_hop_onion :: "'c sphinx_crypto_scheme \<Rightarrow> SecretKey \<Rightarrow> PublicKey \<Rightarrow> u64 \<Rightarrow>
    u32 \<Rightarrow> bytes option \<Rightarrow> bytes \<Rightarrow> sphinx_fault + bytes" where
  "create_single_hop_onion C session_secret recipient_pubkey amount_msat cltv_expiry payment_secret
     payment_hash =
     create_onion C session_secret recipient_pubkey amount_msat cltv_expiry 0 payment_secret
       payment_hash"

definition create_relay_onion :: "'c sphinx_crypto_scheme \<Rightarrow> SecretKey \<Rightarrow> PublicKey \<Rightarrow> PublicKey \<Rightarrow>
    u64 \<Rightarrow> u64 \<Rightarrow> u32 \<Rightarrow> bytes \<Rightarrow> sphinx_fault + bytes" where
  "create_relay_onion C session_secret recipient_pubkey next_pubkey short_channel_id amount_msat
     cltv_expiry payment_hash =
     create_payment_onion C session_secret
       [(recipient_pubkey, build_payload amount_msat cltv_expiry (Some short_channel_id) None),
        (next_pubkey, build_payload amount_msat cltv_expiry None None)] payment_hash"

definition temp_channel_failure :: "bytes \<Rightarrow> bytes" where
  "temp_channel_failure reason = [0x00] @ reason"

end
