(* ===== verification/Wire.thy ===== *)
theory Wire
  imports Lcss
begin

text \<open>
  Model of \<^verbatim>\<open>src/src/wire/mod.rs\<close>: the hosted-channel messages, their bodies, the tag dispatch
  and the two framings (strict \<open>tag || body\<close> and legacy \<open>tag || u16 length || body\<close>). Every body
  codec is an interpretation of the contracts of \<open>Codecs\<close>; the message round trips rest on them.
\<close>

section \<open>Messages\<close>

record ChannelUpdate =
  cu_signature :: bytes
  cu_chain_hash :: bytes
  cu_short_channel_id :: u64
  cu_timestamp :: u32
  cu_message_flags :: u8
  cu_channel_flags :: u8
  cu_cltv_expiry_delta :: u16
  cu_htlc_minimum_msat :: u64
  cu_fee_base_msat :: u32
  cu_fee_proportional_millionths :: u32
  cu_htlc_maximum_msat :: u64
  cu_tlv_stream :: bytes

record PhcChannelUpdate =
  phc_tag :: u16
  phc_body :: ChannelUpdate

record InvokeHostedChannel =
  inv_chain_hash :: bytes
  inv_refund_scriptpubkey :: bytes
  inv_secret :: bytes

record AnnouncementSignature =
  ann_node_signature :: bytes
  ann_wants_reply :: bool

record QueryPublicHostedChannels =
  qphc_chain_hash :: bytes

record ReplyPublicHostedChannelsEnd =
  rphc_chain_hash :: bytes

record AskBrandingInfo =
  ask_chain_hash :: bytes

record ResizeChannel =
  rc_new_capacity_sat :: u64
  rc_client_sig :: bytes

record HostedChannelBranding =
  br_rgb_color :: bytes
  br_png_icon :: "bytes option"
  br_contact_info :: bytes

record UpdateFulfillHtlc =
  ff_channel_id :: bytes
  ff_id :: u64
  ff_payment_preimage :: bytes
  ff_tlv_stream :: bytes

record UpdateFailHtlc =
  uf_channel_id :: bytes
  uf_id :: u64
  uf_reason :: bytes
  uf_tlv_stream :: bytes

record UpdateFailMalformedHtlc =
  fm_channel_id :: bytes
  fm_id :: u64
  fm_sha256_of_onion :: bytes
  fm_failure_code :: u16
  fm_tlv_stream :: bytes

record HcError =
  err_channel_id :: bytes
  err_data :: bytes
  err_tlv_stream :: bytes

record QueryPreimages =
  qp_hashes :: "bytes list"

record ReplyPreimages =
  rp_preimages :: "bytes list"

datatype HostedMessage =
    InvokeHostedChannel InvokeHostedChannel
  | InitHostedChannel InitHostedChannel
  | LastCrossSignedState LastCrossSignedState
  | StateUpdate StateUpdate
  | StateOverride StateOverride
  | HostedChannelBranding HostedChannelBranding
  | AnnouncementSignature AnnouncementSignature
  | ResizeChannel ResizeChannel
  | QueryPublicHostedChannels QueryPublicHostedChannels
  | ReplyPublicHostedChannelsEnd ReplyPublicHostedChannelsEnd
  | QueryPreimages QueryPreimages
  | ReplyPreimages ReplyPreimages
  | AskBrandingInfo AskBrandingInfo
  | UpdateAddHtlc UpdateAddHtlc
  | UpdateFulfillHtlc UpdateFulfillHtlc
  | UpdateFailHtlc UpdateFailHtlc
  | UpdateFailMalformedHtlc UpdateFailMalformedHtlc
  | Error HcError
  | PhcChannelUpdate PhcChannelUpdate

datatype WireEncoding = Strict | Legacy

record DecodedHostedMessage =
  dm_message :: HostedMessage
  dm_encoding :: WireEncoding

section \<open>Tags\<close>

definition TAG_INVOKE_HOSTED_CHANNEL :: u16 where "TAG_INVOKE_HOSTED_CHANNEL = 65535"
definition TAG_INIT_HOSTED_CHANNEL :: u16 where "TAG_INIT_HOSTED_CHANNEL = 65533"
definition TAG_LAST_CROSS_SIGNED_STATE :: u16 where "TAG_LAST_CROSS_SIGNED_STATE = 65531"
definition TAG_STATE_UPDATE :: u16 where "TAG_STATE_UPDATE = 65529"
definition TAG_STATE_OVERRIDE :: u16 where "TAG_STATE_OVERRIDE = 65527"
definition TAG_HOSTED_CHANNEL_BRANDING :: u16 where "TAG_HOSTED_CHANNEL_BRANDING = 65525"
definition TAG_ANNOUNCEMENT_SIGNATURE :: u16 where "TAG_ANNOUNCEMENT_SIGNATURE = 65523"
definition TAG_RESIZE_CHANNEL :: u16 where "TAG_RESIZE_CHANNEL = 65521"
definition TAG_QUERY_PUBLIC_HOSTED_CHANNELS :: u16 where
  "TAG_QUERY_PUBLIC_HOSTED_CHANNELS = 65519"
definition TAG_REPLY_PUBLIC_HOSTED_CHANNELS_END :: u16 where
  "TAG_REPLY_PUBLIC_HOSTED_CHANNELS_END = 65517"
definition TAG_QUERY_PREIMAGES :: u16 where "TAG_QUERY_PREIMAGES = 65515"
definition TAG_REPLY_PREIMAGES :: u16 where "TAG_REPLY_PREIMAGES = 65513"
definition TAG_ASK_BRANDING_INFO :: u16 where "TAG_ASK_BRANDING_INFO = 65511"
definition TAG_UPDATE_ADD_HTLC :: u16 where "TAG_UPDATE_ADD_HTLC = 63505"
definition TAG_UPDATE_FULFILL_HTLC :: u16 where "TAG_UPDATE_FULFILL_HTLC = 63503"
definition TAG_UPDATE_FAIL_HTLC :: u16 where "TAG_UPDATE_FAIL_HTLC = 63501"
definition TAG_UPDATE_FAIL_MALFORMED_HTLC :: u16 where "TAG_UPDATE_FAIL_MALFORMED_HTLC = 63499"
definition TAG_ERROR :: u16 where "TAG_ERROR = 63497"
definition TAG_PHC_CHANNEL_UPDATE_GOSSIP :: u16 where "TAG_PHC_CHANNEL_UPDATE_GOSSIP = 64509"
definition TAG_PHC_CHANNEL_UPDATE_SYNC :: u16 where "TAG_PHC_CHANNEL_UPDATE_SYNC = 64507"

lemmas tag_defs = TAG_INVOKE_HOSTED_CHANNEL_def TAG_INIT_HOSTED_CHANNEL_def
  TAG_LAST_CROSS_SIGNED_STATE_def TAG_STATE_UPDATE_def TAG_STATE_OVERRIDE_def
  TAG_HOSTED_CHANNEL_BRANDING_def TAG_ANNOUNCEMENT_SIGNATURE_def TAG_RESIZE_CHANNEL_def
  TAG_QUERY_PUBLIC_HOSTED_CHANNELS_def TAG_REPLY_PUBLIC_HOSTED_CHANNELS_END_def
  TAG_QUERY_PREIMAGES_def TAG_REPLY_PREIMAGES_def TAG_ASK_BRANDING_INFO_def
  TAG_UPDATE_ADD_HTLC_def TAG_UPDATE_FULFILL_HTLC_def TAG_UPDATE_FAIL_HTLC_def
  TAG_UPDATE_FAIL_MALFORMED_HTLC_def TAG_ERROR_def TAG_PHC_CHANNEL_UPDATE_GOSSIP_def
  TAG_PHC_CHANNEL_UPDATE_SYNC_def

fun msg_tag :: "HostedMessage \<Rightarrow> u16" where
  "msg_tag (InvokeHostedChannel _) = TAG_INVOKE_HOSTED_CHANNEL"
| "msg_tag (InitHostedChannel _) = TAG_INIT_HOSTED_CHANNEL"
| "msg_tag (LastCrossSignedState _) = TAG_LAST_CROSS_SIGNED_STATE"
| "msg_tag (StateUpdate _) = TAG_STATE_UPDATE"
| "msg_tag (StateOverride _) = TAG_STATE_OVERRIDE"
| "msg_tag (HostedChannelBranding _) = TAG_HOSTED_CHANNEL_BRANDING"
| "msg_tag (AnnouncementSignature _) = TAG_ANNOUNCEMENT_SIGNATURE"
| "msg_tag (ResizeChannel _) = TAG_RESIZE_CHANNEL"
| "msg_tag (QueryPublicHostedChannels _) = TAG_QUERY_PUBLIC_HOSTED_CHANNELS"
| "msg_tag (ReplyPublicHostedChannelsEnd _) = TAG_REPLY_PUBLIC_HOSTED_CHANNELS_END"
| "msg_tag (QueryPreimages _) = TAG_QUERY_PREIMAGES"
| "msg_tag (ReplyPreimages _) = TAG_REPLY_PREIMAGES"
| "msg_tag (AskBrandingInfo _) = TAG_ASK_BRANDING_INFO"
| "msg_tag (UpdateAddHtlc _) = TAG_UPDATE_ADD_HTLC"
| "msg_tag (UpdateFulfillHtlc _) = TAG_UPDATE_FULFILL_HTLC"
| "msg_tag (UpdateFailHtlc _) = TAG_UPDATE_FAIL_HTLC"
| "msg_tag (UpdateFailMalformedHtlc _) = TAG_UPDATE_FAIL_MALFORMED_HTLC"
| "msg_tag (Error _) = TAG_ERROR"
| "msg_tag (PhcChannelUpdate m) = phc_tag m"

section \<open>Bodies\<close>

definition ChannelUpdate_encode :: "ChannelUpdate \<Rightarrow> encode_result" where
  "ChannelUpdate_encode m =
     enc_seq
       [Inr (write_signature (cu_signature m)), Inr (write_32 (cu_chain_hash m)),
        Inr (write_u64 (cu_short_channel_id m)), Inr (write_u32 (cu_timestamp m)),
        Inr (write_u8 (cu_message_flags m)), Inr (write_u8 (cu_channel_flags m)),
        Inr (write_u16 (cu_cltv_expiry_delta m)), write_u64_overflow (cu_htlc_minimum_msat m),
        Inr (write_u32 (cu_fee_base_msat m)),
        Inr (write_u32 (cu_fee_proportional_millionths m)),
        write_u64_overflow (cu_htlc_maximum_msat m), Inr (write_bytes (cu_tlv_stream m))]"

definition hex_u8 :: "u8 \<Rightarrow> string" where
  "hex_u8 b = ''0x'' @ [nibble_char (unat b div 16), nibble_char (unat b mod 16)]"

definition ChannelUpdate_decode :: "ChannelUpdate wire_decoder" where
  "ChannelUpdate_decode =
     dbind read_signature (\<lambda>sig.
     dbind read_32 (\<lambda>ch.
     dbind read_u64 (\<lambda>scid.
     dbind read_u32 (\<lambda>ts.
     dbind read_u8 (\<lambda>mf.
     if mf \<noteq> 0x01
     then dfail (Invalid (''channel_update message_flags must be 0x01, got '' @ hex_u8 mf))
     else
     dbind read_u8 (\<lambda>cf.
     dbind read_u16 (\<lambda>delta.
     dbind read_u64_overflow (\<lambda>hmin.
     dbind read_u32 (\<lambda>fb.
     dbind read_u32 (\<lambda>fp.
     dbind read_u64_overflow (\<lambda>hmax.
     dbind read_remaining (\<lambda>tlv.
     dbind (validated tlv) (\<lambda>_.
     dret \<lparr>cu_signature = sig, cu_chain_hash = ch, cu_short_channel_id = scid,
           cu_timestamp = ts, cu_message_flags = mf, cu_channel_flags = cf,
           cu_cltv_expiry_delta = delta, cu_htlc_minimum_msat = hmin, cu_fee_base_msat = fb,
           cu_fee_proportional_millionths = fp, cu_htlc_maximum_msat = hmax,
           cu_tlv_stream = tlv\<rparr>)))))))))))))"

definition ignore_err :: "encode_result \<Rightarrow> bytes" where
  "ignore_err r = (case r of Inl _ \<Rightarrow> [] | Inr b \<Rightarrow> b)"

definition ChannelUpdate_witness :: "ChannelUpdate \<Rightarrow> bytes" where
  "ChannelUpdate_witness m =
     write_32 (cu_chain_hash m) @ write_u64 (cu_short_channel_id m) @
     write_u32 (cu_timestamp m) @ write_u8 (cu_message_flags m) @
     write_u8 (cu_channel_flags m) @ write_u16 (cu_cltv_expiry_delta m) @
     ignore_err (write_u64_overflow (cu_htlc_minimum_msat m)) @
     write_u32 (cu_fee_base_msat m) @ write_u32 (cu_fee_proportional_millionths m) @
     ignore_err (write_u64_overflow (cu_htlc_maximum_msat m)) @ write_bytes (cu_tlv_stream m)"

definition InvokeHostedChannel_encode :: "InvokeHostedChannel \<Rightarrow> encode_result" where
  "InvokeHostedChannel_encode m =
     enc_seq [Inr (write_32 (inv_chain_hash m)), write_varsize (inv_refund_scriptpubkey m),
              write_varsize (inv_secret m)]"

definition InvokeHostedChannel_decode :: "InvokeHostedChannel wire_decoder" where
  "InvokeHostedChannel_decode =
     dbind read_32 (\<lambda>ch. dbind read_varsize (\<lambda>refund. dbind read_varsize (\<lambda>sec.
     dret \<lparr>inv_chain_hash = ch, inv_refund_scriptpubkey = refund, inv_secret = sec\<rparr>)))"

definition StateUpdate_encode :: "StateUpdate \<Rightarrow> encode_result" where
  "StateUpdate_encode m =
     enc_seq [Inr (write_u32 (su_block_day m)), Inr (write_u32 (su_local_updates m)),
              Inr (write_u32 (su_remote_updates m)),
              Inr (write_signature (su_local_sig_of_remote m))]"

definition StateUpdate_decode :: "StateUpdate wire_decoder" where
  "StateUpdate_decode =
     dbind read_u32 (\<lambda>bd. dbind read_u32 (\<lambda>lu. dbind read_u32 (\<lambda>ru. dbind read_signature (\<lambda>sig.
     dret \<lparr>su_block_day = bd, su_local_updates = lu, su_remote_updates = ru,
           su_local_sig_of_remote = sig\<rparr>))))"

definition StateOverride_encode :: "StateOverride \<Rightarrow> encode_result" where
  "StateOverride_encode m =
     enc_seq [Inr (write_u32 (so_block_day m)), write_u64_overflow (so_local_balance_msat m),
              Inr (write_u32 (so_local_updates m)), Inr (write_u32 (so_remote_updates m)),
              Inr (write_signature (so_local_sig_of_remote m))]"

definition StateOverride_decode :: "StateOverride wire_decoder" where
  "StateOverride_decode =
     dbind read_u32 (\<lambda>bd. dbind read_u64_overflow (\<lambda>bal. dbind read_u32 (\<lambda>lu.
     dbind read_u32 (\<lambda>ru. dbind read_signature (\<lambda>sig.
     dret \<lparr>so_block_day = bd, so_local_balance_msat = bal, so_local_updates = lu,
           so_remote_updates = ru, so_local_sig_of_remote = sig\<rparr>)))))"

definition AnnouncementSignature_encode :: "AnnouncementSignature \<Rightarrow> encode_result" where
  "AnnouncementSignature_encode m =
     enc_seq [Inr (write_signature (ann_node_signature m)), Inr (write_bool (ann_wants_reply m))]"

definition AnnouncementSignature_decode :: "AnnouncementSignature wire_decoder" where
  "AnnouncementSignature_decode =
     dbind read_signature (\<lambda>sig. dbind read_bool (\<lambda>w.
     dret \<lparr>ann_node_signature = sig, ann_wants_reply = w\<rparr>))"

definition QueryPublicHostedChannels_encode :: "QueryPublicHostedChannels \<Rightarrow> encode_result" where
  "QueryPublicHostedChannels_encode m = enc_seq [Inr (write_32 (qphc_chain_hash m))]"

definition QueryPublicHostedChannels_decode :: "QueryPublicHostedChannels wire_decoder" where
  "QueryPublicHostedChannels_decode = dbind read_32 (\<lambda>ch. dret \<lparr>qphc_chain_hash = ch\<rparr>)"

definition ReplyPublicHostedChannelsEnd_encode ::
    "ReplyPublicHostedChannelsEnd \<Rightarrow> encode_result" where
  "ReplyPublicHostedChannelsEnd_encode m = enc_seq [Inr (write_32 (rphc_chain_hash m))]"

definition ReplyPublicHostedChannelsEnd_decode ::
    "ReplyPublicHostedChannelsEnd wire_decoder" where
  "ReplyPublicHostedChannelsEnd_decode = dbind read_32 (\<lambda>ch. dret \<lparr>rphc_chain_hash = ch\<rparr>)"

definition AskBrandingInfo_encode :: "AskBrandingInfo \<Rightarrow> encode_result" where
  "AskBrandingInfo_encode m = enc_seq [Inr (write_32 (ask_chain_hash m))]"

definition AskBrandingInfo_decode :: "AskBrandingInfo wire_decoder" where
  "AskBrandingInfo_decode = dbind read_32 (\<lambda>ch. dret \<lparr>ask_chain_hash = ch\<rparr>)"

definition ResizeChannel_encode :: "ResizeChannel \<Rightarrow> encode_result" where
  "ResizeChannel_encode m =
     enc_seq [write_u64_overflow (rc_new_capacity_sat m), Inr (write_signature (rc_client_sig m))]"

definition ResizeChannel_decode :: "ResizeChannel wire_decoder" where
  "ResizeChannel_decode =
     dbind read_u64_overflow (\<lambda>cap. dbind read_signature (\<lambda>sig.
     dret \<lparr>rc_new_capacity_sat = cap, rc_client_sig = sig\<rparr>))"

definition ResizeChannel_sig_hash :: "'c crypto_scheme \<Rightarrow> ResizeChannel \<Rightarrow> bytes" where
  "ResizeChannel_sig_hash C m = sha256 C (le_bytes 8 (unat (rc_new_capacity_sat m)))"

definition verify_client_sig :: "'c crypto_scheme \<Rightarrow> ResizeChannel \<Rightarrow> PublicKey \<Rightarrow> bool" where
  "verify_client_sig C m pubkey =
     (if \<not> sig_from_compact C (rc_client_sig m) then False
      else verify_ecdsa C (ResizeChannel_sig_hash C m) (rc_client_sig m) pubkey)"

definition HostedChannelBranding_encode :: "HostedChannelBranding \<Rightarrow> encode_result" where
  "HostedChannelBranding_encode m =
     enc_seq
       ([Inr (br_rgb_color m)] @
        (case br_png_icon m of
           Some png \<Rightarrow> [Inr (write_u8 1), write_varsize png]
         | None \<Rightarrow> [Inr (write_u8 0)]) @
        [if \<not> valid_utf8 (br_contact_info m)
         then Inl (InvalidUtf8 ''contact_info is not valid UTF-8'')
         else write_varsize (br_contact_info m)])"

definition HostedChannelBranding_decode :: "HostedChannelBranding wire_decoder" where
  "HostedChannelBranding_decode =
     dbind (read_bytes 3) (\<lambda>rgb.
     dbind read_u8 (\<lambda>has_png.
     dbind (if has_png \<noteq> 0 then dbind read_varsize (\<lambda>p. dret (Some p)) else dret None) (\<lambda>png.
     dbind read_varsize (\<lambda>contact.
     if \<not> valid_utf8 contact
     then dfail (Invalid ''hosted_channel_branding contact_info is not valid UTF-8'')
     else dret \<lparr>br_rgb_color = rgb, br_png_icon = png, br_contact_info = contact\<rparr>))))"

definition UpdateFulfillHtlc_encode :: "UpdateFulfillHtlc \<Rightarrow> encode_result" where
  "UpdateFulfillHtlc_encode m =
     enc_seq [Inr (write_32 (ff_channel_id m)), write_u64_overflow (ff_id m),
              Inr (write_32 (ff_payment_preimage m)), Inr (write_bytes (ff_tlv_stream m))]"

definition UpdateFulfillHtlc_decode :: "UpdateFulfillHtlc wire_decoder" where
  "UpdateFulfillHtlc_decode =
     dbind read_32 (\<lambda>cid. dbind read_u64_overflow (\<lambda>i. dbind read_32 (\<lambda>pre.
     dbind read_remaining (\<lambda>tlv. dbind (validated tlv) (\<lambda>_.
     dret \<lparr>ff_channel_id = cid, ff_id = i, ff_payment_preimage = pre, ff_tlv_stream = tlv\<rparr>)))))"

definition UpdateFailHtlc_encode :: "UpdateFailHtlc \<Rightarrow> encode_result" where
  "UpdateFailHtlc_encode m =
     enc_seq [Inr (write_32 (uf_channel_id m)), write_u64_overflow (uf_id m),
              write_varsize (uf_reason m), Inr (write_bytes (uf_tlv_stream m))]"

definition UpdateFailHtlc_decode :: "UpdateFailHtlc wire_decoder" where
  "UpdateFailHtlc_decode =
     dbind read_32 (\<lambda>cid. dbind read_u64_overflow (\<lambda>i. dbind read_varsize (\<lambda>reason.
     dbind read_remaining (\<lambda>tlv. dbind (validated tlv) (\<lambda>_.
     dret \<lparr>uf_channel_id = cid, uf_id = i, uf_reason = reason, uf_tlv_stream = tlv\<rparr>)))))"

definition UpdateFailMalformedHtlc_encode :: "UpdateFailMalformedHtlc \<Rightarrow> encode_result" where
  "UpdateFailMalformedHtlc_encode m =
     enc_seq [Inr (write_32 (fm_channel_id m)), write_u64_overflow (fm_id m),
              Inr (write_32 (fm_sha256_of_onion m)), Inr (write_u16 (fm_failure_code m)),
              Inr (write_bytes (fm_tlv_stream m))]"

definition UpdateFailMalformedHtlc_decode :: "UpdateFailMalformedHtlc wire_decoder" where
  "UpdateFailMalformedHtlc_decode =
     dbind read_32 (\<lambda>cid. dbind read_u64_overflow (\<lambda>i. dbind read_32 (\<lambda>sha.
     dbind read_u16 (\<lambda>code. dbind read_remaining (\<lambda>tlv. dbind (validated tlv) (\<lambda>_.
     dret \<lparr>fm_channel_id = cid, fm_id = i, fm_sha256_of_onion = sha, fm_failure_code = code,
           fm_tlv_stream = tlv\<rparr>))))))"

definition HcError_encode :: "HcError \<Rightarrow> encode_result" where
  "HcError_encode m =
     enc_seq [Inr (write_32 (err_channel_id m)), write_varsize (err_data m),
              Inr (write_bytes (err_tlv_stream m))]"

definition HcError_decode :: "HcError wire_decoder" where
  "HcError_decode =
     dbind read_32 (\<lambda>cid. dbind read_varsize (\<lambda>data.
     dbind read_remaining (\<lambda>tlv. dbind (validated tlv) (\<lambda>_.
     dret \<lparr>err_channel_id = cid, err_data = data, err_tlv_stream = tlv\<rparr>))))"

definition QueryPreimages_encode :: "QueryPreimages \<Rightarrow> encode_result" where
  "QueryPreimages_encode m =
     enc_seq ([Inr (write_u16 (word_of_nat (length (qp_hashes m))))] @
              map (\<lambda>h. Inr (write_32 h)) (qp_hashes m))"

definition QueryPreimages_decode :: "QueryPreimages wire_decoder" where
  "QueryPreimages_decode =
     dbind read_u16 (\<lambda>count. dbind (read_n read_32 (unat count)) (\<lambda>hs.
     dret \<lparr>qp_hashes = hs\<rparr>))"

definition ReplyPreimages_encode :: "ReplyPreimages \<Rightarrow> encode_result" where
  "ReplyPreimages_encode m =
     enc_seq ([Inr (write_u16 (word_of_nat (length (rp_preimages m))))] @
              map (\<lambda>h. Inr (write_32 h)) (rp_preimages m))"

definition ReplyPreimages_decode :: "ReplyPreimages wire_decoder" where
  "ReplyPreimages_decode =
     dbind read_u16 (\<lambda>count. dbind (read_n read_32 (unat count)) (\<lambda>ps.
     dret \<lparr>rp_preimages = ps\<rparr>))"

section \<open>Dispatch and framing\<close>

fun encode_body :: "HostedMessage \<Rightarrow> encode_result" where
  "encode_body (InvokeHostedChannel m) = InvokeHostedChannel_encode m"
| "encode_body (InitHostedChannel m) = InitHostedChannel_encode m"
| "encode_body (LastCrossSignedState m) = LastCrossSignedState_encode m"
| "encode_body (StateUpdate m) = StateUpdate_encode m"
| "encode_body (StateOverride m) = StateOverride_encode m"
| "encode_body (HostedChannelBranding m) = HostedChannelBranding_encode m"
| "encode_body (AnnouncementSignature m) = AnnouncementSignature_encode m"
| "encode_body (ResizeChannel m) = ResizeChannel_encode m"
| "encode_body (QueryPublicHostedChannels m) = QueryPublicHostedChannels_encode m"
| "encode_body (ReplyPublicHostedChannelsEnd m) = ReplyPublicHostedChannelsEnd_encode m"
| "encode_body (QueryPreimages m) = QueryPreimages_encode m"
| "encode_body (ReplyPreimages m) = ReplyPreimages_encode m"
| "encode_body (AskBrandingInfo m) = AskBrandingInfo_encode m"
| "encode_body (UpdateAddHtlc m) = encode_update_add_htlc_body m"
| "encode_body (UpdateFulfillHtlc m) = UpdateFulfillHtlc_encode m"
| "encode_body (UpdateFailHtlc m) = UpdateFailHtlc_encode m"
| "encode_body (UpdateFailMalformedHtlc m) = UpdateFailMalformedHtlc_encode m"
| "encode_body (Error m) = HcError_encode m"
| "encode_body (PhcChannelUpdate m) = ChannelUpdate_encode (phc_body m)"

definition encode_with_encoding :: "HostedMessage \<Rightarrow> WireEncoding \<Rightarrow> encode_result" where
  "encode_with_encoding m encoding =
     (case encoding of
        Strict \<Rightarrow> enc_seq [Inr (write_u16 (msg_tag m)), encode_body m]
      | Legacy \<Rightarrow> enc_seq [Inr (write_u16 (msg_tag m)), rbind (encode_body m) write_varsize])"

definition encode :: "HostedMessage \<Rightarrow> encode_result" where
  "encode m = encode_with_encoding m Strict"

definition dmap :: "('a \<Rightarrow> 'b) \<Rightarrow> 'a wire_decoder \<Rightarrow> 'b wire_decoder" where
  "dmap f p = dbind p (\<lambda>a. dret (f a))"

definition decode_with_tag :: "u16 \<Rightarrow> HostedMessage wire_decoder" where
  "decode_with_tag tag =
     (if tag = TAG_INVOKE_HOSTED_CHANNEL then dmap InvokeHostedChannel InvokeHostedChannel_decode
      else if tag = TAG_INIT_HOSTED_CHANNEL then dmap InitHostedChannel InitHostedChannel_decode
      else if tag = TAG_LAST_CROSS_SIGNED_STATE
        then dmap LastCrossSignedState LastCrossSignedState_decode
      else if tag = TAG_STATE_UPDATE then dmap StateUpdate StateUpdate_decode
      else if tag = TAG_STATE_OVERRIDE then dmap StateOverride StateOverride_decode
      else if tag = TAG_HOSTED_CHANNEL_BRANDING
        then dmap HostedChannelBranding HostedChannelBranding_decode
      else if tag = TAG_ANNOUNCEMENT_SIGNATURE
        then dmap AnnouncementSignature AnnouncementSignature_decode
      else if tag = TAG_RESIZE_CHANNEL then dmap ResizeChannel ResizeChannel_decode
      else if tag = TAG_QUERY_PUBLIC_HOSTED_CHANNELS
        then dmap QueryPublicHostedChannels QueryPublicHostedChannels_decode
      else if tag = TAG_REPLY_PUBLIC_HOSTED_CHANNELS_END
        then dmap ReplyPublicHostedChannelsEnd ReplyPublicHostedChannelsEnd_decode
      else if tag = TAG_QUERY_PREIMAGES then dmap QueryPreimages QueryPreimages_decode
      else if tag = TAG_REPLY_PREIMAGES then dmap ReplyPreimages ReplyPreimages_decode
      else if tag = TAG_ASK_BRANDING_INFO then dmap AskBrandingInfo AskBrandingInfo_decode
      else if tag = TAG_UPDATE_ADD_HTLC then dmap UpdateAddHtlc decode_update_add_htlc_body
      else if tag = TAG_UPDATE_FULFILL_HTLC then dmap UpdateFulfillHtlc UpdateFulfillHtlc_decode
      else if tag = TAG_UPDATE_FAIL_HTLC then dmap UpdateFailHtlc UpdateFailHtlc_decode
      else if tag = TAG_UPDATE_FAIL_MALFORMED_HTLC
        then dmap UpdateFailMalformedHtlc UpdateFailMalformedHtlc_decode
      else if tag = TAG_ERROR then dmap Error HcError_decode
      else if tag = TAG_PHC_CHANNEL_UPDATE_GOSSIP \<or> tag = TAG_PHC_CHANNEL_UPDATE_SYNC
        then dmap (\<lambda>body. PhcChannelUpdate \<lparr>phc_tag = tag, phc_body = body\<rparr>) ChannelUpdate_decode
      else dfail (Invalid (''unknown tag '' @ dec_nat (unat tag))))"

definition decode :: "bytes \<Rightarrow> DecodeError + HostedMessage" where
  "decode data =
     (case dbind read_u16 decode_with_tag data of
        Inl e \<Rightarrow> Inl e
      | Inr (msg, buf) \<Rightarrow>
          if buf \<noteq> []
          then Inl (Invalid (dec_nat (length buf) @ '' trailing bytes after message''))
          else Inr msg)"

definition decode_legacy :: "bytes \<Rightarrow> DecodeError + DecodedHostedMessage" where
  "decode_legacy data =
     (case read_u16 data of Inl e \<Rightarrow> Inl e | Inr (tag, buf) \<Rightarrow>
      (case read_varsize buf of Inl e \<Rightarrow> Inl e | Inr (body, buf) \<Rightarrow>
       if buf \<noteq> []
       then Inl (Invalid (dec_nat (length buf) @ '' trailing bytes after legacy frame''))
       else case decode_with_tag tag body of Inl e \<Rightarrow> Inl e | Inr (message, body_slice) \<Rightarrow>
         if body_slice \<noteq> []
         then Inl (Invalid (dec_nat (length body_slice) @ '' trailing bytes after legacy message''))
         else Inr \<lparr>dm_message = message, dm_encoding = Legacy\<rparr>))"

definition show_decode_error :: "DecodeError \<Rightarrow> string" where
  "show_decode_error e =
     (case e of Eof \<Rightarrow> ''unexpected end of buffer'' | Invalid s \<Rightarrow> ''invalid value: '' @ s)"

definition decode_legacy_aware :: "bytes \<Rightarrow> DecodeError + DecodedHostedMessage" where
  "decode_legacy_aware data =
     (case decode data of
        Inr message \<Rightarrow> Inr \<lparr>dm_message = message, dm_encoding = Strict\<rparr>
      | Inl strict_err \<Rightarrow>
          (case decode_legacy data of
             Inr dm \<Rightarrow> Inr dm
           | Inl legacy_err \<Rightarrow>
               Inl (Invalid (''strict decode failed: '' @ show_decode_error strict_err @
                 ''; legacy decode failed: '' @ show_decode_error legacy_err))))"

section \<open>Well-formed messages\<close>

definition wf_channel_update :: "ChannelUpdate \<Rightarrow> bool" where
  "wf_channel_update m \<longleftrightarrow>
     length (cu_signature m) = 64 \<and> length (cu_chain_hash m) = 32 \<and> cu_message_flags m = 1 \<and>
     cu_htlc_minimum_msat m \<le> UINT64_OVERFLOW_MAX \<and>
     cu_htlc_maximum_msat m \<le> UINT64_OVERFLOW_MAX \<and>
     validate_tlv_stream (cu_tlv_stream m) = Inr ()"

definition wf_invoke :: "InvokeHostedChannel \<Rightarrow> bool" where
  "wf_invoke m \<longleftrightarrow>
     length (inv_chain_hash m) = 32 \<and> length (inv_refund_scriptpubkey m) \<le> 65535 \<and>
     length (inv_secret m) \<le> 65535"

definition wf_state_update :: "StateUpdate \<Rightarrow> bool" where
  "wf_state_update m \<longleftrightarrow> length (su_local_sig_of_remote m) = 64"

definition wf_state_override :: "StateOverride \<Rightarrow> bool" where
  "wf_state_override m \<longleftrightarrow>
     so_local_balance_msat m \<le> UINT64_OVERFLOW_MAX \<and> length (so_local_sig_of_remote m) = 64"

definition wf_announcement :: "AnnouncementSignature \<Rightarrow> bool" where
  "wf_announcement m \<longleftrightarrow> length (ann_node_signature m) = 64"

definition wf_resize :: "ResizeChannel \<Rightarrow> bool" where
  "wf_resize m \<longleftrightarrow> rc_new_capacity_sat m \<le> UINT64_OVERFLOW_MAX \<and> length (rc_client_sig m) = 64"

definition wf_branding :: "HostedChannelBranding \<Rightarrow> bool" where
  "wf_branding m \<longleftrightarrow>
     length (br_rgb_color m) = 3 \<and>
     (case br_png_icon m of None \<Rightarrow> True | Some p \<Rightarrow> length p \<le> 65535) \<and>
     length (br_contact_info m) \<le> 65535 \<and> valid_utf8 (br_contact_info m)"

definition wf_fulfill :: "UpdateFulfillHtlc \<Rightarrow> bool" where
  "wf_fulfill m \<longleftrightarrow>
     length (ff_channel_id m) = 32 \<and> ff_id m \<le> UINT64_OVERFLOW_MAX \<and>
     length (ff_payment_preimage m) = 32 \<and> validate_tlv_stream (ff_tlv_stream m) = Inr ()"

definition wf_fail :: "UpdateFailHtlc \<Rightarrow> bool" where
  "wf_fail m \<longleftrightarrow>
     length (uf_channel_id m) = 32 \<and> uf_id m \<le> UINT64_OVERFLOW_MAX \<and>
     length (uf_reason m) \<le> 65535 \<and> validate_tlv_stream (uf_tlv_stream m) = Inr ()"

definition wf_malformed :: "UpdateFailMalformedHtlc \<Rightarrow> bool" where
  "wf_malformed m \<longleftrightarrow>
     length (fm_channel_id m) = 32 \<and> fm_id m \<le> UINT64_OVERFLOW_MAX \<and>
     length (fm_sha256_of_onion m) = 32 \<and> validate_tlv_stream (fm_tlv_stream m) = Inr ()"

definition wf_error :: "HcError \<Rightarrow> bool" where
  "wf_error m \<longleftrightarrow>
     length (err_channel_id m) = 32 \<and> length (err_data m) \<le> 65535 \<and>
     validate_tlv_stream (err_tlv_stream m) = Inr ()"

definition wf_hashes :: "bytes list \<Rightarrow> bool" where
  "wf_hashes hs \<longleftrightarrow> length hs \<le> 65535 \<and> list_all (\<lambda>h. length h = 32) hs"

fun wf_msg :: "HostedMessage \<Rightarrow> bool" where
  "wf_msg (InvokeHostedChannel m) = wf_invoke m"
| "wf_msg (InitHostedChannel m) = wf_ihc m"
| "wf_msg (LastCrossSignedState m) = wf_lcss m"
| "wf_msg (StateUpdate m) = wf_state_update m"
| "wf_msg (StateOverride m) = wf_state_override m"
| "wf_msg (HostedChannelBranding m) = wf_branding m"
| "wf_msg (AnnouncementSignature m) = wf_announcement m"
| "wf_msg (ResizeChannel m) = wf_resize m"
| "wf_msg (QueryPublicHostedChannels m) = (length (qphc_chain_hash m) = 32)"
| "wf_msg (ReplyPublicHostedChannelsEnd m) = (length (rphc_chain_hash m) = 32)"
| "wf_msg (QueryPreimages m) = wf_hashes (qp_hashes m)"
| "wf_msg (ReplyPreimages m) = wf_hashes (rp_preimages m)"
| "wf_msg (AskBrandingInfo m) = (length (ask_chain_hash m) = 32)"
| "wf_msg (UpdateAddHtlc m) = wf_htlc m"
| "wf_msg (UpdateFulfillHtlc m) = wf_fulfill m"
| "wf_msg (UpdateFailHtlc m) = wf_fail m"
| "wf_msg (UpdateFailMalformedHtlc m) = wf_malformed m"
| "wf_msg (Error m) = wf_error m"
| "wf_msg (PhcChannelUpdate m) =
     (phc_tag m \<in> {TAG_PHC_CHANNEL_UPDATE_GOSSIP, TAG_PHC_CHANNEL_UPDATE_SYNC} \<and>
      wf_channel_update (phc_body m))"

section \<open>Body codecs\<close>

text \<open>
  A codec of fixed size additionally consumes exactly \<open>n\<close> bytes. Its legacy frame is two bytes
  too long to be read as a strict body.
\<close>

locale fixed_codec = prefix_codec enc dec wf
  for enc :: "'a \<Rightarrow> encode_result" and dec :: "'a wire_decoder" and wf :: "'a \<Rightarrow> bool" +
  fixes n :: nat
  assumes enc_size: "wf x \<Longrightarrow> enc x = Inr bs \<Longrightarrow> length bs = n"
    and dec_size: "dec buf = Inr (y, rest) \<Longrightarrow> length buf = n + length rest"
begin

lemma legacy_frame_not_strict:
  assumes "wf x" and "enc x = Inr bs" and "dec (write_u16 len @ bs) = Inr (y, rest)"
  shows "length rest = 2"
  using enc_size [OF assms(1,2)] dec_size [OF assms(3)] by (simp add: write_u16_def)

end

lemma fixed_sizes:
  "length (write_u32 a) = 4" "length (write_u64 b) = 8" "length (write_bool c) = 1"
  "length (write_32 d) = length d" "length (write_signature d) = length d"
  by (simp_all add: write_u32_def write_u64_def write_bool_def write_32_def write_signature_def)

lemma read_bool_size: "read_bool buf = Inr (v, rest) \<Longrightarrow> length buf = 1 + length rest"
  by (auto simp: read_bool_def dbind_eq_Inr dest!: read_u8_inv)

interpretation su_codec: fixed_codec StateUpdate_encode StateUpdate_decode wf_state_update 76
  by unfold_locales
    (auto simp: StateUpdate_encode_def StateUpdate_decode_def wf_state_update_def wire_rt
      dbind_eq_Inr fixed_sizes dest!: wire_inv read_bool_size)

interpretation so_codec: fixed_codec StateOverride_encode StateOverride_decode wf_state_override 84
  by unfold_locales
    (auto simp: StateOverride_encode_def StateOverride_decode_def wf_state_override_def wire_rt
      enc_simps dbind_eq_Inr fixed_sizes dest!: wire_inv read_bool_size)

interpretation ann_codec:
  fixed_codec AnnouncementSignature_encode AnnouncementSignature_decode wf_announcement 65
  by unfold_locales
    (auto simp: AnnouncementSignature_encode_def AnnouncementSignature_decode_def
      wf_announcement_def wire_rt dbind_eq_Inr fixed_sizes
      dest!: wire_inv read_bool_size)

interpretation qphc_codec:
  fixed_codec QueryPublicHostedChannels_encode QueryPublicHostedChannels_decode
    "\<lambda>m. length (qphc_chain_hash m) = 32" 32
  by unfold_locales
    (auto simp: QueryPublicHostedChannels_encode_def QueryPublicHostedChannels_decode_def wire_rt
      dbind_eq_Inr fixed_sizes dest!: wire_inv read_bool_size)

interpretation rphc_codec:
  fixed_codec ReplyPublicHostedChannelsEnd_encode ReplyPublicHostedChannelsEnd_decode
    "\<lambda>m. length (rphc_chain_hash m) = 32" 32
  by unfold_locales
    (auto simp: ReplyPublicHostedChannelsEnd_encode_def ReplyPublicHostedChannelsEnd_decode_def
      wire_rt dbind_eq_Inr fixed_sizes dest!: wire_inv read_bool_size)

interpretation ask_codec:
  fixed_codec AskBrandingInfo_encode AskBrandingInfo_decode "\<lambda>m. length (ask_chain_hash m) = 32" 32
  by unfold_locales
    (auto simp: AskBrandingInfo_encode_def AskBrandingInfo_decode_def wire_rt
      dbind_eq_Inr fixed_sizes dest!: wire_inv read_bool_size)

interpretation resize_codec: fixed_codec ResizeChannel_encode ResizeChannel_decode wf_resize 72
  by unfold_locales
    (auto simp: ResizeChannel_encode_def ResizeChannel_decode_def wf_resize_def wire_rt enc_simps
      dbind_eq_Inr fixed_sizes dest!: wire_inv read_bool_size)

interpretation invoke_codec:
  prefix_codec InvokeHostedChannel_encode InvokeHostedChannel_decode wf_invoke
  by unfold_locales
    (auto simp: InvokeHostedChannel_encode_def InvokeHostedChannel_decode_def wf_invoke_def
      wire_rt enc_simps dbind_run)

interpretation branding_codec:
  prefix_codec HostedChannelBranding_encode HostedChannelBranding_decode wf_branding
  by unfold_locales
    (auto simp: HostedChannelBranding_encode_def HostedChannelBranding_decode_def wf_branding_def
      wire_rt enc_simps dbind_run write_u8_def split: option.splits)

lemma enc_hashes:
  "enc_seq (map (\<lambda>h. Inr (write_32 h)) hs) = Inr (concat (map write_32 hs))"
  by (rule enc_seq_all_Inr) simp

lemma read_hashes:
  "list_all (\<lambda>h. length h = 32) hs \<Longrightarrow>
     read_n read_32 (length hs) (concat (map write_32 hs) @ rest) = Inr (hs, rest)"
  by (rule read_n_concat) (simp add: list_all_iff wire_rt)

interpretation qp_codec:
  prefix_codec QueryPreimages_encode QueryPreimages_decode "\<lambda>m. wf_hashes (qp_hashes m)"
  by unfold_locales
    (auto simp: QueryPreimages_encode_def QueryPreimages_decode_def wf_hashes_def wire_rt
      dbind_run enc_hashes read_hashes unat_of_nat_len)

interpretation rp_codec:
  prefix_codec ReplyPreimages_encode ReplyPreimages_decode "\<lambda>m. wf_hashes (rp_preimages m)"
  by unfold_locales
    (auto simp: ReplyPreimages_encode_def ReplyPreimages_decode_def wf_hashes_def wire_rt
      dbind_run enc_hashes read_hashes unat_of_nat_len)

interpretation fulfill_codec:
  body_codec UpdateFulfillHtlc_encode UpdateFulfillHtlc_decode wf_fulfill
  by unfold_locales
    (auto simp: UpdateFulfillHtlc_encode_def UpdateFulfillHtlc_decode_def wf_fulfill_def wire_rt
      enc_simps dbind_run write_bytes_def)

interpretation fail_codec: body_codec UpdateFailHtlc_encode UpdateFailHtlc_decode wf_fail
  by unfold_locales
    (auto simp: UpdateFailHtlc_encode_def UpdateFailHtlc_decode_def wf_fail_def wire_rt
      enc_simps dbind_run write_bytes_def)

interpretation malformed_codec:
  body_codec UpdateFailMalformedHtlc_encode UpdateFailMalformedHtlc_decode wf_malformed
  by unfold_locales
    (auto simp: UpdateFailMalformedHtlc_encode_def UpdateFailMalformedHtlc_decode_def
      wf_malformed_def wire_rt enc_simps dbind_run write_bytes_def)

interpretation error_codec: body_codec HcError_encode HcError_decode wf_error
  by unfold_locales
    (auto simp: HcError_encode_def HcError_decode_def wf_error_def wire_rt enc_simps dbind_run
      write_bytes_def)

interpretation cu_codec: body_codec ChannelUpdate_encode ChannelUpdate_decode wf_channel_update
  by unfold_locales
    (auto simp: ChannelUpdate_encode_def ChannelUpdate_decode_def wf_channel_update_def wire_rt
      enc_simps dbind_run write_bytes_def)

section \<open>Message round trips\<close>

lemma dmap_Inr [simp]: "p buf = Inr (a, rest) \<Longrightarrow> dmap f p buf = Inr (f a, rest)"
  by (simp add: dmap_def dbind_run)

lemma dmap_eq_Inr: "dmap f p buf = Inr (y, rest) \<longleftrightarrow> (\<exists>a. p buf = Inr (a, rest) \<and> y = f a)"
  by (auto simp: dmap_def dbind_eq_Inr)

lemmas codec_totals = invoke_codec.penc_total ihc_codec.penc_total lcss_codec.penc_total
  su_codec.penc_total so_codec.penc_total branding_codec.penc_total ann_codec.penc_total
  resize_codec.penc_total qphc_codec.penc_total rphc_codec.penc_total qp_codec.penc_total
  rp_codec.penc_total ask_codec.penc_total htlc_codec.enc_total fulfill_codec.enc_total
  fail_codec.enc_total malformed_codec.enc_total error_codec.enc_total cu_codec.enc_total

lemmas codec_reads = invoke_codec.dec_enc ihc_codec.dec_enc lcss_codec.dec_enc
  su_codec.dec_enc so_codec.dec_enc branding_codec.dec_enc ann_codec.dec_enc
  resize_codec.dec_enc qphc_codec.dec_enc rphc_codec.dec_enc qp_codec.dec_enc
  rp_codec.dec_enc ask_codec.dec_enc htlc_codec.dec_enc fulfill_codec.dec_enc
  fail_codec.dec_enc malformed_codec.dec_enc error_codec.dec_enc cu_codec.dec_enc

lemma encode_body_total: "wf_msg m \<Longrightarrow> is_ok (encode_body m)"
  by (cases m) (auto intro: codec_totals)

lemma decode_body_encode: "wf_msg m \<Longrightarrow> encode_body m = Inr bs \<Longrightarrow>
    decode_with_tag (msg_tag m) bs = Inr (m, [])"
  by (cases m) (auto simp: decode_with_tag_def tag_defs dmap_eq_Inr intro: codec_reads)

interpretation msg_codec: body_codec encode_body "decode_with_tag (msg_tag m)"
    "\<lambda>x. wf_msg x \<and> msg_tag x = msg_tag m" for m
  by unfold_locales (auto simp: encode_body_total dest: decode_body_encode)

lemma encode_strict_ok:
  "encode_body m = Inr bs \<Longrightarrow> encode_with_encoding m Strict = Inr (write_u16 (msg_tag m) @ bs)"
  by (simp add: encode_with_encoding_def)

lemma encode_legacy_ok:
  "encode_body m = Inr bs \<Longrightarrow> length bs \<le> 65535 \<Longrightarrow>
     encode_with_encoding m Legacy = Inr (write_u16 (msg_tag m) @ varsize_image bs)"
  by (simp add: encode_with_encoding_def enc_simps)

lemma decode_strict_frame:
  "decode_with_tag t bs = Inr (m, []) \<Longrightarrow> decode (write_u16 t @ bs) = Inr m"
  by (simp add: decode_def dbind_run read_u16_write)

lemma decode_legacy_frame:
  "decode_with_tag t bs = Inr (m, []) \<Longrightarrow> length bs \<le> 65535 \<Longrightarrow>
     decode_legacy (write_u16 t @ varsize_image bs) = Inr \<lparr>dm_message = m, dm_encoding = Legacy\<rparr>"
  using read_varsize_image [of bs "[]"] by (simp add: decode_legacy_def read_u16_write)

lemma decode_eq_Inr:
  "decode data = Inr m \<longleftrightarrow> (\<exists>t buf. read_u16 data = Inr (t, buf) \<and> decode_with_tag t buf = Inr (m, []))"
  by (auto simp: decode_def dbind_def split: sum.splits if_splits)

text \<open>
  The messages whose bodies have a fixed size: they are the ones whose two framings can never be
  mistaken for one another.
\<close>

fun fixed_size_msg :: "HostedMessage \<Rightarrow> bool" where
  "fixed_size_msg (StateUpdate _) = True"
| "fixed_size_msg (StateOverride _) = True"
| "fixed_size_msg (AnnouncementSignature _) = True"
| "fixed_size_msg (QueryPublicHostedChannels _) = True"
| "fixed_size_msg (ReplyPublicHostedChannelsEnd _) = True"
| "fixed_size_msg (AskBrandingInfo _) = True"
| "fixed_size_msg (ResizeChannel _) = True"
| "fixed_size_msg _ = False"

lemmas legacy_frames = su_codec.legacy_frame_not_strict so_codec.legacy_frame_not_strict
  ann_codec.legacy_frame_not_strict qphc_codec.legacy_frame_not_strict
  rphc_codec.legacy_frame_not_strict ask_codec.legacy_frame_not_strict
  resize_codec.legacy_frame_not_strict

lemma fixed_legacy_not_strict:
  assumes "fixed_size_msg m" and "wf_msg m" and "encode_body m = Inr bs"
  shows "decode_with_tag (msg_tag m) (write_u16 len @ bs) \<noteq> Inr (y, [])"
  using assms by (cases m) (auto simp: decode_with_tag_def tag_defs dmap_eq_Inr dest: legacy_frames)

lemma fixed_size_short:
  assumes "fixed_size_msg m" and "wf_msg m" and "encode_body m = Inr bs"
  shows "length bs \<le> 84"
  using assms
  by (cases m) (auto dest: su_codec.enc_size so_codec.enc_size ann_codec.enc_size
      qphc_codec.enc_size rphc_codec.enc_size ask_codec.enc_size resize_codec.enc_size)

section \<open>What the decoder accepts\<close>

lemma read_n_32_inv: "read_n read_32 n buf = Inr (hs, rest) \<Longrightarrow> length hs = n \<and> list_all (\<lambda>h. length h = 32) hs"
  by (induction n arbitrary: buf hs rest)
    (fastforce split: sum.splits prod.splits dest!: read_32_inv)+

lemma hashes_wf:
  "QueryPreimages_decode buf = Inr (q, rest) \<Longrightarrow> wf_hashes (qp_hashes q)"
  "ReplyPreimages_decode buf = Inr (r, rest) \<Longrightarrow> wf_hashes (rp_preimages r)"
proof -
  have "unat c \<le> 65535" for c :: u16 using unsigned_less [of c, where 'a = nat] by simp
  then show "QueryPreimages_decode buf = Inr (q, rest) \<Longrightarrow> wf_hashes (qp_hashes q)"
    "ReplyPreimages_decode buf = Inr (r, rest) \<Longrightarrow> wf_hashes (rp_preimages r)"
    by (auto simp: QueryPreimages_decode_def ReplyPreimages_decode_def dbind_eq_Inr wf_hashes_def
        dest!: read_n_32_inv)
qed

lemma plain_wf:
  "InvokeHostedChannel_decode buf = Inr (a, rest) \<Longrightarrow> wf_invoke a"
  "StateUpdate_decode buf = Inr (b, rest) \<Longrightarrow> wf_state_update b"
  "StateOverride_decode buf = Inr (c, rest) \<Longrightarrow> wf_state_override c"
  "AnnouncementSignature_decode buf = Inr (d, rest) \<Longrightarrow> wf_announcement d"
  "ResizeChannel_decode buf = Inr (e, rest) \<Longrightarrow> wf_resize e"
  "QueryPublicHostedChannels_decode buf = Inr (f, rest) \<Longrightarrow> length (qphc_chain_hash f) = 32"
  "ReplyPublicHostedChannelsEnd_decode buf = Inr (g, rest) \<Longrightarrow> length (rphc_chain_hash g) = 32"
  "AskBrandingInfo_decode buf = Inr (h, rest) \<Longrightarrow> length (ask_chain_hash h) = 32"
  by (auto simp: InvokeHostedChannel_decode_def StateUpdate_decode_def StateOverride_decode_def
      AnnouncementSignature_decode_def ResizeChannel_decode_def QueryPublicHostedChannels_decode_def
      ReplyPublicHostedChannelsEnd_decode_def AskBrandingInfo_decode_def wf_invoke_def wf_state_update_def
      wf_state_override_def wf_announcement_def wf_resize_def dbind_eq_Inr
      dest!: read_32_inv read_signature_inv read_u64_overflow_inv read_varsize_inv)

lemma branding_wf: "HostedChannelBranding_decode buf = Inr (a, rest) \<Longrightarrow> wf_branding a"
  by (auto simp: HostedChannelBranding_decode_def wf_branding_def dbind_eq_Inr
      dest!: read_bytes_inv read_varsize_inv split: if_splits)

lemma tlv_wf:
  "UpdateFulfillHtlc_decode buf = Inr (a, rest) \<Longrightarrow> wf_fulfill a"
  "UpdateFailHtlc_decode buf = Inr (b, rest) \<Longrightarrow> wf_fail b"
  "UpdateFailMalformedHtlc_decode buf = Inr (c, rest) \<Longrightarrow> wf_malformed c"
  "HcError_decode buf = Inr (d, rest) \<Longrightarrow> wf_error d"
  "ChannelUpdate_decode buf = Inr (e, rest) \<Longrightarrow> wf_channel_update e"
  by (auto simp: UpdateFulfillHtlc_decode_def UpdateFailHtlc_decode_def UpdateFailMalformedHtlc_decode_def
      HcError_decode_def ChannelUpdate_decode_def wf_fulfill_def wf_fail_def wf_malformed_def wf_error_def
      wf_channel_update_def dbind_eq_Inr
      dest!: read_32_inv read_signature_inv read_u64_overflow_inv read_varsize_inv validated_inv split: if_splits)

lemma decoded_wf: "decode_with_tag t buf = Inr (m, rest) \<Longrightarrow> wf_msg m"
  by (auto simp: decode_with_tag_def dmap_eq_Inr
      dest: plain_wf branding_wf tlv_wf hashes_wf lcss_decode_wf ihc_decode_inv decode_htlc_inv split: if_splits)

section \<open>Properties\<close>

text \<open>
  C22. Strict framing is a round trip for every message of the protocol: a well-formed message
  encodes, and both the strict decoder and the framing-detecting decoder give it back from its
  strict encoding.
\<close>

theorem strict_roundtrip:
  assumes "wf_msg m"
  shows "\<exists>bs. encode m = Inr bs \<and> decode bs = Inr m \<and>
     decode_legacy_aware bs = Inr \<lparr>dm_message = m, dm_encoding = Strict\<rparr>"
proof -
  obtain bs where bs: "encode_body m = Inr bs" "decode_with_tag (msg_tag m) bs = Inr (m, [])"
    using msg_codec.roundtrip [of m m] assms by auto
  then have "decode (write_u16 (msg_tag m) @ bs) = Inr m"
    by (simp add: decode_strict_frame)
  then show ?thesis
    using bs by (simp add: encode_def encode_strict_ok decode_legacy_aware_def)
qed

definition sample_update :: StateUpdate where
  "sample_update = \<lparr>su_block_day = 5, su_local_updates = 2, su_remote_updates = 3,
     su_local_sig_of_remote = replicate 64 7\<rparr>"

theorem strict_roundtrip_witness:
  "wf_msg (StateUpdate sample_update) \<and>
   (\<exists>bs. encode (StateUpdate sample_update) = Inr bs \<and> decode bs = Inr (StateUpdate sample_update) \<and>
     decode_legacy_aware bs =
       Inr \<lparr>dm_message = StateUpdate sample_update, dm_encoding = Strict\<rparr>)"
proof -
  have wf: "wf_msg (StateUpdate sample_update)"
    by (simp add: sample_update_def wf_state_update_def)
  show ?thesis using wf strict_roundtrip [OF wf] by blast
qed

text \<open>
  C24. Decoded messages are well typed: whatever bytes a peer sends, in either framing, a message that the
  decoder accepts has arrays of their declared sizes, amounts and ids below the overflow bound, valid
  text and valid TLV streams, so it encodes again, and its encoding is read as the same message.
\<close>

theorem decoded_messages_are_typed:
  assumes "decode_legacy_aware data = Inr dm"
  shows "wf_msg (dm_message dm) \<and>
    (\<exists>bs. encode (dm_message dm) = Inr bs \<and> decode bs = Inr (dm_message dm))"
proof -
  have wf: "wf_msg (dm_message dm)"
    using assms
    by (auto simp: decode_legacy_aware_def decode_def decode_legacy_def dbind_eq_Inr
        split: sum.splits if_splits prod.splits dest: decoded_wf)
  obtain bs where "encode_body (dm_message dm) = Inr bs" "decode_with_tag (msg_tag (dm_message dm)) bs = Inr (dm_message dm, [])"
    using msg_codec.roundtrip [of "dm_message dm" "dm_message dm"] wf by auto
  then show ?thesis
    using wf encode_strict_ok decode_strict_frame by (auto simp: encode_def)
qed

theorem decoded_messages_are_typed_witness:
  "decode_legacy_aware (write_u16 TAG_ASK_BRANDING_INFO @ replicate 32 7) =
     Inr \<lparr>dm_message = AskBrandingInfo \<lparr>ask_chain_hash = replicate 32 7\<rparr>, dm_encoding = Strict\<rparr> \<and>
   wf_msg (AskBrandingInfo \<lparr>ask_chain_hash = replicate 32 7\<rparr>)"
proof -
  have "decode_with_tag TAG_ASK_BRANDING_INFO (replicate 32 7) = Inr (AskBrandingInfo \<lparr>ask_chain_hash = replicate 32 7\<rparr>, [])"
    by (simp add: decode_with_tag_def tag_defs dmap_eq_Inr AskBrandingInfo_decode_def dbind_eq_Inr read_32_def read_bytes_def)
  then have run: "decode_legacy_aware (write_u16 TAG_ASK_BRANDING_INFO @ replicate 32 7) =
      Inr \<lparr>dm_message = AskBrandingInfo \<lparr>ask_chain_hash = replicate 32 7\<rparr>, dm_encoding = Strict\<rparr>"
    by (simp add: decode_legacy_aware_def decode_strict_frame)
  then show ?thesis using decoded_messages_are_typed [OF run] by simp
qed

text \<open>
  C31. Legacy framing: a well-formed message whose body fits a 16-bit length is read back by the
  legacy decoder, and when its body has a fixed size the framing-detecting decoder recognises the
  legacy frame as such, so a reply can follow the peer's convention.
\<close>

theorem legacy_roundtrip:
  assumes "wf_msg m" and "encode_body m = Inr bs" and "length bs \<le> 65535"
  shows "encode_with_encoding m Legacy = Inr (write_u16 (msg_tag m) @ varsize_image bs) \<and>
     decode_legacy (write_u16 (msg_tag m) @ varsize_image bs) =
       Inr \<lparr>dm_message = m, dm_encoding = Legacy\<rparr> \<and>
     (fixed_size_msg m \<longrightarrow>
       decode_legacy_aware (write_u16 (msg_tag m) @ varsize_image bs) =
         Inr \<lparr>dm_message = m, dm_encoding = Legacy\<rparr>)"
proof -
  have leg: "decode_legacy (write_u16 (msg_tag m) @ varsize_image bs) =
      Inr \<lparr>dm_message = m, dm_encoding = Legacy\<rparr>"
    using assms by (simp add: decode_legacy_frame decode_body_encode)
  have "\<exists>e. decode (write_u16 (msg_tag m) @ varsize_image bs) = Inl e" if "fixed_size_msg m"
  proof (cases "decode (write_u16 (msg_tag m) @ varsize_image bs)")
    case (Inr y)
    then show ?thesis
      using fixed_legacy_not_strict [OF that assms(1,2)]
      by (auto simp: decode_eq_Inr read_u16_write varsize_image_def)
  qed auto
  then show ?thesis
    using assms leg by (auto simp: encode_legacy_ok decode_legacy_aware_def)
qed

theorem legacy_roundtrip_witness:
  "fixed_size_msg (StateUpdate sample_update) \<and>
   (\<exists>bs. decode_legacy_aware bs =
      Inr \<lparr>dm_message = StateUpdate sample_update, dm_encoding = Legacy\<rparr>)"
proof -
  have wf: "wf_msg (StateUpdate sample_update)"
    by (simp add: sample_update_def wf_state_update_def)
  obtain bs where bs: "encode_body (StateUpdate sample_update) = Inr bs"
    using encode_body_total [OF wf] by (cases "encode_body (StateUpdate sample_update)") auto
  have "length bs \<le> 65535" using fixed_size_short [OF _ wf bs] by simp
  then show ?thesis using legacy_roundtrip [OF wf bs] by auto
qed

lemma read_u64_overflow_small:
  assumes "length bs = 7" and "c < 0x80"
  shows "read_u64_overflow (c # bs @ rest) = Inr (word_of_nat (be_val (c # bs)), rest)"
proof -
  have "be_val (c # bs) = unat c * 256 ^ 7 + be_val bs"
    using be_val_append [of "[c]" bs] assms(1) by (simp add: be_val_def)
  moreover have "unat c \<le> 127" using assms(2) by (simp add: word_less_nat_alt)
  moreover have "be_val bs < 256 ^ 7" using be_val_less [of bs] assms(1) by simp
  ultimately have "be_val (c # bs) \<le> 0x7FFFFFFFFFFFFFFF" by simp
  then have "word_of_nat (be_val (c # bs)) \<le> UINT64_OVERFLOW_MAX"
    by (simp add: UINT64_OVERFLOW_MAX_def word_le_nat_alt unat_of_nat)
  then show ?thesis
    using assms(1) by (simp add: read_u64_overflow_def dbind_run read_u64_def not_less)
qed

lemma write_u16_72: "write_u16 72 = [0, 72]"
  by code_simp

lemma empty_odd_record_valid:
  assumes "t < 0xfd" and "t mod 2 = 1"
  shows "validate_tlv_stream [t, 0] = Inr ()"
proof -
  have lt: "unat t < 0xfd" using assms(1) by (simp add: word_less_nat_alt)
  have "unat (t mod 2) = 1" using assms(2) by simp
  then have "unat t mod 2 = 1" by (simp add: unat_mod)
  then have odd: "(ucast t :: u64) mod 2 \<noteq> 0"
    by (auto simp: word_unat_eq_iff unat_mod unat_ucast_u64)
  have "t \<noteq> 0xfd" "t \<noteq> 0xfe" "t \<noteq> 0xff" using lt by auto
  then show ?thesis
    using odd
    by (simp add: validate_tlv_stream_def validate_tlv_loop.simps [of "[t, 0]"]
        validate_tlv_loop.simps [of "[]"] read_bytes_def)
qed



end
