(* ===== verification/Channel_Id.thy ===== *)
theory Channel_Id
  imports External
begin

unbundle bit_operations_syntax

text \<open>
  Model of \<^verbatim>\<open>src/src/channel_id.rs\<close>: the channel id and the fake short channel id derived from
  the sorted public keys, the textual form of short channel ids and the BOLT-7 node order. The
  lemmas show that both ends derive the same identifiers and that the textual form round trips.
\<close>

section \<open>Key order\<close>

text \<open>\<open><=\<close> on byte arrays is lexicographic.\<close>

fun bytes_le :: "bytes \<Rightarrow> bytes \<Rightarrow> bool" where
  "bytes_le [] _ = True"
| "bytes_le (_ # _) [] = False"
| "bytes_le (a # as) (b # bs) = (if a < b then True else if b < a then False else bytes_le as bs)"

lemma bytes_le_total: "bytes_le as bs \<or> bytes_le bs as"
  by (induction as bs rule: bytes_le.induct) auto

lemma bytes_le_antisym: "bytes_le as bs \<Longrightarrow> bytes_le bs as \<Longrightarrow> as = bs"
proof (induction as bs rule: bytes_le.induct)
  case (1 bs)
  then show ?case by (cases bs) auto
qed (auto split: if_splits)

definition sort_keys :: "PublicKey \<Rightarrow> PublicKey \<Rightarrow> PublicKey \<times> PublicKey" where
  "sort_keys a b = (if bytes_le (serialize a) (serialize b) then (a, b) else (b, a))"

lemma sort_keys_sym: "sort_keys a b = sort_keys b a"
  using bytes_le_total [of "serialize a" "serialize b"]
    bytes_le_antisym [of "serialize a" "serialize b"]
  by (auto simp: sort_keys_def PublicKey.expand)

section \<open>Identifiers\<close>

definition channel_id :: "'c crypto_scheme \<Rightarrow> PublicKey \<Rightarrow> PublicKey \<Rightarrow> bytes" where
  "channel_id C local remote =
     (let (a, b) = sort_keys local remote in sha256 C (serialize a @ serialize b))"

text \<open>The eight big-endian chunks of the first 64 bytes, added with wrap-around.\<close>

definition hosted_short_channel_id :: "PublicKey \<Rightarrow> PublicKey \<Rightarrow> u64" where
  "hosted_short_channel_id local remote =
     (let (a, b) = sort_keys local remote;
          concat = serialize a @ serialize b
      in foldl (\<lambda>sum i. sum + word_of_nat (be_val (take 8 (drop (8 * i) (take 64 concat)))))
           0 [0..<8])"

definition is_node1 :: "PublicKey \<Rightarrow> PublicKey \<Rightarrow> bool" where
  "is_node1 local remote = bytes_le (serialize local) (serialize remote)"

section \<open>Text form\<close>

definition parse_scid_part :: "string \<Rightarrow> u64 \<Rightarrow> u64 option" where
  "parse_scid_part s max_value =
     (if s = [] \<or> \<not> list_all is_ascii_digit s then None
      else case parse_u64 s of None \<Rightarrow> None
           | Some value \<Rightarrow> if value \<le> max_value then Some value else None)"

definition parse_short_channel_id :: "string \<Rightarrow> u64 option" where
  "parse_short_channel_id s =
     (case split_on CHR ''x'' s of
        p0 # ps0 \<Rightarrow> (case parse_scid_part p0 0x00ffffff of None \<Rightarrow> None | Some block \<Rightarrow>
          (case ps0 of [] \<Rightarrow> None | p1 # ps1 \<Rightarrow>
            (case parse_scid_part p1 0x00ffffff of None \<Rightarrow> None | Some txindex \<Rightarrow>
              (case ps1 of [] \<Rightarrow> None | p2 # ps2 \<Rightarrow>
                (case parse_scid_part p2 0x0000ffff of None \<Rightarrow> None | Some outnum \<Rightarrow>
                  if ps2 \<noteq> [] then None
                  else Some ((push_bit 40 block OR push_bit 16 txindex) OR outnum))))))
      | [] \<Rightarrow> None)"

definition format_short_channel_id :: "u64 \<Rightarrow> string" where
  "format_short_channel_id scid =
     (let block = drop_bit 40 scid;
          txindex = drop_bit 16 scid AND 0x00ffffff;
          outnum = scid AND 0x0000ffff
      in dec_nat (unat block) @ ''x'' @ dec_nat (unat txindex) @ ''x'' @ dec_nat (unat outnum))"

section \<open>Lemmas\<close>

lemma parse_scid_part_dec:
  assumes "n \<le> unat max_value"
  shows "parse_scid_part (dec_nat n) max_value = Some (word_of_nat n)"
proof -
  have "n < 2 ^ 64" using assms unsigned_less [of max_value, where 'a = nat] by simp
  then have "unat (word_of_nat n :: u64) = n" by (simp add: unat_of_nat_len)
  then show ?thesis
    using assms \<open>n < 2 ^ 64\<close> dec_nat_digits [of n]
    by (simp add: parse_scid_part_def parse_u64_dec_nat word_le_nat_alt)
qed

lemma scid_parts_bound:
  "unat (drop_bit 40 (s :: u64)) \<le> 0x00ffffff"
  "unat (drop_bit 16 (s :: u64) AND 0x00ffffff) \<le> 0x00ffffff"
  "unat ((s :: u64) AND 0x0000ffff) \<le> 0x0000ffff"
proof -
  have "unat s < 2 ^ 64" using unsigned_less [of s, where 'a = nat] by simp
  then show "unat (drop_bit 40 s) \<le> 0x00ffffff"
    by (simp add: drop_bit_eq_div unat_div)
  show "unat (drop_bit 16 s AND 0x00ffffff) \<le> 0x00ffffff" "unat (s AND 0x0000ffff) \<le> 0x0000ffff"
    using word_and_le1 [of "drop_bit 16 s" "0x00ffffff"] word_and_le1 [of s "0x0000ffff"]
    by (simp_all add: word_le_nat_alt)
qed

lemma scid_recombine:
  "(push_bit 40 (drop_bit 40 s) OR push_bit 16 (drop_bit 16 s AND 0x00ffffff)) OR (s AND 0x0000ffff) =
     (s :: u64)"
proof -
  have masks: "(0x00ffffff :: u64) = mask 24" "(0x0000ffff :: u64) = mask 16"
    by (simp_all add: mask_eq_exp_minus_1)
  show ?thesis
    unfolding masks
  proof (rule bit_word_eqI)
    fix n assume "n < LENGTH(64)"
    then consider "n < 16" | "16 \<le> n" "n < 40" | "40 \<le> n" "n < 64" by fastforce
    then show "bit ((push_bit 40 (drop_bit 40 s) OR push_bit 16 (drop_bit 16 s AND mask 24)) OR
        (s AND mask 16)) n = bit s n"
      by cases (auto simp: bit_or_iff bit_and_iff bit_push_bit_iff bit_drop_bit_eq bit_mask_iff)
  qed
qed

lemma parse_format_scid: "parse_short_channel_id (format_short_channel_id s) = Some s"
proof -
  let ?b = "drop_bit 40 s" and ?t = "drop_bit 16 s AND 0x00ffffff" and ?o = "s AND 0x0000ffff"
  have "split_on CHR ''x'' (format_short_channel_id s) =
      [dec_nat (unat ?b), dec_nat (unat ?t), dec_nat (unat ?o)]"
    using split_on_append_sep [OF dec_nat_no_sep(1) [of "unat ?b"]]
      split_on_append_sep [OF dec_nat_no_sep(1) [of "unat ?t"]]
      split_on_no_sep [OF dec_nat_no_sep(1) [of "unat ?o"]]
    by (simp add: format_short_channel_id_def)
  then show ?thesis
    using scid_parts_bound [of s] scid_recombine [of s]
    by (simp add: parse_short_channel_id_def parse_scid_part_dec)
qed

section \<open>Properties\<close>

text \<open>
  Both ends of a hosted channel derive the same identifiers: the channel id and the fake short
  channel id do not depend on which of the two keys is the local one, and of two different keys
  exactly one is node 1.
\<close>

lemma identifiers_symmetric:
  "channel_id C a b = channel_id C b a \<and>
   hosted_short_channel_id a b = hosted_short_channel_id b a \<and>
   (a = b \<or> (is_node1 a b \<longleftrightarrow> \<not> is_node1 b a))"
proof -
  have "a = b \<or> (is_node1 a b \<longleftrightarrow> \<not> is_node1 b a)"
    using bytes_le_total [of "serialize a" "serialize b"]
      bytes_le_antisym [of "serialize a" "serialize b"]
    by (auto simp: is_node1_def PublicKey.expand)
  then show ?thesis
    by (simp add: channel_id_def hosted_short_channel_id_def sort_keys_sym [of a b])
qed

end
