(* ===== verification/Gossip.thy ===== *)
theory Gossip
  imports Wire Channel_Id Config
begin

text \<open>
  Model of \<^verbatim>\<open>src/src/gossip.rs\<close>: the signed \<open>channel_update\<close> for the fake short channel id, in its
  BOLT-7 and hosted-channel envelopes. The signature covers the double hash of the witness bytes.
\<close>

definition channel_flags :: "PublicKey \<Rightarrow> PublicKey \<Rightarrow> bool \<Rightarrow> u8" where
  "channel_flags node_public peer_id enabled =
     (let direction = (if is_node1 node_public peer_id then 0 else 1);
          disabled = (if enabled then 0 else 2)
      in or direction disabled)"

definition build_channel_update :: "'c crypto_scheme \<Rightarrow> SecretKey \<Rightarrow> PublicKey \<Rightarrow> PublicKey \<Rightarrow> bytes \<Rightarrow>
    ChannelPolicy \<Rightarrow> u64 \<Rightarrow> bool \<Rightarrow> u32 \<Rightarrow> ChannelUpdate" where
  "build_channel_update C node_secret node_public peer_id chain_hash policy htlc_maximum_msat enabled
     timestamp =
     (let cu = \<lparr>cu_signature = replicate 64 0, cu_chain_hash = chain_hash,
                cu_short_channel_id = hosted_short_channel_id node_public peer_id,
                cu_timestamp = timestamp, cu_message_flags = 1,
                cu_channel_flags = channel_flags node_public peer_id enabled,
                cu_cltv_expiry_delta = pol_cltv_expiry_delta policy,
                cu_htlc_minimum_msat = pol_htlc_minimum_msat policy,
                cu_fee_base_msat = pol_fee_base_msat policy,
                cu_fee_proportional_millionths = pol_fee_proportional_millionths policy,
                cu_htlc_maximum_msat = htlc_maximum_msat, cu_tlv_stream = []\<rparr>;
          digest = sha256 C (sha256 C (ChannelUpdate_witness cu))
      in cu\<lparr>cu_signature := sign_ecdsa C digest node_secret\<rparr>)"

definition channel_update :: "'c crypto_scheme \<Rightarrow> SecretKey \<Rightarrow> PublicKey \<Rightarrow> PublicKey \<Rightarrow> bytes \<Rightarrow>
    ChannelPolicy \<Rightarrow> u64 \<Rightarrow> bool \<Rightarrow> u32 \<Rightarrow> bytes" where
  "channel_update C node_secret node_public peer_id chain_hash policy htlc_maximum_msat enabled
     timestamp =
     (let cu = build_channel_update C node_secret node_public peer_id chain_hash policy
                 htlc_maximum_msat enabled timestamp
      in write_u16 258 @ ignore_err (ChannelUpdate_encode cu))"

definition phc_channel_update_sync :: "'c crypto_scheme \<Rightarrow> SecretKey \<Rightarrow> PublicKey \<Rightarrow> PublicKey \<Rightarrow> bytes \<Rightarrow>
    ChannelPolicy \<Rightarrow> u64 \<Rightarrow> bool \<Rightarrow> u32 \<Rightarrow> PhcChannelUpdate" where
  "phc_channel_update_sync C node_secret node_public peer_id chain_hash policy htlc_maximum_msat
     enabled timestamp =
     \<lparr>phc_tag = TAG_PHC_CHANNEL_UPDATE_SYNC,
      phc_body = build_channel_update C node_secret node_public peer_id chain_hash policy
        htlc_maximum_msat enabled timestamp\<rparr>"

section \<open>Properties\<close>



end
