(* ===== verification/Controller.thy ===== *)
theory Controller
  imports Store Node Ledger Sphinx Gossip
begin

text \<open>
  The base of the model of \<^verbatim>\<open>src/src/channel.rs\<close>: the controller with its collaborators, the
  derived channel status, the duplicate filter, loading and saving of channels, policies, message
  sending, error marking and the channel-update sender.

  A \<open>controller\<close> holds what never changes while the plugin runs: the crypto, store and node
  operations, the configuration, the node key, the clock, the randomness source, file reading and
  the serialisers. The \<open>world\<close> is what operations change: the store, the outside node, the two peer
  tables, and \<open>w_trace\<close>, a history of the effects below that no operation reads and that only serves to state what happens in which order. Awaits are sequential, so a handler is one
  action on the world. A Rust panic is the error \<open>Panicked\<close>, which no handler catches.
\<close>

section \<open>Types\<close>

datatype ChannelError =
    StateErr StateError
  | StoreErr StoreError
  | NodeErr NodeError
  | EncodeErr string
  | ChannelNotFound string
  | ChannelErrored
  | ChainHashMismatch
  | InvalidSecret
  | InvalidMessage string
  | BlockDayOutOfRange u32 u32
  | InFlightHtlcs
  | Panicked

datatype Status = NotOpened | Opening | Active | SErrored | Overriding | Suspended

text \<open>
  What the history records: a channel that was saved, a message that was sent, a preimage that the
  node stored under a hash, a payment sent to the network for an HTLC of a peer, and the failure of
  the HTLC behind a forward, named by its outgoing channel and id.
\<close>

datatype event =
    Saved PublicKey ChannelData
  | Sent PublicKey HostedMessage
  | Kept bytes bytes
  | PaidOut PublicKey SendOnionParams
  | GaveBack u64 u64

record ('st, 'v, 'nd) controller =
  c_crypto :: sphinx_crypto
  c_store :: "('st, 'v) store_ops"
  c_node :: "'nd node_ops"
  c_config :: Config
  c_node_secret :: SecretKey
  c_node_public :: PublicKey
  c_clock :: "'nd \<Rightarrow> u64 option"
  c_session_key :: "'nd \<Rightarrow> SecretKey \<times> 'nd"
  c_read_file :: "string \<Rightarrow> bytes option"
  c_channel :: "(ChannelData, 'v) serde"
  c_policy :: "(ChannelPolicy, 'v) serde"
  c_secret :: "(ChannelSecret, 'v) serde"
  c_link :: "(ForwardLink, 'v) serde"
  c_meta :: "(Meta, 'v) serde"
  c_event :: "(LedgerEvent, 'v) serde"
  c_marker :: "(bool, 'v) serde"

record ('st, 'nd) world =
  w_store :: 'st
  w_node :: 'nd
  w_encodings :: "PublicKey \<rightharpoonup> WireEncoding"
  w_connections :: "PublicKey \<rightharpoonup> bool"
  w_trace :: "event list"

type_synonym ('st, 'nd, 'a) handler = "(('st, 'nd) world, ChannelError, 'a) action"

definition show_encode_error :: "EncodeError \<Rightarrow> string" where
  "show_encode_error e =
     (case e of
        EncodeOverflow v \<Rightarrow> ''uint64overflow: value '' @ dec_nat (unat v) @ '' exceeds 2^63 - 1''
      | VarsizeTooLarge n \<Rightarrow> ''varsize blob exceeds u16::MAX: '' @ dec_nat n @ '' bytes''
      | InvalidOnionLength x y \<Rightarrow>
          ''onion routing packet must be exactly '' @ dec_nat x @ '' bytes, got '' @ dec_nat y
      | InvalidUtf8 s \<Rightarrow> ''invalid UTF-8: '' @ s)"

text \<open>Calls into the store and the node, and \<open>?\<close> on the other error types.\<close>

definition on_store :: "('st, StoreError, 'a) action \<Rightarrow> (('st, 'nd) world, StoreError, 'a) action" where
  "on_store m = azoom w_store (\<lambda>st w. w\<lparr>w_store := st\<rparr>) m"

definition on_node :: "('nd, NodeError, 'a) action \<Rightarrow> (('st, 'nd) world, NodeError, 'a) action" where
  "on_node m = azoom w_node (\<lambda>nd w. w\<lparr>w_node := nd\<rparr>) m"

definition lift_store :: "('st, StoreError, 'a) action \<Rightarrow> ('st, 'nd, 'a) handler" where
  "lift_store m = amap_err StoreErr (on_store m)"

definition lift_node :: "('nd, NodeError, 'a) action \<Rightarrow> ('st, 'nd, 'a) handler" where
  "lift_node m = amap_err NodeErr (on_node m)"

definition try_state :: "StateError + 'a \<Rightarrow> ('st, 'nd, 'a) handler" where
  "try_state r = alift (map_err StateErr r)"

definition try_encode :: "EncodeError + 'a \<Rightarrow> ('st, 'nd, 'a) handler" where
  "try_encode r = alift (map_err (\<lambda>e. EncodeErr (show_encode_error e)) r)"

definition record_event :: "event \<Rightarrow> ('st, 'nd, unit) handler" where
  "record_event e = amodify (\<lambda>w. w\<lparr>w_trace := w_trace w @ [e]\<rparr>)"

section \<open>Status and duplicate resolutions\<close>

definition derive_status :: "ChannelData \<Rightarrow> Status" where
  "derive_status data =
     (if cd_suspended data then Suspended
      else if cd_proposed_override data \<noteq> None then Overriding
      else if cd_local_errors data \<noteq> [] \<or> cd_remote_errors data \<noteq> [] then SErrored
      else if \<not> cd_established data then
        (if local_updates (cd_lcss data) = 0 \<and> remote_updates (cd_lcss data) = 0 then
           (if cd_last_refund_scriptpubkey data = [] then NotOpened else Opening)
         else Opening)
      else Active)"

fun resolves_id :: "PendingUpdate \<Rightarrow> u64 option" where
  "resolves_id (Add _) = None"
| "resolves_id (Fulfill _ i _) = Some i"
| "resolves_id (Fail _ i _) = Some i"
| "resolves_id (FailMalformed _ i _ _) = Some i"

fun resolution_key :: "UncommittedUpdate \<Rightarrow> (bool \<times> u64) option" where
  "resolution_key (Local u) = map_option (Pair True) (resolves_id u)"
| "resolution_key (Remote u) = map_option (Pair False) (resolves_id u)"

definition has_uncommitted_local_resolution :: "ChannelData \<Rightarrow> u64 \<Rightarrow> bool" where
  "has_uncommitted_local_resolution data i =
     list_ex (\<lambda>u. case u of Local p \<Rightarrow> resolves_id p = Some i | Remote _ \<Rightarrow> False) (cd_uncommitted data)"

definition has_uncommitted_remote_resolution :: "ChannelData \<Rightarrow> u64 \<Rightarrow> bool" where
  "has_uncommitted_remote_resolution data i =
     list_ex (\<lambda>u. case u of Remote p \<Rightarrow> resolves_id p = Some i | Local _ \<Rightarrow> False) (cd_uncommitted data)"

text \<open>The filter threads the set of keys already seen.\<close>

fun dedup_from :: "(bool \<times> u64) set \<Rightarrow> UncommittedUpdate list \<Rightarrow> UncommittedUpdate list" where
  "dedup_from seen [] = []"
| "dedup_from seen (u # us) =
     (case resolution_key u of
        None \<Rightarrow> u # dedup_from seen us
      | Some k \<Rightarrow> if k \<in> seen then dedup_from seen us else u # dedup_from (insert k seen) us)"

definition deduplicate_uncommitted_resolutions :: "UncommittedUpdate list \<Rightarrow> UncommittedUpdate list" where
  "deduplicate_uncommitted_resolutions updates = dedup_from {} updates"

section \<open>Keys\<close>

definition peer_hex :: "('st, 'v, 'nd) controller \<Rightarrow> PublicKey \<Rightarrow> string" where
  "peer_hex E peer_id = hex_encode (c_crypto E) (serialize peer_id)"

definition channel_key :: "('st, 'v, 'nd) controller \<Rightarrow> PublicKey \<Rightarrow> key" where
  "channel_key E peer_id = [''canopus'', ''channels'', peer_hex E peer_id]"

definition secret_key :: "('st, 'v, 'nd) controller \<Rightarrow> bytes \<Rightarrow> key" where
  "secret_key E secret = [''canopus'', ''secrets'', hex_encode (c_crypto E) secret]"

definition forward_key :: "u64 \<Rightarrow> u64 \<Rightarrow> key" where
  "forward_key scid hid =
     [''canopus'', ''htlc_forwards'', dec_nat (unat scid), dec_nat (unat hid)]"

definition policy_key :: key where
  "policy_key = [''canopus'', ''policy'']"

definition parse_secret_hex :: "('st, 'v, 'nd) controller \<Rightarrow> string \<Rightarrow> ChannelError + bytes" where
  "parse_secret_hex E secret =
     (case hex_decode (c_crypto E) secret of
        None \<Rightarrow> Inl (InvalidMessage ''secret must be 32-byte hex'')
      | Some b \<Rightarrow>
          if length b = 32 then Inr b else Inl (InvalidMessage ''secret must be 32-byte hex''))"

section \<open>Peer tables\<close>

definition note_peer_wire_encoding :: "PublicKey \<Rightarrow> WireEncoding \<Rightarrow> ('st, 'nd, unit) handler" where
  "note_peer_wire_encoding peer_id encoding =
     amodify (\<lambda>w. w\<lparr>w_encodings := (w_encodings w)(peer_id \<mapsto> encoding)\<rparr>)"

definition note_peer_connection :: "PublicKey \<Rightarrow> bool \<Rightarrow> ('st, 'nd, unit) handler" where
  "note_peer_connection peer_id connected =
     amodify (\<lambda>w. w\<lparr>w_connections := (w_connections w)(peer_id \<mapsto> connected)\<rparr>)"

text \<open>Entries already known win over the snapshot.\<close>

definition note_initial_peer_connections :: "(PublicKey \<rightharpoonup> bool) \<Rightarrow> ('st, 'nd, unit) handler" where
  "note_initial_peer_connections connections =
     amodify (\<lambda>w. w\<lparr>w_connections := connections ++ w_connections w\<rparr>)"

definition peer_is_known_disconnected :: "PublicKey \<Rightarrow> ('st, 'nd, bool) handler" where
  "peer_is_known_disconnected peer_id = aget (\<lambda>w. w_connections w peer_id = Some False)"

definition peer_wire_encoding :: "PublicKey \<Rightarrow> ('st, 'nd, WireEncoding) handler" where
  "peer_wire_encoding peer_id = aget (\<lambda>w. unwrap_or Strict (w_encodings w peer_id))"

section \<open>Loading and saving\<close>

definition load_channel :: "('st, 'v, 'nd) controller \<Rightarrow> PublicKey \<Rightarrow>
    ('st, 'nd, ChannelData option) handler" where
  "load_channel E peer_id =
     acase (on_store (get_json (c_store E) (c_channel E) (channel_key E peer_id))) (\<lambda>r. case r of
       Inr (data, _) \<Rightarrow> aret (Some data)
     | Inl (NotFound _) \<Rightarrow> aret None
     | Inl e \<Rightarrow> afail (StoreErr e))"

text \<open>\<open>load_channel(..).await?.ok_or(NotFound)?\<close>\<close>

definition require_channel :: "('st, 'v, 'nd) controller \<Rightarrow> PublicKey \<Rightarrow>
    ('st, 'nd, ChannelData) handler" where
  "require_channel E peer_id =
     abind (load_channel E peer_id) (\<lambda>r. alift (ok_or r (ChannelNotFound (peer_hex E peer_id))))"

definition save_channel :: "('st, 'v, 'nd) controller \<Rightarrow> PublicKey \<Rightarrow> ChannelData \<Rightarrow> u64 option \<Rightarrow>
    ('st, 'nd, unit) handler" where
  "save_channel E peer_id data existing_gen =
     (let key = channel_key E peer_id in
      abind (case existing_gen of
        Some gen \<Rightarrow> lift_store (update_json (c_store E) (c_channel E) key data gen)
      | None \<Rightarrow>
          acase (on_store (create_json (c_store E) (c_channel E) key data)) (\<lambda>r. case r of
            Inr _ \<Rightarrow> aret ()
          | Inl (AlreadyExists _) \<Rightarrow>
              abind (lift_store (get_json (c_store E) (c_channel E) key)) (\<lambda>(_, gen).
              lift_store (update_json (c_store E) (c_channel E) key data gen))
          | Inl e \<Rightarrow> afail (StoreErr e)))
      (\<lambda>_. record_event (Saved peer_id data)))"

definition repair_duplicate_uncommitted_resolutions :: "('st, 'v, 'nd) controller \<Rightarrow> PublicKey \<Rightarrow>
    ChannelData \<Rightarrow> ('st, 'nd, ChannelData) handler" where
  "repair_duplicate_uncommitted_resolutions E peer_id data =
     (let deduplicated = deduplicate_uncommitted_resolutions (cd_uncommitted data) in
      if length deduplicated \<noteq> length (cd_uncommitted data) then
        let data' = data\<lparr>cd_uncommitted := deduplicated\<rparr> in
        abind (save_channel E peer_id data' None) (\<lambda>_. aret data')
      else aret data)"

section \<open>Policies\<close>

definition current_block_day :: "('st, 'v, 'nd) controller \<Rightarrow> ('st, 'nd, u32) handler" where
  "current_block_day E =
     abind (lift_node (node_get_block_height (c_node E))) (\<lambda>height. aret (height div 144))"

definition effective_policy :: "('st, 'v, 'nd) controller \<Rightarrow> ('st, 'nd, ChannelPolicy) handler" where
  "effective_policy E =
     acase (on_store (get_json (c_store E) (c_policy E) policy_key)) (\<lambda>r. case r of
       Inr (policy, _) \<Rightarrow> aret policy
     | Inl (NotFound _) \<Rightarrow> aret (cfg_policy (c_config E))
     | Inl e \<Rightarrow> afail (StoreErr e))"

definition set_policy :: "('st, 'v, 'nd) controller \<Rightarrow> ChannelPolicy \<Rightarrow> ('st, 'nd, unit) handler" where
  "set_policy E policy =
     acase (on_store (create_json (c_store E) (c_policy E) policy_key policy)) (\<lambda>r. case r of
       Inr _ \<Rightarrow> aret ()
     | Inl (AlreadyExists _) \<Rightarrow>
         abind (lift_store (get_json (c_store E) (c_policy E) policy_key)) (\<lambda>(_, gen).
         lift_store (update_json (c_store E) (c_policy E) policy_key policy gen))
     | Inl e \<Rightarrow> afail (StoreErr e))"

definition routing_policy_for_data :: "('st, 'v, 'nd) controller \<Rightarrow> ChannelData \<Rightarrow>
    ('st, 'nd, ChannelRoutingPolicy) handler" where
  "routing_policy_for_data E data =
     (case cd_routing_policy data of
        Some policy \<Rightarrow> aret policy
      | None \<Rightarrow> abind (effective_policy E) (\<lambda>p. aret (from_policy p)))"

record ChannelParameters =
  cp_channel_capacity_msat :: u64
  cp_initial_client_balance_msat :: u64
  cp_local_balance_msat :: u64
  cp_remote_balance_msat :: u64
  cp_max_htlc_value_in_flight_msat :: u64
  cp_htlc_minimum_msat :: u64
  cp_htlc_maximum_msat :: u64
  cp_maxhtlcs :: u16
  cp_feebase_msat :: u32
  cp_feeppm :: u32
  cp_cltv_expiry_delta :: u16
  cp_channel_update_pending :: bool
  cp_override_pending :: bool

definition channel_parameters_for_data :: "('st, 'v, 'nd) controller \<Rightarrow> ChannelData \<Rightarrow>
    ('st, 'nd, ChannelParameters) handler" where
  "channel_parameters_for_data E data =
     (let s = unwrap_or (cd_lcss data) (cd_proposed_override data); init = init_hosted_channel s in
      abind (routing_policy_for_data E data) (\<lambda>routing.
      aret \<lparr>cp_channel_capacity_msat = ihc_channel_capacity_msat init,
            cp_initial_client_balance_msat = ihc_initial_client_balance_msat init,
            cp_local_balance_msat = local_balance_msat s,
            cp_remote_balance_msat = remote_balance_msat s,
            cp_max_htlc_value_in_flight_msat = ihc_max_htlc_value_in_flight_msat init,
            cp_htlc_minimum_msat = ihc_htlc_minimum_msat init,
            cp_htlc_maximum_msat = rp_htlc_maximum_msat routing,
            cp_maxhtlcs = ihc_max_accepted_htlcs init,
            cp_feebase_msat = rp_fee_base_msat routing,
            cp_feeppm = rp_fee_proportional_millionths routing,
            cp_cltv_expiry_delta = rp_cltv_expiry_delta routing,
            cp_channel_update_pending = cd_channel_update_pending data,
            cp_override_pending = (cd_proposed_override data \<noteq> None)\<rparr>))"

section \<open>Sending and errors\<close>

definition send_message_with_encoding :: "('st, 'v, 'nd) controller \<Rightarrow> PublicKey \<Rightarrow> HostedMessage \<Rightarrow>
    WireEncoding \<Rightarrow> ('st, 'nd, unit) handler" where
  "send_message_with_encoding E peer_id msg encoding =
     abind (try_encode (encode_with_encoding msg encoding)) (\<lambda>bytes.
     abind (lift_node (node_send_custom_msg (c_node E) peer_id bytes)) (\<lambda>_.
     record_event (Sent peer_id msg)))"

definition send_message :: "('st, 'v, 'nd) controller \<Rightarrow> PublicKey \<Rightarrow> HostedMessage \<Rightarrow>
    ('st, 'nd, unit) handler" where
  "send_message E peer_id msg =
     abind (peer_wire_encoding peer_id) (\<lambda>encoding. send_message_with_encoding E peer_id msg encoding)"

definition mark_errored :: "('st, 'v, 'nd) controller \<Rightarrow> PublicKey \<Rightarrow> ChannelData \<Rightarrow> string \<Rightarrow>
    ('st, 'nd, unit) handler" where
  "mark_errored E peer_id data error =
     save_channel E peer_id (data\<lparr>cd_local_errors := cd_local_errors data @ [error]\<rparr>) None"

definition mark_remote_errored :: "('st, 'v, 'nd) controller \<Rightarrow> PublicKey \<Rightarrow> ChannelData \<Rightarrow> string \<Rightarrow>
    ('st, 'nd, unit) handler" where
  "mark_remote_errored E peer_id data error =
     save_channel E peer_id (data\<lparr>cd_remote_errors := cd_remote_errors data @ [error]\<rparr>) None"

definition error_message :: "('st, 'v, 'nd) controller \<Rightarrow> PublicKey \<Rightarrow> string \<Rightarrow> HostedMessage" where
  "error_message E peer_id text =
     Error \<lparr>err_channel_id = channel_id (c_crypto E) (c_node_public E) peer_id,
            err_data = bytes_of_string text, err_tlv_stream = []\<rparr>"

text \<open>\<open>SystemTime::now()\<close> in seconds: zero before the epoch, truncated to 32 bits.\<close>

definition now_secs :: "('st, 'v, 'nd) controller \<Rightarrow> ('st, 'nd, u64) handler" where
  "now_secs E = aget (\<lambda>w. unwrap_or 0 (c_clock E (w_node w)))"

definition now_or_epoch_error :: "('st, 'v, 'nd) controller \<Rightarrow> ('st, 'nd, u64) handler" where
  "now_or_epoch_error E =
     abind (aget (\<lambda>w. c_clock E (w_node w)))
       (\<lambda>t. alift (ok_or t (InvalidMessage ''system clock is before Unix epoch'')))"

definition send_channel_update :: "('st, 'v, 'nd) controller \<Rightarrow> PublicKey \<Rightarrow> ('st, 'nd, unit) handler" where
  "send_channel_update E peer_id =
     abind (require_channel E peer_id) (\<lambda>data.
     abind (now_secs E) (\<lambda>now.
     abind (routing_policy_for_data E data) (\<lambda>routing.
     let init = init_hosted_channel (cd_lcss data);
         phc = phc_channel_update_sync (c_crypto E) (c_node_secret E) (c_node_public E) peer_id
           (cfg_chain_hash (c_config E))
           \<lparr>pol_channel_capacity_msat = ihc_channel_capacity_msat init,
            pol_initial_client_balance_msat = ihc_initial_client_balance_msat init,
            pol_max_htlc_value_in_flight_msat = ihc_max_htlc_value_in_flight_msat init,
            pol_htlc_minimum_msat = ihc_htlc_minimum_msat init,
            pol_max_accepted_htlcs = ihc_max_accepted_htlcs init,
            pol_fee_base_msat = rp_fee_base_msat routing,
            pol_fee_proportional_millionths = rp_fee_proportional_millionths routing,
            pol_cltv_expiry_delta = rp_cltv_expiry_delta routing\<rparr>
           (rp_htlc_maximum_msat routing) (derive_status data = Active) (ucast now) in
     abind (peer_wire_encoding peer_id) (\<lambda>encoding.
     send_message_with_encoding E peer_id (PhcChannelUpdate phc) encoding))))"

definition send_pending_channel_update :: "('st, 'v, 'nd) controller \<Rightarrow> PublicKey \<Rightarrow>
    ('st, 'nd, unit) handler" where
  "send_pending_channel_update E peer_id =
     abind (require_channel E peer_id) (\<lambda>data.
     if \<not> cd_channel_update_pending data then aret ()
     else abind (send_channel_update E peer_id) (\<lambda>_.
       abind (require_channel E peer_id) (\<lambda>new_data.
       save_channel E peer_id (new_data\<lparr>cd_channel_update_pending := False\<rparr>) None)))"

definition ledger_of :: "('st, 'v, 'nd) controller \<Rightarrow> ('st, 'v) ledger_env" where
  "ledger_of E =
     \<lparr>lg_store = c_store E, lg_hex_encode = hex_encode (c_crypto E), lg_meta = c_meta E,
      lg_event = c_event E, lg_marker = c_marker E\<rparr>"

definition record_ledger_once :: "('st, 'v, 'nd) controller \<Rightarrow> PublicKey \<Rightarrow> string \<Rightarrow> LedgerEventType \<Rightarrow>
    u64 \<Rightarrow> bytes option \<Rightarrow> ('st, 'nd, unit) handler" where
  "record_ledger_once E peer_id event_id event_type amount_msat payment_hash =
     abind (now_secs E) (\<lambda>now.
     lift_store (record_once (ledger_of E) now event_id (peer_hex E peer_id) event_type amount_msat 0
       payment_hash))"

text \<open>The prefix of the ledger event ids: peer, local and remote update counters.\<close>

definition event_prefix :: "('st, 'v, 'nd) controller \<Rightarrow> PublicKey \<Rightarrow> LastCrossSignedState \<Rightarrow> string" where
  "event_prefix E peer_id s =
     peer_hex E peer_id @ '':'' @ dec_nat (unat (local_updates s)) @ '':'' @
     dec_nat (unat (remote_updates s)) @ '':''"

section \<open>Listing\<close>

definition list_channels :: "('st, 'v, 'nd) controller \<Rightarrow> ('st, 'nd, PublicKey list) handler" where
  "list_channels E =
     abind (lift_store (store_list (c_store E) [''canopus'', ''channels''])) (\<lambda>children.
     aret (List.map_filter (\<lambda>child.
       if child = [] then None
       else case hex_decode (c_crypto E) (last child) of None \<Rightarrow> None
         | Some bytes \<Rightarrow> if length bytes = 33 then pk_from_slice (c_crypto E) bytes else None)
       children))"

definition get_status :: "('st, 'v, 'nd) controller \<Rightarrow> PublicKey \<Rightarrow> ('st, 'nd, Status) handler" where
  "get_status E peer_id =
     abind (load_channel E peer_id) (\<lambda>r. aret (case r of Some d \<Rightarrow> derive_status d | None \<Rightarrow> NotOpened))"

definition get_channel_data :: "('st, 'v, 'nd) controller \<Rightarrow> PublicKey \<Rightarrow>
    ('st, 'nd, ChannelData option) handler" where
  "get_channel_data E peer_id = load_channel E peer_id"

section \<open>Signing the pending state\<close>

definition manager_of :: "ChannelData \<Rightarrow> StateManager" where
  "manager_of data = \<lparr>sm_lcss = cd_lcss data, sm_uncommitted = cd_uncommitted data\<rparr>"

definition state_update_for_uncommitted :: "('st, 'v, 'nd) controller \<Rightarrow> ChannelData \<Rightarrow>
    ('st, 'nd, StateUpdate) handler" where
  "state_update_for_uncommitted E data =
     abind (try_state (lcss_next (c_crypto E) (manager_of data))) (\<lambda>next.
     abind (current_block_day E) (\<lambda>day.
     abind (try_encode (sign (c_crypto E) (c_node_secret E) (next\<lparr>block_day := day\<rparr>))) (\<lambda>signed.
     aret (state_update signed))))"

end
