(* ===== verification/Forwarding.thy ===== *)
theory Forwarding
  imports Controller
begin

text \<open>
  The HTLC forwarding part of \<^verbatim>\<open>src/src/channel.rs\<close>: offering an HTLC to a hosted peer, resolving
  forwards backwards, dispatching committed HTLCs, recovery after a restart, and the deadline
  watchdog.
\<close>

section \<open>Constants\<close>

definition HOSTED_DELIVERY_FAILED_ERROR :: string where
  "HOSTED_DELIVERY_FAILED_ERROR = ''hosted HTLC delivery failed after upstream acceptance''"

definition HOSTED_HTLC_EXPIRED_ERROR :: string where
  "HOSTED_HTLC_EXPIRED_ERROR = ''hosted HTLC expired before settlement''"

definition HOSTED_COMMIT_TIMEOUT_SECS :: u64 where
  "HOSTED_COMMIT_TIMEOUT_SECS = 30"

section \<open>Failure onions\<close>

definition failure_onion_for_peer_htlc :: "('st, 'v, 'nd) controller \<Rightarrow> UpdateAddHtlc \<Rightarrow> u16 \<Rightarrow>
    ChannelError + bytes" where
  "failure_onion_for_peer_htlc E htlc failure_code =
     (let failure = be_bytes 2 (unat failure_code) in
      case peel_onion (c_crypto E) (c_node_secret E) (htlc_onion_routing_packet htlc)
             (htlc_payment_hash htlc) of
        Inr peeled \<Rightarrow> Inr (wrap_failure (c_crypto E) (po_shared_secret peeled) failure)
      | Inl (Err _) \<Rightarrow> Inr failure
      | Inl Panic \<Rightarrow> Inl Panicked)"

definition wrap_forward_failure :: "('st, 'v, 'nd) controller \<Rightarrow> ForwardLink \<Rightarrow> bytes \<Rightarrow> bytes" where
  "wrap_forward_failure E link failure =
     (case fl_shared_secret link of
        Some shared_secret \<Rightarrow> wrap_failure (c_crypto E) shared_secret failure
      | None \<Rightarrow> failure)"

section \<open>Lookups\<close>

definition hosted_scid_of :: "('st, 'v, 'nd) controller \<Rightarrow> PublicKey \<Rightarrow> u64" where
  "hosted_scid_of E peer_id = hosted_short_channel_id (c_node_public E) peer_id"

definition own_channel_id :: "('st, 'v, 'nd) controller \<Rightarrow> PublicKey \<Rightarrow> bytes" where
  "own_channel_id E peer_id = channel_id (c_crypto E) (c_node_public E) peer_id"

definition peer_for_hosted_scid :: "('st, 'v, 'nd) controller \<Rightarrow> u64 \<Rightarrow>
    ('st, 'nd, PublicKey option) handler" where
  "peer_for_hosted_scid E scid =
     abind (list_channels E) (\<lambda>peers. aret (List.find (\<lambda>peer. hosted_scid_of E peer = scid) peers))"

definition forward_link_for_incoming :: "('st, 'v, 'nd) controller \<Rightarrow> u64 \<Rightarrow> u64 \<Rightarrow>
    ('st, 'nd, ForwardLink option) handler" where
  "forward_link_for_incoming E incoming_scid incoming_htlc_id =
     abind (lift_store (store_list (c_store E) [''canopus'', ''htlc_forwards''])) (\<lambda>scid_keys.
     afind scid_keys (\<lambda>scid_key.
       if scid_key = [] then aret None
       else abind (lift_store (store_list (c_store E) [''canopus'', ''htlc_forwards'', last scid_key]))
         (\<lambda>htlc_keys. afind htlc_keys (\<lambda>key.
           acase (on_store (get_json (c_store E) (c_link E) key)) (\<lambda>r. case r of
             Inr (link, _) \<Rightarrow>
               aret (if fl_incoming_scid link = incoming_scid \<and>
                        fl_incoming_htlc_id link = incoming_htlc_id then Some link else None)
           | Inl (NotFound _) \<Rightarrow> aret None
           | Inl e \<Rightarrow> afail (StoreErr e))))))"

text \<open>Reading the link of an outgoing HTLC: absent is \<open>None\<close>.\<close>

definition load_link :: "('st, 'v, 'nd) controller \<Rightarrow> u64 \<Rightarrow> u64 \<Rightarrow>
    ('st, 'nd, ForwardLink option) handler" where
  "load_link E scid hid =
     acase (on_store (get_json (c_store E) (c_link E) (forward_key scid hid))) (\<lambda>r. case r of
       Inr (link, _) \<Rightarrow> aret (Some link)
     | Inl (NotFound _) \<Rightarrow> aret None
     | Inl e \<Rightarrow> afail (StoreErr e))"

definition save_link :: "('st, 'v, 'nd) controller \<Rightarrow> u64 \<Rightarrow> u64 \<Rightarrow> ForwardLink \<Rightarrow>
    ('st, 'nd, unit) handler" where
  "save_link E scid hid link =
     acase (on_store (create_json (c_store E) (c_link E) (forward_key scid hid) link)) (\<lambda>r. case r of
       Inr _ \<Rightarrow> aret ()
     | Inl (AlreadyExists _) \<Rightarrow> aret ()
     | Inl e \<Rightarrow> afail (StoreErr e))"

definition result_key_of :: "ForwardLink \<Rightarrow> string" where
  "result_key_of link =
     dec_nat (unat (fl_incoming_scid link)) @ ''/'' @ dec_nat (unat (fl_incoming_htlc_id link))"

section \<open>Local resolutions of a peer's HTLC\<close>

text \<open>
  The shared body of the four senders: load the channel, ignore an HTLC that is not committed, add
  the update, sign the pending state, save, then send the update and the signature.
\<close>

definition send_local_update :: "('st, 'v, 'nd) controller \<Rightarrow> PublicKey \<Rightarrow> u64 \<Rightarrow> PendingUpdate \<Rightarrow>
    HostedMessage \<Rightarrow> ('st, 'nd, unit) handler" where
  "send_local_update E peer_id hid update msg =
     abind (require_channel E peer_id) (\<lambda>data.
     if \<not> list_ex (\<lambda>h. htlc_id h = hid) (incoming_htlcs (cd_lcss data)) then aret ()
     else
     let new_data = data\<lparr>cd_uncommitted := cd_uncommitted data @ [Local update]\<rparr> in
     abind (state_update_for_uncommitted E new_data) (\<lambda>su.
     abind (save_channel E peer_id new_data None) (\<lambda>_.
     abind (send_message E peer_id msg) (\<lambda>_.
     send_message E peer_id (StateUpdate su)))))"

definition send_local_fulfill :: "('st, 'v, 'nd) controller \<Rightarrow> PublicKey \<Rightarrow> ForwardLink \<Rightarrow> bytes \<Rightarrow>
    ('st, 'nd, unit) handler" where
  "send_local_fulfill E peer_id link preimage =
     send_local_update E peer_id (fl_incoming_htlc_id link)
       (Fulfill (own_channel_id E peer_id) (fl_incoming_htlc_id link) preimage)
       (UpdateFulfillHtlc \<lparr>ff_channel_id = own_channel_id E peer_id,
          ff_id = fl_incoming_htlc_id link, ff_payment_preimage = preimage, ff_tlv_stream = []\<rparr>)"

definition send_local_fail_for_htlc :: "('st, 'v, 'nd) controller \<Rightarrow> PublicKey \<Rightarrow> u64 \<Rightarrow> bytes \<Rightarrow>
    ('st, 'nd, unit) handler" where
  "send_local_fail_for_htlc E peer_id hid reason =
     send_local_update E peer_id hid (Fail (own_channel_id E peer_id) hid reason)
       (UpdateFailHtlc \<lparr>uf_channel_id = own_channel_id E peer_id, uf_id = hid,
          uf_reason = reason, uf_tlv_stream = []\<rparr>)"

definition send_local_fail :: "('st, 'v, 'nd) controller \<Rightarrow> PublicKey \<Rightarrow> ForwardLink \<Rightarrow> bytes \<Rightarrow>
    ('st, 'nd, unit) handler" where
  "send_local_fail E peer_id link reason =
     send_local_update E peer_id (fl_incoming_htlc_id link)
       (Fail (own_channel_id E peer_id) (fl_incoming_htlc_id link) reason)
       (UpdateFailHtlc \<lparr>uf_channel_id = own_channel_id E peer_id,
          uf_id = fl_incoming_htlc_id link, uf_reason = reason, uf_tlv_stream = []\<rparr>)"

definition send_local_fail_malformed_for_htlc :: "('st, 'v, 'nd) controller \<Rightarrow> PublicKey \<Rightarrow> u64 \<Rightarrow>
    bytes \<Rightarrow> u16 \<Rightarrow> ('st, 'nd, unit) handler" where
  "send_local_fail_malformed_for_htlc E peer_id hid sha256_of_onion failure_code =
     send_local_update E peer_id hid
       (FailMalformed (own_channel_id E peer_id) hid sha256_of_onion failure_code)
       (UpdateFailMalformedHtlc \<lparr>fm_channel_id = own_channel_id E peer_id, fm_id = hid,
          fm_sha256_of_onion = sha256_of_onion, fm_failure_code = failure_code,
          fm_tlv_stream = []\<rparr>)"

section \<open>Resolving forwards\<close>

text \<open>\<open>node.store_preimage\<close>, noted in the history when it succeeds.\<close>

definition keep_preimage :: "('st, 'v, 'nd) controller \<Rightarrow> bytes \<Rightarrow> bytes \<Rightarrow> ('st, 'nd, unit) handler" where
  "keep_preimage E hash preimage =
     abind (lift_node (node_store_preimage (c_node E) hash preimage)) (\<lambda>_. record_event (Kept hash preimage))"

definition resolve_forward_fulfill :: "('st, 'v, 'nd) controller \<Rightarrow> u64 \<Rightarrow> u64 \<Rightarrow> bytes \<Rightarrow>
    ('st, 'nd, unit) handler" where
  "resolve_forward_fulfill E outgoing_scid outgoing_htlc_id preimage =
     abind (load_link E outgoing_scid outgoing_htlc_id) (\<lambda>r. case r of None \<Rightarrow> aret ()
     | Some link \<Rightarrow>
         abind (peer_for_hosted_scid E (fl_incoming_scid link)) (\<lambda>source.
         abind (case source of
             Some source_peer \<Rightarrow> send_local_fulfill E source_peer link preimage
           | None \<Rightarrow>
               lift_node (node_resolve_htlc (c_node E) (result_key_of link) (Resolve preimage))) (\<lambda>_.
         aignore (on_store (store_delete (c_store E) (forward_key outgoing_scid outgoing_htlc_id))))))"

definition resolve_forward_fail :: "('st, 'v, 'nd) controller \<Rightarrow> u64 \<Rightarrow> u64 \<Rightarrow> bytes \<Rightarrow>
    ('st, 'nd, unit) handler" where
  "resolve_forward_fail E outgoing_scid outgoing_htlc_id failure =
     abind (load_link E outgoing_scid outgoing_htlc_id) (\<lambda>r. case r of None \<Rightarrow> aret ()
     | Some link \<Rightarrow>
         let failure_onion = wrap_forward_failure E link failure in
         abind (record_event (GaveBack outgoing_scid outgoing_htlc_id)) (\<lambda>_.
         abind (peer_for_hosted_scid E (fl_incoming_scid link)) (\<lambda>source.
         abind (case source of
             Some source_peer \<Rightarrow> send_local_fail E source_peer link failure_onion
           | None \<Rightarrow>
               lift_node (node_resolve_htlc (c_node E) (result_key_of link)
                 (ResolveFail failure_onion))) (\<lambda>_.
         aignore (on_store (store_delete (c_store E) (forward_key outgoing_scid outgoing_htlc_id)))))))"

definition handle_outgoing_payment_result :: "('st, 'v, 'nd) controller \<Rightarrow> u64 \<Rightarrow> u64 \<Rightarrow>
    PaymentStatus \<Rightarrow> ('st, 'nd, unit) handler" where
  "handle_outgoing_payment_result E outgoing_scid outgoing_htlc_id status =
     abind (load_link E outgoing_scid outgoing_htlc_id) (\<lambda>r. case r of None \<Rightarrow> aret ()
     | Some link \<Rightarrow>
         abind (peer_for_hosted_scid E (fl_incoming_scid link)) (\<lambda>p. case p of None \<Rightarrow> aret ()
         | Some peer_id \<Rightarrow>
             (case status of
                Succeeded preimage \<Rightarrow>
                  abind (keep_preimage E (fl_payment_hash link) preimage) (\<lambda>_.
                  abind (send_local_fulfill E peer_id link preimage) (\<lambda>_.
                  aignore (on_store (store_delete (c_store E)
                    (forward_key outgoing_scid outgoing_htlc_id)))))
              | Failed failure_onion \<Rightarrow>
                  abind (send_local_fail E peer_id link (wrap_forward_failure E link failure_onion)) (\<lambda>_.
                  aignore (on_store (store_delete (c_store E)
                    (forward_key outgoing_scid outgoing_htlc_id))))
              | Pending \<Rightarrow> aret ()
              | Unknown \<Rightarrow> aret ())))"

section \<open>Offering an HTLC to a hosted peer\<close>

definition fail_message :: "('st, 'v, 'nd) controller \<Rightarrow> string \<Rightarrow> u16 \<Rightarrow> ('st, 'nd, unit) handler" where
  "fail_message E result_key code =
     lift_node (node_resolve_htlc (c_node E) result_key (FailMessage code []))"

definition sum_msat :: "UpdateAddHtlc list \<Rightarrow> u64" where
  "sum_msat hs = foldl (\<lambda>acc h. acc + htlc_amount_msat h) 0 hs"

text \<open>
  The tail of the handler, once the HTLC passed every check: number it, write the forward link,
  save the pending update, then send the HTLC and the signature of the pending state; a failed
  delivery puts the channel in the error state.
\<close>

definition offer_htlc :: "('st, 'v, 'nd) controller \<Rightarrow> PublicKey \<Rightarrow> ChannelData \<Rightarrow> UpdateAddHtlc \<Rightarrow>
    u64 \<Rightarrow> u64 \<Rightarrow> bytes option \<Rightarrow> u32 option \<Rightarrow> ('st, 'nd, unit) handler" where
  "offer_htlc E peer_id data htlc incoming_scid incoming_htlc_id shared_secret upstream_cltv_expiry =
     (let hid = ucast (next_local_updates (manager_of data)) + 1;
          htlc' = htlc\<lparr>htlc_channel_id := own_channel_id E peer_id, htlc_id := hid\<rparr>;
          hosted_scid = hosted_scid_of E peer_id in
      abind (now_or_epoch_error E) (\<lambda>now.
      abind (alift (ok_or (checked_add now HOSTED_COMMIT_TIMEOUT_SECS)
               (InvalidMessage ''hosted commit deadline overflow''))) (\<lambda>deadline.
      abind (save_link E hosted_scid hid
        \<lparr>fl_incoming_scid = incoming_scid, fl_incoming_htlc_id = incoming_htlc_id,
         fl_outgoing_scid = hosted_scid, fl_outgoing_htlc_id = hid,
         fl_upstream_cltv_expiry = upstream_cltv_expiry,
         fl_hosted_commit_deadline_unix = Some deadline,
         fl_payment_hash = htlc_payment_hash htlc', fl_shared_secret = shared_secret\<rparr>) (\<lambda>_.
      let new_data = data\<lparr>cd_uncommitted := cd_uncommitted data @ [Local (Add htlc')]\<rparr>;
          deliver = (\<lambda>msg. acase (send_message E peer_id msg) (\<lambda>r. case r of
            Inr _ \<Rightarrow> aret ()
          | Inl err \<Rightarrow>
              abind (mark_errored E peer_id new_data HOSTED_DELIVERY_FAILED_ERROR) (\<lambda>_. afail err))) in
      abind (save_channel E peer_id new_data None) (\<lambda>_.
      abind (deliver (UpdateAddHtlc htlc')) (\<lambda>_.
      abind (try_state (lcss_next (c_crypto E) (manager_of new_data))) (\<lambda>next.
      abind (current_block_day E) (\<lambda>day.
      abind (try_encode (sign (c_crypto E) (c_node_secret E) (next\<lparr>block_day := day\<rparr>))) (\<lambda>signed.
      deliver (StateUpdate (state_update signed)))))))))))"

definition channel_handle_htlc_add_with_upstream_expiry :: "('st, 'v, 'nd) controller \<Rightarrow> PublicKey \<Rightarrow>
    UpdateAddHtlc \<Rightarrow> string \<Rightarrow> u64 \<Rightarrow> u64 \<Rightarrow> bytes option \<Rightarrow> u32 option \<Rightarrow> ('st, 'nd, unit) handler" where
  "channel_handle_htlc_add_with_upstream_expiry E peer_id htlc result_key incoming_scid
     incoming_htlc_id shared_secret upstream_cltv_expiry =
     abind (require_channel E peer_id) (\<lambda>data.
     if derive_status data \<noteq> Active then afail ChannelErrored
     else abind (peer_is_known_disconnected peer_id) (\<lambda>disconnected.
     if disconnected then fail_message E result_key 0x1007
     else acase (on_node (node_lookup_preimage (c_node E) (htlc_payment_hash htlc))) (\<lambda>known. case known of
       Inr (Some preimage) \<Rightarrow>
         lift_node (node_resolve_htlc (c_node E) result_key (Resolve preimage))
     | _ \<Rightarrow>
     let policy = init_hosted_channel (cd_lcss data) in
     abind (routing_policy_for_data E data) (\<lambda>routing.
     abind (peer_for_hosted_scid E incoming_scid) (\<lambda>source_peer.
     abind (case upstream_cltv_expiry of None \<Rightarrow> aret False
       | Some upstream \<Rightarrow>
           if source_peer = None then
             abind (alift (ok_or (checked_add (htlc_cltv_expiry htlc) (ucast (rp_cltv_expiry_delta routing)))
                      (InvalidMessage ''hosted CLTV expiry overflow'')))
               (\<lambda>needed. aret (upstream < needed))
           else aret False) (\<lambda>cltv_too_low.
     if cltv_too_low then fail_message E result_key 0x100d
     else if htlc_amount_msat htlc < ihc_htlc_minimum_msat policy then fail_message E result_key 0x400e
     else if htlc_amount_msat htlc > rp_htlc_maximum_msat routing then fail_message E result_key 0x1007
     else abind (try_state (lcss_next (c_crypto E) (manager_of data))) (\<lambda>next.
     if htlc_amount_msat htlc > local_balance_msat next then fail_message E result_key 0x1007
     else if length (incoming_htlcs next) + length (outgoing_htlcs next) + 1 >
             unat (ihc_max_accepted_htlcs policy) then fail_message E result_key 0x1007
     else if saturating_add (sum_msat (incoming_htlcs next @ outgoing_htlcs next)) (htlc_amount_msat htlc) >
             ihc_max_htlc_value_in_flight_msat policy then fail_message E result_key 0x1007
     else offer_htlc E peer_id data htlc incoming_scid incoming_htlc_id shared_secret
            upstream_cltv_expiry)))))))"

definition channel_handle_htlc_add :: "('st, 'v, 'nd) controller \<Rightarrow> PublicKey \<Rightarrow> UpdateAddHtlc \<Rightarrow>
    string \<Rightarrow> u64 \<Rightarrow> u64 \<Rightarrow> bytes option \<Rightarrow> ('st, 'nd, unit) handler" where
  "channel_handle_htlc_add E peer_id htlc result_key incoming_scid incoming_htlc_id shared_secret =
     channel_handle_htlc_add_with_upstream_expiry E peer_id htlc result_key incoming_scid
       incoming_htlc_id shared_secret (Some (htlc_cltv_expiry htlc))"

section \<open>Dispatching committed HTLCs\<close>

text \<open>\<open>get_block_height().await.unwrap_or_default()\<close>\<close>

definition height_or_zero :: "('st, 'v, 'nd) controller \<Rightarrow> ('st, 'nd, u32) handler" where
  "height_or_zero E =
     acase (on_node (node_get_block_height (c_node E))) (\<lambda>r. aret (case r of Inr h \<Rightarrow> h | Inl _ \<Rightarrow> 0))"

definition fail_back :: "('st, 'v, 'nd) controller \<Rightarrow> PublicKey \<Rightarrow> UpdateAddHtlc \<Rightarrow> ('st, 'nd, unit) handler" where
  "fail_back E peer_id htlc =
     abind (alift (failure_onion_for_peer_htlc E htlc 0x1007)) (\<lambda>reason.
     send_local_fail_for_htlc E peer_id (htlc_id htlc) reason)"

definition required_fee :: "PeeledOnion \<Rightarrow> ChannelRoutingPolicy \<Rightarrow> u64" where
  "required_fee peeled routing =
     saturating_add
       (saturating_mul (po_amt_to_forward peeled div 1000000)
          (ucast (rp_fee_proportional_millionths routing)))
       (ucast (rp_fee_base_msat routing))"

definition dispatch_to_hosted :: "('st, 'v, 'nd) controller \<Rightarrow> PublicKey \<Rightarrow> UpdateAddHtlc \<Rightarrow>
    PeeledOnion \<Rightarrow> PublicKey \<Rightarrow> ('st, 'nd, unit) handler" where
  "dispatch_to_hosted E peer_id htlc peeled target_peer =
     (let hosted_scid = hosted_scid_of E peer_id in
      if target_peer = peer_id
      then afail (InvalidMessage ''cannot forward hosted HTLC back to same channel'')
      else abind (require_channel E target_peer) (\<lambda>target_data.
      abind (routing_policy_for_data E target_data) (\<lambda>target_routing.
      abind (height_or_zero E) (\<lambda>current_height.
      if po_outgoing_cltv_value peeled < saturating_add current_height 2 \<or>
         htlc_amount_msat htlc <
           saturating_add (po_amt_to_forward peeled) (required_fee peeled target_routing) \<or>
         htlc_cltv_expiry htlc <
           saturating_add (po_outgoing_cltv_value peeled) (ucast (rp_cltv_expiry_delta target_routing))
      then fail_back E peer_id htlc
      else acase (channel_handle_htlc_add E target_peer
          \<lparr>htlc_channel_id = own_channel_id E target_peer, htlc_id = 0,
           htlc_amount_msat = po_amt_to_forward peeled,
           htlc_payment_hash = htlc_payment_hash htlc,
           htlc_cltv_expiry = po_outgoing_cltv_value peeled,
           htlc_onion_routing_packet = po_next_onion peeled, htlc_tlv_stream = []\<rparr>
          (dec_nat (unat hosted_scid) @ ''/'' @ dec_nat (unat (htlc_id htlc))) hosted_scid (htlc_id htlc)
          (Some (po_shared_secret peeled))) (\<lambda>r. case r of
        Inr _ \<Rightarrow> aret ()
      | Inl err \<Rightarrow>
          abind (fail_back E peer_id htlc) (\<lambda>_.
          abind (forward_link_for_incoming E hosted_scid (htlc_id htlc)) (\<lambda>l. case l of
            None \<Rightarrow> aret ()
          | Some link \<Rightarrow>
              lift_store (store_delete (c_store E)
                (forward_key (fl_outgoing_scid link) (fl_outgoing_htlc_id link))))))))))"

definition dispatch_to_node :: "('st, 'v, 'nd) controller \<Rightarrow> PublicKey \<Rightarrow> UpdateAddHtlc \<Rightarrow>
    PeeledOnion \<Rightarrow> ('st, 'nd, unit) handler" where
  "dispatch_to_node E peer_id htlc peeled =
     (let outgoing_scid = po_short_channel_id peeled; outgoing_htlc_id = htlc_id htlc in
      abind (save_link E outgoing_scid outgoing_htlc_id
        \<lparr>fl_incoming_scid = hosted_scid_of E peer_id, fl_incoming_htlc_id = htlc_id htlc,
         fl_outgoing_scid = outgoing_scid, fl_outgoing_htlc_id = outgoing_htlc_id,
         fl_upstream_cltv_expiry = None, fl_hosted_commit_deadline_unix = None,
         fl_payment_hash = htlc_payment_hash htlc,
         fl_shared_secret = Some (po_shared_secret peeled)\<rparr>) (\<lambda>_.
      abind (height_or_zero E) (\<lambda>current_height.
      let first_delay = ucast (min (saturating_sub
            (saturating_sub (po_outgoing_cltv_value peeled) current_height) 1) 65535) in
      let params =
          \<lparr>sop_onion = po_next_onion peeled, sop_payment_hash = htlc_payment_hash htlc,
           sop_first_scid = outgoing_scid, sop_first_amount_msat = po_amt_to_forward peeled,
           sop_first_delay = first_delay,
           sop_label = dec_nat (unat outgoing_scid) @ ''/'' @ dec_nat (unat outgoing_htlc_id),
           sop_group_id = outgoing_scid div 100, sop_part_id = outgoing_htlc_id\<rparr> in
      abind (record_event (PaidOut peer_id params)) (\<lambda>_.
      acase (on_node (node_send_onion (c_node E) params)) (\<lambda>r. case r of
        Inr _ \<Rightarrow> aret ()
      | Inl _ \<Rightarrow>
          abind (fail_back E peer_id htlc) (\<lambda>_.
          aignore (on_store (store_delete (c_store E) (forward_key outgoing_scid outgoing_htlc_id)))))))))"

definition dispatch_committed_incoming_htlc :: "('st, 'v, 'nd) controller \<Rightarrow> PublicKey \<Rightarrow>
    ChannelData \<Rightarrow> UpdateAddHtlc \<Rightarrow> ('st, 'nd, unit) handler" where
  "dispatch_committed_incoming_htlc E peer_id committed_data htlc =
     (let s = cd_lcss committed_data; policy = init_hosted_channel s;
          total_htlcs = length (incoming_htlcs s) + length (outgoing_htlcs s);
          total_inflight = sum_msat (incoming_htlcs s @ outgoing_htlcs s) in
      if htlc_amount_msat htlc < ihc_htlc_minimum_msat policy \<or>
         total_htlcs > unat (ihc_max_accepted_htlcs policy) \<or>
         total_inflight > ihc_max_htlc_value_in_flight_msat policy
      then fail_back E peer_id htlc
      else case peel_onion (c_crypto E) (c_node_secret E) (htlc_onion_routing_packet htlc)
                  (htlc_payment_hash htlc) of
        Inl Panic \<Rightarrow> afail Panicked
      | Inl (Err _) \<Rightarrow>
          send_local_fail_malformed_for_htlc E peer_id (htlc_id htlc)
            (sha256 (c_crypto E) (htlc_onion_routing_packet htlc)) 0xc005
      | Inr peeled \<Rightarrow>
          if htlc_amount_msat htlc < po_amt_to_forward peeled then fail_back E peer_id htlc
          else abind (peer_for_hosted_scid E (po_short_channel_id peeled)) (\<lambda>target. case target of
            Some target_peer \<Rightarrow> dispatch_to_hosted E peer_id htlc peeled target_peer
          | None \<Rightarrow> dispatch_to_node E peer_id htlc peeled))"

definition dispatch_committed_effects :: "('st, 'v, 'nd) controller \<Rightarrow> PublicKey \<Rightarrow> ChannelData \<Rightarrow>
    ChannelData \<Rightarrow> UncommittedUpdate list \<Rightarrow> ('st, 'nd, unit) handler" where
  "dispatch_committed_effects E peer_id old_data committed_data committed_updates =
     abind (aforeach (incoming_htlcs (cd_lcss committed_data)) (\<lambda>htlc.
       if list_ex (\<lambda>old. htlc_id old = htlc_id htlc) (incoming_htlcs (cd_lcss old_data)) then aret ()
       else dispatch_committed_incoming_htlc E peer_id committed_data htlc)) (\<lambda>_.
     aforeach committed_updates (\<lambda>update. case update of
       Remote (Fail _ i reason) \<Rightarrow> resolve_forward_fail E (hosted_scid_of E peer_id) i reason
     | Remote (FailMalformed _ i sha256_of_onion failure_code) \<Rightarrow>
         resolve_forward_fail E (hosted_scid_of E peer_id) i
           (be_bytes 2 (unat failure_code) @ sha256_of_onion)
     | _ \<Rightarrow> aret ()))"

section \<open>Settlement safety and recovery\<close>

definition hosted_settlement_is_safe :: "('st, 'v, 'nd) controller \<Rightarrow> PublicKey \<Rightarrow> UpdateAddHtlc \<Rightarrow>
    ('st, 'nd, bool) handler" where
  "hosted_settlement_is_safe E peer_id outgoing_htlc =
     abind (load_link E (hosted_scid_of E peer_id) (htlc_id outgoing_htlc)) (\<lambda>r. case r of
       None \<Rightarrow> aret True
     | Some link \<Rightarrow>
         abind (peer_for_hosted_scid E (fl_incoming_scid link)) (\<lambda>p.
         if p \<noteq> None then aret True
         else case fl_upstream_cltv_expiry link of
           None \<Rightarrow> aret False
         | Some expiry \<Rightarrow>
             abind (require_channel E peer_id) (\<lambda>data.
             abind (routing_policy_for_data E data) (\<lambda>routing.
             abind (alift (ok_or (checked_add (htlc_cltv_expiry outgoing_htlc)
                       (ucast (rp_cltv_expiry_delta routing)))
                      (InvalidMessage ''hosted CLTV expiry overflow''))) (\<lambda>required.
             abind (lift_node (node_get_block_height (c_node E))) (\<lambda>height.
             aret (height < htlc_cltv_expiry outgoing_htlc \<and> required \<le> expiry)))))))"

text \<open>
  The loop of \<open>recover_outgoing_htlcs\<close> threads the collected hashes; \<open>None\<close> is its early return.
\<close>

fun recover_outgoing_loop :: "('st, 'v, 'nd) controller \<Rightarrow> PublicKey \<Rightarrow> ChannelData \<Rightarrow> bytes list \<Rightarrow>
    UpdateAddHtlc list \<Rightarrow> ('st, 'nd, bytes list option) handler" where
  "recover_outgoing_loop E peer_id data hashes [] = aret (Some hashes)"
| "recover_outgoing_loop E peer_id data hashes (htlc # hs) =
     (if has_uncommitted_remote_resolution data (htlc_id htlc)
      then recover_outgoing_loop E peer_id data hashes hs
      else abind (hosted_settlement_is_safe E peer_id htlc) (\<lambda>safe.
        if \<not> safe then
          abind (mark_errored E peer_id data ''hosted HTLC outlived upstream CLTV safety deadline'')
            (\<lambda>_. aret None)
        else abind (lift_node (node_lookup_preimage (c_node E) (htlc_payment_hash htlc))) (\<lambda>p. case p of
          Some preimage \<Rightarrow>
            abind (resolve_forward_fulfill E (hosted_scid_of E peer_id) (htlc_id htlc) preimage) (\<lambda>_.
            recover_outgoing_loop E peer_id data hashes hs)
        | None \<Rightarrow> recover_outgoing_loop E peer_id data (hashes @ [htlc_payment_hash htlc]) hs)))"

definition recover_outgoing_htlcs :: "('st, 'v, 'nd) controller \<Rightarrow> PublicKey \<Rightarrow> ChannelData \<Rightarrow>
    ('st, 'nd, unit) handler" where
  "recover_outgoing_htlcs E peer_id data =
     abind (recover_outgoing_loop E peer_id data [] (outgoing_htlcs (cd_lcss data))) (\<lambda>r. case r of
       None \<Rightarrow> aret ()
     | Some hashes \<Rightarrow>
         if hashes \<noteq> [] then send_message E peer_id (QueryPreimages \<lparr>qp_hashes = hashes\<rparr>) else aret ())"

definition recover_incoming_htlc :: "('st, 'v, 'nd) controller \<Rightarrow> PublicKey \<Rightarrow> ChannelData \<Rightarrow>
    UpdateAddHtlc \<Rightarrow> ('st, 'nd, unit) handler" where
  "recover_incoming_htlc E peer_id data htlc =
     (if has_uncommitted_local_resolution data (htlc_id htlc) then aret ()
      else abind (forward_link_for_incoming E (hosted_scid_of E peer_id) (htlc_id htlc)) (\<lambda>l. case l of
        None \<Rightarrow> dispatch_committed_incoming_htlc E peer_id data htlc
      | Some link \<Rightarrow>
          abind (peer_for_hosted_scid E (fl_outgoing_scid link)) (\<lambda>p.
          if p \<noteq> None then aret ()
          else abind (lift_node (node_inspect_outgoing_payment (c_node E) (fl_payment_hash link)
              (dec_nat (unat (fl_outgoing_scid link)) @ ''/'' @
               dec_nat (unat (fl_outgoing_htlc_id link))))) (\<lambda>status. case status of
            Succeeded preimage \<Rightarrow>
              handle_outgoing_payment_result E (fl_outgoing_scid link) (fl_outgoing_htlc_id link)
                (Succeeded preimage)
          | Failed failure_onion \<Rightarrow>
              handle_outgoing_payment_result E (fl_outgoing_scid link) (fl_outgoing_htlc_id link)
                (Failed failure_onion)
          | Pending \<Rightarrow> aret ()
          | Unknown \<Rightarrow> dispatch_committed_incoming_htlc E peer_id data htlc))))"

definition recover_channel_htlcs :: "('st, 'v, 'nd) controller \<Rightarrow> PublicKey \<Rightarrow> bool \<Rightarrow>
    ('st, 'nd, unit) handler" where
  "recover_channel_htlcs E peer_id query_outgoing =
     abind (load_channel E peer_id) (\<lambda>r. case r of None \<Rightarrow> aret ()
     | Some data \<Rightarrow>
         if derive_status data \<noteq> Active then aret ()
         else abind (aforeach (incoming_htlcs (cd_lcss data)) (recover_incoming_htlc E peer_id data)) (\<lambda>_.
           if query_outgoing then recover_outgoing_htlcs E peer_id data else aret ()))"

text \<open>\<open>if let Err(err) = m { warn!(..) }\<close>: errors are logged, a panic is not caught.\<close>

definition log_error :: "('st, 'nd, unit) handler \<Rightarrow> ('st, 'nd, unit) handler" where
  "log_error m = acase m (\<lambda>r. case r of Inl Panicked \<Rightarrow> afail Panicked | _ \<Rightarrow> aret ())"

definition recover_committed_htlcs :: "('st, 'v, 'nd) controller \<Rightarrow> ('st, 'nd, unit) handler" where
  "recover_committed_htlcs E =
     abind (list_channels E) (\<lambda>peers.
     aforeach peers (\<lambda>peer_id. log_error (recover_channel_htlcs E peer_id False)))"

section \<open>Deadlines\<close>

text \<open>
  First scan of a channel: the pending offers. The result says whether the channel was errored
  (\<open>continue 'channels\<close>).
\<close>

definition enforce_pending_offer :: "('st, 'v, 'nd) controller \<Rightarrow> PublicKey \<Rightarrow> ChannelData \<Rightarrow> u64 \<Rightarrow>
    UncommittedUpdate \<Rightarrow> ('st, 'nd, unit option) handler" where
  "enforce_pending_offer E peer_id data now update =
     (case update of
        Local (Add htlc) \<Rightarrow>
          abind (load_link E (hosted_scid_of E peer_id) (htlc_id htlc)) (\<lambda>r. case r of
            None \<Rightarrow> aret None
          | Some link \<Rightarrow>
              if (case fl_hosted_commit_deadline_unix link of None \<Rightarrow> True | Some d \<Rightarrow> d > now)
              then aret None
              else abind (mark_errored E peer_id data HOSTED_DELIVERY_FAILED_ERROR) (\<lambda>_.
                abind (resolve_forward_fail E (hosted_scid_of E peer_id) (htlc_id htlc)
                        (be_bytes 2 0x1007)) (\<lambda>_. aret (Some ()))))
      | _ \<Rightarrow> aret None)"

text \<open>
  Second scan: the committed outgoing HTLCs. The block height is read at most once per run; it is
  threaded through the channels.
\<close>

fun enforce_expiry_loop :: "('st, 'v, 'nd) controller \<Rightarrow> PublicKey \<Rightarrow> ChannelData \<Rightarrow> u32 option \<Rightarrow>
    UpdateAddHtlc list \<Rightarrow> ('st, 'nd, u32 option) handler" where
  "enforce_expiry_loop E peer_id data current_height [] = aret current_height"
| "enforce_expiry_loop E peer_id data current_height (htlc # hs) =
     abind (load_link E (hosted_scid_of E peer_id) (htlc_id htlc)) (\<lambda>r. case r of
       None \<Rightarrow> enforce_expiry_loop E peer_id data current_height hs
     | Some link \<Rightarrow>
         if fl_upstream_cltv_expiry link = None
         then enforce_expiry_loop E peer_id data current_height hs
         else abind (case current_height of Some h \<Rightarrow> aret h
             | None \<Rightarrow> lift_node (node_get_block_height (c_node E))) (\<lambda>height.
           if height < htlc_cltv_expiry htlc
           then enforce_expiry_loop E peer_id data (Some height) hs
           else abind (mark_errored E peer_id data HOSTED_HTLC_EXPIRED_ERROR) (\<lambda>_.
             abind (resolve_forward_fail E (hosted_scid_of E peer_id) (htlc_id htlc)
                     (be_bytes 2 0x4008)) (\<lambda>_. aret (Some height)))))"

definition enforce_channel :: "('st, 'v, 'nd) controller \<Rightarrow> u64 \<Rightarrow> u32 option \<Rightarrow> PublicKey \<Rightarrow>
    ('st, 'nd, u32 option) handler" where
  "enforce_channel E now current_height peer_id =
     abind (load_channel E peer_id) (\<lambda>r. case r of None \<Rightarrow> aret current_height
     | Some data \<Rightarrow>
         if derive_status data \<noteq> Active then aret current_height
         else abind (afind (cd_uncommitted data) (enforce_pending_offer E peer_id data now)) (\<lambda>hit. case hit of
           Some _ \<Rightarrow> aret current_height
         | None \<Rightarrow> enforce_expiry_loop E peer_id data current_height (outgoing_htlcs (cd_lcss data))))"

fun enforce_channels :: "('st, 'v, 'nd) controller \<Rightarrow> u64 \<Rightarrow> u32 option \<Rightarrow> PublicKey list \<Rightarrow>
    ('st, 'nd, unit) handler" where
  "enforce_channels E now current_height [] = aret ()"
| "enforce_channels E now current_height (p # ps) =
     abind (enforce_channel E now current_height p) (\<lambda>h. enforce_channels E now h ps)"

definition enforce_forward_deadlines_at :: "('st, 'v, 'nd) controller \<Rightarrow> u64 \<Rightarrow> ('st, 'nd, unit) handler" where
  "enforce_forward_deadlines_at E now =
     abind (list_channels E) (\<lambda>peers. enforce_channels E now None peers)"

definition enforce_forward_deadlines :: "('st, 'v, 'nd) controller \<Rightarrow> ('st, 'nd, unit) handler" where
  "enforce_forward_deadlines E =
     abind (now_or_epoch_error E) (\<lambda>now. enforce_forward_deadlines_at E now)"

section \<open>Direct payments\<close>

definition show_sphinx_error :: "SphinxError \<Rightarrow> string" where
  "show_sphinx_error e =
     (case e of
        InvalidSize n \<Rightarrow> ''invalid onion packet size: '' @ dec_nat n
      | UnsupportedVersion v \<Rightarrow> ''unsupported onion version: '' @ dec_nat (unat v)
      | HmacFailed \<Rightarrow> ''HMAC verification failed''
      | InvalidEphemeralKey \<Rightarrow> ''invalid ephemeral public key''
      | EcdhFailed \<Rightarrow> ''ECDH failed''
      | InvalidPayload s \<Rightarrow> ''invalid hop payload: '' @ s
      | UnsupportedPayload s \<Rightarrow> ''unsupported onion payload: '' @ s)"

definition from_sphinx :: "sphinx_fault + 'a \<Rightarrow> ChannelError + 'a" where
  "from_sphinx r =
     map_err (\<lambda>e. case e of Err s \<Rightarrow> InvalidMessage (show_sphinx_error s) | Panic \<Rightarrow> Panicked) r"

definition send_direct_payment :: "('st, 'v, 'nd) controller \<Rightarrow> PublicKey \<Rightarrow> u64 \<Rightarrow> bytes \<Rightarrow> u32 \<Rightarrow>
    bytes option \<Rightarrow> ('st, 'nd, u64) handler" where
  "send_direct_payment E peer_id amount_msat payment_hash final_cltv_expiry payment_secret =
     abind (require_channel E peer_id) (\<lambda>data.
     if derive_status data \<noteq> Active then afail ChannelErrored
     else abind (try_state (lcss_next (c_crypto E) (manager_of data))) (\<lambda>next.
     if amount_msat > local_balance_msat next
     then afail (InvalidMessage ''insufficient hosted balance'')
     else
     let hid = ucast (next_local_updates (manager_of data)) + 1 in
     abind (\<lambda>w. case c_session_key E (w_node w) of (k, nd) \<Rightarrow> (Inr k, w\<lparr>w_node := nd\<rparr>)) (\<lambda>session_secret.
     abind (alift (from_sphinx (create_single_hop_onion (c_crypto E) session_secret peer_id amount_msat
              final_cltv_expiry payment_secret payment_hash))) (\<lambda>onion.
     let htlc = \<lparr>htlc_channel_id = own_channel_id E peer_id, htlc_id = hid,
                 htlc_amount_msat = amount_msat, htlc_payment_hash = payment_hash,
                 htlc_cltv_expiry = final_cltv_expiry, htlc_onion_routing_packet = onion,
                 htlc_tlv_stream = []\<rparr>;
         new_data = data\<lparr>cd_uncommitted := cd_uncommitted data @ [Local (Add htlc)]\<rparr> in
     abind (state_update_for_uncommitted E new_data) (\<lambda>su.
     abind (save_channel E peer_id new_data None) (\<lambda>_.
     abind (send_message E peer_id (UpdateAddHtlc htlc)) (\<lambda>_.
     abind (send_message E peer_id (StateUpdate su)) (\<lambda>_. aret hid))))))))"

end
