(* ===== verification/Channel.thy ===== *)
theory Channel
  imports Forwarding
begin

text \<open>
  The message handlers and administrative operations of \<^verbatim>\<open>src/src/channel.rs\<close>: establishment and
  reconnection, state updates, HTLC updates from the peer, errors, preimage exchange, resizing,
  parameter changes, state reconciliation, branding, overrides, secrets and removal.
\<close>

section \<open>Secrets\<close>

definition add_secret :: "('st, 'v, 'nd) controller \<Rightarrow> string \<Rightarrow> u64 \<Rightarrow> u64 \<Rightarrow> ('st, 'nd, unit) handler" where
  "add_secret E secret capacity_msat initial_balance_msat =
     abind (alift (parse_secret_hex E secret)) (\<lambda>secret_bytes.
     acase (on_store (create_json (c_store E) (c_secret E) (secret_key E secret_bytes)
         \<lparr>sec_secret = hex_encode (c_crypto E) secret_bytes, sec_capacity_msat = capacity_msat,
          sec_initial_balance_msat = initial_balance_msat, sec_consumed = False\<rparr>)) (\<lambda>r. case r of
       Inr _ \<Rightarrow> aret ()
     | Inl (AlreadyExists _) \<Rightarrow> afail (InvalidMessage ''secret already exists'')
     | Inl e \<Rightarrow> afail (StoreErr e)))"

definition remove_secret :: "('st, 'v, 'nd) controller \<Rightarrow> string \<Rightarrow> ('st, 'nd, unit) handler" where
  "remove_secret E secret =
     abind (alift (parse_secret_hex E secret)) (\<lambda>secret_bytes.
     lift_store (store_delete (c_store E) (secret_key E secret_bytes)))"

definition consume_secret :: "('st, 'v, 'nd) controller \<Rightarrow> bytes \<Rightarrow>
    ('st, 'nd, ChannelPolicy option) handler" where
  "consume_secret E secret =
     (if length secret \<noteq> 32 then aret None
      else let key = secret_key E secret in
      acase (on_store (get_json (c_store E) (c_secret E) key)) (\<lambda>r. case r of
        Inr (s, gen) \<Rightarrow>
          if sec_consumed s then aret None
          else abind (effective_policy E) (\<lambda>base.
            let policy = base\<lparr>pol_channel_capacity_msat := sec_capacity_msat s,
                              pol_initial_client_balance_msat := sec_initial_balance_msat s\<rparr> in
            abind (lift_store (update_json (c_store E) (c_secret E) key (s\<lparr>sec_consumed := True\<rparr>) gen)) (\<lambda>_.
            abind (lift_store (store_delete (c_store E) key)) (\<lambda>_.
            aret (Some policy))))
      | Inl (NotFound _) \<Rightarrow> aret None
      | Inl e \<Rightarrow> afail (StoreErr e)))"

definition list_secrets :: "('st, 'v, 'nd) controller \<Rightarrow> ('st, 'nd, string list) handler" where
  "list_secrets E =
     abind (lift_store (store_list (c_store E) [''canopus'', ''secrets''])) (\<lambda>children.
     aret (map (\<lambda>c. if c = [] then [] else last c) children))"

section \<open>Establishment and reconnection\<close>

text \<open>The policy a new channel gets; \<open>None\<close> is the silent refusal of the invoke.\<close>

definition policy_for_invoke :: "('st, 'v, 'nd) controller \<Rightarrow> bytes \<Rightarrow>
    ('st, 'nd, ChannelPolicy option) handler" where
  "policy_for_invoke E secret =
     (if cfg_require_secret (c_config E) then
        (if secret = [] then aret None else consume_secret E secret)
      else if secret \<noteq> [] then
        abind (consume_secret E secret) (\<lambda>r. case r of
          Some cap \<Rightarrow> aret (Some cap)
        | None \<Rightarrow> abind (effective_policy E) (\<lambda>p. aret (Some p)))
      else abind (effective_policy E) (\<lambda>p. aret (Some p)))"

definition init_of_policy :: "ChannelPolicy \<Rightarrow> InitHostedChannel" where
  "init_of_policy policy =
     \<lparr>ihc_max_htlc_value_in_flight_msat = pol_max_htlc_value_in_flight_msat policy,
      ihc_htlc_minimum_msat = pol_htlc_minimum_msat policy,
      ihc_max_accepted_htlcs = pol_max_accepted_htlcs policy,
      ihc_channel_capacity_msat = pol_channel_capacity_msat policy,
      ihc_initial_client_balance_msat = pol_initial_client_balance_msat policy,
      ihc_features = []\<rparr>"

definition new_channel_data :: "ChannelPolicy \<Rightarrow> bytes \<Rightarrow> ChannelData" where
  "new_channel_data policy refund =
     \<lparr>cd_lcss = \<lparr>is_host = True, last_refund_scriptpubkey = refund,
        init_hosted_channel = init_of_policy policy, block_day = 0,
        local_balance_msat =
          pol_channel_capacity_msat policy - pol_initial_client_balance_msat policy,
        remote_balance_msat = pol_initial_client_balance_msat policy,
        local_updates = 0, remote_updates = 0, incoming_htlcs = [], outgoing_htlcs = [],
        remote_sig_of_local = replicate 64 0, local_sig_of_remote = replicate 64 0\<rparr>,
      cd_uncommitted = [], cd_local_errors = [], cd_remote_errors = [], cd_suspended = False,
      cd_proposed_override = None, cd_last_refund_scriptpubkey = refund, cd_established = False,
      cd_accepting_resize_sat = None, cd_routing_policy = Some (from_policy policy),
      cd_channel_update_pending = False\<rparr>"

definition handle_new_channel_invoke :: "('st, 'v, 'nd) controller \<Rightarrow> PublicKey \<Rightarrow> InvokeHostedChannel \<Rightarrow>
    ('st, 'nd, unit) handler" where
  "handle_new_channel_invoke E peer_id msg =
     abind (policy_for_invoke E (inv_secret msg)) (\<lambda>r. case r of None \<Rightarrow> aret ()
     | Some policy \<Rightarrow>
         abind (save_channel E peer_id (new_channel_data policy (inv_refund_scriptpubkey msg)) None) (\<lambda>_.
         send_message E peer_id (InitHostedChannel (init_of_policy policy))))"

definition replay_message :: "('st, 'v, 'nd) controller \<Rightarrow> PublicKey \<Rightarrow> PendingUpdate \<Rightarrow> HostedMessage" where
  "replay_message E peer_id update =
     (case update of
        Add htlc \<Rightarrow> UpdateAddHtlc (htlc\<lparr>htlc_channel_id := own_channel_id E peer_id\<rparr>)
      | Fulfill cid i preimage \<Rightarrow>
          UpdateFulfillHtlc \<lparr>ff_channel_id = cid, ff_id = i, ff_payment_preimage = preimage,
            ff_tlv_stream = []\<rparr>
      | Fail cid i reason \<Rightarrow>
          UpdateFailHtlc \<lparr>uf_channel_id = cid, uf_id = i, uf_reason = reason, uf_tlv_stream = []\<rparr>
      | FailMalformed cid i sha code \<Rightarrow>
          UpdateFailMalformedHtlc \<lparr>fm_channel_id = cid, fm_id = i, fm_sha256_of_onion = sha,
            fm_failure_code = code, fm_tlv_stream = []\<rparr>)"

definition handle_reconnect_active :: "('st, 'v, 'nd) controller \<Rightarrow> PublicKey \<Rightarrow> ChannelData \<Rightarrow>
    ('st, 'nd, unit) handler" where
  "handle_reconnect_active E peer_id data0 =
     abind (repair_duplicate_uncommitted_resolutions E peer_id data0) (\<lambda>data.
     abind (send_message E peer_id (LastCrossSignedState (cd_lcss data))) (\<lambda>_.
     abind (aforeach (cd_uncommitted data) (\<lambda>u. case u of
         Local update \<Rightarrow> send_message E peer_id (replay_message E peer_id update)
       | Remote _ \<Rightarrow> aret ())) (\<lambda>_.
     abind (if cd_uncommitted data \<noteq> [] then
         abind (state_update_for_uncommitted E data) (\<lambda>su. send_message E peer_id (StateUpdate su))
       else aret ()) (\<lambda>_.
     abind (send_pending_channel_update E peer_id) (\<lambda>_.
     log_error (recover_channel_htlcs E peer_id True))))))"

definition handle_reconnect_errored :: "('st, 'v, 'nd) controller \<Rightarrow> PublicKey \<Rightarrow> ChannelData \<Rightarrow>
    ('st, 'nd, unit) handler" where
  "handle_reconnect_errored E peer_id data =
     abind (send_message E peer_id (LastCrossSignedState (cd_lcss data))) (\<lambda>_.
     abind (case cd_local_errors data of [] \<Rightarrow> aret ()
       | err_msg # _ \<Rightarrow> send_message E peer_id (error_message E peer_id err_msg)) (\<lambda>_.
     case cd_proposed_override data of None \<Rightarrow> aret ()
     | Some override_lcss \<Rightarrow> send_message E peer_id (StateOverride (state_override override_lcss))))"

definition handle_invoke :: "('st, 'v, 'nd) controller \<Rightarrow> PublicKey \<Rightarrow> InvokeHostedChannel \<Rightarrow>
    ('st, 'nd, unit) handler" where
  "handle_invoke E peer_id msg =
     (if inv_chain_hash msg \<noteq> cfg_chain_hash (c_config E) then
        abind (send_message E peer_id (error_message E peer_id ''chain hash mismatch'')) (\<lambda>_.
        afail ChainHashMismatch)
      else abind (load_channel E peer_id) (\<lambda>existing. case existing of
        None \<Rightarrow> handle_new_channel_invoke E peer_id msg
      | Some data \<Rightarrow>
          (case derive_status data of
             NotOpened \<Rightarrow> handle_new_channel_invoke E peer_id msg
           | Suspended \<Rightarrow> handle_new_channel_invoke E peer_id msg
           | SErrored \<Rightarrow> handle_reconnect_errored E peer_id data
           | Overriding \<Rightarrow> handle_reconnect_errored E peer_id data
           | _ \<Rightarrow> handle_reconnect_active E peer_id data)))"

section \<open>State updates\<close>

definition handle_opening_state_update :: "('st, 'v, 'nd) controller \<Rightarrow> PublicKey \<Rightarrow> ChannelData \<Rightarrow>
    StateUpdate \<Rightarrow> ('st, 'nd, unit) handler" where
  "handle_opening_state_update E peer_id data msg =
     abind (current_block_day E) (\<lambda>current_day.
     if abs_diff (su_block_day msg) current_day > 1 then aret ()
     else
     let s = (cd_lcss data)\<lparr>block_day := su_block_day msg, local_updates := 0, remote_updates := 0,
           incoming_htlcs := [], outgoing_htlcs := [],
           remote_sig_of_local := su_local_sig_of_remote msg\<rparr> in
     if \<not> verify_remote_sig (c_crypto E) s peer_id then aret ()
     else abind (try_encode (sign (c_crypto E) (c_node_secret E) s)) (\<lambda>signed.
     abind (save_channel E peer_id (data\<lparr>cd_lcss := signed, cd_established := True\<rparr>) None) (\<lambda>_.
     abind (record_ledger_once E peer_id (event_prefix E peer_id signed @ ''open'') ChannelOpen
             (remote_balance_msat signed) None) (\<lambda>_.
     abind (send_message E peer_id (StateUpdate (state_update signed))) (\<lambda>_.
     send_channel_update E peer_id)))))"

definition committed_event :: "LastCrossSignedState \<Rightarrow> UncommittedUpdate \<Rightarrow>
    (string \<times> LedgerEventType \<times> u64 \<times> u64 \<times> bytes) option" where
  "committed_event old_lcss update =
     (let find = (\<lambda>i hs. List.find (\<lambda>h. htlc_id h = i) hs);
          event = (\<lambda>name type i h. (name, type, i, htlc_amount_msat h, htlc_payment_hash h)) in
      case update of
        Local (Add h) \<Rightarrow> Some (event ''local-add:'' HtlcForwarded (htlc_id h) h)
      | Remote (Add h) \<Rightarrow> Some (event ''remote-add:'' HtlcForwarded (htlc_id h) h)
      | Local (Fulfill _ i _) \<Rightarrow>
          map_option (event ''local-fulfill:'' HtlcFulfilled i) (find i (incoming_htlcs old_lcss))
      | Remote (Fulfill _ i _) \<Rightarrow>
          map_option (event ''remote-fulfill:'' HtlcFulfilled i) (find i (outgoing_htlcs old_lcss))
      | Local (Fail _ i _) \<Rightarrow>
          map_option (event ''local-fail:'' HtlcFailed i) (find i (incoming_htlcs old_lcss))
      | Local (FailMalformed _ i _ _) \<Rightarrow>
          map_option (event ''local-fail:'' HtlcFailed i) (find i (incoming_htlcs old_lcss))
      | Remote (Fail _ i _) \<Rightarrow>
          map_option (event ''remote-fail:'' HtlcFailed i) (find i (outgoing_htlcs old_lcss))
      | Remote (FailMalformed _ i _ _) \<Rightarrow>
          map_option (event ''remote-fail:'' HtlcFailed i) (find i (outgoing_htlcs old_lcss)))"

definition record_committed_update_events :: "('st, 'v, 'nd) controller \<Rightarrow> PublicKey \<Rightarrow>
    UncommittedUpdate list \<Rightarrow> LastCrossSignedState \<Rightarrow> LastCrossSignedState \<Rightarrow> ('st, 'nd, unit) handler" where
  "record_committed_update_events E peer_id committed_updates old_lcss new_lcss =
     aforeach committed_updates (\<lambda>update. case committed_event old_lcss update of
       None \<Rightarrow> aret ()
     | Some (name, event_type, i, amount, payment_hash) \<Rightarrow>
         record_ledger_once E peer_id (event_prefix E peer_id new_lcss @ name @ dec_nat (unat i))
           event_type amount (Some payment_hash))"

definition handle_active_state_update :: "('st, 'v, 'nd) controller \<Rightarrow> PublicKey \<Rightarrow> ChannelData \<Rightarrow>
    StateUpdate \<Rightarrow> ('st, 'nd, unit) handler" where
  "handle_active_state_update E peer_id data0 msg =
     abind (repair_duplicate_uncommitted_resolutions E peer_id data0) (\<lambda>data.
     if cd_uncommitted data = [] then aret ()
     else
     let sm = manager_of data; expected_local = next_local_updates sm;
         expected_remote = next_remote_updates sm in
     if su_local_updates msg < expected_remote \<or> su_remote_updates msg < expected_local then aret ()
     else if su_local_updates msg \<noteq> expected_remote \<or> su_remote_updates msg \<noteq> expected_local then aret ()
     else abind (current_block_day E) (\<lambda>current_day.
     if su_block_day msg \<noteq> current_day then aret ()
     else abind (try_state (lcss_next (c_crypto E) sm)) (\<lambda>next0.
     let next = next0\<lparr>block_day := su_block_day msg,
                      remote_sig_of_local := su_local_sig_of_remote msg\<rparr> in
     if \<not> verify_remote_sig (c_crypto E) next peer_id then aret ()
     else abind (try_encode (sign (c_crypto E) (c_node_secret E) next)) (\<lambda>signed.
     let new_data = data\<lparr>cd_lcss := signed, cd_uncommitted := []\<rparr> in
     abind (save_channel E peer_id new_data None) (\<lambda>_.
     abind (record_committed_update_events E peer_id (cd_uncommitted data) (cd_lcss data) signed) (\<lambda>_.
     abind (send_message E peer_id (StateUpdate (state_update signed))) (\<lambda>_.
     dispatch_committed_effects E peer_id data new_data (cd_uncommitted data))))))))"

definition handle_override_acceptance :: "('st, 'v, 'nd) controller \<Rightarrow> PublicKey \<Rightarrow> ChannelData \<Rightarrow>
    StateUpdate \<Rightarrow> ('st, 'nd, unit) handler" where
  "handle_override_acceptance E peer_id data msg =
     abind (alift (ok_or (cd_proposed_override data) (InvalidMessage ''no proposed override''))) (\<lambda>proposed.
     if su_local_updates msg \<noteq> remote_updates proposed \<or> su_remote_updates msg \<noteq> local_updates proposed
     then aret ()
     else abind (current_block_day E) (\<lambda>current_day.
     if su_block_day msg \<noteq> current_day then aret ()
     else
     let s = proposed\<lparr>remote_sig_of_local := su_local_sig_of_remote msg\<rparr> in
     if \<not> verify_remote_sig (c_crypto E) s peer_id then aret ()
     else abind (try_encode (sign (c_crypto E) (c_node_secret E) s)) (\<lambda>signed.
     abind (save_channel E peer_id
         \<lparr>cd_lcss = signed, cd_uncommitted = [], cd_local_errors = [], cd_remote_errors = [],
          cd_suspended = False, cd_proposed_override = None,
          cd_last_refund_scriptpubkey = cd_last_refund_scriptpubkey data, cd_established = True,
          cd_accepting_resize_sat = cd_accepting_resize_sat data,
          cd_routing_policy = cd_routing_policy data,
          cd_channel_update_pending = cd_channel_update_pending data\<rparr> None) (\<lambda>_.
     abind (record_ledger_once E peer_id (event_prefix E peer_id signed @ ''override'') Override
             (local_balance_msat signed) None) (\<lambda>_.
     abind (send_message E peer_id (StateUpdate (state_update signed))) (\<lambda>_.
     if cd_channel_update_pending data then send_pending_channel_update E peer_id
     else send_channel_update E peer_id))))))"

definition handle_state_update :: "('st, 'v, 'nd) controller \<Rightarrow> PublicKey \<Rightarrow> StateUpdate \<Rightarrow>
    ('st, 'nd, unit) handler" where
  "handle_state_update E peer_id msg =
     abind (require_channel E peer_id) (\<lambda>data. case derive_status data of
       Opening \<Rightarrow> handle_opening_state_update E peer_id data msg
     | Overriding \<Rightarrow> handle_override_acceptance E peer_id data msg
     | Active \<Rightarrow> handle_active_state_update E peer_id data msg
     | _ \<Rightarrow> aret ())"

section \<open>Updates from the peer\<close>

definition push_remote :: "ChannelData \<Rightarrow> PendingUpdate \<Rightarrow> ChannelData" where
  "push_remote data u = data\<lparr>cd_uncommitted := cd_uncommitted data @ [Remote u]\<rparr>"

definition handle_update_add :: "('st, 'v, 'nd) controller \<Rightarrow> PublicKey \<Rightarrow> UpdateAddHtlc \<Rightarrow>
    ('st, 'nd, unit) handler" where
  "handle_update_add E peer_id htlc =
     abind (require_channel E peer_id) (\<lambda>data.
     if derive_status data \<noteq> Active then
       abind (alift (failure_onion_for_peer_htlc E htlc 0x1007)) (\<lambda>reason.
       send_message E peer_id (UpdateFailHtlc \<lparr>uf_channel_id = htlc_channel_id htlc,
         uf_id = htlc_id htlc, uf_reason = reason, uf_tlv_stream = []\<rparr>))
     else abind (try_state (lcss_next (c_crypto E) (manager_of data))) (\<lambda>next.
     if htlc_amount_msat htlc > remote_balance_msat next then
       abind (mark_errored E peer_id data ''peer sent update_add_htlc above available balance'') (\<lambda>_.
       send_message E peer_id (error_message E peer_id ''update_add_htlc above available balance''))
     else save_channel E peer_id (push_remote data (Add htlc)) None))"

definition handle_update_fail_malformed :: "('st, 'v, 'nd) controller \<Rightarrow> PublicKey \<Rightarrow>
    UpdateFailMalformedHtlc \<Rightarrow> ('st, 'nd, unit) handler" where
  "handle_update_fail_malformed E peer_id msg =
     abind (require_channel E peer_id) (\<lambda>data.
     if derive_status data \<noteq> Active \<and> derive_status data \<noteq> SErrored then aret ()
     else if HOSTED_DELIVERY_FAILED_ERROR \<in> set (cd_local_errors data) then aret ()
     else if has_uncommitted_remote_resolution data (fm_id msg) then aret ()
     else if \<not> list_ex (\<lambda>h. htlc_id h = fm_id msg) (outgoing_htlcs (cd_lcss data)) then aret ()
     else save_channel E peer_id
       (push_remote data (FailMalformed (fm_channel_id msg) (fm_id msg) (fm_sha256_of_onion msg)
          (fm_failure_code msg))) None)"

definition handle_update_fulfill :: "('st, 'v, 'nd) controller \<Rightarrow> PublicKey \<Rightarrow> UpdateFulfillHtlc \<Rightarrow>
    ('st, 'nd, unit) handler" where
  "handle_update_fulfill E peer_id msg =
     abind (require_channel E peer_id) (\<lambda>data.
     if derive_status data \<noteq> Active \<and> derive_status data \<noteq> SErrored then aret ()
     else if HOSTED_DELIVERY_FAILED_ERROR \<in> set (cd_local_errors data) \<or>
             HOSTED_HTLC_EXPIRED_ERROR \<in> set (cd_local_errors data) then aret ()
     else if has_uncommitted_remote_resolution data (ff_id msg) then aret ()
     else
     let preimage = ff_payment_preimage msg; hash = sha256 (c_crypto E) preimage in
     case List.find (\<lambda>h. htlc_id h = ff_id msg) (outgoing_htlcs (cd_lcss data)) of
       None \<Rightarrow> aret ()
     | Some htlc \<Rightarrow>
         if htlc_payment_hash htlc \<noteq> hash then aret ()
         else abind (hosted_settlement_is_safe E peer_id htlc) (\<lambda>safe.
         if \<not> safe then
           abind (mark_errored E peer_id data ''hosted fulfill arrived after hosted HTLC expiry'') (\<lambda>_.
           send_message E peer_id
             (error_message E peer_id ''hosted fulfill arrived after hosted HTLC expiry''))
         else
         abind (keep_preimage E (htlc_payment_hash htlc) preimage) (\<lambda>_.
         abind (save_channel E peer_id
           (push_remote data (Fulfill (ff_channel_id msg) (ff_id msg) preimage)) None) (\<lambda>_.
         resolve_forward_fulfill E (hosted_scid_of E peer_id) (ff_id msg) preimage))))"

definition handle_update_fail :: "('st, 'v, 'nd) controller \<Rightarrow> PublicKey \<Rightarrow> UpdateFailHtlc \<Rightarrow>
    ('st, 'nd, unit) handler" where
  "handle_update_fail E peer_id msg =
     abind (require_channel E peer_id) (\<lambda>data.
     if derive_status data \<noteq> Active \<and> derive_status data \<noteq> SErrored then aret ()
     else if has_uncommitted_remote_resolution data (uf_id msg) then aret ()
     else if \<not> list_ex (\<lambda>h. htlc_id h = uf_id msg) (outgoing_htlcs (cd_lcss data)) then aret ()
     else if uf_reason msg = [] then mark_errored E peer_id data ''peer sent empty fail reason''
     else save_channel E peer_id
       (push_remote data (Fail (uf_channel_id msg) (uf_id msg) (uf_reason msg))) None)"

definition handle_error :: "('st, 'v, 'nd) controller \<Rightarrow> PublicKey \<Rightarrow> HcError \<Rightarrow> ('st, 'nd, unit) handler" where
  "handle_error E peer_id msg =
     abind (require_channel E peer_id) (\<lambda>data.
     mark_remote_errored E peer_id data (from_utf8_lossy (err_data msg)))"

definition handle_query_preimages :: "('st, 'v, 'nd) controller \<Rightarrow> PublicKey \<Rightarrow> QueryPreimages \<Rightarrow>
    ('st, 'nd, unit) handler" where
  "handle_query_preimages E peer_id msg =
     abind (acollect (qp_hashes msg) (\<lambda>hash. lift_node (node_lookup_preimage (c_node E) hash))) (\<lambda>preimages.
     if preimages \<noteq> [] then send_message E peer_id (ReplyPreimages \<lparr>rp_preimages = preimages\<rparr>)
     else aret ())"

definition handle_reply_preimages :: "('st, 'v, 'nd) controller \<Rightarrow> PublicKey \<Rightarrow> ReplyPreimages \<Rightarrow>
    ('st, 'nd, unit) handler" where
  "handle_reply_preimages E peer_id msg =
     aforeach (rp_preimages msg) (\<lambda>preimage.
       keep_preimage E (sha256 (c_crypto E) preimage) preimage)"

section \<open>Resizing and parameters\<close>

text \<open>\<open>apply_resize\<close> is the body of \<open>handle_resize_channel\<close> once the channel is loaded.\<close>

definition apply_resize :: "('st, 'v, 'nd) controller \<Rightarrow> PublicKey \<Rightarrow> ResizeChannel \<Rightarrow> ChannelData \<Rightarrow>
    ('st, 'nd, unit) handler" where
  "apply_resize E peer_id msg data =
     (if derive_status data \<noteq> Active \<or> \<not> verify_client_sig (c_crypto E) msg peer_id then aret ()
     else case cd_accepting_resize_sat data of None \<Rightarrow> aret ()
     | Some max_capacity_sat \<Rightarrow>
     if rc_new_capacity_sat msg > max_capacity_sat then aret ()
     else abind (alift (ok_or (checked_mul (rc_new_capacity_sat msg) 1000)
                   (InvalidMessage ''resize capacity overflow''))) (\<lambda>new_capacity.
     let s = cd_lcss data in
     if new_capacity \<le> remote_balance_msat s then aret ()
     else
     let old_capacity = ihc_channel_capacity_msat (init_hosted_channel s) in
     abind (alift (ok_or
         (if new_capacity \<ge> old_capacity
          then checked_add (local_balance_msat s) (new_capacity - old_capacity)
          else checked_sub (local_balance_msat s) (old_capacity - new_capacity))
         (InvalidMessage ''resize balance overflow''))) (\<lambda>new_local_balance.
     abind (routing_policy_for_data E data) (\<lambda>routing.
     let s' = s\<lparr>init_hosted_channel := (init_hosted_channel s)
                 \<lparr>ihc_channel_capacity_msat := new_capacity,
                  ihc_max_htlc_value_in_flight_msat := new_capacity\<rparr>,
               local_balance_msat := new_local_balance\<rparr> in
     abind (try_encode (sign (c_crypto E) (c_node_secret E) s')) (\<lambda>signed.
     abind (save_channel E peer_id
       (data\<lparr>cd_accepting_resize_sat := None, cd_lcss := signed,
             cd_routing_policy := Some (routing\<lparr>rp_htlc_maximum_msat := new_capacity\<rparr>),
             cd_channel_update_pending := True\<rparr>) None) (\<lambda>_.
     abind (record_ledger_once E peer_id
       (event_prefix E peer_id signed @ ''resize:'' @ dec_nat (unat new_capacity)) Resize new_capacity None) (\<lambda>_.
     abind (send_message E peer_id (StateUpdate (state_update signed))) (\<lambda>_.
     log_error (send_pending_channel_update E peer_id)))))))))"

definition handle_resize_channel :: "('st, 'v, 'nd) controller \<Rightarrow> PublicKey \<Rightarrow> ResizeChannel \<Rightarrow>
    ('st, 'nd, unit) handler" where
  "handle_resize_channel E peer_id msg = abind (require_channel E peer_id) (apply_resize E peer_id msg)"

definition accept_resize :: "('st, 'v, 'nd) controller \<Rightarrow> PublicKey \<Rightarrow> u64 option \<Rightarrow>
    ('st, 'nd, unit) handler" where
  "accept_resize E peer_id max_capacity_sat =
     lift_store (cas_json (c_store E) (c_channel E) (channel_key E peer_id)
       (\<lambda>data. Inr ((), data\<lparr>cd_accepting_resize_sat := max_capacity_sat\<rparr>)))"

record SetChannelParams =
  scp_channel_capacity_msat :: "u64 option"
  scp_initial_client_balance_msat :: "u64 option"
  scp_fee_base_msat :: "u32 option"
  scp_fee_proportional_millionths :: "u32 option"
  scp_cltv_expiry_delta :: "u16 option"
  scp_htlc_minimum_msat :: "u64 option"
  scp_htlc_maximum_msat :: "u64 option"
  scp_max_accepted_htlcs :: "u16 option"

definition scp_is_empty :: "SetChannelParams \<Rightarrow> bool" where
  "scp_is_empty p \<longleftrightarrow>
     scp_channel_capacity_msat p = None \<and> scp_initial_client_balance_msat p = None \<and>
     scp_fee_base_msat p = None \<and> scp_fee_proportional_millionths p = None \<and>
     scp_cltv_expiry_delta p = None \<and> scp_htlc_minimum_msat p = None \<and>
     scp_htlc_maximum_msat p = None \<and> scp_max_accepted_htlcs p = None"

definition affects_lcss :: "SetChannelParams \<Rightarrow> bool" where
  "affects_lcss p \<longleftrightarrow>
     scp_channel_capacity_msat p \<noteq> None \<or> scp_initial_client_balance_msat p \<noteq> None \<or>
     scp_htlc_minimum_msat p \<noteq> None \<or> scp_max_accepted_htlcs p \<noteq> None"

definition override_state :: "ChannelData \<Rightarrow> InitHostedChannel \<Rightarrow> u32 \<Rightarrow> u64 \<Rightarrow> u64 \<Rightarrow>
    LastCrossSignedState" where
  "override_state data init day local_balance remote_balance =
     \<lparr>is_host = True, last_refund_scriptpubkey = cd_last_refund_scriptpubkey data,
      init_hosted_channel = init, block_day = day, local_balance_msat = local_balance,
      remote_balance_msat = remote_balance, local_updates = local_updates (cd_lcss data) + 1,
      remote_updates = remote_updates (cd_lcss data) + 1, incoming_htlcs = [], outgoing_htlcs = [],
      remote_sig_of_local = replicate 64 0, local_sig_of_remote = replicate 64 0\<rparr>"

definition with_default_error :: "string \<Rightarrow> ChannelData \<Rightarrow> ChannelData" where
  "with_default_error text data =
     (if cd_local_errors data = [] then data\<lparr>cd_local_errors := [text]\<rparr> else data)"

definition set_routing :: "SetChannelParams \<Rightarrow> ChannelRoutingPolicy \<Rightarrow> ChannelRoutingPolicy" where
  "set_routing params routing =
     routing\<lparr>rp_fee_base_msat := unwrap_or (rp_fee_base_msat routing) (scp_fee_base_msat params),
       rp_fee_proportional_millionths :=
         unwrap_or (rp_fee_proportional_millionths routing) (scp_fee_proportional_millionths params),
       rp_cltv_expiry_delta := unwrap_or (rp_cltv_expiry_delta routing) (scp_cltv_expiry_delta params),
       rp_htlc_maximum_msat := unwrap_or (rp_htlc_maximum_msat routing) (scp_htlc_maximum_msat params)\<rparr>"

definition set_init :: "SetChannelParams \<Rightarrow> InitHostedChannel \<Rightarrow> InitHostedChannel" where
  "set_init params init =
     init\<lparr>ihc_channel_capacity_msat :=
            unwrap_or (ihc_channel_capacity_msat init) (scp_channel_capacity_msat params),
          ihc_max_htlc_value_in_flight_msat :=
            unwrap_or (ihc_max_htlc_value_in_flight_msat init) (scp_channel_capacity_msat params),
          ihc_initial_client_balance_msat :=
            unwrap_or (ihc_initial_client_balance_msat init) (scp_initial_client_balance_msat params),
          ihc_htlc_minimum_msat :=
            unwrap_or (ihc_htlc_minimum_msat init) (scp_htlc_minimum_msat params),
          ihc_max_accepted_htlcs :=
            unwrap_or (ihc_max_accepted_htlcs init) (scp_max_accepted_htlcs params)\<rparr>"

text \<open>The branch of \<open>set_channel\<close> that proposes a new cross-signed state.\<close>

definition set_channel_override :: "('st, 'v, 'nd) controller \<Rightarrow> PublicKey \<Rightarrow> SetChannelParams \<Rightarrow>
    ChannelData \<Rightarrow> ChannelData \<Rightarrow> ChannelRoutingPolicy \<Rightarrow> ('st, 'nd, ChannelParameters \<times> bool) handler" where
  "set_channel_override E peer_id params data new_data routing =
     abind (if derive_status data = Overriding
            then alift (ok_or (cd_proposed_override data)
                   (InvalidMessage ''overriding channel has no proposed override''))
            else aret (cd_lcss data)) (\<lambda>base_lcss.
     let init = set_init params (init_hosted_channel base_lcss) in
     if ihc_initial_client_balance_msat init > ihc_channel_capacity_msat init
     then afail (InvalidMessage ''initial_client_balance_msat exceeds channel_capacity_msat'')
     else
     let remote_balance = unwrap_or (remote_balance_msat base_lcss) (scp_initial_client_balance_msat params) in
     abind (alift (ok_or (checked_sub (ihc_channel_capacity_msat init) remote_balance)
              (InvalidMessage ''client balance exceeds channel capacity''))) (\<lambda>local_balance.
     if rp_htlc_maximum_msat routing > ihc_channel_capacity_msat init
     then afail (InvalidMessage ''htlc_maximum_msat exceeds channel_capacity_msat'')
     else if ihc_htlc_minimum_msat init > rp_htlc_maximum_msat routing
     then afail (InvalidMessage ''htlc_minimum_msat exceeds htlc_maximum_msat'')
     else abind (current_block_day E) (\<lambda>day.
     abind (try_encode (sign (c_crypto E) (c_node_secret E)
              (override_state data init day local_balance remote_balance))) (\<lambda>override_lcss.
     let final_data = (with_default_error ''forced channel parameter override'' new_data)
           \<lparr>cd_proposed_override := Some override_lcss\<rparr> in
     abind (save_channel E peer_id final_data None) (\<lambda>_.
     abind (log_error (send_message E peer_id
              (error_message E peer_id (cd_local_errors final_data ! 0)))) (\<lambda>_.
     abind (log_error (send_message E peer_id (StateOverride (state_override override_lcss)))) (\<lambda>_.
     abind (require_channel E peer_id) (\<lambda>reloaded.
     abind (channel_parameters_for_data E reloaded) (\<lambda>cp. aret (cp, True))))))))))"

definition set_channel :: "('st, 'v, 'nd) controller \<Rightarrow> PublicKey \<Rightarrow> SetChannelParams \<Rightarrow> bool \<Rightarrow>
    ('st, 'nd, ChannelParameters \<times> bool) handler" where
  "set_channel E peer_id params force_lcss_override =
     abind (require_channel E peer_id) (\<lambda>data.
     if scp_is_empty params then abind (channel_parameters_for_data E data) (\<lambda>cp. aret (cp, False))
     else
     let status = derive_status data; s = cd_lcss data in
     if status \<noteq> Active \<and> status \<noteq> Overriding
     then afail (InvalidMessage ''can only update active or overriding channels'')
     else if status = Active \<and>
             (incoming_htlcs s \<noteq> [] \<or> outgoing_htlcs s \<noteq> [] \<or> cd_uncommitted data \<noteq> [])
     then afail (InvalidMessage ''cannot update channel with in-flight HTLCs'')
     else if status = Active \<and> affects_lcss params \<and> \<not> force_lcss_override
     then afail (InvalidMessage (''LCSS-backed channel changes require an errored channel reset; '' @
            ''active peers ignore state_override proposals''))
     else abind (routing_policy_for_data E data) (\<lambda>routing0.
     let routing = set_routing params routing0;
         new_data = data\<lparr>cd_routing_policy := Some routing, cd_channel_update_pending := True\<rparr> in
     if affects_lcss params \<or> status = Overriding
     then set_channel_override E peer_id params data new_data routing
     else if rp_htlc_maximum_msat routing > ihc_channel_capacity_msat (init_hosted_channel s)
     then afail (InvalidMessage ''htlc_maximum_msat exceeds channel_capacity_msat'')
     else if ihc_htlc_minimum_msat (init_hosted_channel s) > rp_htlc_maximum_msat routing
     then afail (InvalidMessage ''htlc_minimum_msat exceeds htlc_maximum_msat'')
     else abind (save_channel E peer_id new_data None) (\<lambda>_.
     abind (log_error (send_pending_channel_update E peer_id)) (\<lambda>_.
     abind (require_channel E peer_id) (\<lambda>reloaded.
     abind (channel_parameters_for_data E reloaded) (\<lambda>cp. aret (cp, True)))))))"

section \<open>Reconciliation, branding, overrides and removal\<close>

text \<open>\<open>reconcile_lcss\<close> is the body of \<open>handle_lcss\<close> once the channel is loaded.\<close>

definition reconcile_lcss :: "('st, 'v, 'nd) controller \<Rightarrow> PublicKey \<Rightarrow> LastCrossSignedState \<Rightarrow>
    ChannelData \<Rightarrow> ('st, 'nd, unit) handler" where
  "reconcile_lcss E peer_id msg data =
     (if \<not> verify_remote_sig (c_crypto E) msg (c_node_public E) then
        abind (mark_errored E peer_id data (''our signature doesn'' @ [CHR 0x27] @ ''t match in peer lcss'')) (\<lambda>_.
        abind (send_message E peer_id (error_message E peer_id ''bad signature'')) (\<lambda>_.
        afail ChannelErrored))
      else
      let reversed = reverse msg; s = cd_lcss data in
      if \<not> verify_remote_sig (c_crypto E) reversed peer_id then
        abind (mark_errored E peer_id data ''bad signature in lcss from peer'') (\<lambda>_. afail ChannelErrored)
      else if local_updates reversed < local_updates s \<or> remote_updates reversed < remote_updates s
      then send_message E peer_id (LastCrossSignedState s)
      else if local_updates reversed = local_updates s \<and> remote_updates reversed = remote_updates s
      then send_message E peer_id (LastCrossSignedState s)
      else
      let new_data = data\<lparr>cd_lcss := reversed, cd_uncommitted := []\<rparr> in
      abind (save_channel E peer_id new_data None) (\<lambda>_.
      send_message E peer_id (LastCrossSignedState (cd_lcss new_data))))"

definition handle_lcss :: "('st, 'v, 'nd) controller \<Rightarrow> PublicKey \<Rightarrow> LastCrossSignedState \<Rightarrow>
    ('st, 'nd, unit) handler" where
  "handle_lcss E peer_id msg = abind (require_channel E peer_id) (reconcile_lcss E peer_id msg)"

definition handle_ask_branding :: "('st, 'v, 'nd) controller \<Rightarrow> PublicKey \<Rightarrow> AskBrandingInfo \<Rightarrow>
    ('st, 'nd, unit) handler" where
  "handle_ask_branding E peer_id msg =
     (case bcfg_contact_url (cfg_branding (c_config E)) of
        None \<Rightarrow> aret ()
      | Some contact_url \<Rightarrow>
          abind (alift (map_err (\<lambda>_. Panicked) (rgb_color (c_config E)))) (\<lambda>rgb.
          send_message E peer_id (HostedChannelBranding
            \<lparr>br_rgb_color = unwrap_or [0, 0, 0] rgb,
             br_png_icon = logo_bytes (c_read_file E) (c_config E),
             br_contact_info = bytes_of_string contact_url\<rparr>)))"

definition show_status :: "Status \<Rightarrow> string" where
  "show_status s =
     (case s of NotOpened \<Rightarrow> ''NOT_OPENED'' | Opening \<Rightarrow> ''OPENING'' | Active \<Rightarrow> ''ACTIVE''
      | SErrored \<Rightarrow> ''ERRORED'' | Overriding \<Rightarrow> ''OVERRIDING'' | Suspended \<Rightarrow> ''SUSPENDED'')"

definition propose_override :: "('st, 'v, 'nd) controller \<Rightarrow> PublicKey \<Rightarrow> u64 option \<Rightarrow>
    ('st, 'nd, unit) handler" where
  "propose_override E peer_id new_local_balance =
     abind (require_channel E peer_id) (\<lambda>data.
     let status = derive_status data; s = cd_lcss data in
     if status \<noteq> SErrored \<and> status \<noteq> Overriding
     then afail (InvalidMessage
            (''can only override errored/overriding channels, got '' @ show_status status))
     else
     let capacity = ihc_channel_capacity_msat (init_hosted_channel s);
         local_balance = unwrap_or (local_balance_msat s) new_local_balance in
     abind (alift (ok_or (checked_sub capacity local_balance)
              (InvalidMessage ''local balance exceeds capacity''))) (\<lambda>remote_balance.
     abind (current_block_day E) (\<lambda>day.
     abind (try_encode (sign (c_crypto E) (c_node_secret E)
              (override_state data (init_hosted_channel s) day local_balance remote_balance))) (\<lambda>override_lcss.
     let new_data = (with_default_error ''host proposed state override'' data)
           \<lparr>cd_proposed_override := Some override_lcss\<rparr> in
     abind (save_channel E peer_id new_data None) (\<lambda>_.
     abind (send_message E peer_id (error_message E peer_id (cd_local_errors new_data ! 0))) (\<lambda>_.
     send_message E peer_id (StateOverride (state_override override_lcss))))))))"

definition remove_channel :: "('st, 'v, 'nd) controller \<Rightarrow> PublicKey \<Rightarrow> bool \<Rightarrow> ('st, 'nd, unit) handler" where
  "remove_channel E peer_id force =
     abind (require_channel E peer_id) (\<lambda>data.
     abind (try_state (lcss_next (c_crypto E) (manager_of data))) (\<lambda>next.
     if \<not> force \<and> (incoming_htlcs next \<noteq> [] \<or> outgoing_htlcs next \<noteq> [] \<or> cd_uncommitted data \<noteq> [])
     then afail InFlightHtlcs
     else
     abind (lift_store (store_list (c_store E)
       [''canopus'', ''htlc_forwards'', dec_nat (unat (hosted_scid_of E peer_id))])) (\<lambda>keys.
     abind (aforeach keys (\<lambda>key. lift_store (store_delete (c_store E) key))) (\<lambda>_.
     abind (lift_store (store_delete (c_store E) (channel_key E peer_id))) (\<lambda>_.
     amodify (\<lambda>w. w\<lparr>w_encodings := (w_encodings w)(peer_id := None)\<rparr>))))))"

definition handle_connect :: "('st, 'v, 'nd) controller \<Rightarrow> PublicKey \<Rightarrow> ('st, 'nd, unit) handler" where
  "handle_connect E peer_id =
     abind (note_peer_connection peer_id True) (\<lambda>_.
     abind (load_channel E peer_id) (\<lambda>r. case r of None \<Rightarrow> aret ()
     | Some data \<Rightarrow>
         abind (if derive_status data = Active \<and> cd_channel_update_pending data
                then send_pending_channel_update E peer_id else aret ()) (\<lambda>_.
         recover_channel_htlcs E peer_id True)))"

definition handle_disconnect :: "PublicKey \<Rightarrow> ('st, 'nd, unit) handler" where
  "handle_disconnect peer_id =
     abind (note_peer_connection peer_id False) (\<lambda>_.
     amodify (\<lambda>w. w\<lparr>w_encodings := (w_encodings w)(peer_id := None)\<rparr>))"

end
