(* ===== verification/Host_Rules.thy ===== *)
theory Host_Rules
  imports Host_Inv
begin

text \<open>
  The handlers keep the invariant. Those that leave the cross-signed state alone do so in every
  \<open>host\<close>. The others need the laws of \<open>host_rules\<close>, one for each place where a cross-signed state
  is created, replaced or proposed; \<open>allowed\<close> is what is assumed of a message from the peer that
  presents a state or a new capacity, and \<open>fresh\<close> of a peer for whom a channel is created. The first
  section shows that a provisioning secret is consumed at most once.
\<close>

lemma committed_event_name: "committed_event a u = Some (name, x) \<Longrightarrow> CHR ''/'' \<notin> set name"
  by (auto simp: committed_event_def Let_def split: UncommittedUpdate.splits PendingUpdate.splits)

lemma derive_status_upd [simp]: "derive_status (d\<lparr>cd_uncommitted := u\<rparr>) = derive_status d"
  by (simp add: derive_status_def)

section \<open>Secrets are consumed once\<close>

context host_env
begin

lemma secret_gone:
  assumes "view (w_store w) (secret_key E x) = None"
  shows "fst (consume_secret E x w) \<noteq> Inr (Some q)"
proof -
  obtain r st where get: "get_json (c_store E) (c_secret E) (secret_key E x) (w_store w) = (r, st)" by fastforce
  show ?thesis
    using get_json_law [OF good_keys(2) get] assms get
    by (auto simp: consume_secret_def Let_def acase_run on_store_def azoom_def
        split: sum.splits StoreError.splits prod.splits)
qed

lemma secret_listed:
  assumes "view (w_store w) (secret_key E x) \<noteq> None" and "list_secrets E w = (Inr names, w')"
  shows "hex_encode (c_crypto E) x \<in> set names"
proof -
  obtain r st where run: "store_list (c_store E) [''canopus'', ''secrets''] (w_store w) = (r, st)" by fastforce
  then obtain ks where ks: "r = Inr ks" "names = map (\<lambda>c. if c = [] then [] else last c) ks"
    using assms(2) by (auto simp: list_secrets_def abind_eq_Inr lift_store_def amap_err_def on_store_def
        azoom_def map_err_def split: sum.splits)
  have "secret_key E x \<in> set ks"
    using list_law [OF _ run] ks(1) assms(1)
    by (force simp: secret_key_def good_keys(7) intro!: exI [of _ "secret_key E x"])
  then show ?thesis unfolding ks(2) by (force simp: secret_key_def)
qed

lemma consume_secret_spec:
  assumes "consume_secret E x w = (Inr (Some q), w')"
  shows "(\<exists>s g v. view (w_store w) (secret_key E x) = Some (g, v) \<and> from_slice (c_secret E) v = Inr s \<and>
      \<not> sec_consumed s \<and> pol_channel_capacity_msat q = sec_capacity_msat s \<and>
      pol_initial_client_balance_msat q = sec_initial_balance_msat s) \<and>
    view (w_store w') (secret_key E x) = None"
proof -
  obtain r st where get: "get_json (c_store E) (c_secret E) (secret_key E x) (w_store w) = (r, st)" by fastforce
  note law = get_json_law [OF good_keys(2) get]
  obtain s g where r: "r = Inr (s, g)" and live: "\<not> sec_consumed s"
    using assms get by (auto simp: consume_secret_def Let_def acase_run on_store_def azoom_def
        split: if_splits sum.splits StoreError.splits prod.splits)
  obtain base w1 where policy: "effective_policy E (w\<lparr>w_store := st\<rparr>) = (Inr base, w1)"
    and q: "q = base\<lparr>pol_channel_capacity_msat := sec_capacity_msat s,
      pol_initial_client_balance_msat := sec_initial_balance_msat s\<rparr>"
    and rest: "abind (lift_store (update_json (c_store E) (c_secret E) (secret_key E x) (s\<lparr>sec_consumed := True\<rparr>) g))
      (\<lambda>_. abind (lift_store (store_delete (c_store E) (secret_key E x))) (\<lambda>_. aret (Some q))) w1 = (Inr (Some q), w')"
    using assms get r live
    by (auto simp: consume_secret_def Let_def acase_run abind_eq_Inr on_store_def azoom_def split: if_splits)
  then have "view (w_store w') (secret_key E x) = None"
    using delete_law [OF good_keys(2)]
    by (fastforce simp: abind_eq_Inr lift_store_def amap_err_def on_store_def azoom_def map_err_def
        split: prod.splits sum.splits)
  then show ?thesis using law r live q by auto
qed

end

section \<open>Handlers that leave the cross-signed state alone\<close>

context host_env
begin

lemma load_stored:
  assumes "load_channel E p w = (Inr r, w')"
  shows "r = stored_channel E view w p"
proof -
  obtain x st where run: "get_json (c_store E) (c_channel E) (channel_key E p) (w_store w) = (x, st)"
    by fastforce
  then show ?thesis
    using get_json_law [OF good_keys(1) run] assms
    by (auto simp: load_channel_def acase_run on_store_def azoom_def stored_channel_def
        split: sum.splits StoreError.splits prod.splits option.splits)
qed

lemma require_stored:
  "require_channel E p w = (Inr d, w') \<Longrightarrow> stored_channel E view w p = Some d"
  by (auto simp: require_channel_def abind_eq_Inr ok_or_eq_Inr dest!: load_stored)

end

context host
begin

lemma add_secret_ok:
  assumes "\<And>x. chk_secret K \<lparr>sec_secret = x, sec_capacity_msat = cap, sec_initial_balance_msat = init,
      sec_consumed = False\<rparr>"
  shows "maintains W (add_secret E x cap init) (\<lambda>_. True)"
  unfolding add_secret_def
  by (intro maintains_abind_alift maintains_acase_any maintains_on_store create_json_ok)
    (auto intro!: entry_ok_secret assms maintains_aret maintains_afail
      split: sum.split StoreError.split)

lemma remove_secret_ok: "maintains W (remove_secret E x) (\<lambda>_. True)"
  unfolding remove_secret_def by (intro maintains_abind_alift maintains_lift_store delete_ok) simp

lemma consume_secret_ok:
  "maintains W (consume_secret E x) (\<lambda>r. \<forall>q. r = Some q \<longrightarrow> chk_policy K q)"
proof -
  have sec: "maintains W (on_store (get_json (c_store E) (c_secret E) (secret_key E x)))
      (\<lambda>(s, g). chk_secret K s)"
    by (rule maintains_weaken [OF maintains_on_store [OF get_json_ok [OF good_keys(2)]]])
      (auto simp: entry_ok_def secret_key_def)
  have upd: "entry_ok E K (secret_key E x) v"
    if "chk_secret K s" "to_vec (c_secret E) (s\<lparr>sec_consumed := True\<rparr>) = Inr v" for s v
    using entry_ok_secret [OF consumed_law [OF that(1)] that(2)] .
  show ?thesis
    unfolding consume_secret_def Let_def
    by (intro maintains_if maintains_aret maintains_acase [OF sec])
      (auto split: sum.split StoreError.split
        intro!: maintains_aret maintains_afail maintains_if maintains_abind [OF effective_policy_ok]
          maintains_abind_unit [OF maintains_lift_store [OF update_json_ok]]
          maintains_abind_unit [OF maintains_lift_store [OF delete_ok]] upd secret_policy_law)
qed

lemma policy_for_invoke_ok:
  "maintains W (policy_for_invoke E x) (\<lambda>r. \<forall>q. r = Some q \<longrightarrow> chk_policy K q)"
  unfolding policy_for_invoke_def
  by (intro maintains_if maintains_aret consume_secret_ok maintains_abind [OF consume_secret_ok]
      maintains_case_option maintains_abind [OF effective_policy_ok]) simp_all

lemma reconnect_active_ok: "good p d \<Longrightarrow> maintains W (handle_reconnect_active E p d) (\<lambda>_. True)"
  unfolding handle_reconnect_active_def
  by (rule maintains_abind [OF repair_ok], assumption,
      intro maintains_abind_unit [OF send_message_ok] maintains_abind_unit [OF maintains_aforeach]
        maintains_abind_unit [OF maintains_if] maintains_abind_unit [OF state_update_for_uncommitted_ok]
        send_message_ok maintains_aret maintains_abind_unit [OF send_pending_channel_update_ok]
        log_error_ok recover_channel_ok)
    (auto intro!: send_message_ok maintains_aret split: UncommittedUpdate.split)

lemma reconnect_errored_ok: "maintains W (handle_reconnect_errored E p d) (\<lambda>_. True)"
  unfolding handle_reconnect_errored_def
  by (intro maintains_abind_unit [OF send_message_ok] maintains_abind_unit maintains_case_option
      maintains_aret send_message_ok)
    (auto intro!: maintains_aret send_message_ok split: list.split)

lemma record_committed_ok:
  "maintains W (record_committed_update_events E p us a b) (\<lambda>_. True)"
proof -
  note name = committed_event_name
  have "maintains W (case committed_event a u of None \<Rightarrow> aret ()
     | Some (name, event_type, i, amount, payment_hash) \<Rightarrow>
         record_ledger_once E p (event_prefix E p b @ name @ dec_nat (unat i))
           event_type amount (Some payment_hash)) (\<lambda>_. True)" for u
    by (auto split: option.split intro!: maintains_aret record_ledger_once_ok dest: name
        simp: dec_nat_no_sep(2))
  then show ?thesis
    unfolding record_committed_update_events_def by (intro maintains_aforeach) blast
qed

lemma handle_update_add_ok: "maintains W (handle_update_add E p h) (\<lambda>_. True)"
  unfolding handle_update_add_def
  by (intro maintains_abind [OF require_channel_ok] maintains_if maintains_abind_alift send_message_ok
      maintains_try_state maintains_abind_unit [OF mark_errored_ok] save_channel_ok) simp_all

lemma handle_update_fail_malformed_ok: "maintains W (handle_update_fail_malformed E p m) (\<lambda>_. True)"
  unfolding handle_update_fail_malformed_def
  by (intro maintains_abind [OF require_channel_ok] maintains_if maintains_aret save_channel_ok) simp_all

lemma handle_update_fulfill_ok: "maintains W (handle_update_fulfill E p m) (\<lambda>_. True)"
  unfolding handle_update_fulfill_def Let_def
  by (intro maintains_abind [OF require_channel_ok] maintains_if maintains_aret maintains_case_option
      maintains_abind_unit [OF settlement_safe_ok] maintains_abind_unit [OF mark_errored_ok]
      send_message_ok maintains_abind_unit [OF keep_preimage_ok] maintains_abind_unit [OF save_channel_ok]
      resolve_forward_fulfill_ok) simp_all

lemma handle_update_fail_ok: "maintains W (handle_update_fail E p m) (\<lambda>_. True)"
  unfolding handle_update_fail_def
  by (intro maintains_abind [OF require_channel_ok] maintains_if maintains_aret mark_errored_ok
      save_channel_ok) simp_all

lemma handle_error_ok: "maintains W (handle_error E p m) (\<lambda>_. True)"
  unfolding handle_error_def
  by (intro maintains_abind [OF require_channel_ok] mark_remote_errored_ok)

lemma handle_preimages_ok:
  "maintains W (handle_query_preimages E p q) (\<lambda>_. True)"
  "maintains W (handle_reply_preimages E p r) (\<lambda>_. True)"
  unfolding handle_query_preimages_def handle_reply_preimages_def
  by (intro maintains_abind_unit maintains_acollect maintains_lift_node keep_preimage_ok maintains_if send_message_ok
      maintains_aret maintains_aforeach; simp)+

lemma accept_resize_ok: "maintains W (accept_resize E p x) (\<lambda>_. True)"
  unfolding accept_resize_def cas_json_def
  by (intro maintains_lift_store cas_attempts_ok)
    (auto dest!: entry_ok_channelD elim!: entry_ok_channel [rotated])

lemma parameters_ok: "maintains W (channel_parameters_for_data E d) (\<lambda>_. True)"
  unfolding channel_parameters_for_data_def Let_def
  by (intro maintains_abind_unit [OF routing_policy_ok] maintains_aret) simp

lemma handle_ask_branding_ok: "maintains W (handle_ask_branding E p m) (\<lambda>_. True)"
  unfolding handle_ask_branding_def
  by (intro maintains_case_option maintains_aret maintains_abind_alift send_message_ok) simp

lemma world_ok_upd [simp]:
  "world_ok E view K (w\<lparr>w_encodings := a\<rparr>) = world_ok E view K w"
  "world_ok E view K (w\<lparr>w_connections := b\<rparr>) = world_ok E view K w"
  "world_ok E view K (w\<lparr>w_node := n\<rparr>) = world_ok E view K w"
  by (simp_all add: world_ok_def)

lemma note_peer_ok:
  "maintains W (note_peer_wire_encoding p e) (\<lambda>_. True)"
  "maintains W (note_peer_connection p b) (\<lambda>_. True)"
  "maintains W (note_initial_peer_connections c) (\<lambda>_. True)"
  "maintains W (amodify (\<lambda>w. w\<lparr>w_encodings := (w_encodings w)(p := None)\<rparr>)) (\<lambda>_. True)"
  by (simp_all add: maintains_def note_peer_wire_encoding_def note_peer_connection_def
      note_initial_peer_connections_def)

lemma remove_channel_ok: "maintains W (remove_channel E p f) (\<lambda>_. True)"
  unfolding remove_channel_def
  by (intro maintains_abind [OF require_channel_ok] maintains_try_state maintains_if maintains_afail
      maintains_abind [OF maintains_lift_store [OF list_ok]] maintains_abind_unit [OF maintains_aforeach]
      maintains_lift_store maintains_abind_unit [OF maintains_lift_store [OF delete_ok]] delete_ok
      note_peer_ok) simp_all

lemma handle_connect_ok: "maintains W (handle_connect E p) (\<lambda>_. True)"
  unfolding handle_connect_def
  by (intro maintains_abind_unit [OF note_peer_ok(2)] maintains_abind [OF load_channel_ok]
      maintains_case_option maintains_aret maintains_abind_unit [OF maintains_if]
      send_pending_channel_update_ok recover_channel_ok) simp_all

lemma handle_disconnect_ok: "maintains W (handle_disconnect p) (\<lambda>_. True)"
  unfolding handle_disconnect_def by (intro maintains_abind_unit note_peer_ok)

lemma stored_good: "W w \<Longrightarrow> stored_channel E view w p = Some d \<Longrightarrow> good p d"
  by (auto simp: world_ok_def store_ok_def stored_channel_def split: option.splits sum.splits)
    (blast dest: entry_ok_channelD)

text \<open>An operation on the loaded channel, when what it needs of the channel is known of the stored one.\<close>

lemma loaded_ok:
  assumes w: "W w"
    and "\<And>d. stored_channel E view w p = Some d \<Longrightarrow> good p d \<Longrightarrow> maintains W (f d) (\<lambda>_. True)"
  shows "W (snd (abind (require_channel E p) f w))"
proof -
  obtain r w1 where run: "require_channel E p w = (r, w1)" by fastforce
  have w1: "W w1" "\<And>d. r = Inr d \<Longrightarrow> good p d"
    using maintainsD [OF require_channel_ok w run] by auto
  show ?thesis
  proof (cases r)
    case (Inr d)
    then have "maintains W (f d) (\<lambda>_. True)"
      using assms(2) [of d] require_stored [of p w d w1] run w1 by auto
    then show ?thesis
      using w1(1) run Inr by (auto simp: abind_def maintains_def)
  qed (use run w1 in \<open>simp add: abind_def\<close>)
qed

end

section \<open>Handlers that change the cross-signed state\<close>

locale host_rules = host E view K
  for E :: "('st, 'v, 'nd) controller" and view :: "'st \<Rightarrow> key \<Rightarrow> (u64 \<times> 'v) option" and K :: checks +
  fixes allowed :: "PublicKey \<Rightarrow> ChannelData \<Rightarrow> HostedMessage \<Rightarrow> bool"
    and fresh :: "PublicKey \<Rightarrow> bool"
  assumes new_law: "chk_policy K q \<Longrightarrow>
      fresh p \<or> (\<exists>d. chk_channel K p d \<and> derive_status d \<in> {NotOpened, Suspended}) \<Longrightarrow>
      chk_channel K p (new_channel_data q r)"
    and open_law: "chk_channel K p d \<Longrightarrow> derive_status d = Opening \<Longrightarrow>
      s = (cd_lcss d)\<lparr>block_day := day, local_updates := 0, remote_updates := 0, incoming_htlcs := [],
        outgoing_htlcs := [], remote_sig_of_local := x\<rparr> \<Longrightarrow>
      verify_remote_sig (c_crypto E) s p \<Longrightarrow> sign (c_crypto E) (c_node_secret E) s = Inr s' \<Longrightarrow>
      chk_channel K p (d\<lparr>cd_lcss := s', cd_established := True\<rparr>)"
    and commit_law: "chk_channel K p d \<Longrightarrow> derive_status d = Active \<Longrightarrow> cd_uncommitted d \<noteq> [] \<Longrightarrow>
      lcss_next (c_crypto E) (manager_of d) = Inr n \<Longrightarrow>
      s = n\<lparr>block_day := day, remote_sig_of_local := x\<rparr> \<Longrightarrow>
      verify_remote_sig (c_crypto E) s p \<Longrightarrow> sign (c_crypto E) (c_node_secret E) s = Inr s' \<Longrightarrow>
      chk_channel K p (d\<lparr>cd_lcss := s'\<rparr>)"
    and override_law: "chk_channel K p d \<Longrightarrow> derive_status d = Overriding \<Longrightarrow>
      cd_proposed_override d = Some n \<Longrightarrow>
      s = n\<lparr>remote_sig_of_local := x\<rparr> \<Longrightarrow>
      verify_remote_sig (c_crypto E) s p \<Longrightarrow> sign (c_crypto E) (c_node_secret E) s = Inr s' \<Longrightarrow>
      chk_channel K p (d\<lparr>cd_lcss := s', cd_suspended := False, cd_proposed_override := None,
        cd_established := True\<rparr>)"
    and propose_law: "chk_channel K p d \<Longrightarrow> derive_status d \<in> {SErrored, Overriding, Active} \<Longrightarrow>
      checked_sub (ihc_channel_capacity_msat i) a = Some b \<Longrightarrow>
      s = override_state d i day a b \<or> s = override_state d i day b a \<Longrightarrow>
      sign (c_crypto E) (c_node_secret E) s = Inr s' \<Longrightarrow>
      chk_channel K p (d\<lparr>cd_proposed_override := Some s'\<rparr>)"
    and adopt_law: "chk_channel K p d \<Longrightarrow> allowed p d (LastCrossSignedState m) \<Longrightarrow>
      verify_remote_sig (c_crypto E) m (c_node_public E) \<Longrightarrow>
      verify_remote_sig (c_crypto E) (reverse m) p \<Longrightarrow>
      local_updates (cd_lcss d) \<le> local_updates (reverse m) \<Longrightarrow>
      remote_updates (cd_lcss d) \<le> remote_updates (reverse m) \<Longrightarrow>
      local_updates (cd_lcss d) \<noteq> local_updates (reverse m) \<or>
      remote_updates (cd_lcss d) \<noteq> remote_updates (reverse m) \<Longrightarrow>
      chk_channel K p (d\<lparr>cd_lcss := reverse m\<rparr>)"
    and resize_law: "chk_channel K p d \<Longrightarrow> allowed p d (ResizeChannel rm) \<Longrightarrow> derive_status d = Active \<Longrightarrow>
      cd_accepting_resize_sat d = Some limit \<Longrightarrow> verify_client_sig (c_crypto E) rm p \<Longrightarrow>
      rc_new_capacity_sat rm \<le> limit \<Longrightarrow> checked_mul (rc_new_capacity_sat rm) 1000 = Some new \<Longrightarrow>
      remote_balance_msat (cd_lcss d) < new \<Longrightarrow>
      (if new \<ge> ihc_channel_capacity_msat (init_hosted_channel (cd_lcss d))
       then checked_add (local_balance_msat (cd_lcss d))
         (new - ihc_channel_capacity_msat (init_hosted_channel (cd_lcss d)))
       else checked_sub (local_balance_msat (cd_lcss d))
         (ihc_channel_capacity_msat (init_hosted_channel (cd_lcss d)) - new)) = Some bal \<Longrightarrow>
      sign (c_crypto E) (c_node_secret E) ((cd_lcss d)\<lparr>init_hosted_channel :=
        (init_hosted_channel (cd_lcss d))\<lparr>ihc_channel_capacity_msat := new,
          ihc_max_htlc_value_in_flight_msat := new\<rparr>, local_balance_msat := bal\<rparr>) = Inr s' \<Longrightarrow>
      chk_channel K p (d\<lparr>cd_lcss := s'\<rparr>)"
begin

lemma new_channel_invoke_ok:
  assumes "fresh p \<or> (\<exists>d. good p d \<and> derive_status d \<in> {NotOpened, Suspended})"
  shows "maintains W (handle_new_channel_invoke E p m) (\<lambda>_. True)"
  unfolding handle_new_channel_invoke_def
  by (intro maintains_abind [OF policy_for_invoke_ok] maintains_case_option maintains_aret
      maintains_abind_unit [OF save_channel_ok] new_law send_message_ok)
    (use assms in simp_all)

lemma invoke_existing_ok:
  assumes "good p d"
  shows "maintains W (case derive_status d of
      NotOpened \<Rightarrow> handle_new_channel_invoke E p m | Suspended \<Rightarrow> handle_new_channel_invoke E p m
    | SErrored \<Rightarrow> handle_reconnect_errored E p d | Overriding \<Rightarrow> handle_reconnect_errored E p d
    | _ \<Rightarrow> handle_reconnect_active E p d) (\<lambda>_. True)"
  using assms
  by (auto intro!: new_channel_invoke_ok reconnect_errored_ok reconnect_active_ok split: Status.split)

lemma handle_invoke_ok:
  assumes w: "W w" and new: "stored_channel E view w p = None \<Longrightarrow> fresh p"
  shows "W (snd (handle_invoke E p m w))"
proof -
  obtain r w1 where run: "load_channel E p w = (r, w1)" by fastforce
  have w1: "W w1" "\<And>d. r = Inr (Some d) \<Longrightarrow> good p d"
    using maintainsD [OF load_channel_ok w run] by auto
  have "fresh p" if "r = Inr None" using load_stored [of p w] run new that by auto
  then have step: "maintains W (case x of None \<Rightarrow> handle_new_channel_invoke E p m
      | Some d \<Rightarrow> (case derive_status d of
          NotOpened \<Rightarrow> handle_new_channel_invoke E p m | Suspended \<Rightarrow> handle_new_channel_invoke E p m
        | SErrored \<Rightarrow> handle_reconnect_errored E p d | Overriding \<Rightarrow> handle_reconnect_errored E p d
        | _ \<Rightarrow> handle_reconnect_active E p d)) (\<lambda>_. True)" if "r = Inr x" for x
    using that w1(2) by (auto intro!: new_channel_invoke_ok invoke_existing_ok split: option.split)
  have refuse: "maintains W (abind (send_message E p (error_message E p t)) (\<lambda>_. afail ChainHashMismatch))
      (\<lambda>_. True)" for t
    by (intro maintains_abind_unit [OF send_message_ok] maintains_afail)
  show ?thesis
    using maintains_snd [OF refuse w] maintains_snd [OF step w1(1)] w1(1) run
    by (cases r) (auto simp: handle_invoke_def abind_def)
qed

lemma opening_ok:
  assumes "good p d" and "derive_status d = Opening"
  shows "maintains W (handle_opening_state_update E p d m) (\<lambda>_. True)"
  unfolding handle_opening_state_update_def Let_def
  by (intro maintains_abind_unit [OF current_block_day_ok] maintains_if maintains_aret
      maintains_try_encode maintains_abind_unit [OF save_channel_ok]
      maintains_abind_unit [OF record_ledger_once_ok] maintains_abind_unit [OF send_message_ok]
      send_channel_update_ok)
    (auto intro!: open_law [OF assms refl])

lemma active_ok:
  assumes "good p d" and "derive_status d = Active"
  shows "maintains W (handle_active_state_update E p d m) (\<lambda>_. True)"
proof -
  have repair: "maintains W (repair_duplicate_uncommitted_resolutions E p d)
      (\<lambda>d'. good p d' \<and> derive_status d' = Active)"
    unfolding repair_duplicate_uncommitted_resolutions_def Let_def
    by (intro maintains_if maintains_abind_unit save_channel_ok maintains_aret)
      (simp_all add: assms)
  show ?thesis
    unfolding handle_active_state_update_def Let_def
    by (rule maintains_abind [OF repair])
      (intro maintains_if maintains_aret maintains_abind_unit [OF current_block_day_ok]
        maintains_try_state maintains_try_encode maintains_abind_unit [OF save_channel_ok]
        maintains_abind_unit [OF record_committed_ok] maintains_abind_unit [OF send_message_ok]
        dispatch_effects_ok, auto intro: commit_law [OF _ _ _ _ refl])
qed

lemma override_acceptance_ok:
  assumes "good p d" and "derive_status d = Overriding"
  shows "maintains W (handle_override_acceptance E p d m) (\<lambda>_. True)"
proof -
  have ok: "good p \<lparr>cd_lcss = s', cd_uncommitted = [], cd_local_errors = [], cd_remote_errors = [],
          cd_suspended = False, cd_proposed_override = None,
          cd_last_refund_scriptpubkey = cd_last_refund_scriptpubkey d, cd_established = True,
          cd_accepting_resize_sat = cd_accepting_resize_sat d,
          cd_routing_policy = cd_routing_policy d,
          cd_channel_update_pending = cd_channel_update_pending d\<rparr>" (is "good p ?d")
    if "cd_proposed_override d = Some n" "s = n\<lparr>remote_sig_of_local := x\<rparr>"
      "verify_remote_sig (c_crypto E) s p" "sign (c_crypto E) (c_node_secret E) s = Inr s'" for n s x s'
  proof -
    have "?d = d\<lparr>cd_lcss := s', cd_suspended := False, cd_proposed_override := None,
        cd_established := True, cd_uncommitted := [], cd_local_errors := [], cd_remote_errors := []\<rparr>"
      by simp
    then show ?thesis using override_law [OF assms that] by (metis good_upd(1,2,3))
  qed
  show ?thesis
    unfolding handle_override_acceptance_def Let_def
    by (intro maintains_abind_alift maintains_if maintains_aret maintains_abind_unit [OF current_block_day_ok]
        maintains_try_encode maintains_abind_unit [OF save_channel_ok]
        maintains_abind_unit [OF record_ledger_once_ok] maintains_abind_unit [OF send_message_ok]
        send_pending_channel_update_ok send_channel_update_ok ok)
      (auto simp: ok_or_eq_Inr)
qed

lemma handle_state_update_ok: "maintains W (handle_state_update E p m) (\<lambda>_. True)"
  unfolding handle_state_update_def
  by (rule maintains_abind [OF require_channel_ok])
    (auto split: Status.split intro!: opening_ok override_acceptance_ok active_ok maintains_aret)

lemma apply_resize_ok:
  assumes "good p d" and "allowed p d (ResizeChannel m)"
  shows "maintains W (apply_resize E p m d) (\<lambda>_. True)"
proof -
  have upd: "d\<lparr>cd_accepting_resize_sat := None, cd_lcss := x\<rparr> =
      (d\<lparr>cd_lcss := x\<rparr>)\<lparr>cd_accepting_resize_sat := None\<rparr>" for x by simp
  show ?thesis
    unfolding apply_resize_def Let_def
    by (intro maintains_if maintains_aret maintains_case_option
        maintains_abind_alift maintains_abind_unit [OF routing_policy_ok] maintains_try_encode
        maintains_abind_unit [OF save_channel_ok] maintains_abind_unit [OF record_ledger_once_ok]
        maintains_abind_unit [OF send_message_ok] log_error_ok send_pending_channel_update_ok)
      (auto simp: dec_nat_no_sep(2) upd ok_or_eq_Inr intro: resize_law [OF assms] simp del: if_split)
qed

lemma handle_resize_ok:
  assumes "W w" and "\<And>d. stored_channel E view w p = Some d \<Longrightarrow> allowed p d (ResizeChannel m)"
  shows "W (snd (handle_resize_channel E p m w))"
  unfolding handle_resize_channel_def by (intro loaded_ok assms apply_resize_ok)

lemma reconcile_lcss_ok:
  assumes "good p d" and "allowed p d (LastCrossSignedState m)"
  shows "maintains W (reconcile_lcss E p m d) (\<lambda>_. True)"
  unfolding reconcile_lcss_def Let_def
  by (intro maintains_if maintains_abind_unit [OF mark_errored_ok]
      maintains_abind_unit [OF send_message_ok] send_message_ok maintains_afail
      maintains_abind_unit [OF save_channel_ok])
    (auto simp: assms not_less intro!: adopt_law)

lemma handle_lcss_ok:
  assumes "W w" and "\<And>d. stored_channel E view w p = Some d \<Longrightarrow> allowed p d (LastCrossSignedState m)"
  shows "W (snd (handle_lcss E p m w))"
  unfolding handle_lcss_def by (intro loaded_ok assms reconcile_lcss_ok)

lemma proposed_ok:
  "good p d \<Longrightarrow> derive_status d \<in> {SErrored, Overriding, Active} \<Longrightarrow>
     ok_or (checked_sub (ihc_channel_capacity_msat i) a) e = Inr b \<Longrightarrow>
     sign (c_crypto E) (c_node_secret E) (override_state d i day b a) = Inr s' \<Longrightarrow>
     good p (d\<lparr>cd_proposed_override := Some s'\<rparr>)"
  "good p d \<Longrightarrow> derive_status d \<in> {SErrored, Overriding, Active} \<Longrightarrow>
     ok_or (checked_sub (ihc_channel_capacity_msat i) a) e = Inr b \<Longrightarrow>
     sign (c_crypto E) (c_node_secret E) (override_state d i day a b) = Inr s' \<Longrightarrow>
     good p (d\<lparr>cd_proposed_override := Some s'\<rparr>)"
  by (auto simp: ok_or_eq_Inr intro: propose_law [OF _ _ _ disjI2 [OF refl]] propose_law [OF _ _ _ disjI1 [OF refl]])

lemma good_override:
  "good p ((with_default_error t d)\<lparr>cd_proposed_override := x\<rparr>) = good p (d\<lparr>cd_proposed_override := x\<rparr>)"
  "good p (d\<lparr>cd_routing_policy := r, cd_channel_update_pending := b, cd_proposed_override := x\<rparr>) =
    good p (d\<lparr>cd_proposed_override := x\<rparr>)"
proof -
  have e: "d\<lparr>cd_local_errors := e, cd_proposed_override := x\<rparr> = (d\<lparr>cd_proposed_override := x\<rparr>)\<lparr>cd_local_errors := e\<rparr>"
    for e by simp
  show "good p ((with_default_error t d)\<lparr>cd_proposed_override := x\<rparr>) = good p (d\<lparr>cd_proposed_override := x\<rparr>)"
    unfolding with_default_error_def by (simp add: e del: ChannelData.update_convs)
  have "d\<lparr>cd_routing_policy := r, cd_channel_update_pending := b, cd_proposed_override := x\<rparr> =
      (d\<lparr>cd_proposed_override := x\<rparr>)\<lparr>cd_routing_policy := r, cd_channel_update_pending := b\<rparr>" by simp
  then show "good p (d\<lparr>cd_routing_policy := r, cd_channel_update_pending := b, cd_proposed_override := x\<rparr>) =
      good p (d\<lparr>cd_proposed_override := x\<rparr>)" by (metis good_upd(4,6))
qed

lemma set_channel_override_ok:
  assumes "good p d" and "derive_status d \<in> {Active, Overriding}"
  shows "maintains W (set_channel_override E p q d
    (d\<lparr>cd_routing_policy := r, cd_channel_update_pending := b\<rparr>) routing) (\<lambda>_. True)"
proof -
  have base: "maintains W (if derive_status d = Overriding
            then alift (ok_or (cd_proposed_override d)
                   (InvalidMessage ''overriding channel has no proposed override''))
            else aret (cd_lcss d)) (\<lambda>_. True)"
    by (intro maintains_if maintains_alift maintains_aret) simp_all
  show ?thesis
    unfolding set_channel_override_def Let_def
    by (intro maintains_abind_unit [OF base] maintains_if maintains_afail maintains_abind_alift
        maintains_abind_unit [OF current_block_day_ok] maintains_try_encode
        maintains_abind_unit [OF save_channel_ok] maintains_abind_unit [OF log_error_ok] send_message_ok
        maintains_abind [OF require_channel_ok] maintains_abind_unit [OF parameters_ok] maintains_aret)
      (use assms in \<open>auto simp: good_override intro: proposed_ok(1)\<close>)
qed

lemma set_channel_ok: "maintains W (set_channel E p q b) (\<lambda>_. True)"
  unfolding set_channel_def Let_def
  by (intro maintains_abind [OF require_channel_ok] maintains_if maintains_afail maintains_aret
      maintains_abind_unit [OF parameters_ok] maintains_abind_unit [OF routing_policy_ok]
      set_channel_override_ok maintains_abind_unit [OF save_channel_ok]
      maintains_abind_unit [OF log_error_ok] send_pending_channel_update_ok) simp_all

lemma propose_override_ok: "maintains W (propose_override E p x) (\<lambda>_. True)"
  unfolding propose_override_def Let_def
  by (intro maintains_abind [OF require_channel_ok] maintains_if maintains_afail maintains_abind_alift
      maintains_abind_unit [OF current_block_day_ok] maintains_try_encode
      maintains_abind_unit [OF save_channel_ok] maintains_abind_unit [OF send_message_ok] send_message_ok)
    (auto simp: good_override intro: proposed_ok(2))

end

end
