(* ===== verification/Keys.thy ===== *)
theory Keys
  imports External
begin

text \<open>
  Model of \<^verbatim>\<open>src/src/keys.rs\<close>: the formats of lightningd's secret file, the extraction of the secret
  material and the derivation of the node key. HKDF, Argon2, XChaCha20-Poly1305, BIP-39 and the text of a
  UTF-8 error are fields of \<open>key_crypto\<close>; reading the file is the argument \<open>read_file\<close>. Zeroing of
  memory is left out. \<open>to_ne_bytes\<close> is little-endian, as on the supported platforms. A panic of
  the source is the value \<open>KeyPanic\<close>.
\<close>

section \<open>Parameters and data\<close>

record 'm key_crypto = crypto +
  hkdf_expand :: "bytes \<Rightarrow> bytes \<Rightarrow> bytes \<Rightarrow> string + bytes"
  sk_from_slice :: "bytes \<Rightarrow> SecretKey option"
  public_key_of :: "SecretKey \<Rightarrow> PublicKey"
  argon2_params :: "nat \<Rightarrow> nat \<Rightarrow> nat \<Rightarrow> string option"
  argon2id :: "nat \<Rightarrow> nat \<Rightarrow> nat \<Rightarrow> string \<Rightarrow> bytes \<Rightarrow> bytes option"
  xchacha_decrypt :: "bytes \<Rightarrow> bytes \<Rightarrow> bytes \<Rightarrow> bytes option"
  utf8_error :: "bytes \<Rightarrow> string"
  parse_mnemonic :: "string \<Rightarrow> string + 'm"
  to_seed :: "'m \<Rightarrow> string \<Rightarrow> bytes"

definition LEGACY_PLAIN_LEN :: nat where "LEGACY_PLAIN_LEN = 32"
definition LEGACY_ENCRYPTED_LEN :: nat where "LEGACY_ENCRYPTED_LEN = 73"
definition PASSPHRASE_HASH_LEN :: nat where "PASSPHRASE_HASH_LEN = 32"
definition NODE_KEY_IKM_LEN :: nat where "NODE_KEY_IKM_LEN = 32"
definition LEGACY_ENCRYPTED_HEADER_LEN :: nat where "LEGACY_ENCRYPTED_HEADER_LEN = 24"

definition CLN_ARGON2ID_SALT :: bytes where
  "CLN_ARGON2ID_SALT = bytes_of_string ''c-lightning'' @ replicate 5 0"

datatype KeyError =
    Read string string
  | InvalidFormat string nat
  | PassphraseRequired string
  | PassphraseNotNeeded string
  | WrongPassphrase string
  | InvalidMnemonic string string
  | Decrypt string string
  | InvalidKey string

datatype key_fault = KeyErr KeyError | KeyPanic

datatype HsmSecretKind =
    LegacyPlain | LegacyEncrypted | MnemonicNoPassphrase | MnemonicWithPassphrase | Invalid

record NodeKeys =
  nk_secret :: SecretKey
  nk_public :: PublicKey

section \<open>Formats\<close>

definition detect_hsm_secret_kind :: "bytes \<Rightarrow> HsmSecretKind" where
  "detect_hsm_secret_kind data =
     (if length data < LEGACY_PLAIN_LEN then Invalid
      else if length data = LEGACY_PLAIN_LEN then LegacyPlain
      else if length data = LEGACY_ENCRYPTED_LEN then LegacyEncrypted
      else if list_all (\<lambda>b. b = 0) (take PASSPHRASE_HASH_LEN data) then MnemonicNoPassphrase
      else MnemonicWithPassphrase)"

definition decrypt_legacy_hsm_secret :: "'m key_crypto \<Rightarrow> string \<Rightarrow> bytes \<Rightarrow> string option \<Rightarrow>
    key_fault + bytes" where
  "decrypt_legacy_hsm_secret K path data passphrase =
     rbind (ok_or passphrase (KeyErr (PassphraseRequired path))) (\<lambda>pass.
     case argon2_params K 268435456 3 1 of
       Some e \<Rightarrow> Inl (KeyErr (Decrypt path e))
     | None \<Rightarrow>
         rbind (ok_or (argon2id K 268435456 3 1 pass CLN_ARGON2ID_SALT) (KeyErr (WrongPassphrase path)))
           (\<lambda>key_bytes.
         rbind (ok_or (xchacha_decrypt K key_bytes (take LEGACY_ENCRYPTED_HEADER_LEN data)
                  (drop LEGACY_ENCRYPTED_HEADER_LEN data)) (KeyErr (WrongPassphrase path))) (\<lambda>plaintext.
         if length plaintext \<noteq> LEGACY_PLAIN_LEN
         then Inl (KeyErr (Decrypt path
                (''decrypted secret is '' @ dec_nat (length plaintext) @ '' bytes'')))
         else Inr plaintext)))"

definition extract_mnemonic_secret :: "'m key_crypto \<Rightarrow> string \<Rightarrow> bytes \<Rightarrow> string option \<Rightarrow>
    key_fault + bytes" where
  "extract_mnemonic_secret K path data passphrase =
     (let kind = detect_hsm_secret_kind data in
      if length data < PASSPHRASE_HASH_LEN then Inl KeyPanic
      else let text = drop PASSPHRASE_HASH_LEN data in
      if \<not> valid_utf8 text then Inl (KeyErr (InvalidMnemonic path (utf8_error K text)))
      else (case parse_mnemonic K (string_of_bytes text) of
          Inl e \<Rightarrow> Inl (KeyErr (InvalidMnemonic path e))
        | Inr mnemonic \<Rightarrow>
            rbind (case (kind, passphrase) of
                (MnemonicNoPassphrase, None) \<Rightarrow> Inr ''''
              | (MnemonicNoPassphrase, Some _) \<Rightarrow> Inl (KeyErr (PassphraseNotNeeded path))
              | (MnemonicWithPassphrase, Some pass) \<Rightarrow> Inr pass
              | (MnemonicWithPassphrase, None) \<Rightarrow> Inl (KeyErr (PassphraseRequired path))
              | _ \<Rightarrow> Inl KeyPanic) (\<lambda>pass.
            let seed = to_seed K mnemonic pass in
            if kind = MnemonicWithPassphrase \<and> sha256 K seed \<noteq> take PASSPHRASE_HASH_LEN data
            then Inl (KeyErr (WrongPassphrase path))
            else Inr seed)))"

definition extract_hsm_secret_material :: "'m key_crypto \<Rightarrow> string \<Rightarrow> bytes \<Rightarrow> string option \<Rightarrow>
    key_fault + bytes" where
  "extract_hsm_secret_material K path data passphrase =
     (case detect_hsm_secret_kind data of
        LegacyPlain \<Rightarrow>
          if passphrase \<noteq> None then Inl (KeyErr (PassphraseNotNeeded path)) else Inr data
      | LegacyEncrypted \<Rightarrow> decrypt_legacy_hsm_secret K path data passphrase
      | MnemonicNoPassphrase \<Rightarrow> extract_mnemonic_secret K path data passphrase
      | MnemonicWithPassphrase \<Rightarrow> extract_mnemonic_secret K path data passphrase
      | Invalid \<Rightarrow> Inl (KeyErr (InvalidFormat path (length data))))"

section \<open>Derivation\<close>

text \<open>The loop over the salt counter, a checked \<open>u32\<close>.\<close>

function derive_secret :: "'m key_crypto \<Rightarrow> bytes \<Rightarrow> u32 \<Rightarrow> key_fault + SecretKey" where
  "derive_secret K ikm salt_counter =
     (case hkdf_expand K (le_bytes 4 (unat salt_counter)) ikm (bytes_of_string ''nodeid'') of
        Inl e \<Rightarrow> Inl (KeyErr (InvalidKey e))
      | Inr okm \<Rightarrow> (case sk_from_slice K okm of
          Some secret \<Rightarrow> Inr secret
        | None \<Rightarrow>
            if unat salt_counter + 1 < 2 ^ 32 then derive_secret K ikm (salt_counter + 1)
            else Inl (KeyErr (InvalidKey ''salt counter overflow''))))"
  by pat_completeness auto
termination
  by (relation "measure (\<lambda>(_, _, c). 2 ^ 32 - unat c)") (auto simp: unat_word_ariths)

declare derive_secret.simps [simp del]

definition from_secret_material :: "'m key_crypto \<Rightarrow> bytes \<Rightarrow> key_fault + NodeKeys" where
  "from_secret_material K secret_material =
     (if length secret_material < NODE_KEY_IKM_LEN
      then Inl (KeyErr (InvalidFormat ''<memory>'' (length secret_material)))
      else rbind (derive_secret K (take NODE_KEY_IKM_LEN secret_material) 0) (\<lambda>secret.
        Inr \<lparr>nk_secret = secret, nk_public = public_key_of K secret\<rparr>))"

definition from_hsm_secret :: "'m key_crypto \<Rightarrow> bytes \<Rightarrow> key_fault + NodeKeys" where
  "from_hsm_secret K hsm_secret =
     (if length hsm_secret \<noteq> NODE_KEY_IKM_LEN
      then Inl (KeyErr (InvalidFormat ''<memory>'' (length hsm_secret)))
      else from_secret_material K hsm_secret)"

definition from_hsm_secret_bytes :: "'m key_crypto \<Rightarrow> bytes \<Rightarrow> string option \<Rightarrow> key_fault + NodeKeys" where
  "from_hsm_secret_bytes K data passphrase =
     rbind (extract_hsm_secret_material K ''<memory>'' data passphrase) (from_secret_material K)"

fun with_path :: "KeyError \<Rightarrow> string \<Rightarrow> KeyError" where
  "with_path (InvalidFormat _ len) path = InvalidFormat path len"
| "with_path (PassphraseRequired _) path = PassphraseRequired path"
| "with_path (PassphraseNotNeeded _) path = PassphraseNotNeeded path"
| "with_path (WrongPassphrase _) path = WrongPassphrase path"
| "with_path (InvalidMnemonic _ reason) path = InvalidMnemonic path reason"
| "with_path (Decrypt _ reason) path = Decrypt path reason"
| "with_path other path = other"

fun fault_with_path :: "string \<Rightarrow> key_fault \<Rightarrow> key_fault" where
  "fault_with_path path (KeyErr e) = KeyErr (with_path e path)"
| "fault_with_path path KeyPanic = KeyPanic"

definition from_file_with_passphrase :: "'m key_crypto \<Rightarrow> (string \<Rightarrow> string + bytes) \<Rightarrow> string \<Rightarrow>
    string option \<Rightarrow> key_fault + NodeKeys" where
  "from_file_with_passphrase K read_file path passphrase =
     (case read_file path of
        Inl e \<Rightarrow> Inl (KeyErr (Read path e))
      | Inr data \<Rightarrow> (case from_hsm_secret_bytes K data passphrase of
          Inl e \<Rightarrow> Inl (fault_with_path path e)
        | Inr keys \<Rightarrow> Inr keys))"

definition from_file :: "'m key_crypto \<Rightarrow> (string \<Rightarrow> string + bytes) \<Rightarrow> string \<Rightarrow> key_fault + NodeKeys" where
  "from_file K read_file path = from_file_with_passphrase K read_file path None"

section \<open>The derived key\<close>

abbreviation node_okm :: "'m key_crypto \<Rightarrow> bytes \<Rightarrow> u32 \<Rightarrow> bytes" where
  "node_okm K ikm c \<equiv> projr (hkdf_expand K (le_bytes 4 (unat c)) ikm (bytes_of_string ''nodeid''))"

text \<open>HKDF expands to 32 bytes without an error.\<close>

definition hkdf_total :: "'m key_crypto \<Rightarrow> bool" where
  "hkdf_total K \<longleftrightarrow> (\<forall>salt ikm info. \<not> isl (hkdf_expand K salt ikm info))"

lemma hkdf_okm: "hkdf_total K \<Longrightarrow>
    hkdf_expand K (le_bytes 4 (unat c)) ikm (bytes_of_string ''nodeid'') = Inr (node_okm K ikm c)"
  unfolding hkdf_total_def by (metis sum.collapse(2))

lemma derive_secret_step:
  assumes "hkdf_total K"
  shows "derive_secret K ikm c = (case sk_from_slice K (node_okm K ikm c) of
      Some secret \<Rightarrow> Inr secret
    | None \<Rightarrow> if unat c + 1 < 2 ^ 32 then derive_secret K ikm (c + 1)
              else Inl (KeyErr (InvalidKey ''salt counter overflow'')))"
  using hkdf_okm [OF assms, of c ikm]
  by (cases "hkdf_expand K (le_bytes 4 (unat c)) ikm (bytes_of_string ''nodeid'')")
    (simp_all add: derive_secret.simps [of K ikm c])

lemma u32_step:
  fixes c x :: u32
  assumes "unat c + 1 < 2 ^ 32"
  shows "c \<le> x \<longleftrightarrow> x = c \<or> c + 1 \<le> x" and "c < c + 1"
  using assms by (auto simp: word_le_nat_alt word_less_nat_alt unat_word_ariths word_unat_eq_iff)

lemma u32_last:
  fixes c x :: u32
  assumes "\<not> unat c + 1 < 2 ^ 32" and "c \<le> x"
  shows "x = c"
  using assms unsigned_less [of x, where 'a = nat] by (simp add: word_le_nat_alt word_unat_eq_iff)

lemma first_from_step:
  fixes Q :: "u32 \<Rightarrow> 'a option"
  assumes "Q c = None" and "unat c + 1 < 2 ^ 32"
  shows "(\<exists>c' \<ge> c. Q c' = Some y \<and> (\<forall>x. c \<le> x \<and> x < c' \<longrightarrow> Q x = None)) \<longleftrightarrow>
    (\<exists>c' \<ge> c + 1. Q c' = Some y \<and> (\<forall>x. c + 1 \<le> x \<and> x < c' \<longrightarrow> Q x = None))"
proof -
  have "c \<le> c' \<and> Q c' = Some y \<and> (\<forall>x. c \<le> x \<and> x < c' \<longrightarrow> Q x = None) \<longleftrightarrow>
      c + 1 \<le> c' \<and> Q c' = Some y \<and> (\<forall>x. c + 1 \<le> x \<and> x < c' \<longrightarrow> Q x = None)" for c'
    using assms(1) u32_step(1) [OF assms(2)] by auto
  then show ?thesis by blast
qed

lemma derive_secret_least:
  assumes "hkdf_total K"
  shows "derive_secret K ikm c = Inr sk \<longleftrightarrow>
    (\<exists>c' \<ge> c. sk_from_slice K (node_okm K ikm c') = Some sk \<and>
       (\<forall>x. c \<le> x \<and> x < c' \<longrightarrow> sk_from_slice K (node_okm K ikm x) = None))"
  using assms
proof (induction K ikm c rule: derive_secret.induct)
  case (1 K ikm c)
  note okm = hkdf_okm [OF 1(2)]
  show ?case
  proof (cases "sk_from_slice K (node_okm K ikm c)")
    case (Some s)
    then have "derive_secret K ikm c = Inr s"
      using derive_secret_step [OF 1(2)] by simp
    moreover have "c' = c" if "c \<le> c'" "\<forall>x. c \<le> x \<and> x < c' \<longrightarrow> sk_from_slice K (node_okm K ikm x) = None" for c'
    proof (rule ccontr)
      assume "c' \<noteq> c"
      then show False using that Some by auto
    qed
    ultimately show ?thesis using Some by (metis Inr_inject option.inject order_refl not_le)
  next
    case None
    show ?thesis
    proof (cases "unat c + 1 < 2 ^ 32")
      case True
      have eq: "derive_secret K ikm c = derive_secret K ikm (c + 1)"
        using derive_secret_step [OF 1(2), of ikm c] None True by simp
      show ?thesis
        unfolding eq 1(1) [OF okm None True 1(2)]
        using first_from_step [of "\<lambda>x. sk_from_slice K (node_okm K ikm x)" c sk] None True by blast
    next
      case False
      have "derive_secret K ikm c = Inl (KeyErr (InvalidKey ''salt counter overflow''))"
        using derive_secret_step [OF 1(2), of ikm c] None False by simp
      then show ?thesis using u32_last [OF False] None by fastforce
    qed
  qed
qed

text \<open>
  A concrete instance: the HKDF output starts with the salt and is a valid key unless its first
  byte is zero, and mnemonics are kept as text.
\<close>

definition model_keys :: "string key_crypto" where
  "model_keys = crypto.extend (model_crypto\<lparr>sha256 := \<lambda>m. replicate 32 1\<rparr>)
     \<lparr>hkdf_expand = (\<lambda>salt ikm info. Inr (salt @ drop 4 ikm)),
      sk_from_slice = (\<lambda>b. if b = [] \<or> hd b = 0 then None else Some (SecretKey b)),
      public_key_of = model_pk,
      argon2_params = (\<lambda>m t p. None), argon2id = (\<lambda>m t p pass salt. Some salt),
      xchacha_decrypt = (\<lambda>k n c. Some (take 32 c)),
      utf8_error = (\<lambda>b. ''invalid utf-8''),
      parse_mnemonic = Inr, to_seed = (\<lambda>m pass. replicate 64 5)\<rparr>"

lemma model_keys_sel [simp]:
  "hkdf_expand model_keys salt ikm info = Inr (salt @ drop 4 ikm)"
  "sk_from_slice model_keys b = (if b = [] \<or> hd b = 0 then None else Some (SecretKey b))"
  "public_key_of model_keys = model_pk" "sha256 model_keys m = replicate 32 1"
  "parse_mnemonic model_keys t = Inr t" "to_seed model_keys t pass = replicate 64 5"
  by (simp_all add: model_keys_def crypto.defs)

lemma first_salts: "le_bytes 4 (Suc 0) = [1, 0, 0, 0]" "le_bytes 4 0 = [0, 0, 0, 0]"
  by code_simp+

lemma model_derives: "\<exists>keys. from_secret_material model_keys (replicate 64 5) = Inr keys"
proof -
  have "derive_secret model_keys (replicate 32 5) 1 = Inr (SecretKey ([1, 0, 0, 0] @ replicate 28 5))"
    by (subst derive_secret.simps) (simp add: first_salts)
  then show ?thesis
    by (simp add: from_secret_material_def NODE_KEY_IKM_LEN_def derive_secret.simps [of _ _ 0] first_salts)
qed

lemma model_hkdf_total: "hkdf_total model_keys"
  by (simp add: hkdf_total_def)

text \<open>
  C32. The derived node key is the first valid one: from material of at least 32 bytes, the key is the
  HKDF output for the smallest salt counter whose output is a valid secret key, with its public key;
  derivation fails only when none of the 2^32 counters gives one. Only the first 32 bytes of the
  material matter. HKDF is assumed to expand to 32 bytes without an error.
\<close>

theorem node_key_is_first_valid:
  assumes "hkdf_total K" and "NODE_KEY_IKM_LEN \<le> length material"
  shows "(from_secret_material K material = Inr keys \<longleftrightarrow>
      nk_public keys = public_key_of K (nk_secret keys) \<and>
      (\<exists>c. sk_from_slice K (node_okm K (take 32 material) c) = Some (nk_secret keys) \<and>
        (\<forall>x < c. sk_from_slice K (node_okm K (take 32 material) x) = None))) \<and>
    (isl (from_secret_material K material) \<longleftrightarrow>
      (\<forall>c. sk_from_slice K (node_okm K (take 32 material) c) = None))"
proof -
  let ?ikm = "take 32 material"
  let ?Q = "\<lambda>c. sk_from_slice K (node_okm K ?ikm c)"
  have run: "from_secret_material K material = rbind (derive_secret K ?ikm 0) (\<lambda>secret.
      Inr \<lparr>nk_secret = secret, nk_public = public_key_of K secret\<rparr>)"
    using assms(2) by (simp add: from_secret_material_def NODE_KEY_IKM_LEN_def)
  have least: "derive_secret K ?ikm 0 = Inr sk \<longleftrightarrow> (\<exists>c. ?Q c = Some sk \<and> (\<forall>x < c. ?Q x = None))" for sk
    using derive_secret_least [OF assms(1), of ?ikm 0 sk] by simp
  have "\<exists>c sk. ?Q c = Some sk \<and> (\<forall>x < c. ?Q x = None)" if "?Q c \<noteq> None" for c
    using that
  proof (induction c rule: less_induct)
    case (less c)
    then show ?case by (cases "\<forall>x < c. ?Q x = None") blast+
  qed
  then have "(\<exists>sk. derive_secret K ?ikm 0 = Inr sk) \<longleftrightarrow> (\<exists>c. ?Q c \<noteq> None)"
    unfolding least by (metis option.distinct(1))
  then have fails: "isl (from_secret_material K material) \<longleftrightarrow> (\<forall>c. ?Q c = None)"
    by (cases "derive_secret K ?ikm 0") (auto simp: run)
  have "from_secret_material K material = Inr keys \<longleftrightarrow>
      nk_public keys = public_key_of K (nk_secret keys) \<and> derive_secret K ?ikm 0 = Inr (nk_secret keys)"
    by (cases keys) (auto simp: run rbind_eq_Inr)
  then show ?thesis using fails by (simp only: least simp_thms)
qed

theorem node_key_is_first_valid_witness:
  "from_secret_material model_keys (replicate 64 5) =
     Inr \<lparr>nk_secret = SecretKey ([1, 0, 0, 0] @ replicate 28 5),
          nk_public = model_pk (SecretKey ([1, 0, 0, 0] @ replicate 28 5))\<rparr>"
proof -
  have "x = 0" if "x < 1" for x :: u32 using that by (simp add: word_less_nat_alt unat_eq_0)
  then show ?thesis
    using node_key_is_first_valid [OF model_hkdf_total, of "replicate 64 5"
        "\<lparr>nk_secret = SecretKey ([1, 0, 0, 0] @ replicate 28 5),
          nk_public = model_pk (SecretKey ([1, 0, 0, 0] @ replicate 28 5))\<rparr>"]
    by (auto simp: NODE_KEY_IKM_LEN_def first_salts intro!: exI [of _ 1])
qed

definition sample_file :: bytes where
  "sample_file = replicate 32 1 @ bytes_of_string ''about''"

lemma sample_file_keys:
  "detect_hsm_secret_kind sample_file = MnemonicWithPassphrase"
  "\<exists>keys. from_hsm_secret_bytes model_keys sample_file (Some ''pass'') = Inr keys"
proof -
  show kind: "detect_hsm_secret_kind sample_file = MnemonicWithPassphrase"
    by (simp add: detect_hsm_secret_kind_def LEGACY_PLAIN_LEN_def LEGACY_ENCRYPTED_LEN_def sample_file_def
        PASSPHRASE_HASH_LEN_def bytes_of_string_def list_all_iff)
  have utf8: "valid_utf8 (bytes_of_string ''about'')" by code_simp
  obtain keys where "from_secret_material model_keys (replicate 64 5) = Inr keys"
    using model_derives by blast
  then have "from_hsm_secret_bytes model_keys sample_file (Some ''pass'') = Inr keys"
    using utf8 by (simp add: from_hsm_secret_bytes_def extract_hsm_secret_material_def kind
        extract_mnemonic_secret_def PASSPHRASE_HASH_LEN_def Let_def) (simp add: sample_file_def)
  then show "\<exists>keys. from_hsm_secret_bytes model_keys sample_file (Some ''pass'') = Inr keys" ..
qed

text \<open>
  A secret file yields keys only with the passphrase its format calls for: a plain secret without
  one, an encrypted secret with one that decrypts it to 32 bytes, a mnemonic with a zero hash
  without one, and a mnemonic with a hash only with one whose seed has that SHA-256 hash. The keys
  are derived from that secret.
\<close>

theorem passphrase_is_checked:
  assumes "from_hsm_secret_bytes K data passphrase = Inr keys"
  shows "case detect_hsm_secret_kind data of
      LegacyPlain \<Rightarrow> passphrase = None \<and> from_secret_material K data = Inr keys
    | LegacyEncrypted \<Rightarrow> (\<exists>pass key secret. passphrase = Some pass \<and>
        argon2id K 268435456 3 1 pass CLN_ARGON2ID_SALT = Some key \<and>
        xchacha_decrypt K key (take 24 data) (drop 24 data) = Some secret \<and> length secret = 32 \<and>
        from_secret_material K secret = Inr keys)
    | MnemonicNoPassphrase \<Rightarrow> (\<exists>m. passphrase = None \<and>
        parse_mnemonic K (string_of_bytes (drop 32 data)) = Inr m \<and>
        from_secret_material K (to_seed K m []) = Inr keys)
    | MnemonicWithPassphrase \<Rightarrow> (\<exists>pass m. passphrase = Some pass \<and>
        parse_mnemonic K (string_of_bytes (drop 32 data)) = Inr m \<and>
        sha256 K (to_seed K m pass) = take 32 data \<and>
        from_secret_material K (to_seed K m pass) = Inr keys)
    | Invalid \<Rightarrow> False"
proof -
  obtain material where ex: "extract_hsm_secret_material K ''<memory>'' data passphrase = Inr material"
    and keys: "from_secret_material K material = Inr keys"
    using assms by (auto simp: from_hsm_secret_bytes_def rbind_eq_Inr)
  show ?thesis
  proof (cases "detect_hsm_secret_kind data")
    case LegacyEncrypted
    then show ?thesis
      using ex keys
      by (auto simp: extract_hsm_secret_material_def decrypt_legacy_hsm_secret_def rbind_eq_Inr ok_or_eq_Inr
          LEGACY_ENCRYPTED_HEADER_LEN_def LEGACY_PLAIN_LEN_def split: option.splits if_splits)
  qed (use ex keys in \<open>auto simp: extract_hsm_secret_material_def extract_mnemonic_secret_def Let_def
        rbind_eq_Inr PASSPHRASE_HASH_LEN_def split: option.splits if_splits sum.splits\<close>)
qed

theorem passphrase_is_checked_witness:
  "\<exists>keys m. from_hsm_secret_bytes model_keys sample_file (Some ''pass'') = Inr keys \<and>
     sha256 model_keys (to_seed model_keys m ''pass'') = take 32 sample_file \<and>
     from_secret_material model_keys (to_seed model_keys m ''pass'') = Inr keys"
proof -
  obtain keys where run: "from_hsm_secret_bytes model_keys sample_file (Some ''pass'') = Inr keys"
    using sample_file_keys(2) by blast
  show ?thesis using run passphrase_is_checked [OF run] by (auto simp: sample_file_keys(1))
qed

text \<open>
  Reading keys from a file never panics: the slices are within the data and the branch the source
  marks as unreachable is unreachable, whatever the file holds and whatever the crates return.
\<close>

lemma reading_keys_never_panics: "from_file_with_passphrase K read_file path passphrase \<noteq> Inl KeyPanic"
proof -
  have "derive_secret K ikm c \<noteq> Inl KeyPanic" for ikm c
    by (induction K ikm c rule: derive_secret.induct)
      (subst derive_secret.simps, auto split: sum.splits option.splits)
  then have "from_secret_material K m \<noteq> Inl KeyPanic" for m
    by (auto simp: from_secret_material_def rbind_def split: sum.splits)
  moreover have "extract_hsm_secret_material K p data passphrase \<noteq> Inl KeyPanic" for p data
    by (auto simp: extract_hsm_secret_material_def decrypt_legacy_hsm_secret_def extract_mnemonic_secret_def
        Let_def rbind_def ok_or_def detect_hsm_secret_kind_def LEGACY_PLAIN_LEN_def PASSPHRASE_HASH_LEN_def
        split: HsmSecretKind.splits option.splits sum.splits if_splits)
  ultimately have bytes: "from_hsm_secret_bytes K data passphrase \<noteq> Inl KeyPanic" for data
    by (auto simp: from_hsm_secret_bytes_def rbind_def split: sum.splits)
  have "fault_with_path path e = KeyPanic \<Longrightarrow> e = KeyPanic" for e by (cases e) simp_all
  then show ?thesis
    using bytes by (auto simp: from_file_with_passphrase_def split: sum.splits)
qed

end
