(* ===== verification/Plugin.thy ===== *)
theory Plugin
  imports Host_Rules Keys
begin

text \<open>
  The plugin layer of \<^verbatim>\<open>src/src/main.rs\<close> on top of the controller: the custom-message hook with its
  tag filter and dispatch, the connection and payment notifications, the administrative commands,
  the feature bitmask and the chain hashes. A definition starts where the source has read its
  arguments out of the JSON request of an unlocked plugin; the JSON, the lock and the answers are in
  \<open>Requests\<close>, \<open>Hooks\<close> and \<open>Commands\<close>. The relation \<open>host_step\<close> runs one entry point, and in every
  \<open>host_rules\<close> each of them keeps the invariant.
\<close>

section \<open>The custom message hook\<close>

definition is_canopus_custom_tag :: "u16 \<Rightarrow> bool" where
  "is_canopus_custom_tag tag \<longleftrightarrow>
     tag \<in> {TAG_INVOKE_HOSTED_CHANNEL, TAG_INIT_HOSTED_CHANNEL, TAG_LAST_CROSS_SIGNED_STATE,
       TAG_STATE_UPDATE, TAG_STATE_OVERRIDE, TAG_HOSTED_CHANNEL_BRANDING, TAG_ANNOUNCEMENT_SIGNATURE,
       TAG_RESIZE_CHANNEL, TAG_QUERY_PUBLIC_HOSTED_CHANNELS, TAG_REPLY_PUBLIC_HOSTED_CHANNELS_END,
       TAG_QUERY_PREIMAGES, TAG_REPLY_PREIMAGES, TAG_ASK_BRANDING_INFO, TAG_UPDATE_ADD_HTLC,
       TAG_UPDATE_FULFILL_HTLC, TAG_UPDATE_FAIL_HTLC, TAG_UPDATE_FAIL_MALFORMED_HTLC, TAG_ERROR,
       TAG_PHC_CHANNEL_UPDATE_GOSSIP, TAG_PHC_CHANNEL_UPDATE_SYNC}"

fun dispatch_message :: "('st, 'v, 'nd) controller \<Rightarrow> PublicKey \<Rightarrow> HostedMessage \<Rightarrow>
    ('st, 'nd, unit) handler" where
  "dispatch_message E peer_id (InvokeHostedChannel m) = handle_invoke E peer_id m"
| "dispatch_message E peer_id (LastCrossSignedState m) = handle_lcss E peer_id m"
| "dispatch_message E peer_id (StateUpdate m) = handle_state_update E peer_id m"
| "dispatch_message E peer_id (UpdateAddHtlc m) = handle_update_add E peer_id m"
| "dispatch_message E peer_id (UpdateFulfillHtlc m) = handle_update_fulfill E peer_id m"
| "dispatch_message E peer_id (UpdateFailHtlc m) = handle_update_fail E peer_id m"
| "dispatch_message E peer_id (UpdateFailMalformedHtlc m) = handle_update_fail_malformed E peer_id m"
| "dispatch_message E peer_id (ResizeChannel m) = handle_resize_channel E peer_id m"
| "dispatch_message E peer_id (QueryPreimages m) = handle_query_preimages E peer_id m"
| "dispatch_message E peer_id (ReplyPreimages m) = handle_reply_preimages E peer_id m"
| "dispatch_message E peer_id (Error m) = handle_error E peer_id m"
| "dispatch_message E peer_id (AskBrandingInfo m) = handle_ask_branding E peer_id m"
| "dispatch_message E peer_id _ = aret ()"

definition handle_custommsg :: "('st, 'v, 'nd) controller \<Rightarrow> PublicKey \<Rightarrow> bytes \<Rightarrow>
    ('st, 'nd, unit) handler" where
  "handle_custommsg E peer_id bytes =
     (if length bytes < 2 then aret ()
      else if \<not> is_canopus_custom_tag (word_of_nat (be_val (take 2 bytes))) then aret ()
      else case decode_legacy_aware bytes of
        Inl err \<Rightarrow> aret ()
      | Inr decoded \<Rightarrow>
          abind (note_peer_wire_encoding peer_id (dm_encoding decoded)) (\<lambda>_.
          log_error (dispatch_message E peer_id (dm_message decoded))))"

section \<open>Notifications\<close>

definition plugin_handle_connect :: "('st, 'v, 'nd) controller \<Rightarrow> PublicKey \<Rightarrow> ('st, 'nd, unit) handler" where
  "plugin_handle_connect E peer =
     abind (note_peer_connection peer True) (\<lambda>_. handle_connect E peer)"

definition plugin_handle_disconnect :: "PublicKey \<Rightarrow> ('st, 'nd, unit) handler" where
  "plugin_handle_disconnect peer =
     abind (note_peer_connection peer False) (\<lambda>_. handle_disconnect peer)"

text \<open>The label of a forwarded payment; \<open>json_label\<close> reads the older JSON form.\<close>

definition parse_forward_label :: "(string \<Rightarrow> (u64 \<times> u64) option) \<Rightarrow> string \<Rightarrow> (u64 \<times> u64) option" where
  "parse_forward_label json_label label =
     (if CHR ''/'' \<in> set label then
        (case (parse_u64 (takeWhile (\<lambda>c. c \<noteq> CHR ''/'') label),
               parse_u64 (tl (dropWhile (\<lambda>c. c \<noteq> CHR ''/'') label))) of
           (Some scid, Some i) \<Rightarrow> Some (scid, i)
         | _ \<Rightarrow> None)
      else json_label label)"

section \<open>Administrative commands\<close>

datatype plugin_error =
    FromController ChannelError
  | FromStore StoreError
  | FromHex string
  | FromKeys key_fault
  | FromConfig ConfigError
  | Bail string

record PolicyParams =
  pp_channel_capacity_msat :: "u64 option"
  pp_initial_client_balance_msat :: "u64 option"
  pp_max_htlc_value_in_flight_msat :: "u64 option"
  pp_htlc_minimum_msat :: "u64 option"
  pp_max_accepted_htlcs :: "u64 option"
  pp_fee_base_msat :: "u64 option"
  pp_fee_proportional_millionths :: "u64 option"
  pp_cltv_expiry_delta :: "u64 option"

text \<open>\<open>v.try_into()\<close> from 64 bits into a narrower field, which keeps its old value without a parameter.\<close>

definition narrow :: "nat \<Rightarrow> string \<Rightarrow> u64 option \<Rightarrow> 'w :: len word \<Rightarrow> plugin_error + 'w word" where
  "narrow bits name v old =
     (case v of None \<Rightarrow> Inr old
      | Some x \<Rightarrow> if unat x < 2 ^ bits then Inr (ucast x) else Inl (Bail name))"

definition merge_policy :: "PolicyParams \<Rightarrow> ChannelPolicy \<Rightarrow> plugin_error + ChannelPolicy" where
  "merge_policy p policy =
     rbind (narrow 16 ''max_accepted_htlcs exceeds u16'' (pp_max_accepted_htlcs p)
              (pol_max_accepted_htlcs policy)) (\<lambda>maxh.
     rbind (narrow 32 ''fee_base_msat exceeds u32'' (pp_fee_base_msat p) (pol_fee_base_msat policy)) (\<lambda>base.
     rbind (narrow 32 ''fee_proportional_millionths exceeds u32'' (pp_fee_proportional_millionths p)
              (pol_fee_proportional_millionths policy)) (\<lambda>ppm.
     rbind (narrow 16 ''cltv_expiry_delta exceeds u16'' (pp_cltv_expiry_delta p)
              (pol_cltv_expiry_delta policy)) (\<lambda>delta.
     let merged = policy
         \<lparr>pol_channel_capacity_msat :=
            unwrap_or (pol_channel_capacity_msat policy) (pp_channel_capacity_msat p),
          pol_initial_client_balance_msat :=
            unwrap_or (pol_initial_client_balance_msat policy) (pp_initial_client_balance_msat p),
          pol_max_htlc_value_in_flight_msat :=
            unwrap_or (pol_max_htlc_value_in_flight_msat policy) (pp_max_htlc_value_in_flight_msat p),
          pol_htlc_minimum_msat := unwrap_or (pol_htlc_minimum_msat policy) (pp_htlc_minimum_msat p),
          pol_max_accepted_htlcs := maxh, pol_fee_base_msat := base,
          pol_fee_proportional_millionths := ppm, pol_cltv_expiry_delta := delta\<rparr> in
     if pol_initial_client_balance_msat merged > pol_channel_capacity_msat merged
     then Inl (Bail ''initial_client_balance_msat exceeds channel_capacity_msat'')
     else Inr merged))))"

definition policy_changed :: "PolicyParams \<Rightarrow> bool" where
  "policy_changed p \<longleftrightarrow>
     pp_channel_capacity_msat p \<noteq> None \<or> pp_initial_client_balance_msat p \<noteq> None \<or>
     pp_max_htlc_value_in_flight_msat p \<noteq> None \<or> pp_htlc_minimum_msat p \<noteq> None \<or>
     pp_max_accepted_htlcs p \<noteq> None \<or> pp_fee_base_msat p \<noteq> None \<or>
     pp_fee_proportional_millionths p \<noteq> None \<or> pp_cltv_expiry_delta p \<noteq> None"

definition handle_policy :: "('st, 'v, 'nd) controller \<Rightarrow> PolicyParams \<Rightarrow>
    (('st, 'nd) world, plugin_error, ChannelPolicy \<times> bool) action" where
  "handle_policy E p =
     abind (amap_err FromController (effective_policy E)) (\<lambda>old.
     abind (alift (merge_policy p old)) (\<lambda>policy.
     abind (if policy_changed p then amap_err FromController (set_policy E policy) else aret ()) (\<lambda>_.
     aret (policy, policy_changed p))))"

definition uninstall_store :: "('st, 'v) store_ops \<Rightarrow> 'st \<Rightarrow> ((plugin_error + nat) \<times> 'st) option" where
  "uninstall_store S st =
     (case store_list S [''canopus'', ''channels''] st of
        (Inl e, st1) \<Rightarrow> Some (Inl (FromStore e), st1)
      | (Inr ks, st1) \<Rightarrow>
          if ks \<noteq> [] then Some (Inl (Bail ''cannot uninstall while hosted channels exist''), st1)
          else map_option (\<lambda>(r, st2). (map_err FromStore r, st2)) (delete_subtree S [''canopus''] st1))"

definition trim_one_trailing_newline :: "string \<Rightarrow> string" where
  "trim_one_trailing_newline s =
     (if s \<noteq> [] \<and> last s = CHR 0x0A then
        (let t = butlast s in if t \<noteq> [] \<and> last t = CHR 0x0D then butlast t else t)
      else s)"

text \<open>\<open>verify_lcss_export\<close> once the exported state is read from its file.\<close>

definition verify_lcss_export :: "'c crypto_scheme \<Rightarrow> PublicKey \<Rightarrow> LastCrossSignedState \<Rightarrow> PublicKey \<Rightarrow>
    PublicKey \<Rightarrow> plugin_error + (bool \<times> bool)" where
  "verify_lcss_export C export_peer lcss remote_peer local_node =
     (if export_peer \<noteq> remote_peer then Inl (Bail ''lcss_file peer_id does not match peer_id'')
      else Inr (verify_remote_sig C lcss remote_peer, verify_remote_sig C (reverse lcss) local_node))"

section \<open>Feature bits and chain hashes\<close>

fun set_feature_bits :: "nat \<Rightarrow> nat list \<Rightarrow> bytes \<Rightarrow> bytes" where
  "set_feature_bits byte_len [] bs = bs"
| "set_feature_bits byte_len (b # bits) bs =
     (let byte_idx = byte_len - 1 - b div 8 in
      set_feature_bits byte_len bits (bs[byte_idx := set_bit (b mod 8) (bs ! byte_idx)]))"

definition feature_bytes :: "nat list \<Rightarrow> bytes" where
  "feature_bytes bits =
     (let byte_len = Max (set bits) div 8 + 1 in set_feature_bits byte_len bits (replicate byte_len 0))"

definition compute_feature_bits_hex :: "'c crypto_scheme \<Rightarrow> nat list \<Rightarrow> string" where
  "compute_feature_bits_hex C bits =
     (if bits = [] then ''00'' else hex_encode C (feature_bytes bits))"

section \<open>Messages reach their handlers\<close>

lemma canopus_tags: "is_canopus_custom_tag (msg_tag m)" if "wf_msg m"
  using that by (cases m) (auto simp: is_canopus_custom_tag_def)

lemma tag_of_frame: "word_of_nat (be_val (take 2 (write_u16 t @ bs))) = t"
  by (simp add: write_u16_def)

lemma strict_frame:
  assumes "wf_msg m"
  shows "\<exists>bs. encode m = Inr (write_u16 (msg_tag m) @ bs) \<and>
    decode_legacy_aware (write_u16 (msg_tag m) @ bs) = Inr \<lparr>dm_message = m, dm_encoding = Strict\<rparr>"
proof -
  obtain bs where bs: "encode_body m = Inr bs" "decode_with_tag (msg_tag m) bs = Inr (m, [])"
    using msg_codec.roundtrip [of m m] assms by auto
  then have "decode (write_u16 (msg_tag m) @ bs) = Inr m"
    by (simp add: decode_strict_frame)
  then show ?thesis
    using bs by (simp add: encode_def encode_strict_ok decode_legacy_aware_def)
qed

lemma custommsg_dispatches:
  assumes "wf_msg m"
  shows "\<exists>bs. encode m = Inr bs \<and> decode_legacy_aware bs = Inr \<lparr>dm_message = m, dm_encoding = Strict\<rparr> \<and>
    handle_custommsg E p bs w =
      log_error (dispatch_message E p m) (w\<lparr>w_encodings := (w_encodings w)(p \<mapsto> Strict)\<rparr>)"
proof -
  obtain bs where bs: "encode m = Inr (write_u16 (msg_tag m) @ bs)"
    "decode_legacy_aware (write_u16 (msg_tag m) @ bs) = Inr \<lparr>dm_message = m, dm_encoding = Strict\<rparr>"
    using strict_frame [OF assms] by blast
  have len: "\<not> length (write_u16 (msg_tag m) @ bs) < 2" by (simp add: write_u16_def)
  have "handle_custommsg E p (write_u16 (msg_tag m) @ bs) w =
      log_error (dispatch_message E p m) (w\<lparr>w_encodings := (w_encodings w)(p \<mapsto> Strict)\<rparr>)"
    unfolding handle_custommsg_def tag_of_frame
    using len canopus_tags [OF assms] bs(2)
    by (simp add: abind_def note_peer_wire_encoding_def)
  then show ?thesis using bs by blast
qed

section \<open>Runs of the host\<close>

text \<open>The entry points of the plugin, with what the outside gives them.\<close>

datatype entry =
    CustomMsg PublicKey bytes
  | Connected PublicKey
  | Disconnected PublicKey
  | PaymentDone u64 u64 PaymentStatus
  | HtlcAccepted PublicKey UpdateAddHtlc string u64 u64 "bytes option" u32
  | RecoverHtlcs
  | EnforceDeadlines
  | PeerSnapshot "PublicKey \<rightharpoonup> bool"
  | PayCommand PublicKey u64 bytes u32 "bytes option"
  | PolicyCommand PolicyParams
  | SetChannelCommand PublicKey SetChannelParams bool
  | ResetCommand PublicKey "u64 option"
  | RemoveCommand PublicKey bool
  | AcceptResizeCommand PublicKey "u64 option"
  | AddSecretCommand string u64 u64
  | RemoveSecretCommand string

text \<open>The world after an entry point has run.\<close>

fun run_entry :: "('st, 'v, 'nd) controller \<Rightarrow> entry \<Rightarrow> ('st, 'nd) world \<Rightarrow> ('st, 'nd) world" where
  "run_entry E (CustomMsg p bs) w = snd (handle_custommsg E p bs w)"
| "run_entry E (Connected p) w = snd (plugin_handle_connect E p w)"
| "run_entry E (Disconnected p) w = snd (plugin_handle_disconnect p w)"
| "run_entry E (PaymentDone a b s) w = snd (handle_outgoing_payment_result E a b s w)"
| "run_entry E (HtlcAccepted p h k a b s x) w =
     snd (channel_handle_htlc_add_with_upstream_expiry E p h k a b s (Some x) w)"
| "run_entry E RecoverHtlcs w = snd (recover_committed_htlcs E w)"
| "run_entry E EnforceDeadlines w = snd (enforce_forward_deadlines E w)"
| "run_entry E (PeerSnapshot c) w = snd (note_initial_peer_connections c w)"
| "run_entry E (PayCommand p a h c s) w = snd (send_direct_payment E p a h c s w)"
| "run_entry E (PolicyCommand q) w = snd (handle_policy E q w)"
| "run_entry E (SetChannelCommand p q f) w = snd (set_channel E p q f w)"
| "run_entry E (ResetCommand p b) w = snd (propose_override E p b w)"
| "run_entry E (RemoveCommand p f) w = snd (remove_channel E p f w)"
| "run_entry E (AcceptResizeCommand p m) w = snd (accept_resize E p m w)"
| "run_entry E (AddSecretCommand s c i) w = snd (add_secret E s c i w)"
| "run_entry E (RemoveSecretCommand s) w = snd (remove_secret E s w)"

text \<open>
  A run of the host: entry points with arguments that are \<open>sound\<close> in the world they meet, and any
  change of the outside node in between. Reachable worlds start from an empty
  store and an empty history.
\<close>

inductive host_step :: "('st, 'v, 'nd) controller \<Rightarrow> (('st, 'nd) world \<Rightarrow> entry \<Rightarrow> bool) \<Rightarrow>
    ('st, 'nd) world \<Rightarrow> ('st, 'nd) world \<Rightarrow> bool"
  for E sound where
  entry: "sound w e \<Longrightarrow> host_step E sound w (run_entry E e w)"
| outside: "host_step E sound w (w\<lparr>w_node := nd\<rparr>)"

inductive_cases host_stepE: "host_step E sound w w'"

inductive host_reachable :: "('st, 'v, 'nd) controller \<Rightarrow> ('st \<Rightarrow> key \<Rightarrow> (u64 \<times> 'v) option) \<Rightarrow>
    (('st, 'nd) world \<Rightarrow> entry \<Rightarrow> bool) \<Rightarrow> ('st, 'nd) world \<Rightarrow> bool"
  for E view sound where
  start: "(\<And>k. view (w_store w) k = None) \<Longrightarrow> w_trace w = [] \<Longrightarrow> host_reachable E view sound w"
| step: "host_reachable E view sound w \<Longrightarrow> host_step E sound w w' \<Longrightarrow> host_reachable E view sound w'"

text \<open>The arguments for which the laws of \<open>host_rules\<close> carry the invariant over an entry point.\<close>

definition entry_allowed :: "('st, 'v, 'nd) controller \<Rightarrow> ('st \<Rightarrow> key \<Rightarrow> (u64 \<times> 'v) option) \<Rightarrow> checks \<Rightarrow>
    (PublicKey \<Rightarrow> ChannelData \<Rightarrow> HostedMessage \<Rightarrow> bool) \<Rightarrow> (PublicKey \<Rightarrow> bool) \<Rightarrow>
    ('st, 'nd) world \<Rightarrow> entry \<Rightarrow> bool" where
  "entry_allowed E view K allowed fresh w e \<longleftrightarrow>
     (case e of
        AddSecretCommand s capacity initial \<Rightarrow>
          (\<forall>x. chk_secret K \<lparr>sec_secret = x, sec_capacity_msat = capacity,
             sec_initial_balance_msat = initial, sec_consumed = False\<rparr>)
      | PolicyCommand q \<Rightarrow> (\<forall>old new. merge_policy q old = Inr new \<longrightarrow> chk_policy K new)
      | CustomMsg p bs \<Rightarrow>
          (\<forall>m d. decode_legacy_aware bs = Inr m \<longrightarrow> stored_channel E view w p = Some d \<longrightarrow>
             allowed p d (dm_message m)) \<and>
          (stored_channel E view w p = None \<longrightarrow> fresh p)
      | _ \<Rightarrow> True)"

lemma log_error_world: "snd (log_error m w) = snd (m w)"
  by (auto simp: log_error_def acase_run split: prod.split sum.split ChannelError.split)

lemma stored_channel_upd [simp]:
  "stored_channel E view (w\<lparr>w_encodings := x\<rparr>) p = stored_channel E view w p"
  by (simp add: stored_channel_def)

context host_rules
begin

lemma handle_policy_ok:
  assumes "\<And>old new. merge_policy q old = Inr new \<Longrightarrow> chk_policy K new"
  shows "maintains W (handle_policy E q) (\<lambda>_. True)"
  unfolding handle_policy_def
  by (intro maintains_abind [OF maintains_amap_err [OF effective_policy_ok]] maintains_abind_alift
      maintains_abind_unit [OF maintains_if] maintains_amap_err set_policy_ok maintains_aret)
    (auto dest: assms)

lemma dispatch_ok:
  assumes "W w" and "\<And>d. stored_channel E view w p = Some d \<Longrightarrow> allowed p d m"
    and "stored_channel E view w p = None \<Longrightarrow> fresh p"
  shows "W (snd (dispatch_message E p m w))"
  using assms
  by (cases m)
    (auto simp: handle_lcss_ok handle_resize_ok handle_invoke_ok
      intro!: maintains_snd handle_state_update_ok handle_update_add_ok
        handle_update_fulfill_ok handle_update_fail_ok handle_update_fail_malformed_ok
        handle_preimages_ok handle_error_ok handle_ask_branding_ok)

lemma custommsg_ok:
  assumes "W w" and "entry_allowed E view K allowed fresh w (CustomMsg p bs)"
  shows "W (snd (handle_custommsg E p bs w))"
  using assms
  by (auto simp: handle_custommsg_def note_peer_wire_encoding_def abind_def log_error_world
      entry_allowed_def intro!: dispatch_ok split: sum.split)

lemma plugin_connect_ok:
  "maintains W (plugin_handle_connect E p) (\<lambda>_. True)"
  "maintains W (plugin_handle_disconnect p) (\<lambda>_. True)"
  unfolding plugin_handle_connect_def plugin_handle_disconnect_def
  by (intro maintains_abind_unit note_peer_ok handle_connect_ok handle_disconnect_ok)+

lemma run_entry_ok:
  assumes "W w" and "entry_allowed E view K allowed fresh w e"
  shows "W (run_entry E e w)"
proof (cases e)
  case (CustomMsg p bs)
  then show ?thesis using assms custommsg_ok by simp
next
  case (AddSecretCommand s c i)
  then show ?thesis
    using assms by (auto simp: entry_allowed_def intro!: maintains_snd add_secret_ok)
next
  case (PolicyCommand q)
  then show ?thesis
    using assms by (auto simp: entry_allowed_def intro!: maintains_snd handle_policy_ok)
qed (use assms in \<open>auto intro!: maintains_snd plugin_connect_ok handle_outgoing_payment_result_ok
    htlc_add_with_expiry_ok recover_committed_ok enforce_ok note_peer_ok send_direct_payment_ok
    set_channel_ok propose_override_ok remove_channel_ok accept_resize_ok remove_secret_ok\<close>)

end

end
