(* ===== verification/Json.thy ===== *)
theory Json
  imports Prelude
begin

text \<open>
  JSON values as the adapters see them through \<^verbatim>\<open>serde_json::Value\<close>: the accessors the sources call and
  the text searches on error messages. An object is a list of named members; its order does not
  matter, since members are only looked up. Lower-casing is that of the ASCII letters.
\<close>

datatype json_number = PosInt u64 | NegInt int | Float string

datatype Value =
    JNull
  | JBool bool
  | JNumber json_number
  | JString string
  | JArray "Value list"
  | JObject "(string \<times> Value) list"

fun json_get :: "Value \<Rightarrow> string \<Rightarrow> Value option" where
  "json_get (JObject ms) name = map_of ms name"
| "json_get _ name = None"

fun as_array :: "Value \<Rightarrow> Value list option" where
  "as_array (JArray xs) = Some xs"
| "as_array _ = None"

fun as_str :: "Value \<Rightarrow> string option" where
  "as_str (JString s) = Some s"
| "as_str _ = None"

fun as_bool :: "Value \<Rightarrow> bool option" where
  "as_bool (JBool b) = Some b"
| "as_bool _ = None"

fun as_u64 :: "Value \<Rightarrow> u64 option" where
  "as_u64 (JNumber (PosInt n)) = Some n"
| "as_u64 _ = None"

text \<open>\<open>value.get(name).and_then(f)\<close>\<close>

definition get_as :: "(Value \<Rightarrow> 'a option) \<Rightarrow> Value \<Rightarrow> string \<Rightarrow> 'a option" where
  "get_as f v name = Option.bind (json_get v name) f"

lemma get_as_simps [simp]:
  "get_as f (JObject []) name = None"
  "get_as f (JObject ((n, x) # ms)) name = (if n = name then f x else get_as f (JObject ms) name)"
  by (simp_all add: get_as_def)

definition json_strings :: "string list \<Rightarrow> Value" where
  "json_strings ss = JArray (map JString ss)"

lemma as_array_strings [simp]: "as_array (json_strings ss) = Some (map JString ss)"
  by (simp add: json_strings_def)

lemma filter_strings [simp]: "List.map_filter as_str (map JString ss) = ss"
  by (induction ss) (simp_all add: List.map_filter_def)

lemma json_strings_inj [simp]: "json_strings a = json_strings b \<longleftrightarrow> a = b"
  by (metis as_array_strings filter_strings option.inject)

section \<open>Error texts\<close>

definition to_lower_char :: "char \<Rightarrow> char" where
  "to_lower_char c =
     (let n = (of_char c :: nat) in if 65 \<le> n \<and> n \<le> 90 then char_of (n + 32) else c)"

definition to_lowercase :: "string \<Rightarrow> string" where
  "to_lowercase s = map to_lower_char s"

fun str_contains :: "string \<Rightarrow> string \<Rightarrow> bool" where
  "str_contains [] p \<longleftrightarrow> p = []"
| "str_contains (c # cs) p \<longleftrightarrow> take (length p) (c # cs) = p \<or> str_contains cs p"

end
