(* ===== verification/Requests.thy ===== *)
theory Requests
  imports Plugin Json
begin

text \<open>
  The JSON side of \<^verbatim>\<open>src/src/main.rs\<close>: reading arguments out of requests and notifications, the
  responses of the hooks, the start of the plugin from its options, and the lock that a secret file
  with a passphrase puts on it. The parsers and printers of other crates - public keys, JSON text,
  invoices, the derived serialisers - and file and socket access are fields of \<open>plugin_env\<close>.
\<close>

section \<open>Parameters and state\<close>

record Invoice =
  bi_route_hints :: "(bytes \<times> u64) list list"
  bi_amount_milli_satoshis :: "u64 option"
  bi_payment_hash_hex :: string
  bi_min_final_cltv_expiry_delta :: u64
  bi_payment_secret :: bytes

record ('st, 'v, 'nd, 'm) plugin_env =
  pe_host :: "('st, 'v, 'nd) controller"
  pe_node :: "PublicKey \<Rightarrow> 'nd node_ops"
  pe_keys :: "'m key_crypto"
  pe_read_bytes :: "string \<Rightarrow> string + bytes"
  pe_read_text :: "string \<Rightarrow> string + string"
  pe_connect :: "string \<Rightarrow> string option"
  pe_url_ok :: "string \<Rightarrow> bool"
  pe_metadata_len :: "string \<Rightarrow> string + nat"
  pe_pk_from_str :: "string \<Rightarrow> string + PublicKey"
  pe_pk_to_string :: "PublicKey \<Rightarrow> string"
  pe_json_from_str :: "string \<Rightarrow> string + Value"
  pe_lcss_from_value :: "Value \<Rightarrow> string + LastCrossSignedState"
  pe_lcss_value :: "LastCrossSignedState \<Rightarrow> Value"
  pe_data_value :: "ChannelData \<Rightarrow> Value"
  pe_policy_value :: "ChannelPolicy \<Rightarrow> Value"
  pe_parameters_value :: "ChannelParameters \<Rightarrow> Value"
  pe_event_value :: "LedgerEvent \<Rightarrow> Value"
  pe_parse_invoice :: "string \<Rightarrow> Invoice option"
  pe_take_resolution :: "string \<Rightarrow> 'nd \<Rightarrow> HtlcResolution option \<times> 'nd"
  pe_peer_states :: "('nd, NodeError, PublicKey \<rightharpoonup> bool) action"
  pe_show_error :: "plugin_error \<Rightarrow> string"

datatype ('st, 'v, 'nd) RuntimeState = Locked string | Unlocked "('st, 'v, 'nd) controller"

record ('st, 'v, 'nd) PluginState =
  pl_runtime :: "('st, 'v, 'nd) RuntimeState"
  pl_config :: Config
  pl_rpc_path :: string
  pl_hsm_secret_path :: string

type_synonym ('st, 'nd, 'a) request = "(('st, 'nd) world, plugin_error, 'a) action"

fun is_locked :: "('st, 'v, 'nd) PluginState \<Rightarrow> bool" where
  "is_locked S = (case pl_runtime S of Locked _ \<Rightarrow> True | Unlocked _ \<Rightarrow> False)"

fun locked_reason :: "('st, 'v, 'nd) PluginState \<Rightarrow> string option" where
  "locked_reason S = (case pl_runtime S of Locked reason \<Rightarrow> Some reason | Unlocked _ \<Rightarrow> None)"

definition plugin_controller :: "('st, 'v, 'nd) PluginState \<Rightarrow> plugin_error + ('st, 'v, 'nd) controller" where
  "plugin_controller S =
     (case pl_runtime S of Unlocked E \<Rightarrow> Inr E
      | Locked reason \<Rightarrow> Inl (Bail (''canopus locked: '' @ reason)))"

section \<open>Arguments\<close>

text \<open>\<open>a.or_else(|| b)\<close>\<close>

definition or_else :: "'a option \<Rightarrow> 'a option \<Rightarrow> 'a option" where
  "or_else a b = (case a of None \<Rightarrow> b | Some _ \<Rightarrow> a)"

definition param :: "Value \<Rightarrow> string \<Rightarrow> Value option" where
  "param request key =
     or_else (json_get request key)
       (or_else (get_as (\<lambda>p. json_get p key) request ''params'')
          (get_as (\<lambda>p. get_as (\<lambda>p. json_get p key) p ''params'') request ''params''))"

definition nth_opt :: "'a list \<Rightarrow> nat \<Rightarrow> 'a option" where
  "nth_opt xs i = (if i < length xs then Some (xs ! i) else None)"

definition arg :: "Value \<Rightarrow> nat \<Rightarrow> string \<Rightarrow> Value option" where
  "arg request index key =
     or_else (param request key)
       (Option.bind
          (or_else (as_array request)
             (or_else (get_as as_array request ''params'')
                (get_as (\<lambda>p. get_as as_array p ''params'') request ''params'')))
          (\<lambda>args. nth_opt args index))"

definition rpc_param :: "Value \<Rightarrow> string \<Rightarrow> nat \<Rightarrow> Value option" where
  "rpc_param request key index =
     Option.bind
       (or_else (get_as (\<lambda>v. json_get v ''params'') request ''rpc_command'') (json_get request ''params''))
       (\<lambda>params. or_else (json_get params key) (Option.bind (as_array params) (\<lambda>a. nth_opt a index)))"

definition nested :: "Value \<Rightarrow> string \<Rightarrow> Value" where
  "nested request key = (case json_get request key of Some v \<Rightarrow> v | None \<Rightarrow> request)"

definition parse_peer :: "('st, 'v, 'nd, 'm) plugin_env \<Rightarrow> string \<Rightarrow> plugin_error + PublicKey" where
  "parse_peer P s = map_err Bail (pe_pk_from_str P s)"

definition notification_peer :: "Value \<Rightarrow> string \<Rightarrow> string option" where
  "notification_peer request topic =
     Option.bind
       (or_else (param request ''id'')
          (or_else (param request ''peer_id'')
             (or_else (get_as (\<lambda>payload. json_get payload ''id'') request topic)
                (get_as (\<lambda>payload. json_get payload ''peer_id'') request topic))))
       as_str"

definition strip_suffix :: "string \<Rightarrow> string \<Rightarrow> string option" where
  "strip_suffix suffix s = map_option rev (strip_prefix (rev suffix) (rev s))"

definition parse_msat :: "Value \<Rightarrow> u64 option" where
  "parse_msat value =
     (case as_u64 value of Some n \<Rightarrow> Some n
      | None \<Rightarrow> Option.bind (as_str value) (\<lambda>s. parse_u64 (unwrap_or s (strip_suffix ''msat'' s))))"

definition parse_force :: "Value option \<Rightarrow> bool" where
  "parse_force value =
     (case value of
        Some (JBool force) \<Rightarrow> force
      | Some (JString force) \<Rightarrow> force \<in> {''true'', ''1'', ''force'', ''--force''}
      | Some (JNumber n) \<Rightarrow> (case as_u64 (JNumber n) of Some v \<Rightarrow> v \<noteq> 0 | None \<Rightarrow> False)
      | _ \<Rightarrow> False)"

definition parse_32_hex :: "'c crypto_scheme \<Rightarrow> string \<Rightarrow> plugin_error + bytes" where
  "parse_32_hex C s =
     (case hex_decode C s of
        None \<Rightarrow> Inl (FromHex s)
      | Some bytes \<Rightarrow>
          if length bytes = 32 then Inr bytes else Inl (Bail ''expected 32-byte hex value''))"

text \<open>The older JSON form of a forward label, an array of a scid string and an id.\<close>

definition json_label :: "('st, 'v, 'nd, 'm) plugin_env \<Rightarrow> string \<Rightarrow> (u64 \<times> u64) option" where
  "json_label P label =
     (case pe_json_from_str P label of
        Inl _ \<Rightarrow> None
      | Inr value \<Rightarrow>
          Option.bind (as_array value) (\<lambda>arr.
          Option.bind (nth_opt arr 0) (\<lambda>x. Option.bind (as_str x) (\<lambda>s. Option.bind (parse_u64 s) (\<lambda>scid.
          Option.bind (nth_opt arr 1) (\<lambda>y. Option.bind (as_u64 y) (\<lambda>i. Some (scid, i))))))))"

definition sendpay_failure_payload :: "'c crypto_scheme \<Rightarrow> Value \<Rightarrow> bytes" where
  "sendpay_failure_payload C payload =
     (case Option.bind (or_else (json_get payload ''onionreply'') (json_get payload ''erroronion''))
             (\<lambda>v. Option.bind (as_str v) (hex_decode C)) of
        Some (b # bs) \<Rightarrow> b # bs
      | _ \<Rightarrow>
          let failcode = (case get_as as_u64 payload ''failcode'' of
                Some v \<Rightarrow> if unat v < 2 ^ 16 then ucast v else 0x1007
              | None \<Rightarrow> 0x1007) in
          write_u16 failcode)"

section \<open>Responses\<close>

definition hook_continue :: Value where
  "hook_continue = JObject [(''result'', JString ''continue'')]"

definition htlc_fail_temp_channel_failure :: Value where
  "htlc_fail_temp_channel_failure =
     JObject [(''result'', JString ''fail''), (''failure_message'', JString ''1007'')]"

definition rpc_hook_error :: "int \<Rightarrow> string \<Rightarrow> Value" where
  "rpc_hook_error code message =
     JObject [(''return'', JObject [(''error'', JObject
       [(''code'', JNumber (if code < 0 then NegInt code else PosInt (of_int code))), (''message'', JString message)])])]"

fun resolution_to_json :: "'c crypto_scheme \<Rightarrow> HtlcResolution \<Rightarrow> Value" where
  "resolution_to_json C (Resolve preimage) =
     JObject [(''result'', JString ''resolve''), (''payment_key'', JString (hex_encode C preimage))]"
| "resolution_to_json C (ResolveFail failure_onion) =
     JObject [(''result'', JString ''fail''), (''failure_onion'', JString (hex_encode C failure_onion))]"
| "resolution_to_json C (FailMessage code data) =
     JObject [(''result'', JString ''fail''),
       (''failure_message'', JString (hex_encode C (write_u16 code @ data)))]"
| "resolution_to_json C Continue = hook_continue"

definition hosted_pay_success :: "('st, 'v, 'nd, 'm) plugin_env \<Rightarrow> PublicKey \<Rightarrow> bytes \<Rightarrow> u64 \<Rightarrow> bytes \<Rightarrow> Value" where
  "hosted_pay_success P peer_id payment_hash amount_msat preimage =
     JObject [(''return'', JObject [(''result'', JObject
       [(''destination'', JString (pe_pk_to_string P peer_id)),
        (''payment_hash'', JString (hex_encode (c_crypto (pe_host P)) payment_hash)),
        (''parts'', JNumber (PosInt 1)), (''amount_msat'', JNumber (PosInt amount_msat)),
        (''msatoshi_sent'', JNumber (PosInt amount_msat)),
        (''payment_preimage'', JString (hex_encode (c_crypto (pe_host P)) preimage)),
        (''status'', JString ''complete'')])])]"

section \<open>Start and unlock\<close>

datatype OptionValue = OString string | OInteger u64 | OBoolean bool

text \<open>\<open>if let Some(Value::String(v)) = plugin.option_str(name)? { ... }\<close>, and the like; an integer
  option is an \<open>i64\<close>, given by its two's complement bits, which \<open>as u64\<close> keeps.\<close>

type_synonym options = "string \<Rightarrow> string + OptionValue option"

definition opt :: "options \<Rightarrow> string \<Rightarrow> (OptionValue \<Rightarrow> Config \<Rightarrow> Config) \<Rightarrow> Config \<Rightarrow> plugin_error + Config" where
  "opt options name upd config =
     (case options name of
        Inl e \<Rightarrow> Inl (Bail e)
      | Inr None \<Rightarrow> Inr config
      | Inr (Some v) \<Rightarrow> Inr (upd v config))"

definition on_string :: "(string \<Rightarrow> Config \<Rightarrow> Config) \<Rightarrow> OptionValue \<Rightarrow> Config \<Rightarrow> Config" where
  "on_string f v c = (case v of OString s \<Rightarrow> f s c | _ \<Rightarrow> c)"

definition on_integer :: "(u64 \<Rightarrow> ChannelPolicy \<Rightarrow> ChannelPolicy) \<Rightarrow> OptionValue \<Rightarrow> Config \<Rightarrow> Config" where
  "on_integer f v c = (case v of OInteger n \<Rightarrow> c\<lparr>cfg_policy := f n (cfg_policy c)\<rparr> | _ \<Rightarrow> c)"

definition on_boolean :: "(bool \<Rightarrow> Config \<Rightarrow> Config) \<Rightarrow> OptionValue \<Rightarrow> Config \<Rightarrow> Config" where
  "on_boolean f v c = (case v of OBoolean b \<Rightarrow> f b c | _ \<Rightarrow> c)"

definition brand :: "(Branding \<Rightarrow> Branding) \<Rightarrow> Config \<Rightarrow> Config" where
  "brand f c = c\<lparr>cfg_branding := f (cfg_branding c)\<rparr>"

definition config_setters :: "(string \<times> (OptionValue \<Rightarrow> Config \<Rightarrow> Config)) list" where
  "config_setters =
     [(''canopus-contact-url'', on_string (\<lambda>v. brand (\<lambda>b. b\<lparr>bcfg_contact_url := Some v\<rparr>))),
      (''canopus-color'', on_string (\<lambda>v. brand (\<lambda>b. b\<lparr>bcfg_color := Some v\<rparr>))),
      (''canopus-logo'', on_string (\<lambda>v. brand (\<lambda>b. b\<lparr>bcfg_logo_path := Some v\<rparr>))),
      (''canopus-capacity-msat'', on_integer (\<lambda>v q. q\<lparr>pol_channel_capacity_msat := v\<rparr>)),
      (''canopus-initial-balance-msat'', on_integer (\<lambda>v q. q\<lparr>pol_initial_client_balance_msat := v\<rparr>)),
      (''canopus-fee-base-msat'', on_integer (\<lambda>v q. q\<lparr>pol_fee_base_msat := ucast v\<rparr>)),
      (''canopus-fee-ppm'', on_integer (\<lambda>v q. q\<lparr>pol_fee_proportional_millionths := ucast v\<rparr>)),
      (''canopus-cltv-delta'', on_integer (\<lambda>v q. q\<lparr>pol_cltv_expiry_delta := ucast v\<rparr>)),
      (''canopus-htlc-min-msat'', on_integer (\<lambda>v q. q\<lparr>pol_htlc_minimum_msat := v\<rparr>)),
      (''canopus-max-htlcs'', on_integer (\<lambda>v q. q\<lparr>pol_max_accepted_htlcs := ucast v\<rparr>)),
      (''canopus-max-inflight-msat'', on_integer (\<lambda>v q. q\<lparr>pol_max_htlc_value_in_flight_msat := v\<rparr>)),
      (''canopus-require-secret'', on_boolean (\<lambda>v c. c\<lparr>cfg_require_secret := v\<rparr>)),
      (''canopus-preimage-scan'', on_boolean (\<lambda>v c. c\<lparr>cfg_preimage_scan := v\<rparr>))]"

definition config_from_options :: "('st, 'v, 'nd, 'm) plugin_env \<Rightarrow> options \<Rightarrow> plugin_error + Config" where
  "config_from_options P options =
     rbind (rfold (\<lambda>c (name, upd). opt options name upd c) Config_default config_setters) (\<lambda>config.
     rbind (map_err FromConfig (Config_validate (pe_url_ok P) (pe_metadata_len P) config)) (\<lambda>_.
     Inr config))"

definition chain_hash_for_network :: "'c crypto_scheme \<Rightarrow> string \<Rightarrow> plugin_error + bytes" where
  "chain_hash_for_network C network =
     rbind
       (if network = ''bitcoin'' \<or> network = ''mainnet''
        then Inr ''6fe28c0ab6f1b372c1a6a246ae63f74f931e8365e15a089c68d6190000000000''
        else if network = ''testnet''
        then Inr ''43497fd7f826957108f4a30fd9cec3aeba79972084e90ead01ea330900000000''
        else if network = ''signet''
        then Inr ''48164da60c7fbf8c3c79114e940b0b4b7c9ff9f01f2c4225e973988108000000''
        else if network = ''regtest''
        then Inr ''06226e46111a0b59caaf126043eb5bbf28c34f3a5e332a1fc7b2b73cf188910f''
        else Inl (Bail (''unsupported network '' @ network))) (\<lambda>hex.
     rbind (ok_or (hex_decode C hex) (FromHex hex)) (\<lambda>bytes.
     if length bytes = 32 then Inr bytes else Inl (FromController Panicked)))"

text \<open>\<open>PathBuf::join\<close>\<close>

definition path_join :: "string \<Rightarrow> string \<Rightarrow> string" where
  "path_join dir file =
     (if take 1 file = ''/'' then file
      else if dir = [] \<or> last dir = CHR ''/'' then dir @ file
      else dir @ ''/'' @ file)"

text \<open>
  The controller that a runtime holds: the collaborators of the environment with the keys that were
  read and the configuration. \<open>pe_connect\<close> gives the error of connecting to lightningd's socket. The
  peer tables of the new controller and the resolutions of the new node are empty, which they are
  in the world of a plugin that was locked until now.
\<close>

definition build_runtime :: "('st, 'v, 'nd, 'm) plugin_env \<Rightarrow> Config \<Rightarrow> string \<Rightarrow> string \<Rightarrow> string option \<Rightarrow>
    plugin_error + ('st, 'v, 'nd) RuntimeState" where
  "build_runtime P config rpc_path hsm_secret_path passphrase =
     rbind (map_err FromKeys (from_file_with_passphrase (pe_keys P) (pe_read_bytes P) hsm_secret_path passphrase))
       (\<lambda>keys.
     case pe_connect P rpc_path of
       Some e \<Rightarrow> Inl (Bail e)
     | None \<Rightarrow> Inr (Unlocked ((pe_host P)\<lparr>c_node := pe_node P (nk_public keys), c_config := config,
         c_node_secret := nk_secret keys, c_node_public := nk_public keys\<rparr>)))"

definition requires_unlock :: "plugin_error \<Rightarrow> bool" where
  "requires_unlock err = (case err of FromKeys (KeyErr (PassphraseRequired _)) \<Rightarrow> True | _ \<Rightarrow> False)"

text \<open>The state \<open>main\<close> starts the plugin with.\<close>

definition plugin_start :: "('st, 'v, 'nd, 'm) plugin_env \<Rightarrow> options \<Rightarrow> string \<Rightarrow> string \<Rightarrow> string \<Rightarrow>
    plugin_error + ('st, 'v, 'nd) PluginState" where
  "plugin_start P options lightning_dir rpc_file network =
     (let rpc_path = path_join lightning_dir rpc_file;
          hsm_secret_path = path_join lightning_dir ''hsm_secret'' in
      rbind (config_from_options P options) (\<lambda>config0.
      rbind (chain_hash_for_network (c_crypto (pe_host P)) network) (\<lambda>hash.
      let config = config0\<lparr>cfg_network := network, cfg_chain_hash := hash,
            cfg_hsm_secret_path := hsm_secret_path\<rparr> in
      rbind (case build_runtime P config rpc_path hsm_secret_path None of
               Inr runtime \<Rightarrow> Inr runtime
             | Inl err \<Rightarrow> if requires_unlock err then Inr (Locked (pe_show_error P err)) else Inl err)
        (\<lambda>runtime.
      Inr \<lparr>pl_runtime = runtime, pl_config = config, pl_rpc_path = rpc_path,
           pl_hsm_secret_path = hsm_secret_path\<rparr>))))"

definition unlock_passphrase :: "('st, 'v, 'nd, 'm) plugin_env \<Rightarrow> Value \<Rightarrow> plugin_error + string" where
  "unlock_passphrase P request =
     (case (Option.bind (arg request 0 ''passphrase'') as_str,
            Option.bind (arg request 1 ''passphrase_file'') as_str) of
        (Some _, Some _) \<Rightarrow> Inl (Bail ''provide exactly one of passphrase or passphrase_file'')
      | (None, None) \<Rightarrow> Inl (Bail ''provide exactly one of passphrase or passphrase_file'')
      | (Some passphrase, None) \<Rightarrow> Inr passphrase
      | (None, Some path) \<Rightarrow>
          (case pe_read_text P path of
             Inl e \<Rightarrow> Inl (Bail (''cannot read passphrase_file '' @ path @ '': '' @ e))
           | Inr passphrase \<Rightarrow> Inr (trim_one_trailing_newline passphrase)))"

definition unlocked_response :: "('st, 'v, 'nd, 'm) plugin_env \<Rightarrow> ('st, 'v, 'nd) controller \<Rightarrow> Value" where
  "unlocked_response P E =
     JObject [(''status'', JString ''unlocked''), (''locked'', JBool False),
       (''node_id'', JString (pe_pk_to_string P (c_node_public E)))]"

definition cmd_status :: "('st, 'v, 'nd, 'm) plugin_env \<Rightarrow> ('st, 'v, 'nd) PluginState \<Rightarrow> Value" where
  "cmd_status P S =
     (case pl_runtime S of
        Locked reason \<Rightarrow>
          JObject [(''status'', JString ''locked''), (''locked'', JBool True), (''reason'', JString reason),
            (''hsm_secret_path'', JString (pl_hsm_secret_path S))]
      | Unlocked E \<Rightarrow> unlocked_response P E)"

text \<open>
  The unlock command: the new runtime replaces the old one only after it was built. Recovery and the
  peer snapshot are started afterwards as runs of their own.
\<close>

definition cmd_unlock :: "('st, 'v, 'nd, 'm) plugin_env \<Rightarrow> Value \<Rightarrow> ('st, 'v, 'nd) PluginState \<Rightarrow>
    (plugin_error + Value) \<times> ('st, 'v, 'nd) PluginState" where
  "cmd_unlock P request S =
     (if locked_reason S = None then (Inl (Bail ''canopus is already unlocked''), S)
      else case rbind (unlock_passphrase P request) (\<lambda>passphrase.
             build_runtime P (pl_config S) (pl_rpc_path S) (pl_hsm_secret_path S) (Some passphrase)) of
        Inl e \<Rightarrow> (Inl e, S)
      | Inr (Unlocked E) \<Rightarrow> (Inr (unlocked_response P E), S\<lparr>pl_runtime := Unlocked E\<rparr>)
      | Inr (Locked _) \<Rightarrow> (Inl (FromController Panicked), S))"

end
