(* ===== verification/Hooks.thy ===== *)
theory Hooks
  imports Requests
begin

text \<open>
  The notifications, hooks and commands of \<^verbatim>\<open>src/src/main.rs\<close> as they are called by lightningd, with
  a JSON request and a plugin that may be locked. A hook that waits - for the resolution of an HTLC
  or for the preimage of a payment - gives the state in which it waits; the body of its loop is the
  step \<open>poll\<close>, so that other requests may be served between two polls.
\<close>

section \<open>Notifications\<close>

definition on_connect :: "('st, 'v, 'nd, 'm) plugin_env \<Rightarrow> ('st, 'v, 'nd) PluginState \<Rightarrow> Value \<Rightarrow>
    ('st, 'nd, unit) request" where
  "on_connect P S request =
     (case notification_peer request ''connect'' of
        None \<Rightarrow> aret ()
      | Some s \<Rightarrow>
          if is_locked S then aret ()
          else abind (alift (parse_peer P s)) (\<lambda>peer.
          abind (alift (plugin_controller S)) (\<lambda>E.
          amap_err FromController (plugin_handle_connect E peer))))"

definition on_disconnect :: "('st, 'v, 'nd, 'm) plugin_env \<Rightarrow> ('st, 'v, 'nd) PluginState \<Rightarrow> Value \<Rightarrow>
    ('st, 'nd, unit) request" where
  "on_disconnect P S request =
     (case notification_peer request ''disconnect'' of
        None \<Rightarrow> aret ()
      | Some s \<Rightarrow>
          if is_locked S then aret ()
          else abind (alift (parse_peer P s)) (\<lambda>peer.
          abind (alift (plugin_controller S)) (\<lambda>E.
          amap_err FromController (plugin_handle_disconnect peer))))"

definition on_sendpay_success :: "('st, 'v, 'nd, 'm) plugin_env \<Rightarrow> ('st, 'v, 'nd) PluginState \<Rightarrow> Value \<Rightarrow>
    ('st, 'nd, unit) request" where
  "on_sendpay_success P S request =
     (let payload = nested request ''sendpay_success'' in
      case Option.bind (get_as as_str payload ''label'') (parse_forward_label (json_label P)) of
        None \<Rightarrow> aret ()
      | Some (scid, hid) \<Rightarrow>
          if is_locked S then aret ()
          else abind (alift (rbind (ok_or (get_as as_str payload ''payment_preimage'')
                   (Bail ''sendpay_success missing payment_preimage'')) (parse_32_hex (c_crypto (pe_host P)))))
            (\<lambda>preimage.
          abind (alift (plugin_controller S)) (\<lambda>E.
          amap_err FromController (handle_outgoing_payment_result E scid hid (Succeeded preimage)))))"

definition on_sendpay_failure :: "('st, 'v, 'nd, 'm) plugin_env \<Rightarrow> ('st, 'v, 'nd) PluginState \<Rightarrow> Value \<Rightarrow>
    ('st, 'nd, unit) request" where
  "on_sendpay_failure P S request =
     (let payload = nested (nested request ''sendpay_failure'') ''data'' in
      case Option.bind (get_as as_str payload ''label'') (parse_forward_label (json_label P)) of
        None \<Rightarrow> aret ()
      | Some (scid, hid) \<Rightarrow>
          if is_locked S then aret ()
          else
          let failure_onion = sendpay_failure_payload (c_crypto (pe_host P)) payload in
          abind (alift (plugin_controller S)) (\<lambda>E.
          amap_err FromController (handle_outgoing_payment_result E scid hid (Failed failure_onion))))"

section \<open>Hooks\<close>

text \<open>\<open>match result { Ok(v) => Ok(v), Err(err) => ... }\<close>; a panic is not an error value and passes through.\<close>

definition recover :: "('st, 'nd, 'a) request \<Rightarrow> (plugin_error \<Rightarrow> ('st, 'nd, 'a) request) \<Rightarrow> ('st, 'nd, 'a) request" where
  "recover m handler =
     acase m (\<lambda>r. case r of
       Inr a \<Rightarrow> aret a
     | Inl e \<Rightarrow> if e = FromController Panicked then afail e else handler e)"

datatype hook = Respond Value | AwaitResolution string | AwaitPreimage PublicKey bytes u64 nat

text \<open>The peer and the bytes of a custom message; a payload without them is ignored.\<close>

definition custommsg_of :: "('st, 'v, 'nd, 'm) plugin_env \<Rightarrow> Value \<Rightarrow> (PublicKey \<times> bytes) option" where
  "custommsg_of P request =
     (case Option.bind (or_else (json_get request ''peer_id'') (json_get request ''node_id'')) as_str of
        None \<Rightarrow> None
      | Some peer \<Rightarrow>
          (case Option.bind (or_else (json_get request ''message'') (json_get request ''payload'')) as_str of
             None \<Rightarrow> None
           | Some message \<Rightarrow>
               (case parse_peer P peer of
                  Inl _ \<Rightarrow> None
                | Inr peer_id \<Rightarrow>
                    map_option (Pair peer_id) (hex_decode (c_crypto (pe_host P)) message))))"

definition hook_custommsg :: "('st, 'v, 'nd, 'm) plugin_env \<Rightarrow> ('st, 'v, 'nd) PluginState \<Rightarrow> Value \<Rightarrow>
    ('st, 'nd, hook) request" where
  "hook_custommsg P S request =
     (if is_locked S then aret (Respond hook_continue)
      else case custommsg_of P request of
        None \<Rightarrow> aret (Respond hook_continue)
      | Some (peer_id, bytes) \<Rightarrow>
          abind (alift (plugin_controller S)) (\<lambda>E.
          abind (amap_err FromController (handle_custommsg E peer_id bytes)) (\<lambda>_.
          aret (Respond hook_continue))))"

text \<open>The arguments of an accepted HTLC, in the order in which the source reads them.\<close>

record accepted =
  ac_htlc :: UpdateAddHtlc
  ac_key :: string
  ac_incoming_scid :: u64
  ac_htlc_id :: u64
  ac_shared_secret :: "bytes option"
  ac_expiry :: u32

definition accepted_htlc :: "'c crypto_scheme \<Rightarrow> u64 \<Rightarrow> Value \<Rightarrow> Value \<Rightarrow> plugin_error + accepted" where
  "accepted_htlc C target_scid htlc onion =
     rbind (ok_or (get_as parse_msat htlc ''amount_msat'') (Bail ''htlc missing amount_msat'')) (\<lambda>incoming_amount.
     let amount = unwrap_or incoming_amount (Option.bind
           (or_else (json_get onion ''forward_amount'') (json_get onion ''forward_msat'')) parse_msat) in
     rbind (rbind (ok_or (get_as as_str htlc ''payment_hash'') (Bail ''htlc missing payment_hash''))
              (parse_32_hex C)) (\<lambda>hash.
     rbind (ok_or (get_as as_u64 htlc ''cltv_expiry'') (Bail ''htlc missing cltv_expiry'')) (\<lambda>expiry.
     let incoming_cltv = ucast expiry;
         cltv = unwrap_or incoming_cltv (map_option ucast (get_as as_u64 onion ''outgoing_cltv_value'')) in
     rbind (ok_or (get_as as_str onion ''next_onion'') (Bail ''onion missing next_onion'')) (\<lambda>next_onion.
     let hid = unwrap_or 0 (get_as as_u64 htlc ''id'');
         incoming_scid = unwrap_or target_scid
           (Option.bind (get_as as_str htlc ''short_channel_id'') parse_short_channel_id);
         key = dec_nat (unat incoming_scid) @ ''/'' @ dec_nat (unat hid) in
     rbind (case get_as as_str onion ''shared_secret'' of None \<Rightarrow> Inr None
            | Some s \<Rightarrow> rmap Some (parse_32_hex C s)) (\<lambda>secret.
     rbind (ok_or (hex_decode C next_onion) (FromHex next_onion)) (\<lambda>packet.
     Inr \<lparr>ac_htlc = \<lparr>htlc_channel_id = replicate 32 0, htlc_id = 0, htlc_amount_msat = amount,
            htlc_payment_hash = hash, htlc_cltv_expiry = cltv, htlc_onion_routing_packet = packet,
            htlc_tlv_stream = []\<rparr>,
          ac_key = key, ac_incoming_scid = incoming_scid, ac_htlc_id = hid, ac_shared_secret = secret,
          ac_expiry = incoming_cltv\<rparr>))))))"

definition offer_accepted :: "('st, 'v, 'nd) controller \<Rightarrow> PublicKey \<Rightarrow> accepted \<Rightarrow> ('st, 'nd, hook) request" where
  "offer_accepted E peer_id a =
     abind (amap_err FromController (channel_handle_htlc_add_with_upstream_expiry E peer_id (ac_htlc a)
       (ac_key a) (ac_incoming_scid a) (ac_htlc_id a) (ac_shared_secret a) (Some (ac_expiry a)))) (\<lambda>_.
     aret (AwaitResolution (ac_key a)))"

definition hook_htlc_accepted :: "('st, 'v, 'nd) PluginState \<Rightarrow> Value \<Rightarrow> ('st, 'nd, hook) request" where
  "hook_htlc_accepted S request =
     (if is_locked S then aret (Respond hook_continue)
      else abind (alift (plugin_controller S)) (\<lambda>E.
      abind (alift (ok_or (json_get request ''htlc'') (Bail ''htlc_accepted missing htlc''))) (\<lambda>htlc.
      abind (alift (ok_or (json_get request ''onion'') (Bail ''htlc_accepted missing onion''))) (\<lambda>onion.
      case Option.bind (get_as as_str onion ''short_channel_id'') parse_short_channel_id of
        None \<Rightarrow> aret (Respond hook_continue)
      | Some target_scid \<Rightarrow>
          abind (recover (abind (amap_err FromController (list_channels E)) (\<lambda>channels. aret (Some channels)))
                   (\<lambda>_. aret None)) (\<lambda>r. case r of
            None \<Rightarrow> aret (Respond hook_continue)
          | Some channels \<Rightarrow>
              (case List.find (\<lambda>peer. hosted_short_channel_id (c_node_public E) peer = target_scid) channels of
                 None \<Rightarrow> aret (Respond hook_continue)
               | Some peer_id \<Rightarrow>
                   recover (abind (alift (accepted_htlc (c_crypto E) target_scid htlc onion))
                              (offer_accepted E peer_id))
                     (\<lambda>_. aret (Respond htlc_fail_temp_channel_failure))))))))"

text \<open>Whose hosted channel an invoice hints at; a route hint of more than one hop does not count.\<close>

definition hint_target :: "('st, 'v, 'nd) controller \<Rightarrow> (bytes \<times> u64) list \<Rightarrow>
    ('st, 'nd, PublicKey option) handler" where
  "hint_target E route =
     (case route of
        [(src_node_id, scid)] \<Rightarrow>
          (case pk_from_slice (c_crypto E) src_node_id of
             None \<Rightarrow> aret None
           | Some src \<Rightarrow>
               if src \<noteq> c_node_public E then aret None
               else abind (list_channels E) (\<lambda>peers.
               aret (List.find (\<lambda>peer. hosted_short_channel_id (c_node_public E) peer = scid) peers)))
      | _ \<Rightarrow> aret None)"

definition hosted_invoice_target :: "('st, 'v, 'nd) controller \<Rightarrow> Invoice \<Rightarrow>
    ('st, 'nd, PublicKey option) handler" where
  "hosted_invoice_target E invoice = afind (bi_route_hints invoice) (hint_target E)"

text \<open>\<open>if let Ok(Some(preimage)) = controller.node.lookup_preimage(&payment_hash).await\<close>\<close>

definition known_preimage :: "('st, 'v, 'nd) controller \<Rightarrow> bytes \<Rightarrow> ('st, 'nd, bytes option) request" where
  "known_preimage E payment_hash =
     acase (on_node (node_lookup_preimage (c_node E) payment_hash)) (\<lambda>r. case r of
       Inr (Some preimage) \<Rightarrow> aret (Some preimage)
     | _ \<Rightarrow> aret None)"

definition pay_hosted :: "('st, 'v, 'nd, 'm) plugin_env \<Rightarrow> ('st, 'v, 'nd) controller \<Rightarrow> Invoice \<Rightarrow> u64 \<Rightarrow>
    PublicKey \<Rightarrow> ('st, 'nd, hook) request" where
  "pay_hosted P E invoice amount_msat peer_id =
     abind (alift (parse_32_hex (c_crypto E) (bi_payment_hash_hex invoice))) (\<lambda>payment_hash.
     abind (known_preimage E payment_hash) (\<lambda>known. case known of
       Some preimage \<Rightarrow> aret (Respond (hosted_pay_success P peer_id payment_hash amount_msat preimage))
     | None \<Rightarrow>
         abind (acase (on_node (node_get_block_height (c_node E))) (\<lambda>r. case r of
           Inr height \<Rightarrow> aret height | Inl _ \<Rightarrow> aret 0)) (\<lambda>current_height.
         abind (amap_err FromController (effective_policy E)) (\<lambda>policy.
         let final_cltv = saturating_add
               (saturating_add current_height (ucast (bi_min_final_cltv_expiry_delta invoice)))
               (ucast (pol_cltv_expiry_delta policy)) in
         abind (amap_err FromController (send_direct_payment E peer_id amount_msat payment_hash final_cltv
             (Some (bi_payment_secret invoice)))) (\<lambda>_.
         aret (AwaitPreimage peer_id payment_hash amount_msat 600))))))"

definition hook_rpc_command :: "('st, 'v, 'nd, 'm) plugin_env \<Rightarrow> ('st, 'v, 'nd) PluginState \<Rightarrow> Value \<Rightarrow>
    ('st, 'nd, hook) request" where
  "hook_rpc_command P S request =
     (let method = Option.bind (or_else (get_as (\<lambda>v. json_get v ''method'') request ''rpc_command'')
            (json_get request ''method'')) as_str in
      if is_locked S then aret (Respond hook_continue)
      else abind (alift (plugin_controller S)) (\<lambda>E.
      if method \<noteq> Some ''pay'' then aret (Respond hook_continue)
      else case Option.bind (rpc_param request ''bolt11'' 0) (\<lambda>v. Option.bind (as_str v) (pe_parse_invoice P)) of
        None \<Rightarrow> aret (Respond hook_continue)
      | Some invoice \<Rightarrow>
          (case or_else (Option.bind (or_else (rpc_param request ''amount_msat'' 1)
                   (rpc_param request ''msatoshi'' 1)) parse_msat) (bi_amount_milli_satoshis invoice) of
             None \<Rightarrow> aret (Respond hook_continue)
           | Some amount_msat \<Rightarrow>
               abind (recover (amap_err FromController (hosted_invoice_target E invoice)) (\<lambda>_. aret None)) (\<lambda>r.
               case r of
                 None \<Rightarrow> aret (Respond hook_continue)
               | Some peer_id \<Rightarrow>
                   recover (pay_hosted P E invoice amount_msat peer_id)
                     (\<lambda>err. aret (Respond (rpc_hook_error (-32603) (pe_show_error P err))))))))"

text \<open>One round of a waiting loop.\<close>

fun poll :: "('st, 'v, 'nd, 'm) plugin_env \<Rightarrow> ('st, 'v, 'nd) controller \<Rightarrow> hook \<Rightarrow> ('st, 'nd, hook) request" where
  "poll P E (Respond v) = aret (Respond v)"
| "poll P E (AwaitResolution key) =
     (\<lambda>w. case pe_take_resolution P key (w_node w) of
        (Some r, nd) \<Rightarrow> (Inr (Respond (resolution_to_json (c_crypto E) r)), w\<lparr>w_node := nd\<rparr>)
      | (None, nd) \<Rightarrow> (Inr (AwaitResolution key), w\<lparr>w_node := nd\<rparr>))"
| "poll P E (AwaitPreimage peer_id payment_hash amount_msat rounds) =
     (if rounds = 0 then aret (Respond (rpc_hook_error (-32603) ''direct hosted payment timed out''))
      else abind (known_preimage E payment_hash) (\<lambda>known. case known of
        Some preimage \<Rightarrow> aret (Respond (hosted_pay_success P peer_id payment_hash amount_msat preimage))
      | None \<Rightarrow> aret (AwaitPreimage peer_id payment_hash amount_msat (rounds - 1))))"

section \<open>Answers\<close>

text \<open>The rounds of a waiting hook, in the worlds that it meets; other requests run in between.\<close>

fun polls :: "('st, 'v, 'nd, 'm) plugin_env \<Rightarrow> ('st, 'v, 'nd) controller \<Rightarrow> hook \<Rightarrow> ('st, 'nd) world list \<Rightarrow>
    plugin_error + hook" where
  "polls P E h [] = Inr h"
| "polls P E h (w # ws) = (case fst (poll P E h w) of Inl e \<Rightarrow> Inl e | Inr h' \<Rightarrow> polls P E h' ws)"

lemma polls_respond: "polls P E (Respond v) ws = Inr (Respond v)"
  by (induction ws) simp_all

lemma known_preimage_run:
  "fst (known_preimage E hash w) =
     Inr (case fst (node_lookup_preimage (c_node E) hash (w_node w)) of Inr r \<Rightarrow> r | Inl _ \<Rightarrow> None)"
  by (auto simp: known_preimage_def acase_run on_node_def azoom_def split: prod.split sum.split option.split)

lemma poll_preimage:
  "fst (poll P E (AwaitPreimage p hash a (Suc n)) w) =
     Inr (case fst (node_lookup_preimage (c_node E) hash (w_node w)) of
       Inr (Some preimage) \<Rightarrow> Respond (hosted_pay_success P p hash a preimage)
     | _ \<Rightarrow> AwaitPreimage p hash a n)"
  using known_preimage_run [of E hash w]
  by (auto simp: abind_run split: prod.split sum.split option.split)



lemma forward_label_parses:
  "parse_forward_label j (dec_nat (unat scid) @ ''/'' @ dec_nat (unat hid)) = Some (scid, hid)"
proof -
  have "takeWhile (\<lambda>c. c \<noteq> CHR ''/'') (dec_nat n @ ''/'' @ z) = dec_nat n"
    "dropWhile (\<lambda>c. c \<noteq> CHR ''/'') (dec_nat n @ ''/'' @ z) = ''/'' @ z" for n z
    using dec_nat_no_sep(2) [of n] by (subst takeWhile_append2 dropWhile_append2; auto)+
  moreover have "unat x < 2 ^ 64" for x :: u64 using unsigned_less [of x] by simp
  then have "parse_u64 (dec_nat (unat x)) = Some x" for x :: u64 by (simp add: parse_u64_dec_nat)
  ultimately show ?thesis by (simp add: parse_forward_label_def)
qed

lemma abind_alift_Inr: "abind (alift (Inr x)) f = f x"
  by (simp add: fun_eq_iff abind_run alift_def)

end
