(* ===== verification/Commands.thy ===== *)
theory Commands
  imports Hooks
begin

text \<open>
  The administrative commands of \<^verbatim>\<open>src/src/main.rs\<close> with their JSON arguments and answers, and
  \<open>serve\<close>, everything lightningd can ask of the plugin. The lock is shown to hold: a locked plugin
  changes nothing and answers every hook with \<open>continue\<close>, and only the passphrase opens it.
\<close>

section \<open>Commands\<close>

definition str_arg :: "Value \<Rightarrow> nat \<Rightarrow> string \<Rightarrow> plugin_error + string" where
  "str_arg request index key = ok_or (Option.bind (arg request index key) as_str) (Bail (''missing '' @ key))"

definition u64_arg :: "Value \<Rightarrow> nat \<Rightarrow> string \<Rightarrow> plugin_error + u64" where
  "u64_arg request index key = ok_or (Option.bind (arg request index key) as_u64) (Bail (''missing '' @ key))"

definition peer_arg :: "('st, 'v, 'nd, 'm) plugin_env \<Rightarrow> Value \<Rightarrow> nat \<Rightarrow> plugin_error + PublicKey" where
  "peer_arg P request index = rbind (str_arg request index ''peer_id'') (parse_peer P)"

definition u64_param :: "Value \<Rightarrow> string \<Rightarrow> u64 option" where
  "u64_param request key = Option.bind (param request key) as_u64"

definition force_arg :: "Value \<Rightarrow> bool" where
  "force_arg request = parse_force (or_else (param request ''force'') (arg request 1 ''force''))"

definition ok_response :: Value where
  "ok_response = JObject [(''ok'', JBool True)]"

definition cmd_list :: "('st, 'v, 'nd, 'm) plugin_env \<Rightarrow> ('st, 'v, 'nd) PluginState \<Rightarrow> ('st, 'nd, Value) request" where
  "cmd_list P S =
     abind (alift (plugin_controller S)) (\<lambda>E.
     abind (amap_err FromController (list_channels E)) (\<lambda>peers.
     abind (acollect peers (\<lambda>peer.
       abind (amap_err FromController (get_status E peer)) (\<lambda>status.
       aret (Some (JObject [(''peer_id'', JString (pe_pk_to_string P peer)),
         (''status'', JString (show_status status))]))))) (\<lambda>channels.
     aret (JObject [(''channels'', JArray channels)]))))"

text \<open>The outer \<open>option\<close> is the termination of the deletion.\<close>

definition cmd_uninstall :: "('st, 'v, 'nd) PluginState \<Rightarrow> ('st, 'nd) world \<Rightarrow>
    ((plugin_error + Value) \<times> ('st, 'nd) world) option" where
  "cmd_uninstall S w =
     (case plugin_controller S of
        Inl e \<Rightarrow> Some (Inl e, w)
      | Inr E \<Rightarrow>
          map_option (\<lambda>(r, st). (rmap (\<lambda>deleted. JObject [(''ok'', JBool True),
              (''deleted'', JNumber (PosInt (of_nat deleted)))]) r, w\<lparr>w_store := st\<rparr>))
            (uninstall_store (c_store E) (w_store w)))"

definition cmd_channel :: "('st, 'v, 'nd, 'm) plugin_env \<Rightarrow> ('st, 'v, 'nd) PluginState \<Rightarrow> Value \<Rightarrow>
    ('st, 'nd, Value) request" where
  "cmd_channel P S request =
     abind (alift (peer_arg P request 0)) (\<lambda>peer.
     abind (alift (plugin_controller S)) (\<lambda>E.
     abind (amap_err FromController (get_channel_data E peer)) (\<lambda>r. case r of
       None \<Rightarrow> aret (JObject [(''channel'', JNull)])
     | Some data \<Rightarrow>
         abind (amap_err FromController (get_status E peer)) (\<lambda>status.
         aret (JObject [(''peer_id'', JString (pe_pk_to_string P peer)),
           (''status'', JString (show_status status)),
           (''short_channel_id'',
             JString (format_short_channel_id (hosted_short_channel_id (c_node_public E) peer))),
           (''data'', pe_data_value P data)])))))"

definition cmd_lcss :: "('st, 'v, 'nd, 'm) plugin_env \<Rightarrow> ('st, 'v, 'nd) PluginState \<Rightarrow> Value \<Rightarrow>
    ('st, 'nd, Value) request" where
  "cmd_lcss P S request =
     abind (alift (peer_arg P request 0)) (\<lambda>peer.
     abind (alift (plugin_controller S)) (\<lambda>E.
     abind (amap_err FromController (get_channel_data E peer)) (\<lambda>r. case r of
       None \<Rightarrow> aret (JObject [(''lcss'', JNull)])
     | Some data \<Rightarrow>
         aret (JObject [(''peer_id'', JString (pe_pk_to_string P peer)),
           (''lcss'', pe_lcss_value P (cd_lcss data))]))))"

definition verify_lcss_file :: "('st, 'v, 'nd, 'm) plugin_env \<Rightarrow> string \<Rightarrow> PublicKey \<Rightarrow> PublicKey \<Rightarrow>
    plugin_error + (bool \<times> bool)" where
  "verify_lcss_file P lcss_file remote_peer local_node =
     rbind (map_err (\<lambda>e. Bail (''cannot read lcss_file '' @ lcss_file @ '': '' @ e)) (pe_read_text P lcss_file))
       (\<lambda>contents.
     rbind (map_err (\<lambda>e. Bail (''cannot parse lcss_file '' @ lcss_file @ '': '' @ e)) (pe_json_from_str P contents))
       (\<lambda>export.
     rbind (ok_or (get_as as_str export ''peer_id'') (Bail ''lcss_file is missing peer_id'')) (\<lambda>s.
     rbind (parse_peer P s) (\<lambda>export_peer.
     if export_peer \<noteq> remote_peer then Inl (Bail ''lcss_file peer_id does not match peer_id'')
     else
     rbind (ok_or (json_get export ''lcss'') (Bail ''lcss_file is missing lcss'')) (\<lambda>v.
     rbind (map_err (\<lambda>e. Bail (''cannot parse lcss in lcss_file: '' @ e)) (pe_lcss_from_value P v)) (\<lambda>lcss.
     verify_lcss_export (c_crypto (pe_host P)) export_peer lcss remote_peer local_node))))))"

definition cmd_verify :: "('st, 'v, 'nd, 'm) plugin_env \<Rightarrow> ('st, 'v, 'nd) PluginState \<Rightarrow> Value \<Rightarrow>
    plugin_error + Value" where
  "cmd_verify P S request =
     rbind (str_arg request 0 ''lcss_file'') (\<lambda>lcss_file.
     rbind (peer_arg P request 1) (\<lambda>peer.
     rbind (plugin_controller S) (\<lambda>E.
     rbind (verify_lcss_file P lcss_file peer (c_node_public E)) (\<lambda>(remote_ok, local_ok).
     Inr (JObject [(''peer_id'', JString (pe_pk_to_string P peer)),
       (''remote_signature_valid'', JBool remote_ok), (''local_signature_valid'', JBool local_ok),
       (''valid'', JBool (remote_ok \<and> local_ok))])))))"

definition cmd_remove_hc :: "('st, 'v, 'nd, 'm) plugin_env \<Rightarrow> ('st, 'v, 'nd) PluginState \<Rightarrow> Value \<Rightarrow>
    ('st, 'nd, Value) request" where
  "cmd_remove_hc P S request =
     abind (alift (peer_arg P request 0)) (\<lambda>peer.
     abind (alift (plugin_controller S)) (\<lambda>E.
     abind (amap_err FromController (remove_channel E peer (force_arg request))) (\<lambda>_.
     aret (JObject [(''ok'', JBool True), (''removed'', JBool True),
       (''peer_id'', JString (pe_pk_to_string P peer)), (''forced'', JBool (force_arg request))]))))"

definition cmd_add_secret :: "('st, 'v, 'nd) PluginState \<Rightarrow> Value \<Rightarrow> ('st, 'nd, Value) request" where
  "cmd_add_secret S request =
     abind (alift (str_arg request 0 ''secret'')) (\<lambda>secret.
     abind (alift (u64_arg request 1 ''capacity_msat'')) (\<lambda>capacity.
     abind (alift (u64_arg request 2 ''initial_balance_msat'')) (\<lambda>initial.
     abind (alift (plugin_controller S)) (\<lambda>E.
     abind (amap_err FromController (add_secret E secret capacity initial)) (\<lambda>_.
     aret ok_response)))))"

definition cmd_remove_secret :: "('st, 'v, 'nd) PluginState \<Rightarrow> Value \<Rightarrow> ('st, 'nd, Value) request" where
  "cmd_remove_secret S request =
     abind (alift (str_arg request 0 ''secret'')) (\<lambda>secret.
     abind (alift (plugin_controller S)) (\<lambda>E.
     abind (amap_err FromController (remove_secret E secret)) (\<lambda>_. aret ok_response)))"

definition cmd_list_secrets :: "('st, 'v, 'nd) PluginState \<Rightarrow> ('st, 'nd, Value) request" where
  "cmd_list_secrets S =
     abind (alift (plugin_controller S)) (\<lambda>E.
     abind (amap_err FromController (list_secrets E)) (\<lambda>secrets.
     aret (JObject [(''secrets'', json_strings secrets)])))"

definition cmd_reset :: "('st, 'v, 'nd, 'm) plugin_env \<Rightarrow> ('st, 'v, 'nd) PluginState \<Rightarrow> Value \<Rightarrow>
    ('st, 'nd, Value) request" where
  "cmd_reset P S request =
     abind (alift (peer_arg P request 0)) (\<lambda>peer.
     let balance = Option.bind (arg request 1 ''new_local_balance_msat'') as_u64 in
     abind (alift (plugin_controller S)) (\<lambda>E.
     abind (amap_err FromController (propose_override E peer balance)) (\<lambda>_. aret ok_response)))"

definition cmd_events :: "('st, 'v, 'nd, 'm) plugin_env \<Rightarrow> ('st, 'v, 'nd) PluginState \<Rightarrow> Value \<Rightarrow>
    ('st, 'nd, Value) request" where
  "cmd_events P S request =
     (let peer = Option.bind (arg request 0 ''peer_id'') as_str in
      abind (alift (plugin_controller S)) (\<lambda>E.
      abind (amap_err FromStore (on_store (list_events (ledger_of E) peer))) (\<lambda>events.
      aret (JObject [(''events'', JArray (map (pe_event_value P) events))]))))"

definition policy_params :: "Value \<Rightarrow> PolicyParams" where
  "policy_params request =
     \<lparr>pp_channel_capacity_msat = u64_param request ''channel_capacity_msat'',
      pp_initial_client_balance_msat = u64_param request ''initial_client_balance_msat'',
      pp_max_htlc_value_in_flight_msat = u64_param request ''max_htlc_value_in_flight_msat'',
      pp_htlc_minimum_msat = u64_param request ''htlc_minimum_msat'',
      pp_max_accepted_htlcs = u64_param request ''max_accepted_htlcs'',
      pp_fee_base_msat = u64_param request ''fee_base_msat'',
      pp_fee_proportional_millionths = u64_param request ''fee_proportional_millionths'',
      pp_cltv_expiry_delta = u64_param request ''cltv_expiry_delta''\<rparr>"

definition cmd_policy :: "('st, 'v, 'nd, 'm) plugin_env \<Rightarrow> ('st, 'v, 'nd) PluginState \<Rightarrow> Value \<Rightarrow>
    ('st, 'nd, Value) request" where
  "cmd_policy P S request =
     abind (alift (plugin_controller S)) (\<lambda>E.
     abind (handle_policy E (policy_params request)) (\<lambda>(policy, changed).
     aret (JObject [(''policy'', pe_policy_value P policy), (''updated'', JBool changed)])))"

text \<open>\<open>.map(|v| v.try_into()).transpose()\<close>\<close>

definition narrowed :: "nat \<Rightarrow> string \<Rightarrow> u64 option \<Rightarrow> plugin_error + 'w :: len word option" where
  "narrowed bits name v =
     (case v of None \<Rightarrow> Inr None
      | Some x \<Rightarrow> if unat x < 2 ^ bits then Inr (Some (ucast x)) else Inl (Bail name))"

definition u64_param_or :: "Value \<Rightarrow> string \<Rightarrow> string \<Rightarrow> u64 option" where
  "u64_param_or request a b = Option.bind (or_else (param request a) (param request b)) as_u64"

definition set_channel_params :: "Value \<Rightarrow> plugin_error + SetChannelParams" where
  "set_channel_params request =
     rbind (narrowed 32 ''feebase_msat exceeds u32'' (u64_param_or request ''feebase_msat'' ''fee_base_msat'')) (\<lambda>base.
     rbind (narrowed 32 ''feeppm exceeds u32'' (u64_param_or request ''feeppm'' ''fee_proportional_millionths'')) (\<lambda>ppm.
     rbind (narrowed 16 ''cltv_expiry_delta exceeds u16'' (u64_param request ''cltv_expiry_delta'')) (\<lambda>delta.
     rbind (narrowed 16 ''maxhtlcs exceeds u16'' (u64_param_or request ''maxhtlcs'' ''max_accepted_htlcs'')) (\<lambda>maxh.
     Inr \<lparr>scp_channel_capacity_msat = u64_param request ''channel_capacity_msat'',
          scp_initial_client_balance_msat = u64_param request ''initial_client_balance_msat'',
          scp_fee_base_msat = base, scp_fee_proportional_millionths = ppm, scp_cltv_expiry_delta = delta,
          scp_htlc_minimum_msat = u64_param request ''htlc_minimum_msat'',
          scp_htlc_maximum_msat = u64_param request ''htlc_maximum_msat'',
          scp_max_accepted_htlcs = maxh\<rparr>))))"

definition cmd_set_channel :: "('st, 'v, 'nd, 'm) plugin_env \<Rightarrow> ('st, 'v, 'nd) PluginState \<Rightarrow> Value \<Rightarrow>
    ('st, 'nd, Value) request" where
  "cmd_set_channel P S request =
     abind (alift (peer_arg P request 0)) (\<lambda>peer.
     abind (alift (set_channel_params request)) (\<lambda>params.
     abind (alift (plugin_controller S)) (\<lambda>E.
     abind (amap_err FromController (set_channel E peer params (force_arg request))) (\<lambda>(channel, updated).
     aret (JObject [(''peer_id'', JString (pe_pk_to_string P peer)),
       (''short_channel_id'',
         JString (format_short_channel_id (hosted_short_channel_id (c_node_public E) peer))),
       (''channel'', pe_parameters_value P channel), (''updated'', JBool updated)])))))"

section \<open>Tasks\<close>

text \<open>
  The tasks that \<open>main\<close> and the unlock command spawn: recovery and the peer snapshot once, the
  deadlines at every tick of a second. Their errors are logged; a locked plugin runs none.
\<close>

datatype task = RecoveryTask | HydrationTask | DeadlineTask

definition run_task :: "('st, 'v, 'nd, 'm) plugin_env \<Rightarrow> task \<Rightarrow> ('st, 'v, 'nd) PluginState \<Rightarrow>
    ('st, 'nd, unit) handler" where
  "run_task P t S =
     (case pl_runtime S of
        Locked _ \<Rightarrow> aret ()
      | Unlocked E \<Rightarrow>
          (case t of
             RecoveryTask \<Rightarrow> log_error (recover_committed_htlcs E)
           | HydrationTask \<Rightarrow>
               acase (on_node (pe_peer_states P)) (\<lambda>r. case r of
                 Inr connections \<Rightarrow> note_initial_peer_connections connections
               | Inl _ \<Rightarrow> aret ())
           | DeadlineTask \<Rightarrow> log_error (enforce_forward_deadlines E)))"

section \<open>Requests\<close>

text \<open>What lightningd asks, by the names registered in \<open>main\<close>.\<close>

datatype rpc_method =
    Connect | Disconnect | SendpaySuccess | SendpayFailure
  | Custommsg | HtlcAcceptedHook | RpcCommand
  | CList | CUninstall | CChannel | CLcss | CVerify | CRemoveHc | CAddSecret | CRemoveSecret
  | CListSecrets | CReset | CSetChannel | CPolicy | CEvents | CStatus | CUnlock

fun notification :: "rpc_method \<Rightarrow> bool" where
  "notification m = (m \<in> {Connect, Disconnect, SendpaySuccess, SendpayFailure})"

fun is_hook :: "rpc_method \<Rightarrow> bool" where
  "is_hook m = (m \<in> {Custommsg, HtlcAcceptedHook, RpcCommand})"

definition answered :: "('st, 'nd, Value) request \<Rightarrow> ('st, 'nd, hook) request" where
  "answered m = abind m (\<lambda>v. aret (Respond v))"

definition acknowledged :: "('st, 'nd, unit) request \<Rightarrow> ('st, 'nd, hook) request" where
  "acknowledged m = abind m (\<lambda>_. aret (Respond JNull))"

fun serve :: "('st, 'v, 'nd, 'm) plugin_env \<Rightarrow> rpc_method \<Rightarrow> Value \<Rightarrow> ('st, 'v, 'nd) PluginState \<Rightarrow>
    ('st, 'nd) world \<Rightarrow> ((plugin_error + hook) \<times> ('st, 'v, 'nd) PluginState \<times> ('st, 'nd) world) option" where
  "serve P m v S w =
     (let run = (\<lambda>a. case a w of (r, w') \<Rightarrow> Some (r, S, w')) in
      case m of
        Connect \<Rightarrow> run (acknowledged (on_connect P S v))
      | Disconnect \<Rightarrow> run (acknowledged (on_disconnect P S v))
      | SendpaySuccess \<Rightarrow> run (acknowledged (on_sendpay_success P S v))
      | SendpayFailure \<Rightarrow> run (acknowledged (on_sendpay_failure P S v))
      | Custommsg \<Rightarrow> run (hook_custommsg P S v)
      | HtlcAcceptedHook \<Rightarrow> run (hook_htlc_accepted S v)
      | RpcCommand \<Rightarrow> run (hook_rpc_command P S v)
      | CList \<Rightarrow> run (answered (cmd_list P S))
      | CUninstall \<Rightarrow> map_option (\<lambda>(r, w'). (rmap Respond r, S, w')) (cmd_uninstall S w)
      | CChannel \<Rightarrow> run (answered (cmd_channel P S v))
      | CLcss \<Rightarrow> run (answered (cmd_lcss P S v))
      | CVerify \<Rightarrow> run (answered (alift (cmd_verify P S v)))
      | CRemoveHc \<Rightarrow> run (answered (cmd_remove_hc P S v))
      | CAddSecret \<Rightarrow> run (answered (cmd_add_secret S v))
      | CRemoveSecret \<Rightarrow> run (answered (cmd_remove_secret S v))
      | CListSecrets \<Rightarrow> run (answered (cmd_list_secrets S))
      | CReset \<Rightarrow> run (answered (cmd_reset P S v))
      | CSetChannel \<Rightarrow> run (answered (cmd_set_channel P S v))
      | CPolicy \<Rightarrow> run (answered (cmd_policy P S v))
      | CEvents \<Rightarrow> run (answered (cmd_events P S v))
      | CStatus \<Rightarrow> Some (Inr (Respond (cmd_status P S)), S, w)
      | CUnlock \<Rightarrow> (case cmd_unlock P v S of (r, S') \<Rightarrow> Some (rmap Respond r, S', w)))"

section \<open>The lock\<close>

lemma locked_sel:
  assumes "pl_runtime S = Locked reason"
  shows "is_locked S" "plugin_controller S = Inl (Bail (''canopus locked: '' @ reason))"
    "locked_reason S = Some reason"
  using assms by (simp_all add: plugin_controller_def)

definition refuses :: "('st, 'nd, 'a) request \<Rightarrow> bool" where
  "refuses m \<longleftrightarrow> (\<forall>w. \<exists>e. m w = (Inl e, w))"

lemma refuses_answered:
  assumes "refuses m"
  shows "answered m w = (Inl (projl (fst (m w))), w)"
proof -
  obtain e where "m w = (Inl e, w)" using assms by (auto simp: refuses_def)
  then show ?thesis by (simp add: answered_def abind_run)
qed

lemma locked_commands:
  assumes "pl_runtime S = Locked reason"
  shows "refuses (cmd_list P S)" "refuses (cmd_channel P S v)" "refuses (cmd_lcss P S v)"
    "refuses (alift (cmd_verify P S v))" "refuses (cmd_remove_hc P S v)" "refuses (cmd_add_secret S v)"
    "refuses (cmd_remove_secret S v)" "refuses (cmd_list_secrets S)" "refuses (cmd_reset P S v)"
    "refuses (cmd_set_channel P S v)" "refuses (cmd_policy P S v)" "refuses (cmd_events P S v)"
  unfolding refuses_def cmd_list_def cmd_channel_def cmd_lcss_def cmd_verify_def cmd_remove_hc_def
    cmd_add_secret_def cmd_remove_secret_def cmd_list_secrets_def cmd_reset_def cmd_set_channel_def
    cmd_policy_def cmd_events_def locked_sel(2) [OF assms] Let_def rbind_def
  by (auto simp: abind_run alift_def split: sum.split)

lemma locked_hooks:
  assumes "pl_runtime S = Locked reason"
  shows "hook_custommsg P S v w = (Inr (Respond hook_continue), w)"
    "hook_htlc_accepted S v w = (Inr (Respond hook_continue), w)"
    "hook_rpc_command P S v w = (Inr (Respond hook_continue), w)"
    "on_connect P S v w = (Inr (), w)" "on_disconnect P S v w = (Inr (), w)"
    "on_sendpay_success P S v w = (Inr (), w)" "on_sendpay_failure P S v w = (Inr (), w)"
  using locked_sel(1) [OF assms]
  by (simp_all add: hook_custommsg_def hook_htlc_accepted_def hook_rpc_command_def on_connect_def
      on_disconnect_def on_sendpay_success_def on_sendpay_failure_def Let_def aret_def
      split: option.split prod.split)

text \<open>
  C18. A locked plugin does nothing: whatever lightningd asks, the world stays as it is and the request
  ends; every hook is answered with \<open>continue\<close>, every notification is accepted, every command but the
  status and the unlock command is refused, and only the unlock command can change the plugin.
\<close>

theorem locked_plugin_is_inert:
  assumes "pl_runtime S = Locked reason"
  shows "\<exists>r S'. serve P m v S w = Some (r, S', w) \<and>
    (is_hook m \<longrightarrow> r = Inr (Respond hook_continue)) \<and> (notification m \<longrightarrow> \<not> isl r) \<and>
    (\<not> is_hook m \<and> \<not> notification m \<and> m \<notin> {CStatus, CUnlock} \<longrightarrow> isl r) \<and>
    (m \<noteq> CUnlock \<longrightarrow> S' = S)"
  using locked_sel(2) [OF assms]
  by (cases m)
    (simp_all add: locked_hooks [OF assms] acknowledged_def abind_run refuses_answered
      locked_commands [OF assms] cmd_uninstall_def rmap_def split: prod.split)

definition locked_sample :: "('st, 'v, 'nd) PluginState" where
  "locked_sample = \<lparr>pl_runtime = Locked ''passphrase required'', pl_config = Config_default,
     pl_rpc_path = ''rpc'', pl_hsm_secret_path = ''hsm_secret''\<rparr>"

theorem locked_plugin_is_inert_witness:
  "\<forall>P v w. \<exists>S'. serve P RpcCommand v locked_sample w = Some (Inr (Respond hook_continue), S', w)"
proof (intro allI)
  fix P :: "('st, 'v, 'nd, 'm) plugin_env" and v and w :: "('st, 'nd) world"
  have "pl_runtime (locked_sample :: ('st, 'v, 'nd) PluginState) = Locked ''passphrase required''"
    by (simp add: locked_sample_def)
  from locked_plugin_is_inert [OF this, of P RpcCommand v w]
  show "\<exists>S'. serve P RpcCommand v locked_sample w = Some (Inr (Respond hook_continue), S', w)"
    by (auto simp del: serve.simps)
qed

text \<open>
  C19. The plugin is unlocked by the passphrase only: when a request changes the runtime, the plugin was
  locked, the request was the unlock command, and the secret file yields keys under the passphrase
  it gave; the new controller works with exactly these keys and the stored configuration. An
  unlocked plugin is never changed again.
\<close>

theorem unlock_needs_passphrase:
  assumes "serve P m v S w = Some (r, S', w')" and "S' \<noteq> S"
  shows "m = CUnlock \<and> is_locked S \<and> (\<exists>passphrase keys E. unlock_passphrase P v = Inr passphrase \<and>
    from_file_with_passphrase (pe_keys P) (pe_read_bytes P) (pl_hsm_secret_path S) (Some passphrase) = Inr keys \<and>
    S' = S\<lparr>pl_runtime := Unlocked E\<rparr> \<and> c_node_secret E = nk_secret keys \<and> c_node_public E = nk_public keys \<and>
    c_config E = pl_config S)"
proof -
  have m: "m = CUnlock" using assms by (cases m) (auto simp: Let_def split: prod.splits)
  then have "(rmap Respond (fst (cmd_unlock P v S)), snd (cmd_unlock P v S), w) = (r, S', w')"
    using assms(1) by (auto split: prod.splits)
  then have "snd (cmd_unlock P v S) \<noteq> S" using assms(2) by auto
  then show ?thesis
    using m \<open>_ = (r, S', w')\<close>
    by (auto simp: cmd_unlock_def build_runtime_def rbind_def map_err_def
        split: if_splits sum.splits option.splits RuntimeState.splits)
qed

theorem unlock_needs_passphrase_witness:
  "\<forall>P w. \<exists>r S' keys E. serve (P\<lparr>pe_keys := model_keys, pe_read_bytes := \<lambda>_. Inr sample_file, pe_connect := \<lambda>_. None\<rparr>)
       CUnlock (JObject [(''passphrase'', JString ''pass'')]) locked_sample w = Some (r, S', w) \<and>
     from_file_with_passphrase model_keys (\<lambda>_. Inr sample_file) ''hsm_secret'' (Some ''pass'') = Inr keys \<and>
     pl_runtime S' = Unlocked E \<and> c_node_secret E = nk_secret keys"
proof (intro allI)
  fix P :: "('st, 'v, 'nd, string) plugin_env" and w :: "('st, 'nd) world"
  let ?P = "P\<lparr>pe_keys := model_keys, pe_read_bytes := \<lambda>_. Inr sample_file, pe_connect := \<lambda>_. None\<rparr>"
  let ?v = "JObject [(''passphrase'', JString ''pass'')]"
  obtain keys where keys: "from_file_with_passphrase model_keys (\<lambda>_. Inr sample_file) ''hsm_secret'' (Some ''pass'') = Inr keys"
    using sample_file_keys(2) by (auto simp: from_file_with_passphrase_def)
  have pass: "unlock_passphrase ?P ?v = Inr ''pass''"
    by (simp add: unlock_passphrase_def arg_def param_def or_else_def)
  obtain r S' where run: "serve ?P CUnlock ?v locked_sample w = Some (r, S', w)" "S' \<noteq> locked_sample"
    using keys pass by (simp add: cmd_unlock_def locked_sample_def build_runtime_def)
  show "\<exists>r S' keys E. serve ?P CUnlock ?v locked_sample w = Some (r, S', w) \<and>
     from_file_with_passphrase model_keys (\<lambda>_. Inr sample_file) ''hsm_secret'' (Some ''pass'') = Inr keys \<and>
     pl_runtime S' = Unlocked E \<and> c_node_secret E = nk_secret keys"
    using run unlock_needs_passphrase [OF run] keys pass
    by (auto simp: locked_sample_def simp del: serve.simps)
qed

end
