(* ===== verification/Contract.thy ===== *)
theory Contract
  imports Plugin
begin

text \<open>
  The abstract protocol of a hosted channel, seen from the host. A contract is what host and peer are
  bound by: the last cross-signed state, whether the channel is established or suspended, and the
  override on the table. \<open>contract_step\<close> has one rule for each way the protocol lets a contract
  change; uncommitted updates, errors, routing parameters and everything else the host keeps are not
  part of it. The controller refines it: whatever message, notification, timer or command the host
  handles, the contract of a stored channel changes by steps of this relation only.
\<close>

section \<open>Contracts\<close>

record contract =
  ct_lcss :: LastCrossSignedState
  ct_refund :: bytes
  ct_established :: bool
  ct_suspended :: bool
  ct_override :: "LastCrossSignedState option"

definition contract_of :: "ChannelData \<Rightarrow> contract" where
  "contract_of d =
     \<lparr>ct_lcss = cd_lcss d, ct_refund = cd_last_refund_scriptpubkey d,
      ct_established = cd_established d, ct_suspended = cd_suspended d,
      ct_override = cd_proposed_override d\<rparr>"

text \<open>A contract neither suspended nor under an override.\<close>

definition in_force :: "contract \<Rightarrow> bool" where
  "in_force c \<longleftrightarrow> \<not> ct_suspended c \<and> ct_override c = None"

text \<open>The state with another capacity: the host's balance takes the difference.\<close>

definition resized :: "LastCrossSignedState \<Rightarrow> u64 \<Rightarrow> u64 \<Rightarrow> LastCrossSignedState" where
  "resized s capacity balance =
     s\<lparr>init_hosted_channel := (init_hosted_channel s)\<lparr>ihc_channel_capacity_msat := capacity,
         ihc_max_htlc_value_in_flight_msat := capacity\<rparr>, local_balance_msat := balance\<rparr>"

text \<open>The state an override proposes: no HTLCs, the capacity divided anew, both counters moved on.\<close>

definition overriding :: "contract \<Rightarrow> InitHostedChannel \<Rightarrow> u32 \<Rightarrow> u64 \<Rightarrow> u64 \<Rightarrow> LastCrossSignedState" where
  "overriding c i day local_balance remote_balance =
     \<lparr>is_host = True, last_refund_scriptpubkey = ct_refund c, init_hosted_channel = i, block_day = day,
      local_balance_msat = local_balance, remote_balance_msat = remote_balance,
      local_updates = local_updates (ct_lcss c) + 1, remote_updates = remote_updates (ct_lcss c) + 1,
      incoming_htlcs = [], outgoing_htlcs = [],
      remote_sig_of_local = replicate 64 0, local_sig_of_remote = replicate 64 0\<rparr>"

inductive contract_step :: "'c crypto_scheme \<Rightarrow> SecretKey \<Rightarrow> PublicKey \<Rightarrow> PublicKey \<Rightarrow>
    contract \<Rightarrow> contract \<Rightarrow> bool"
  for C sk node p where
  renew: "ct_suspended c \<or> in_force c \<and> \<not> ct_established c \<and> ct_refund c = [] \<Longrightarrow>
    contract_step C sk node p c (contract_of (new_channel_data q r))"
| establish: "in_force c \<Longrightarrow> \<not> ct_established c \<Longrightarrow>
    s = (ct_lcss c)\<lparr>block_day := day, local_updates := 0, remote_updates := 0, incoming_htlcs := [],
      outgoing_htlcs := [], remote_sig_of_local := x\<rparr> \<Longrightarrow>
    verify_remote_sig C s p \<Longrightarrow> sign C sk s = Inr s' \<Longrightarrow>
    contract_step C sk node p c (c\<lparr>ct_lcss := s', ct_established := True\<rparr>)"
| commit: "in_force c \<Longrightarrow> ct_established c \<Longrightarrow> us \<noteq> [] \<Longrightarrow>
    lcss_next C \<lparr>sm_lcss = ct_lcss c, sm_uncommitted = us\<rparr> = Inr n \<Longrightarrow>
    s = n\<lparr>block_day := day, remote_sig_of_local := x\<rparr> \<Longrightarrow>
    verify_remote_sig C s p \<Longrightarrow> sign C sk s = Inr s' \<Longrightarrow>
    contract_step C sk node p c (c\<lparr>ct_lcss := s'\<rparr>)"
| propose: "\<not> ct_suspended c \<Longrightarrow> unat a + unat b = unat (ihc_channel_capacity_msat i) \<Longrightarrow>
    sign C sk (overriding c i day a b) = Inr s' \<Longrightarrow>
    contract_step C sk node p c (c\<lparr>ct_override := Some s'\<rparr>)"
| accept: "\<not> ct_suspended c \<Longrightarrow> ct_override c = Some n \<Longrightarrow> s = n\<lparr>remote_sig_of_local := x\<rparr> \<Longrightarrow>
    verify_remote_sig C s p \<Longrightarrow> sign C sk s = Inr s' \<Longrightarrow>
    contract_step C sk node p c (c\<lparr>ct_lcss := s', ct_override := None, ct_established := True\<rparr>)"
| adopt: "verify_remote_sig C s p \<Longrightarrow> verify_remote_sig C (reverse s) node \<Longrightarrow>
    local_updates (ct_lcss c) \<le> local_updates s \<Longrightarrow> remote_updates (ct_lcss c) \<le> remote_updates s \<Longrightarrow>
    local_updates (ct_lcss c) \<noteq> local_updates s \<or> remote_updates (ct_lcss c) \<noteq> remote_updates s \<Longrightarrow>
    contract_step C sk node p c (c\<lparr>ct_lcss := s\<rparr>)"
| resize: "in_force c \<Longrightarrow> ct_established c \<Longrightarrow> verify_client_sig C rm p \<Longrightarrow>
    unat capacity = 1000 * unat (rc_new_capacity_sat rm) \<Longrightarrow>
    remote_balance_msat (ct_lcss c) < capacity \<Longrightarrow>
    unat balance + unat (ihc_channel_capacity_msat (init_hosted_channel (ct_lcss c))) =
      unat (local_balance_msat (ct_lcss c)) + unat capacity \<Longrightarrow>
    sign C sk (resized (ct_lcss c) capacity balance) = Inr s' \<Longrightarrow>
    contract_step C sk node p c (c\<lparr>ct_lcss := s'\<rparr>)"

inductive_cases contract_stepE: "contract_step C sk node p c c'"

lemma contract_of_upd [simp]:
  "contract_of (d\<lparr>cd_uncommitted := u\<rparr>) = contract_of d"
  "contract_of (d\<lparr>cd_local_errors := e\<rparr>) = contract_of d"
  "contract_of (d\<lparr>cd_remote_errors := e\<rparr>) = contract_of d"
  "contract_of (d\<lparr>cd_channel_update_pending := b\<rparr>) = contract_of d"
  "contract_of (d\<lparr>cd_accepting_resize_sat := z\<rparr>) = contract_of d"
  "contract_of (d\<lparr>cd_routing_policy := r\<rparr>) = contract_of d"
  "contract_of (d\<lparr>cd_lcss := s\<rparr>) = (contract_of d)\<lparr>ct_lcss := s\<rparr>"
  "contract_of (d\<lparr>cd_established := x\<rparr>) = (contract_of d)\<lparr>ct_established := x\<rparr>"
  "contract_of (d\<lparr>cd_suspended := y\<rparr>) = (contract_of d)\<lparr>ct_suspended := y\<rparr>"
  "contract_of (d\<lparr>cd_proposed_override := n\<rparr>) = (contract_of d)\<lparr>ct_override := n\<rparr>"
  by (simp_all add: contract_of_def)

lemma contract_of_sel [simp]:
  "ct_lcss (contract_of d) = cd_lcss d" "ct_refund (contract_of d) = cd_last_refund_scriptpubkey d"
  "ct_established (contract_of d) = cd_established d" "ct_suspended (contract_of d) = cd_suspended d"
  "ct_override (contract_of d) = cd_proposed_override d"
  by (simp_all add: contract_of_def)

lemma status_contract:
  "derive_status d = Suspended \<longleftrightarrow> ct_suspended (contract_of d)"
  "derive_status d = Active \<Longrightarrow> in_force (contract_of d) \<and> ct_established (contract_of d)"
  "derive_status d = Opening \<Longrightarrow> in_force (contract_of d) \<and> \<not> ct_established (contract_of d)"
  "derive_status d = NotOpened \<Longrightarrow>
     in_force (contract_of d) \<and> \<not> ct_established (contract_of d) \<and> ct_refund (contract_of d) = []"
  "derive_status d \<in> {SErrored, Overriding, Active} \<Longrightarrow> \<not> ct_suspended (contract_of d)"
  by (auto simp: derive_status_def in_force_def split: if_splits)

lemma overriding_contract: "override_state d i day a b = overriding (contract_of d) i day a b"
  by (simp add: override_state_def overriding_def)

section \<open>What a contract guarantees\<close>

text \<open>
  What the client owns in a state and what is under way. In a contract that is established and not
  suspended it only ever becomes what the client has signed.
\<close>

definition client_side :: "LastCrossSignedState \<Rightarrow>
    u64 \<times> UpdateAddHtlc list \<times> UpdateAddHtlc list \<times> u32 \<times> u32" where
  "client_side s = (remote_balance_msat s, incoming_htlcs s, outgoing_htlcs s, local_updates s, remote_updates s)"

lemma sign_keeps_verification:
  "sign C k s = Inr s' \<Longrightarrow> verify_remote_sig C s' p = verify_remote_sig C s p"
  by (cases "hosted_sig_hash C s") (auto simp: sign_eq_Inr verify_remote_sig_def)

lemma sign_client_side: "sign C k s = Inr s' \<Longrightarrow> client_side s' = client_side s"
  by (auto simp: sign_eq_Inr client_side_def)

lemma step_client_side:
  assumes "contract_step C sk node p c c'" and "ct_established c" and "\<not> ct_suspended c"
  shows "ct_established c' \<and> \<not> ct_suspended c' \<and>
    (verify_remote_sig C (ct_lcss c') p \<or> client_side (ct_lcss c') = client_side (ct_lcss c))"
  using assms
proof (cases rule: contract_step.cases)
  case (resize rm capacity balance s')
  then show ?thesis
    using assms(2,3) sign_client_side [OF resize(8)] by (simp add: client_side_def resized_def)
qed (auto simp: sign_keeps_verification)

lemma steps_client_side:
  assumes "(contract_step C sk node p)\<^sup>*\<^sup>* c c'" and "ct_established c" and "\<not> ct_suspended c"
  shows "ct_established c' \<and> \<not> ct_suspended c' \<and>
    (\<exists>s. (s = ct_lcss c \<or> verify_remote_sig C s p) \<and> client_side (ct_lcss c') = client_side s)"
  using assms(1)
proof (induction rule: rtranclp_induct)
  case base
  then show ?case using assms(2,3) by blast
next
  case (step c1 c2)
  then show ?case using step_client_side [OF step(2)] by metis
qed

section \<open>Refinement\<close>

text \<open>
  The checks that follow one channel from a given contract: every channel stored for the peer is one
  that the protocol leads to.
\<close>

definition evolved :: "('st, 'v, 'nd) controller \<Rightarrow> PublicKey \<Rightarrow> contract \<Rightarrow> contract \<Rightarrow> bool" where
  "evolved E p c c' \<longleftrightarrow> (contract_step (c_crypto E) (c_node_secret E) (c_node_public E) p)\<^sup>*\<^sup>* c c'"

definition contract_checks :: "('st, 'v, 'nd) controller \<Rightarrow> PublicKey \<Rightarrow> contract \<Rightarrow> checks" where
  "contract_checks E p c =
     \<lparr>chk_channel = (\<lambda>q d. q = p \<longrightarrow> evolved E p c (contract_of d)), chk_policy = (\<lambda>_. True),
      chk_secret = (\<lambda>_. True)\<rparr>"

lemma contract_checks_sel [simp]:
  "chk_channel (contract_checks E p c) q d \<longleftrightarrow> (q = p \<longrightarrow> evolved E p c (contract_of d))"
  "chk_policy (contract_checks E p c) x" "chk_secret (contract_checks E p c) y"
  by (simp_all add: contract_checks_def)

lemma evolved_step:
  "evolved E p c c' \<Longrightarrow> contract_step (c_crypto E) (c_node_secret E) (c_node_public E) p c' c'' \<Longrightarrow>
     evolved E p c c''"
  unfolding evolved_def by (rule rtranclp.rtrancl_into_rtrancl)

lemma resize_balance:
  assumes "(if (new :: u64) \<ge> old then checked_add bal (new - old) else checked_sub bal (old - new)) = Some bal'"
  shows "unat bal' + unat old = unat bal + unat new"
  using assms
  by (auto simp: unat_sub word_le_nat_alt not_le dest!: checked_add_Some checked_sub_Some split: if_splits)

text \<open>Each place where the code replaces, proposes or renews a state is a step of the protocol.\<close>

lemma renewed:
  assumes "derive_status d \<in> {NotOpened, Suspended}"
  shows "contract_step C sk node p (contract_of d) (contract_of (new_channel_data pol r))"
  using status_contract(1,4) [of d] assms by (intro contract_step.renew) auto

lemma opened_up:
  assumes "derive_status d = Opening"
    and "s = (cd_lcss d)\<lparr>block_day := day, local_updates := 0, remote_updates := 0, incoming_htlcs := [],
      outgoing_htlcs := [], remote_sig_of_local := x\<rparr>"
    and "verify_remote_sig C s p" and "sign C sk s = Inr s'"
  shows "contract_step C sk node p (contract_of d) (contract_of (d\<lparr>cd_lcss := s', cd_established := True\<rparr>))"
  using contract_step.establish [where c = "contract_of d" and s = s and day = day and x = x] status_contract(3) [OF assms(1)]
    assms(2-) by auto

lemma committed:
  assumes "derive_status d = Active" and "cd_uncommitted d \<noteq> []" and "lcss_next C (manager_of d) = Inr n"
    and "s = n\<lparr>block_day := day, remote_sig_of_local := x\<rparr>" and "verify_remote_sig C s p" and "sign C sk s = Inr s'"
  shows "contract_step C sk node p (contract_of d) (contract_of (d\<lparr>cd_lcss := s'\<rparr>))"
  using contract_step.commit [where c = "contract_of d" and us = "cd_uncommitted d" and n = n and s = s and day = day and x = x]
    status_contract(2) [OF assms(1)] assms(2-) by (auto simp: manager_of_def)

lemma overridden:
  assumes "derive_status d = Overriding" and "cd_proposed_override d = Some n" and "s = n\<lparr>remote_sig_of_local := x\<rparr>"
    and "verify_remote_sig C s p" and "sign C sk s = Inr s'"
  shows "contract_step C sk node p (contract_of d) (contract_of (d\<lparr>cd_lcss := s', cd_suspended := False,
    cd_proposed_override := None, cd_established := True\<rparr>))"
proof -
  have sus: "\<not> ct_suspended (contract_of d)" using status_contract(5) [of d] assms(1) by simp
  then have eq: "contract_of (d\<lparr>cd_lcss := s', cd_suspended := False, cd_proposed_override := None,
      cd_established := True\<rparr>) = (contract_of d)\<lparr>ct_lcss := s', ct_override := None, ct_established := True\<rparr>"
    by (simp add: contract_of_def)
  show ?thesis unfolding eq using sus assms(2-) by (intro contract_step.accept [of _ n s x]) simp_all
qed

lemma proposed:
  assumes "derive_status d \<in> {SErrored, Overriding, Active}" and "checked_sub (ihc_channel_capacity_msat i) a = Some b"
    and "s = override_state d i day a b \<or> s = override_state d i day b a" and "sign C sk s = Inr s'"
  shows "contract_step C sk node p (contract_of d) (contract_of (d\<lparr>cd_proposed_override := Some s'\<rparr>))"
  using contract_step.propose [where c = "contract_of d" and a = a and b = b and i = i]
    contract_step.propose [where c = "contract_of d" and a = b and b = a and i = i]
    status_contract(5) [OF assms(1)] assms(2-)
  by (auto simp: overriding_contract dest!: checked_sub_Some)

lemma adopted:
  assumes "verify_remote_sig C m node" and "verify_remote_sig C (reverse m) p"
    and "local_updates (cd_lcss d) \<le> local_updates (reverse m)" and "remote_updates (cd_lcss d) \<le> remote_updates (reverse m)"
    and "local_updates (cd_lcss d) \<noteq> local_updates (reverse m) \<or> remote_updates (cd_lcss d) \<noteq> remote_updates (reverse m)"
  shows "contract_step C sk node p (contract_of d) (contract_of (d\<lparr>cd_lcss := reverse m\<rparr>))"
  using contract_step.adopt [where c = "contract_of d" and s = "reverse m" and p = p] assms by simp

lemma resized_step:
  assumes "derive_status d = Active" and "verify_client_sig C rm p"
    and "checked_mul (rc_new_capacity_sat rm) 1000 = Some new" and "remote_balance_msat (cd_lcss d) < new"
    and "(if new \<ge> ihc_channel_capacity_msat (init_hosted_channel (cd_lcss d))
       then checked_add (local_balance_msat (cd_lcss d)) (new - ihc_channel_capacity_msat (init_hosted_channel (cd_lcss d)))
       else checked_sub (local_balance_msat (cd_lcss d)) (ihc_channel_capacity_msat (init_hosted_channel (cd_lcss d)) - new)) = Some bal"
    and "sign C sk ((cd_lcss d)\<lparr>init_hosted_channel := (init_hosted_channel (cd_lcss d))\<lparr>ihc_channel_capacity_msat := new,
      ihc_max_htlc_value_in_flight_msat := new\<rparr>, local_balance_msat := bal\<rparr>) = Inr s'"
  shows "contract_step C sk node p (contract_of d) (contract_of (d\<lparr>cd_lcss := s'\<rparr>))"
  using contract_step.resize [where c = "contract_of d" and rm = rm and p = p and capacity = new and balance = bal]
    status_contract(2) [OF assms(1)] resize_balance [OF assms(5)] assms(2-4,6)
  by (auto simp: resized_def dest!: checked_mul_Some)

context host_env
begin

lemma contract_rules: "host_rules E view (contract_checks E p c) (\<lambda>_ _ _. True) (\<lambda>q. q \<noteq> p)"
proof -
  let ?K = "contract_checks E p c"
  have step: "chk_channel ?K q d \<Longrightarrow>
    contract_step (c_crypto E) (c_node_secret E) (c_node_public E) q (contract_of d) (contract_of d') \<Longrightarrow> chk_channel ?K q d'" for q d d'
    by (auto intro: evolved_step)
  have new: "chk_channel ?K q (new_channel_data pol r)"
    if "q \<noteq> p \<or> (\<exists>d. chk_channel ?K q d \<and> derive_status d \<in> {NotOpened, Suspended})" for q pol r
    using that step [OF _ renewed] by (cases "q = p") auto
  show ?thesis
  proof (unfold_locales, goal_cases)
    case 10 then show ?case by (intro new)
  next
    case 11 then show ?case by (intro step [OF _ opened_up])
  next
    case 12 then show ?case by (intro step [OF _ committed])
  next
    case 13 then show ?case by (intro step [OF _ overridden])
  next
    case 14 then show ?case by (intro step [OF _ proposed])
  next
    case 15 then show ?case by (intro step [OF _ adopted])
  next
    case 16 then show ?case by (intro step [OF _ resized_step])
  qed simp_all
qed

lemma world_ok_node: "world_ok E view K (w\<lparr>w_node := nd\<rparr>) = world_ok E view K w"
  by (simp add: world_ok_def)

lemma stored_world_ok:
  assumes "stored_channel E view w p = Some d"
  shows "world_ok E view (contract_checks E p (contract_of d)) w"
  using assms
  by (auto simp: world_ok_def store_ok_def entry_ok_def stored_channel_def evolved_def
      split: option.splits sum.splits)

lemma contract_allowed:
  assumes "stored_channel E view w p = Some d"
  shows "entry_allowed E view (contract_checks E p c) (\<lambda>_ _ _. True) (\<lambda>q. q \<noteq> p) w e"
  using assms by (cases e) (auto simp: entry_allowed_def)

lemma host_step_contract:
  assumes "host_step E sound w w'" and "stored_channel E view w p = Some d"
    and "stored_channel E view w' p = Some d'"
  shows "evolved E p (contract_of d) (contract_of d')"
proof -
  let ?K = "contract_checks E p (contract_of d)"
  note rules = contract_rules [of p "contract_of d"]
  have "world_ok E view ?K w'"
    using assms(1) stored_world_ok [OF assms(2)] contract_allowed [OF assms(2)]
    by (auto elim!: host_stepE intro: host_rules.run_entry_ok [OF rules] simp: world_ok_node)
  then show ?thesis
    using host.stored_good [OF host_rules.axioms(1) [OF rules] _ assms(3)] by auto
qed

end

end
