(* ===== verification/Ordering.thy ===== *)
theory Ordering
  imports Plugin
begin

text \<open>
  What has to happen first. The history of a world lists the channels that were saved, the messages
  that were sent, the preimages that were stored, the payments that were sent to the network and the
  forwards that were failed, in order. \<open>backed\<close> says that every event is \<open>justified\<close> by what came
  before it: a message that commits the host, by a saved channel that \<open>vouches\<close> for it; a saved
  channel in which the client has revealed a preimage, by that preimage having been stored; a payment
  to the network, by a saved cross-signed HTLC of the client that covers it; a failed forward, by a
  saved channel that leaves the client no claim to the HTLC. The invariant \<open>order_inv\<close> adds that every stored channel was
  saved, and that those in \<open>X\<close> were: loading and saving put a channel into \<open>X\<close>, the other effects ask
  for one in \<open>X\<close>. Every handler keeps it.
\<close>

section \<open>What a saved channel vouches for\<close>

lemma abind_assoc: "abind (abind m f) g = abind m (\<lambda>x. abind (f x) g)"
  by (auto simp: abind_def fun_eq_iff split: prod.splits sum.splits)

lemma abind_aret [simp]: "abind (aret x) f = f x"
  by (simp add: abind_def aret_def fun_eq_iff)

fun needs_record :: "HostedMessage \<Rightarrow> bool" where
  "needs_record (StateUpdate _) = True"
| "needs_record (LastCrossSignedState _) = True"
| "needs_record (StateOverride _) = True"
| "needs_record (InitHostedChannel _) = True"
| "needs_record (UpdateAddHtlc _) = True"
| "needs_record (UpdateFulfillHtlc _) = True"
| "needs_record _ = False"

definition vouches :: "('st, 'v, 'nd) controller \<Rightarrow> ChannelData \<Rightarrow> HostedMessage \<Rightarrow> bool" where
  "vouches E d m \<longleftrightarrow>
     (case m of
        StateUpdate u \<Rightarrow> u = state_update (cd_lcss d) \<or>
          (\<exists>n day s. lcss_next (c_crypto E) (manager_of d) = Inr n \<and>
             sign (c_crypto E) (c_node_secret E) (n\<lparr>block_day := day\<rparr>) = Inr s \<and> u = state_update s)
      | LastCrossSignedState s \<Rightarrow> s = cd_lcss d
      | StateOverride n \<Rightarrow> (\<exists>s. cd_proposed_override d = Some s \<and> n = state_override s)
      | InitHostedChannel i \<Rightarrow> i = init_hosted_channel (cd_lcss d)
      | UpdateAddHtlc h \<Rightarrow>
          (\<exists>h'. Local (Add h') \<in> set (cd_uncommitted d) \<and> h = h'\<lparr>htlc_channel_id := htlc_channel_id h\<rparr>)
      | UpdateFulfillHtlc f \<Rightarrow>
          Local (Fulfill (ff_channel_id f) (ff_id f) (ff_payment_preimage f)) \<in> set (cd_uncommitted d)
      | _ \<Rightarrow> True)"

text \<open>The preimages that the client has revealed in pending updates.\<close>

definition revealed :: "UncommittedUpdate list \<Rightarrow> bytes set" where
  "revealed us = {x. \<exists>c i. Remote (Fulfill c i x) \<in> set us}"

lemma revealed_simps [simp]:
  "revealed [] = {}" "revealed (us @ [Local u]) = revealed us" "revealed (us @ [Remote (Add h)]) = revealed us"
  "revealed (us @ [Remote (Fail c i r)]) = revealed us" "revealed (us @ [Remote (FailMalformed c i s f)]) = revealed us"
  "revealed (us @ [Remote (Fulfill c i x)]) = insert x (revealed us)"
  by (auto simp: revealed_def)

lemma revealed_mono: "set us \<subseteq> set vs \<Longrightarrow> revealed us \<subseteq> revealed vs"
  by (auto simp: revealed_def)

text \<open>A payment to the network is covered by an HTLC of the client in the cross-signed state.\<close>

definition covered :: "ChannelData \<Rightarrow> SendOnionParams \<Rightarrow> bool" where
  "covered d params \<longleftrightarrow> (\<exists>h \<in> set (incoming_htlcs (cd_lcss d)).
     htlc_id h = sop_part_id params \<and> htlc_payment_hash h = sop_payment_hash params \<and>
     sop_first_amount_msat params \<le> htlc_amount_msat h)"

text \<open>
  The client has no claim to the HTLC: the channel has an error with which fulfilments are refused, or
  the client has failed the HTLC and the state without it is signed by both.
\<close>

definition refuses_fulfill :: "ChannelData \<Rightarrow> bool" where
  "refuses_fulfill d \<longleftrightarrow> HOSTED_DELIVERY_FAILED_ERROR \<in> set (cd_local_errors d) \<or>
     HOSTED_HTLC_EXPIRED_ERROR \<in> set (cd_local_errors d)"

definition fails_htlc :: "u64 \<Rightarrow> UncommittedUpdate \<Rightarrow> bool" where
  "fails_htlc i u \<longleftrightarrow> (case u of Remote (Fail _ j _) \<Rightarrow> j = i | Remote (FailMalformed _ j _ _) \<Rightarrow> j = i | _ \<Rightarrow> False)"

definition committed_next :: "('st, 'v, 'nd) controller \<Rightarrow> PublicKey \<Rightarrow> ChannelData \<Rightarrow> ChannelData \<Rightarrow> bool" where
  "committed_next E p d0 d \<longleftrightarrow> (\<exists>n day sig. lcss_next (c_crypto E) (manager_of d0) = Inr n \<and>
     verify_remote_sig (c_crypto E) (n\<lparr>block_day := day, remote_sig_of_local := sig\<rparr>) p \<and>
     sign (c_crypto E) (c_node_secret E) (n\<lparr>block_day := day, remote_sig_of_local := sig\<rparr>) = Inr (cd_lcss d))"

definition released :: "('st, 'v, 'nd) controller \<Rightarrow> (PublicKey \<times> ChannelData) set \<Rightarrow> PublicKey \<Rightarrow> u64 \<Rightarrow> bool" where
  "released E Y p i \<longleftrightarrow> (\<exists>d. (p, d) \<in> Y \<and> refuses_fulfill d) \<or>
     (\<exists>d0 d. (p, d0) \<in> Y \<and> (p, d) \<in> Y \<and> (\<exists>u \<in> set (cd_uncommitted d0). fails_htlc i u) \<and> committed_next E p d0 d)"

abbreviation saved :: "event list \<Rightarrow> (PublicKey \<times> ChannelData) set" where
  "saved tr \<equiv> {(p, d). Saved p d \<in> set tr}"

definition justified :: "('st, 'v, 'nd) controller \<Rightarrow> event list \<Rightarrow> event \<Rightarrow> bool" where
  "justified E before e \<longleftrightarrow>
     (case e of
        Sent p m \<Rightarrow> needs_record m \<longrightarrow> (\<exists>d. Saved p d \<in> set before \<and> vouches E d m)
      | Saved p d \<Rightarrow> \<forall>x \<in> revealed (cd_uncommitted d). Kept (sha256 (c_crypto E) x) x \<in> set before
      | PaidOut p params \<Rightarrow> \<exists>d. Saved p d \<in> set before \<and> covered d params
      | GaveBack scid i \<Rightarrow> \<exists>p. hosted_scid_of E p = scid \<and> released E (saved before) p i
      | Kept _ _ \<Rightarrow> True)"

lemma justified_simps [simp]:
  "justified E tr (Sent p m) \<longleftrightarrow> (needs_record m \<longrightarrow> (\<exists>d. Saved p d \<in> set tr \<and> vouches E d m))"
  "justified E tr (Saved p d) \<longleftrightarrow> (\<forall>x \<in> revealed (cd_uncommitted d). Kept (sha256 (c_crypto E) x) x \<in> set tr)"
  "justified E tr (PaidOut p params) \<longleftrightarrow> (\<exists>d. Saved p d \<in> set tr \<and> covered d params)"
  "justified E tr (GaveBack scid i) \<longleftrightarrow> (\<exists>p. hosted_scid_of E p = scid \<and> released E (saved tr) p i)"
  "justified E tr (Kept h x)"
  by (simp_all add: justified_def)

definition backed :: "('st, 'v, 'nd) controller \<Rightarrow> event list \<Rightarrow> bool" where
  "backed E tr \<longleftrightarrow> (\<forall>before e after. tr = before @ e # after \<longrightarrow> justified E before e)"

text \<open>The resize limit is the one field that is stored without a save of the channel.\<close>

definition persisted :: "event list \<Rightarrow> PublicKey \<Rightarrow> ChannelData \<Rightarrow> bool" where
  "persisted tr p d \<longleftrightarrow> (\<exists>r. Saved p (d\<lparr>cd_accepting_resize_sat := r\<rparr>) \<in> set tr)"

definition saved_in :: "event list \<Rightarrow> checks" where
  "saved_in tr = \<lparr>chk_channel = persisted tr, chk_policy = (\<lambda>_. True), chk_secret = (\<lambda>_. True)\<rparr>"

lemma saved_in_sel [simp]:
  "chk_channel (saved_in tr) = persisted tr" "chk_policy (saved_in tr) q" "chk_secret (saved_in tr) s"
  by (simp_all add: saved_in_def)

lemma vouches_resize [simp]: "vouches E (d\<lparr>cd_accepting_resize_sat := r\<rparr>) m = vouches E d m"
  by (simp add: vouches_def manager_of_def split: HostedMessage.split)

lemma persisted_upd [simp]: "persisted tr p (d\<lparr>cd_accepting_resize_sat := r\<rparr>) = persisted tr p d"
  by (simp add: persisted_def)

lemma persisted_append: "persisted tr p d \<Longrightarrow> persisted (tr @ es) p d"
  by (auto simp: persisted_def)

lemma persisted_saved: "persisted (tr @ [Saved p d]) p d"
  by (simp add: persisted_def) (metis ChannelData.update_convs(9) ChannelData.surjective)

lemma backed_Nil [simp]: "backed E []"
  by (simp add: backed_def)

lemma backed_snoc: "backed E (tr @ [e]) \<longleftrightarrow> backed E tr \<and> justified E tr e"
proof (rule iffI, goal_cases)
  case 1
  then show ?case by (auto simp: backed_def)
next
  case 2
  show ?case
    unfolding backed_def
  proof (intro allI impI)
    fix before x after assume "tr @ [e] = before @ x # after"
    then show "justified E before x"
      using 2 by (cases after rule: rev_cases) (auto simp: backed_def)
  qed
qed

lemma backed_kept:
  assumes "backed E tr" and "Saved p d \<in> set tr" and "x \<in> revealed (cd_uncommitted d)"
  shows "Kept (sha256 (c_crypto E) x) x \<in> set tr"
proof -
  obtain before after where tr: "tr = before @ Saved p d # after" using split_list [OF assms(2)] by blast
  then have "justified E before (Saved p d)" using assms(1) unfolding backed_def by blast
  then show ?thesis using assms(3) tr by simp
qed

text \<open>What \<open>X\<close> says is said of the saved channels: nothing depends on the resize limit.\<close>

lemma resize_irrelevant [simp]:
  "covered (d\<lparr>cd_accepting_resize_sat := r\<rparr>) params = covered d params"
  "refuses_fulfill (d\<lparr>cd_accepting_resize_sat := r\<rparr>) = refuses_fulfill d"
  "committed_next E p (d\<lparr>cd_accepting_resize_sat := r\<rparr>) d' = committed_next E p d d'"
  "committed_next E p d' (d\<lparr>cd_accepting_resize_sat := r\<rparr>) = committed_next E p d' d"
  by (simp_all add: covered_def refuses_fulfill_def committed_next_def manager_of_def)

lemma persisted_covered: "persisted tr p d \<Longrightarrow> covered d params \<Longrightarrow> \<exists>d. Saved p d \<in> set tr \<and> covered d params"
  unfolding persisted_def by (metis resize_irrelevant(1))

lemma persisted_released:
  assumes "released E X p i" and "\<forall>(p, d) \<in> X. persisted tr p d"
  shows "released E (saved tr) p i"
proof -
  have X: "\<exists>r. Saved p (d\<lparr>cd_accepting_resize_sat := r\<rparr>) \<in> set tr" if "(p, d) \<in> X" for d
    using that assms(2) unfolding persisted_def by blast
  consider (refused) d where "(p, d) \<in> X" "refuses_fulfill d"
    | (failed) d0 d where "(p, d0) \<in> X" "(p, d) \<in> X" "\<exists>u \<in> set (cd_uncommitted d0). fails_htlc i u" "committed_next E p d0 d"
    using assms(1) unfolding released_def by blast
  then show ?thesis
  proof cases
    case refused
    then obtain r where "Saved p (d\<lparr>cd_accepting_resize_sat := r\<rparr>) \<in> set tr" using X by blast
    then show ?thesis
      unfolding released_def using refused(2)
      by (intro disjI1 exI [of _ "d\<lparr>cd_accepting_resize_sat := r\<rparr>"]) simp
  next
    case failed
    then obtain r0 r where "Saved p (d0\<lparr>cd_accepting_resize_sat := r0\<rparr>) \<in> set tr" "Saved p (d\<lparr>cd_accepting_resize_sat := r\<rparr>) \<in> set tr"
      using X by meson
    then show ?thesis
      unfolding released_def using failed(3,4)
      by (intro disjI2 exI [of _ "d0\<lparr>cd_accepting_resize_sat := r0\<rparr>"] exI [of _ "d\<lparr>cd_accepting_resize_sat := r\<rparr>"]) simp
  qed
qed

lemma persisted_vouches: "persisted tr p d \<Longrightarrow> vouches E d m \<Longrightarrow> \<exists>d. Saved p d \<in> set tr \<and> vouches E d m"
  unfolding persisted_def by (metis vouches_resize)

section \<open>The invariant\<close>

definition order_inv :: "('st, 'v, 'nd) controller \<Rightarrow> ('st \<Rightarrow> key \<Rightarrow> (u64 \<times> 'v) option) \<Rightarrow>
    (PublicKey \<times> ChannelData) set \<Rightarrow> ('st, 'nd) world \<Rightarrow> bool" where
  "order_inv E view X w \<longleftrightarrow> store_ok E view (saved_in (w_trace w)) (w_store w) \<and> backed E (w_trace w) \<and>
     (\<forall>(p, d) \<in> X. persisted (w_trace w) p d)"

text \<open>What the client has revealed in \<open>us\<close> it has revealed in a channel of \<open>X\<close>, so that it was stored.\<close>

definition known_in :: "(PublicKey \<times> ChannelData) set \<Rightarrow> UncommittedUpdate list \<Rightarrow> bool" where
  "known_in X us \<longleftrightarrow> revealed us \<subseteq> (\<Union>x \<in> X. revealed (cd_uncommitted (snd x)))"

lemma known_in_simps [simp]:
  "known_in X []" "known_in X (us @ [Local u]) = known_in X us" "known_in X (us @ [Remote (Add h)]) = known_in X us"
  "known_in X (us @ [Remote (Fail c i r)]) = known_in X us"
  "known_in X (us @ [Remote (FailMalformed c i s f)]) = known_in X us"
  by (simp_all add: known_in_def)

lemma known_in_self [simp]: "known_in (insert (p, d) X) (cd_uncommitted d)"
  by (simp add: known_in_def)

lemma known_in_insert [simp]: "known_in X us \<Longrightarrow> known_in (insert x X) us"
  by (auto simp: known_in_def)

lemma known_in_mem: "(p, d) \<in> X \<Longrightarrow> known_in X (cd_uncommitted d)"
  by (force simp: known_in_def)

lemma known_in_mono: "known_in X vs \<Longrightarrow> set us \<subseteq> set vs \<Longrightarrow> known_in X us"
  unfolding known_in_def using revealed_mono [of us vs] by blast

lemma dedup_from_subset: "set (dedup_from seen us) \<subseteq> set us"
proof (induction us arbitrary: seen)
  case (Cons u us)
  then show ?case by (cases "resolution_key u") auto
qed simp

lemma known_in_dedup [simp]: "known_in X us \<Longrightarrow> known_in X (deduplicate_uncommitted_resolutions us)"
  unfolding deduplicate_uncommitted_resolutions_def by (erule known_in_mono) (rule dedup_from_subset)

text \<open>What a write of the channel leaves: the old content after an error, the channel otherwise.\<close>

definition wrote :: "('st, 'v, 'nd) controller \<Rightarrow> ('st \<Rightarrow> key \<Rightarrow> (u64 \<times> 'v) option) \<Rightarrow> PublicKey \<Rightarrow> ChannelData \<Rightarrow> 'st \<Rightarrow>
    'e + unit \<Rightarrow> 'st \<Rightarrow> bool" where
  "wrote E view p d st r st' \<longleftrightarrow> (case r of Inl _ \<Rightarrow> view st' = view st
     | Inr _ \<Rightarrow> \<exists>g v. to_vec (c_channel E) d = Inr v \<and> view st' = (view st)(channel_key E p \<mapsto> (g, v)))"

text \<open>A store whose failed writes leave it as it was.\<close>

locale durable_host = host_env E view
  for E :: "('st, 'v, 'nd) controller" and view :: "'st \<Rightarrow> key \<Rightarrow> (u64 \<times> 'v) option" +
  assumes create_clean: "good_key k \<Longrightarrow> store_create (c_store E) k v st = (Inl e, st') \<Longrightarrow> view st' = view st"
    and update_clean: "good_key k \<Longrightarrow> store_update (c_store E) k v g st = (Inl e, st') \<Longrightarrow> view st' = view st"
begin

abbreviation T :: "(PublicKey \<times> ChannelData) set \<Rightarrow> ('st, 'nd) world \<Rightarrow> bool" where
  "T \<equiv> order_inv E view"

lemma store_ok_append: "store_ok E view (saved_in tr) st \<Longrightarrow> store_ok E view (saved_in (tr @ es)) st"
  by (simp add: store_ok_def entry_ok_def) (blast intro: persisted_append)

lemma T_mono: "T (insert x X) w \<Longrightarrow> T X w"
  by (simp add: order_inv_def)

lemma T_world [simp]:
  "T X (w\<lparr>w_node := nd\<rparr>) = T X w" "T X (w\<lparr>w_encodings := a\<rparr>) = T X w" "T X (w\<lparr>w_connections := b\<rparr>) = T X w"
  by (simp_all add: order_inv_def)

lemma T_store: "(\<And>tr. maintains (store_ok E view (saved_in tr)) m Q) \<Longrightarrow> maintains (T X) (on_store m) Q"
  by (fastforce simp: maintains_def on_store_def azoom_def order_inv_def split: prod.splits)

lemma T_lift_store: "(\<And>tr. maintains (store_ok E view (saved_in tr)) m Q) \<Longrightarrow> maintains (T X) (lift_store m) Q"
  unfolding lift_store_def by (intro maintains_amap_err T_store)

lemma T_node: "maintains (T X) (on_node m) (\<lambda>_. True)"
  by (auto simp: maintains_def on_node_def azoom_def split: prod.splits)

lemma T_lift_node: "maintains (T X) (lift_node n) (\<lambda>_. True)"
  unfolding lift_node_def by (intro maintains_amap_err T_node)

text \<open>Only what is in \<open>X\<close> is needed: a fact about a larger set is one about \<open>X\<close>, when the state is in it.\<close>

lemma T_after:
  assumes "\<And>w r w'. T X w \<Longrightarrow> m w = (Inr r, w') \<Longrightarrow> T (insert (g r) X) w'"
    and "\<And>w e w'. T X w \<Longrightarrow> m w = (Inl e, w') \<Longrightarrow> T X w'"
    and "\<And>r. maintains (T (insert (g r) X)) (f r) Q"
  shows "maintains (T X) (abind m f) Q"
proof (rule maintainsI)
  fix w r w' assume w: "T X w" and run: "abind m f w = (r, w')"
  obtain r1 w1 where m: "m w = (r1, w1)" by fastforce
  show "T X w' \<and> (\<forall>a. r = Inr a \<longrightarrow> Q a)"
  proof (cases r1)
    case (Inl e)
    then show ?thesis using assms(2) [OF w] m run by (auto simp: abind_def)
  next
    case (Inr a)
    then have "T (insert (g a) X) w1" "f a w1 = (r, w')" using assms(1) [OF w] m run by (auto simp: abind_def)
    then show ?thesis using maintainsD [OF assms(3)] T_mono by blast
  qed
qed

lemma T_keep: "maintains (T X) m P \<Longrightarrow> T X w \<Longrightarrow> m w = (r, w') \<Longrightarrow> T X w'"
  by (drule (2) maintainsD) simp

subsection \<open>Sending, loading and saving\<close>

lemma T_event:
  assumes "T X w" and "justified E (w_trace w) e"
  shows "T X (w\<lparr>w_trace := w_trace w @ [e]\<rparr>)"
  using assms by (auto simp: order_inv_def backed_snoc intro: store_ok_append persisted_append)

lemma T_record:
  assumes "\<And>w. T X w \<Longrightarrow> justified E (w_trace w) e"
  shows "maintains (T X) (record_event e) (\<lambda>_. True)"
  using T_event assms by (simp add: maintains_def record_event_def)

lemma T_send_with:
  assumes "needs_record m \<Longrightarrow> \<exists>d. (p, d) \<in> X \<and> vouches E d m"
  shows "maintains (T X) (send_message_with_encoding E p m e) (\<lambda>_. True)"
proof -
  have "justified E (w_trace w) (Sent p m)" if "T X w" for w
    using assms that persisted_vouches by (fastforce simp: order_inv_def)
  then show ?thesis
    unfolding send_message_with_encoding_def
    by (intro maintains_try_encode maintains_abind_unit [OF T_lift_node] T_record)
qed

lemma T_kept: "maintains (T X) (keep_preimage E h x) (\<lambda>_. True)"
  unfolding keep_preimage_def by (intro maintains_abind_unit [OF T_lift_node] T_record) simp

lemma T_paid:
  assumes "(p, d) \<in> X" and "covered d params"
  shows "maintains (T X) (record_event (PaidOut p params)) (\<lambda>_. True)"
  using assms persisted_covered by (intro T_record) (fastforce simp: order_inv_def)

lemma T_gave_back:
  assumes "released E X p i"
  shows "maintains (T X) (record_event (GaveBack (hosted_scid_of E p) i)) (\<lambda>_. True)"
  using persisted_released [OF assms] by (intro T_record) (auto simp: order_inv_def)

lemma T_known:
  assumes "T X w" and "known_in X us" and "x \<in> revealed us"
  shows "Kept (sha256 (c_crypto E) x) x \<in> set (w_trace w)"
proof -
  obtain p d where d: "(p, d) \<in> X" "x \<in> revealed (cd_uncommitted d)"
    using assms(2,3) by (auto simp: known_in_def)
  then obtain r where "Saved p (d\<lparr>cd_accepting_resize_sat := r\<rparr>) \<in> set (w_trace w)"
    using assms(1) by (auto simp: order_inv_def persisted_def)
  from backed_kept [OF _ this, of E x] show ?thesis using assms(1) d(2) by (simp add: order_inv_def)
qed

lemma T_send:
  "(needs_record m \<Longrightarrow> \<exists>d. (p, d) \<in> X \<and> vouches E d m) \<Longrightarrow> maintains (T X) (send_message E p m) (\<lambda>_. True)"
  unfolding send_message_def peer_wire_encoding_def by (intro maintains_abind_aget T_send_with)

lemma T_send_known: "(p, d) \<in> X \<Longrightarrow> vouches E d m \<Longrightarrow> maintains (T X) (send_message E p m) (\<lambda>_. True)"
  by (rule T_send) blast

lemma T_send_free: "\<not> needs_record m \<Longrightarrow> maintains (T X) (send_message E p m) (\<lambda>_. True)"
  by (rule T_send) simp

lemma T_send_error: "maintains (T X) (send_message E p (error_message E p t)) (\<lambda>_. True)"
  by (rule T_send_free) (simp add: error_message_def)

lemma T_get:
  assumes "good_key k"
  shows "maintains (T X) (on_store (get_json (c_store E) D k)) (\<lambda>_. True)"
    and "maintains (T X) (lift_store (get_json (c_store E) D k)) (\<lambda>_. True)"
  by (intro T_store T_lift_store get_json_any assms)+

lemma T_load_any: "maintains (T X) (load_channel E p) (\<lambda>_. True)"
  unfolding load_channel_def
  by (rule maintains_acase_any [OF T_get(1)])
    (auto intro!: maintains_aret maintains_afail split: sum.splits StoreError.splits)

lemma loaded_persisted:
  assumes "T X w" and "load_channel E p w = (Inr (Some d), w')"
  shows "T (insert (p, d) X) w'"
proof -
  obtain x st where run: "get_json (c_store E) (c_channel E) (channel_key E p) (w_store w) = (x, st)" by fastforce
  have "w' = w\<lparr>w_store := st\<rparr>" "\<exists>g. x = Inr (d, g)"
    using assms(2) run by (auto simp: load_channel_def acase_run on_store_def azoom_def
        split: sum.splits StoreError.splits)
  then show ?thesis
    using assms(1) get_json_law [OF good_keys(1) run]
    by (auto simp: order_inv_def store_ok_def) (metis entry_ok_channelD saved_in_sel(1))
qed

lemma T_load:
  assumes "\<And>d. maintains (T (insert (p, d) X)) (f (Some d)) Q" and "maintains (T X) (f None) Q"
  shows "maintains (T X) (abind (load_channel E p) f) Q"
proof (rule maintainsI)
  fix w r w' assume w: "T X w" and run: "abind (load_channel E p) f w = (r, w')"
  obtain r1 w1 where m: "load_channel E p w = (r1, w1)" by fastforce
  have w1: "T X w1" by (rule T_keep [OF T_load_any w m])
  show "T X w' \<and> (\<forall>a. r = Inr a \<longrightarrow> Q a)"
  proof (cases r1)
    case (Inl e)
    then show ?thesis using w1 m run by (auto simp: abind_def)
  next
    case (Inr o1)
    have f: "f o1 w1 = (r, w')" using m run Inr by (auto simp: abind_def)
    show ?thesis
    proof (cases o1)
      case None
      then show ?thesis using maintainsD [OF assms(2) w1] f by blast
    next
      case (Some d)
      then have "T (insert (p, d) X) w1" using loaded_persisted [OF w] m Inr by blast
      then show ?thesis using maintainsD [OF assms(1)] f Some T_mono by blast
    qed
  qed
qed

lemma T_require:
  assumes "\<And>d. maintains (T (insert (p, d) X)) (f d) Q"
  shows "maintains (T X) (abind (require_channel E p) f) Q"
  unfolding require_channel_def abind_assoc
  by (rule T_load) (auto intro!: maintains_abind_alift assms simp: ok_or_eq_Inr)

lemma clean_json:
  assumes "good_key k"
  shows "create_json (c_store E) D k x st = (Inl e, st') \<Longrightarrow> view st' = view st"
    and "update_json (c_store E) D k x g st = (Inl e, st') \<Longrightarrow> view st' = view st"
  using create_clean [OF assms] update_clean [OF assms]
  by (auto simp: create_json_def update_json_def abind_run map_err_def split: sum.splits)

lemma writes:
  "create_json (c_store E) (c_channel E) (channel_key E p) d st = (r, st') \<Longrightarrow> wrote E view p d st r st'"
  "update_json (c_store E) (c_channel E) (channel_key E p) d g st = (r, st') \<Longrightarrow> wrote E view p d st r st'"
proof -
  assume "create_json (c_store E) (c_channel E) (channel_key E p) d st = (r, st')"
  then show "wrote E view p d st r st'"
    using create_json_law [OF good_keys(1)] clean_json(1) [OF good_keys(1)]
    by (cases r) (fastforce simp: wrote_def)+
next
  assume "update_json (c_store E) (c_channel E) (channel_key E p) d g st = (r, st')"
  then show "wrote E view p d st r st'"
    using update_json_law [OF good_keys(1)] clean_json(2) [OF good_keys(1)]
    by (cases r) (fastforce simp: wrote_def)+
qed

lemma save_outcome:
  assumes "save_channel E p d g w = (r, w')"
  shows "wrote E view p d (w_store w) r (w_store w') \<and>
    w_trace w' = (case r of Inl _ \<Rightarrow> w_trace w | Inr _ \<Rightarrow> w_trace w @ [Saved p d])"
proof (cases g)
  case (Some x)
  then show ?thesis
    using assms writes(2) [of p d x "w_store w"]
    by (fastforce simp: save_channel_def Let_def abind_run lift_store_def on_store_def azoom_def amap_err_def
        record_event_def wrote_def split: prod.splits sum.splits)
next
  case None
  obtain r1 st1 where create: "create_json (c_store E) (c_channel E) (channel_key E p) d (w_store w) = (r1, st1)"
    by fastforce
  obtain r2 st2 where get: "get_json (c_store E) (c_channel E) (channel_key E p) st1 = (r2, st2)" by fastforce
  have view: "view st2 = view st1" using get_json_law [OF good_keys(1) get] by blast
  show ?thesis
  proof (cases "\<exists>k x gen. r1 = Inl (AlreadyExists k) \<and> r2 = Inr (x, gen)")
    case True
    then obtain k x gen where r: "r1 = Inl (AlreadyExists k)" "r2 = Inr (x, gen)" by blast
    obtain r3 st3 where upd: "update_json (c_store E) (c_channel E) (channel_key E p) d gen st2 = (r3, st3)" by fastforce
    show ?thesis
      using assms None create get view r upd writes(1) [OF create] writes(2) [OF upd]
      by (cases r3) (auto simp: save_channel_def Let_def abind_run acase_run lift_store_def on_store_def azoom_def
          amap_err_def record_event_def wrote_def)
  next
    case False
    then show ?thesis
      using assms None create get view writes(1) [OF create]
      by (auto simp: save_channel_def Let_def abind_run acase_run lift_store_def on_store_def azoom_def amap_err_def
          record_event_def wrote_def split: prod.splits sum.splits StoreError.splits)
  qed
qed

text \<open>A save is in order when what the client has revealed was stored.\<close>

lemma save_ordered:
  assumes "T X w" and "save_channel E p d g w = (r, w')"
    and "\<And>x. x \<in> revealed (cd_uncommitted d) \<Longrightarrow> Kept (sha256 (c_crypto E) x) x \<in> set (w_trace w)"
  shows "case r of Inl _ \<Rightarrow> T X w' | Inr _ \<Rightarrow> T (insert (p, d) X) w'"
proof (cases r)
  case (Inl e)
  then show ?thesis using assms(1) save_outcome [OF assms(2)] by (auto simp: order_inv_def store_ok_def wrote_def)
next
  case (Inr u)
  obtain gen v where v: "to_vec (c_channel E) d = Inr v"
      "view (w_store w') = (view (w_store w))(channel_key E p \<mapsto> (gen, v))"
    and tr: "w_trace w' = w_trace w @ [Saved p d]"
    using save_outcome [OF assms(2)] Inr by (auto simp: wrote_def)
  have "store_ok E view (saved_in (w_trace w')) (w_store w)"
    using assms(1) tr by (simp add: order_inv_def store_ok_append)
  moreover have "entry_ok E (saved_in (w_trace w')) (channel_key E p) v"
    by (rule entry_ok_channel [of _ _ d]) (simp_all add: tr persisted_saved v(1))
  ultimately have "store_ok E view (saved_in (w_trace w')) (w_store w')"
    using v(2) by (auto simp: store_ok_def)
  then show ?thesis
    using assms(1,3) tr persisted_saved Inr by (auto simp: order_inv_def backed_snoc intro: persisted_append)
qed

lemma T_save:
  assumes "\<And>x. maintains (T (insert (p, d) X)) (f x) Q" and "known_in X (cd_uncommitted d)"
  shows "maintains (T X) (abind (save_channel E p d g) f) Q"
proof (rule T_after [where g = "\<lambda>_. (p, d)"])
  fix w r w' assume "T X w" and "save_channel E p d g w = (Inr r, w')"
  then show "T (insert (p, d) X) w'" using save_ordered T_known [OF _ assms(2)] by fastforce
next
  fix w e w' assume "T X w" and "save_channel E p d g w = (Inl e, w')"
  then show "T X w'" using save_ordered T_known [OF _ assms(2)] by fastforce
qed (rule assms(1))

text \<open>A fulfilment of the client is saved once its preimage is stored.\<close>

lemma T_keep_and_save:
  assumes "\<And>y. maintains (T (insert (p, d) X)) (f y) Q" and "h = sha256 (c_crypto E) x"
    and "revealed (cd_uncommitted d) \<subseteq> insert x (revealed (cd_uncommitted d0))" and "(p, d0) \<in> X"
  shows "maintains (T X) (abind (keep_preimage E h x) (\<lambda>_. abind (save_channel E p d g) f)) Q"
proof (rule maintainsI)
  fix w r w' assume w: "T X w" and run: "abind (keep_preimage E h x) (\<lambda>_. abind (save_channel E p d g) f) w = (r, w')"
  obtain r1 w1 where k: "keep_preimage E h x w = (r1, w1)" by fastforce
  have w1: "T X w1" by (rule T_keep [OF T_kept w k])
  show "T X w' \<and> (\<forall>a. r = Inr a \<longrightarrow> Q a)"
  proof (cases r1)
    case (Inl e)
    then show ?thesis using run k w1 by (auto simp: abind_def)
  next
    case (Inr u)
    obtain r2 w2 where s: "save_channel E p d g w1 = (r2, w2)" by fastforce
    have "Kept h x \<in> set (w_trace w1)"
      using k Inr by (auto simp: keep_preimage_def abind_run record_event_def split: prod.splits sum.splits)
    then have "Kept (sha256 (c_crypto E) y) y \<in> set (w_trace w1)" if "y \<in> revealed (cd_uncommitted d)" for y
      using that assms(2,3) T_known [OF w1 known_in_mem [OF assms(4)]] by blast
    from save_ordered [OF w1 s this] show ?thesis
      using run k s Inr maintainsD [OF assms(1)] T_mono by (cases r2) (fastforce simp: abind_def)+
  qed
qed

lemma T_save_only: "known_in X (cd_uncommitted d) \<Longrightarrow> maintains (T X) (save_channel E p d g) (\<lambda>_. True)"
proof -
  assume "known_in X (cd_uncommitted d)"
  then have "maintains (T X) (abind (save_channel E p d g) aret) (\<lambda>_. True)"
    by (intro T_save maintains_aret) simp_all
  moreover have "abind (save_channel E p d g) aret = save_channel E p d g"
    by (auto simp: abind_def fun_eq_iff split: prod.split sum.split)
  ultimately show ?thesis by simp
qed

lemma T_errored:
  assumes "known_in X (cd_uncommitted d)"
  shows "maintains (T X) (mark_errored E p d e) (\<lambda>_. True)" "maintains (T X) (mark_remote_errored E p d e) (\<lambda>_. True)"
  unfolding mark_errored_def mark_remote_errored_def by (rule T_save_only; simp add: assms)+

subsection \<open>Operations that save no channel\<close>

lemma T_log: "maintains (T X) m (\<lambda>_. True) \<Longrightarrow> maintains (T X) (log_error m) (\<lambda>_. True)"
  unfolding log_error_def
  by (rule maintains_acase_any)
    (auto intro!: maintains_aret maintains_afail split: sum.split ChannelError.split)

lemma T_effective_policy: "maintains (T X) (effective_policy E) (\<lambda>_. True)"
  unfolding effective_policy_def
  by (rule maintains_acase_any [OF T_get(1)])
    (auto intro!: maintains_aret maintains_afail split: sum.splits StoreError.splits)

lemma T_routing: "maintains (T X) (routing_policy_for_data E d) (\<lambda>_. True)"
  unfolding routing_policy_for_data_def
  by (intro maintains_case_option maintains_aret maintains_abind_unit [OF T_effective_policy]) simp_all

lemma T_parameters: "maintains (T X) (channel_parameters_for_data E d) (\<lambda>_. True)"
  unfolding channel_parameters_for_data_def Let_def
  by (intro maintains_abind_unit [OF T_routing] maintains_aret) simp

lemma T_day: "maintains (T X) (current_block_day E) (\<lambda>_. True)"
  unfolding current_block_day_def by (intro maintains_abind_unit [OF T_lift_node] maintains_aret) simp

lemma T_ledger:
  assumes "CHR ''/'' \<notin> set suffix"
  shows "maintains (T X) (record_ledger_once E p (event_prefix E p s @ suffix) t a h) (\<lambda>_. True)"
  unfolding record_ledger_once_def now_secs_def
  by (intro maintains_abind_aget T_lift_store record_once_ok) (use assms event_prefix_no_slash in auto)

lemma T_committed_events: "maintains (T X) (record_committed_update_events E p us a b) (\<lambda>_. True)"
  unfolding record_committed_update_events_def
  by (intro maintains_aforeach)
    (auto split: option.split intro!: maintains_aret T_ledger dest: committed_event_name simp: dec_nat_no_sep(2))

lemma T_list_channels: "maintains (T X) (list_channels E) (\<lambda>_. True)"
  unfolding list_channels_def
  by (rule maintains_abind_unit [OF maintains_weaken [OF T_lift_store [OF list_ok]]]) (auto intro!: maintains_aret)

lemma T_peer: "maintains (T X) (peer_for_hosted_scid E scid) (\<lambda>_. True)"
  unfolding peer_for_hosted_scid_def by (intro maintains_abind_unit [OF T_list_channels] maintains_aret) simp

lemma T_load_link: "maintains (T X) (load_link E a b) (\<lambda>_. True)"
  unfolding load_link_def
  by (rule maintains_acase_any [OF T_get(1)])
    (auto intro!: maintains_aret maintains_afail split: sum.splits StoreError.splits)

lemma T_save_link: "maintains (T X) (save_link E a b l) (\<lambda>_. True)"
  unfolding save_link_def
  by (rule maintains_acase_any)
    (auto intro!: T_store create_json_ok maintains_aret maintains_afail split: sum.splits StoreError.splits)

lemma T_delete: "good_key k \<Longrightarrow> maintains (T X) (lift_store (store_delete (c_store E) k)) (\<lambda>_. True)"
  by (intro T_lift_store delete_ok)

lemma T_delete_link:
  "maintains (T X) (lift_store (store_delete (c_store E) (forward_key a b))) (\<lambda>_. True)"
  "maintains (T X) (aignore (on_store (store_delete (c_store E) (forward_key a b)))) (\<lambda>_. True)"
  by (auto intro!: T_delete maintains_aignore [OF T_store] delete_ok)

lemma T_link_for_incoming: "maintains (T X) (forward_link_for_incoming E a b) (\<lambda>_. True)"
proof -
  have find: "maintains (T X) (afind xs f) (\<lambda>_. True)"
    if "\<And>x. x \<in> set xs \<Longrightarrow> maintains (T X) (f x) (\<lambda>_. True)" for xs :: "key list" and f :: "key \<Rightarrow> _"
    using maintains_afind [of xs "T X" f "\<lambda>_. True"] that by simp
  have last: "good_key k \<Longrightarrow> good_key [''canopus'', ''htlc_forwards'', last k]" for k by (auto simp: good_key_def)
  show ?thesis
    unfolding forward_link_for_incoming_def
    by (intro maintains_abind [OF T_lift_store [OF list_ok]] find maintains_if maintains_aret
        maintains_acase_any [OF T_get(1)] last)
      (auto intro!: maintains_aret maintains_afail split: sum.splits StoreError.splits)
qed

lemma T_fail_message: "maintains (T X) (fail_message E k c) (\<lambda>_. True)"
  unfolding fail_message_def by (rule T_lift_node)

lemma T_height: "maintains (T X) (height_or_zero E) (\<lambda>_. True)"
  unfolding height_or_zero_def by (intro maintains_acase_any [OF T_node] maintains_aret) simp

lemma T_peers:
  "maintains (T X) (note_peer_wire_encoding p e) (\<lambda>_. True)"
  "maintains (T X) (note_peer_connection p b) (\<lambda>_. True)"
  "maintains (T X) (note_initial_peer_connections c) (\<lambda>_. True)"
  "maintains (T X) (amodify (\<lambda>w. w\<lparr>w_encodings := (w_encodings w)(p := None)\<rparr>)) (\<lambda>_. True)"
  by (simp_all add: maintains_def note_peer_wire_encoding_def note_peer_connection_def
      note_initial_peer_connections_def)

subsection \<open>Pending states and updates of the peer\<close>

lemma T_repair:
  assumes "(p, d) \<in> X" and "\<And>d'. (p, d') \<in> insert (p, d') X \<Longrightarrow> maintains (T (insert (p, d') X)) (f d') Q"
  shows "maintains (T X) (abind (repair_duplicate_uncommitted_resolutions E p d) f) Q"
proof -
  have "maintains (T X) (f d) Q" using assms by (metis insert_absorb insertI1)
  then show ?thesis
    unfolding repair_duplicate_uncommitted_resolutions_def Let_def using assms(2) known_in_mem [OF assms(1)]
    by (auto simp: abind_assoc intro!: T_save)
qed

lemma pending_vouches:
  "lcss_next (c_crypto E) (manager_of d) = Inr n \<Longrightarrow>
   sign (c_crypto E) (c_node_secret E) (n\<lparr>block_day := day\<rparr>) = Inr s \<Longrightarrow> vouches E d (StateUpdate (state_update s))"
  by (auto simp: vouches_def)

lemma add_vouches:
  "vouches E (d\<lparr>cd_uncommitted := us @ [Local (Add h)]\<rparr>) (UpdateAddHtlc (h\<lparr>htlc_channel_id := c\<rparr>))"
  "vouches E (d\<lparr>cd_uncommitted := us @ [Local (Add h)]\<rparr>) (UpdateAddHtlc h)"
  by (auto simp: vouches_def)

lemma committed_vouches: "vouches E d (StateUpdate (state_update (cd_lcss d)))"
  by (simp add: vouches_def)

lemma T_pending:
  assumes "\<And>u. vouches E d (StateUpdate u) \<Longrightarrow> maintains (T X) (f u) Q"
  shows "maintains (T X) (abind (state_update_for_uncommitted E d) f) Q"
  unfolding state_update_for_uncommitted_def abind_assoc abind_aret
  by (intro maintains_try_state maintains_abind_unit [OF T_day] maintains_try_encode assms) (rule pending_vouches)

lemma T_channel_update: "maintains (T X) (send_channel_update E p) (\<lambda>_. True)"
  unfolding send_channel_update_def now_secs_def peer_wire_encoding_def Let_def
  by (intro T_require maintains_abind_aget maintains_abind_unit [OF T_routing] T_send_with) simp

lemma T_pending_channel_update: "maintains (T X) (send_pending_channel_update E p) (\<lambda>_. True)"
  unfolding send_pending_channel_update_def
  by (intro T_require maintains_if maintains_aret maintains_abind_unit [OF T_channel_update] T_save_only) simp_all

lemma T_send_local:
  assumes "needs_record m \<Longrightarrow> (\<And>d. vouches E (d\<lparr>cd_uncommitted := cd_uncommitted d @ [Local u]\<rparr>) m)"
  shows "maintains (T X) (send_local_update E p i u m) (\<lambda>_. True)"
  unfolding send_local_update_def Let_def
  by (intro T_require maintains_if maintains_aret T_pending T_save maintains_abind_unit [OF T_send] T_send)
    (use assms in auto)

lemma T_send_locals:
  "maintains (T X) (send_local_fulfill E p l x) (\<lambda>_. True)"
  "maintains (T X) (send_local_fail_for_htlc E p i r) (\<lambda>_. True)"
  "maintains (T X) (send_local_fail E p l r) (\<lambda>_. True)"
  "maintains (T X) (send_local_fail_malformed_for_htlc E p i h c) (\<lambda>_. True)"
  unfolding send_local_fulfill_def send_local_fail_for_htlc_def send_local_fail_def
    send_local_fail_malformed_for_htlc_def
  by (intro T_send_local; simp add: vouches_def)+

subsection \<open>Forwarding\<close>

lemma T_resolve_fulfill: "maintains (T X) (resolve_forward_fulfill E a b x) (\<lambda>_. True)"
  unfolding resolve_forward_fulfill_def
  by (intro maintains_abind_unit [OF T_load_link] maintains_case_option maintains_aret
      maintains_abind_unit [OF T_peer] maintains_abind_unit T_send_locals T_lift_node T_delete_link) simp_all

lemma T_resolve_fail:
  assumes "released E X p i"
  shows "maintains (T X) (resolve_forward_fail E (hosted_scid_of E p) i x) (\<lambda>_. True)"
  unfolding resolve_forward_fail_def Let_def
  by (intro maintains_abind_unit [OF T_load_link] maintains_case_option maintains_aret
      maintains_abind_unit [OF T_gave_back [OF assms]] maintains_abind_unit [OF T_peer] maintains_abind_unit T_send_locals T_lift_node T_delete_link) simp_all

lemma T_payment_result: "maintains (T X) (handle_outgoing_payment_result E a b s) (\<lambda>_. True)"
  unfolding handle_outgoing_payment_result_def
  by (intro maintains_abind_unit [OF T_load_link] maintains_case_option maintains_aret
      maintains_abind_unit [OF T_peer])
    (auto split: PaymentStatus.split intro!: maintains_abind_unit T_send_locals T_kept T_delete_link maintains_aret)

lemma T_offer:
  assumes "known_in X (cd_uncommitted d)"
  shows "maintains (T X) (offer_htlc E p d h a b s u) (\<lambda>_. True)"
proof -
  have deliver: "maintains (T Y) (acase (send_message E p m) (\<lambda>r. case r of
      Inr _ \<Rightarrow> aret ()
    | Inl err \<Rightarrow> abind (mark_errored E p d' e) (\<lambda>_. afail err))) (\<lambda>_. True)"
    if "(p, d') \<in> Y" "vouches E d' m" for m d' e Y
    by (rule maintains_acase_any [OF T_send])
      (use that known_in_mem in \<open>auto intro!: maintains_case_sum maintains_aret maintains_abind_unit [OF T_errored(1)] maintains_afail\<close>)
  show ?thesis
    unfolding offer_htlc_def Let_def now_or_epoch_error_def
    by (intro maintains_abind_unit [OF T_save_link] T_save maintains_abind_unit [OF deliver] deliver
        maintains_try_state maintains_try_encode maintains_abind_unit [OF T_day] maintains_abind_alift
        maintains_abind_unit [OF maintains_abind_aget [OF maintains_alift]] pending_vouches)
      (use assms in \<open>auto simp: vouches_def\<close>)
qed

lemma T_htlc_add: "maintains (T X) (channel_handle_htlc_add_with_upstream_expiry E p h k a b s u) (\<lambda>_. True)"
proof -
  have cltv: "maintains (T Y) (case u of None \<Rightarrow> aret False
       | Some upstream \<Rightarrow>
           if source_peer = (None :: PublicKey option) then
             abind (alift (ok_or (checked_add (htlc_cltv_expiry h) (ucast (rp_cltv_expiry_delta routing)))
                      (InvalidMessage ''hosted CLTV expiry overflow'')))
               (\<lambda>needed. aret (upstream < needed))
           else aret False) (\<lambda>_. True)" for source_peer routing Y
    by (intro maintains_case_option maintains_if maintains_aret maintains_abind_alift) simp_all
  show ?thesis
    unfolding channel_handle_htlc_add_with_upstream_expiry_def peer_is_known_disconnected_def Let_def
    by (intro T_require maintains_if maintains_afail maintains_abind_aget T_fail_message maintains_acase_any [OF T_node])
      (auto split: sum.split option.split intro!: T_lift_node maintains_abind_unit [OF T_routing]
        maintains_abind_unit [OF T_peer] maintains_if
        maintains_abind_unit [OF cltv] T_fail_message maintains_try_state T_offer)
qed

lemma T_fail_back: "maintains (T X) (fail_back E p h) (\<lambda>_. True)"
  unfolding fail_back_def by (intro maintains_abind_alift T_send_locals)

lemma T_dispatch_hosted: "maintains (T X) (dispatch_to_hosted E p h x t) (\<lambda>_. True)"
  unfolding dispatch_to_hosted_def channel_handle_htlc_add_def Let_def
  by (intro maintains_if maintains_afail T_require
      maintains_abind_unit [OF T_routing] maintains_abind_unit [OF T_height]
      T_fail_back maintains_acase_any [OF T_htlc_add] maintains_case_sum maintains_aret
      maintains_abind_unit [OF T_fail_back] maintains_abind_unit [OF T_link_for_incoming]
      maintains_case_option T_delete_link) simp_all

lemma T_dispatch_node:
  assumes "(p, d) \<in> X" and "h \<in> set (incoming_htlcs (cd_lcss d))" and "po_amt_to_forward x \<le> htlc_amount_msat h"
  shows "maintains (T X) (dispatch_to_node E p h x) (\<lambda>_. True)"
  unfolding dispatch_to_node_def Let_def
  by (intro maintains_abind_unit [OF T_save_link] maintains_abind_unit [OF T_height]
      maintains_abind_unit [OF T_paid [OF assms(1)]] maintains_acase_any [OF T_node] maintains_case_sum maintains_aret
      maintains_abind_unit [OF T_fail_back] T_delete_link) (use assms in \<open>auto simp: covered_def\<close>)

lemma T_dispatch_incoming:
  assumes "(p, d) \<in> X" and "h \<in> set (incoming_htlcs (cd_lcss d))"
  shows "maintains (T X) (dispatch_committed_incoming_htlc E p d h) (\<lambda>_. True)"
  unfolding dispatch_committed_incoming_htlc_def Let_def
  by (auto intro!: T_fail_back maintains_afail T_send_locals T_dispatch_hosted T_dispatch_node [OF assms]
      maintains_abind_unit [OF T_peer] split: sum.split sphinx_fault.split option.split)

lemma T_effects:
  assumes "(p, d) \<in> X" and "(p, c) \<in> X" and "committed_next E p d c"
  shows "maintains (T X) (dispatch_committed_effects E p d c (cd_uncommitted d)) (\<lambda>_. True)"
proof -
  have "released E X p i" if "u \<in> set (cd_uncommitted d)" "fails_htlc i u" for u i
    using assms that unfolding released_def by blast
  then show ?thesis
    unfolding dispatch_committed_effects_def
    by (intro maintains_abind_unit maintains_aforeach maintains_if maintains_aret T_dispatch_incoming [OF assms(2)])
      (auto split: UncommittedUpdate.split PendingUpdate.split intro!: T_resolve_fail maintains_aret
        simp: fails_htlc_def)
qed

lemma T_settlement: "maintains (T X) (hosted_settlement_is_safe E p h) (\<lambda>_. True)"
  unfolding hosted_settlement_is_safe_def
  by (intro maintains_abind_unit [OF T_load_link] maintains_case_option maintains_aret maintains_if
      maintains_abind_unit [OF T_peer] T_require maintains_abind_unit [OF T_routing] maintains_abind_alift
      maintains_abind_unit [OF T_lift_node]) simp_all

lemma T_recover_outgoing:
  assumes "(p, d) \<in> X"
  shows "maintains (T X) (recover_outgoing_htlcs E p d) (\<lambda>_. True)"
proof -
  have "maintains (T X) (recover_outgoing_loop E p d hashes hs) (\<lambda>_. True)" for hashes hs
    by (induction hs arbitrary: hashes)
      (auto intro!: maintains_if maintains_abind_unit [OF T_settlement] maintains_aret
        maintains_abind_unit [OF T_errored(1) [OF known_in_mem [OF assms]]] maintains_abind_unit [OF T_lift_node]
        maintains_case_option maintains_abind_unit [OF T_resolve_fulfill])
  then show ?thesis
    unfolding recover_outgoing_htlcs_def
    by (intro maintains_abind_unit [where m = "recover_outgoing_loop _ _ _ _ _"] maintains_case_option
        maintains_aret maintains_if T_send) simp_all
qed

lemma T_recover_incoming:
  assumes "(p, d) \<in> X" and "h \<in> set (incoming_htlcs (cd_lcss d))"
  shows "maintains (T X) (recover_incoming_htlc E p d h) (\<lambda>_. True)"
  unfolding recover_incoming_htlc_def
  by (intro maintains_if maintains_aret maintains_abind_unit [OF T_link_for_incoming]
      maintains_case_option T_dispatch_incoming [OF assms] maintains_abind_unit [OF T_peer]
      maintains_abind_unit [OF T_lift_node])
    (auto split: PaymentStatus.split intro!: T_payment_result maintains_aret T_dispatch_incoming [OF assms])

lemma T_recover: "maintains (T X) (recover_channel_htlcs E p q) (\<lambda>_. True)"
  unfolding recover_channel_htlcs_def
  by (rule T_load) (auto intro!: maintains_aret maintains_if maintains_abind_unit [OF maintains_aforeach]
      T_recover_incoming [OF insertI1] T_recover_outgoing)

lemma T_recover_all: "maintains (T X) (recover_committed_htlcs E) (\<lambda>_. True)"
  unfolding recover_committed_htlcs_def
  by (intro maintains_abind_unit [OF T_list_channels] maintains_aforeach T_log T_recover)

text \<open>A channel is marked with an error that refuses fulfilments, then the forward is failed.\<close>

lemma T_give_up:
  assumes "(p, d) \<in> X" and "e = HOSTED_DELIVERY_FAILED_ERROR \<or> e = HOSTED_HTLC_EXPIRED_ERROR"
  shows "maintains (T X) (abind (mark_errored E p d e) (\<lambda>_.
    abind (resolve_forward_fail E (hosted_scid_of E p) i x) (\<lambda>_. aret y))) (\<lambda>_. True)"
  unfolding mark_errored_def
  by (intro T_save maintains_abind_unit [OF T_resolve_fail] maintains_aret)
    (use assms known_in_mem [OF assms(1)] in \<open>auto simp: released_def refuses_fulfill_def\<close>)

lemma T_enforce_channel: "maintains (T X) (enforce_channel E now ch p) (\<lambda>_. True)"
proof -
  have offer: "maintains (T Y) (enforce_pending_offer E p d now u) (\<lambda>_. True)" if "(p, d) \<in> Y" for Y d u
    unfolding enforce_pending_offer_def
    by (auto split: UncommittedUpdate.split PendingUpdate.split
        intro!: maintains_aret maintains_abind_unit [OF T_load_link] maintains_case_option maintains_if T_give_up that)
  have find: "maintains (T Y) (afind us (enforce_pending_offer E p d now)) (\<lambda>_. True)" if "(p, d) \<in> Y" for Y d us
    using maintains_afind [of us "T Y" "enforce_pending_offer E p d now" "\<lambda>_. True"] offer [OF that] by simp
  have height: "maintains (T Y) (case ch of Some x \<Rightarrow> aret x
      | None \<Rightarrow> lift_node (node_get_block_height (c_node E))) (\<lambda>_. True)" for Y ch
    by (intro maintains_case_option T_lift_node maintains_aret) simp
  have expiry: "maintains (T Y) (enforce_expiry_loop E p d ch hs) (\<lambda>_. True)" if "(p, d) \<in> Y" for Y d ch hs
    by (induction hs arbitrary: ch)
      (auto intro!: maintains_abind_unit [OF T_load_link] maintains_case_option maintains_if
        maintains_abind_unit [OF height] T_give_up [OF that] maintains_aret)
  show ?thesis
    unfolding enforce_channel_def
    by (rule T_load) (auto intro!: maintains_case_option maintains_aret maintains_if maintains_abind_unit [OF find] expiry)
qed

lemma T_enforce: "maintains (T X) (enforce_forward_deadlines E) (\<lambda>_. True)"
proof -
  have "maintains (T Y) (enforce_channels E now ch ps) (\<lambda>_. True)" for Y now ch ps
    by (induction ps arbitrary: ch) (auto intro!: maintains_aret maintains_abind_unit [OF T_enforce_channel])
  then show ?thesis
    unfolding enforce_forward_deadlines_def enforce_forward_deadlines_at_def now_or_epoch_error_def
    by (intro maintains_abind_unit [OF maintains_abind_aget [OF maintains_alift]]
        maintains_abind_unit [OF T_list_channels]) simp_all
qed

lemma T_direct_payment: "maintains (T X) (send_direct_payment E p a h c s) (\<lambda>_. True)"
proof -
  have key: "maintains (T Y) (\<lambda>w. case c_session_key E (w_node w) of (k, nd) \<Rightarrow> (Inr k, w\<lparr>w_node := nd\<rparr>)) (\<lambda>_. True)" for Y
    by (auto simp: maintains_def split: prod.split)
  show ?thesis
    unfolding send_direct_payment_def Let_def
    by (intro T_require maintains_if maintains_afail maintains_try_state maintains_abind_unit [OF key]
        maintains_abind_alift maintains_aret T_pending T_save maintains_abind_unit [OF T_send])
      (blast intro: add_vouches(2) | simp)+
qed

subsection \<open>Messages and commands\<close>

lemma T_secret:
  "maintains (T X) (consume_secret E x) (\<lambda>_. True)" "maintains (T X) (add_secret E y c i) (\<lambda>_. True)"
  "maintains (T X) (remove_secret E y) (\<lambda>_. True)"
proof -
  have upd: "maintains (T X) (lift_store (update_json (c_store E) (c_secret E) (secret_key E b) s g)) (\<lambda>_. True)" for b s g
    by (intro T_lift_store update_json_ok) (auto intro: entry_ok_secret [of _ s])
  show "maintains (T X) (consume_secret E x) (\<lambda>_. True)"
    unfolding consume_secret_def Let_def
    by (intro maintains_if maintains_aret maintains_acase_any [OF T_get(1)])
      (auto split: sum.split StoreError.split intro!: maintains_if maintains_aret maintains_afail
        maintains_abind_unit [OF T_effective_policy] maintains_abind_unit [OF upd] maintains_abind_unit [OF T_delete])
  show "maintains (T X) (add_secret E y c i) (\<lambda>_. True)"
    unfolding add_secret_def
    by (intro maintains_abind_alift maintains_acase_any T_store create_json_ok)
      (auto split: sum.split StoreError.split intro!: maintains_aret maintains_afail intro: entry_ok_secret [rotated])
  show "maintains (T X) (remove_secret E y) (\<lambda>_. True)"
    unfolding remove_secret_def by (intro maintains_abind_alift T_delete) simp
qed

lemma T_policy_for_invoke: "maintains (T X) (policy_for_invoke E x) (\<lambda>_. True)"
  unfolding policy_for_invoke_def
  by (intro maintains_if maintains_aret T_secret maintains_abind_unit [OF T_secret(1)] maintains_case_option
      maintains_abind_unit [OF T_effective_policy]) simp_all

lemma T_new_channel: "maintains (T X) (handle_new_channel_invoke E p m) (\<lambda>_. True)"
  unfolding handle_new_channel_invoke_def
  by (intro maintains_abind_unit [OF T_policy_for_invoke] maintains_case_option maintains_aret T_save
      T_send_known [OF insertI1])
    (simp_all add: vouches_def new_channel_data_def)

lemma replay_vouches: "Local u \<in> set (cd_uncommitted d) \<Longrightarrow> vouches E d (replay_message E p u)"
  by (cases u) (auto simp: vouches_def replay_message_def)

lemma T_reconnect_active:
  assumes "(p, d) \<in> X"
  shows "maintains (T X) (handle_reconnect_active E p d) (\<lambda>_. True)"
proof -
  have replay: "maintains (T Y) (aforeach (cd_uncommitted e) (\<lambda>u. case u of
         Local update \<Rightarrow> send_message E p (replay_message E p update) | Remote _ \<Rightarrow> aret ())) (\<lambda>_. True)"
    if "(p, e) \<in> Y" for e Y
    by (intro maintains_aforeach)
      (auto split: UncommittedUpdate.split intro!: maintains_aret T_send_known [OF that] replay_vouches)
  have state: "vouches E e (LastCrossSignedState (cd_lcss e))" for e by (simp add: vouches_def)
  show ?thesis
    unfolding handle_reconnect_active_def
    by (intro T_repair [OF assms] maintains_abind_unit [OF T_send_known [OF insertI1 state]]
        maintains_abind_unit [OF replay] maintains_abind_unit [OF maintains_if] T_pending T_send_known [OF insertI1]
        maintains_abind_unit [OF T_pending_channel_update] T_log T_recover maintains_aret) simp_all
qed

lemma T_reconnect_errored:
  assumes "(p, d) \<in> X"
  shows "maintains (T X) (handle_reconnect_errored E p d) (\<lambda>_. True)"
proof -
  have error: "maintains (T X) (case cd_local_errors d of [] \<Rightarrow> aret ()
       | err_msg # _ \<Rightarrow> send_message E p (error_message E p err_msg)) (\<lambda>_. True)"
    by (auto split: list.split intro!: maintains_aret T_send_error)
  show ?thesis
    unfolding handle_reconnect_errored_def
    by (intro maintains_abind_unit [OF T_send_known [OF assms]] maintains_abind_unit [OF error]
        maintains_case_option maintains_aret T_send_known [OF assms])
      (simp_all add: vouches_def)
qed

lemma T_invoke: "maintains (T X) (handle_invoke E p m) (\<lambda>_. True)"
  unfolding handle_invoke_def
  by (intro maintains_if maintains_abind_unit [OF T_send_error] maintains_afail T_load)
    (auto split: Status.split intro!: T_new_channel T_reconnect_active T_reconnect_errored)

lemma signed_vouches: "cd_lcss d = s \<Longrightarrow> vouches E d (StateUpdate (state_update s))"
  by (simp add: vouches_def)

lemma T_state_update: "maintains (T X) (handle_state_update E p m) (\<lambda>_. True)"
proof -
  have first: "maintains (T Y) (handle_opening_state_update E p d m) (\<lambda>_. True)" if "(p, d) \<in> Y" for d Y
    unfolding handle_opening_state_update_def Let_def
    by (intro maintains_abind_unit [OF T_day] maintains_if maintains_aret maintains_try_encode T_save
        maintains_abind_unit [OF T_ledger] maintains_abind_unit [OF T_send_known [OF insertI1]] signed_vouches
        T_channel_update) (use known_in_mem [OF that] in simp_all)
  have override: "maintains (T Y) (handle_override_acceptance E p d m) (\<lambda>_. True)" for d Y
    unfolding handle_override_acceptance_def Let_def
    by (intro maintains_abind_alift maintains_abind_unit [OF T_day] maintains_if maintains_aret maintains_try_encode
        T_save maintains_abind_unit [OF T_ledger] maintains_abind_unit [OF T_send_known [OF insertI1]] signed_vouches
        T_channel_update T_pending_channel_update) simp_all
  have active: "maintains (T Y) (handle_active_state_update E p d m) (\<lambda>_. True)" if "(p, d) \<in> Y" for d Y
    unfolding handle_active_state_update_def Let_def
    by (intro T_repair [OF that] maintains_if maintains_aret maintains_abind_unit [OF T_day] maintains_try_state
        maintains_try_encode T_save maintains_abind_unit [OF T_committed_events]
        maintains_abind_unit [OF T_send_known [OF insertI1]] signed_vouches T_effects)
      (auto simp: committed_next_def)
  show ?thesis
    unfolding handle_state_update_def
    by (rule T_require) (auto split: Status.split intro!: first override active maintains_aret)
qed

lemma T_fulfill: "maintains (T X) (handle_update_fulfill E p m) (\<lambda>_. True)"
  unfolding handle_update_fulfill_def Let_def
  by (intro T_require maintains_if maintains_aret maintains_case_option maintains_abind_unit [OF T_settlement]
      maintains_abind_unit [OF T_errored(1)] T_send_error T_keep_and_save T_resolve_fulfill)
    (auto simp: push_remote_def)

lemma T_updates:
  "maintains (T X) (handle_update_add E p h) (\<lambda>_. True)"
  "maintains (T X) (handle_update_fail_malformed E p mm) (\<lambda>_. True)"
  "maintains (T X) (handle_update_fail E p ml) (\<lambda>_. True)"
  "maintains (T X) (handle_error E p me) (\<lambda>_. True)"
  unfolding handle_update_add_def handle_update_fail_malformed_def handle_update_fail_def handle_error_def
    push_remote_def Let_def
  by (intro T_require maintains_if maintains_aret maintains_abind_alift maintains_try_state
      maintains_abind_unit [OF T_errored(1)] T_send_error T_save_only T_errored T_send_free; simp)+

lemma T_preimages:
  "maintains (T X) (handle_query_preimages E p q) (\<lambda>_. True)"
  "maintains (T X) (handle_reply_preimages E p r) (\<lambda>_. True)"
  unfolding handle_query_preimages_def handle_reply_preimages_def
  by (intro maintains_abind_unit maintains_acollect T_lift_node T_kept maintains_if T_send_free
      maintains_aret maintains_aforeach; simp)+

lemma T_resize: "maintains (T X) (handle_resize_channel E p m) (\<lambda>_. True)"
  unfolding handle_resize_channel_def apply_resize_def Let_def
  by (intro T_require maintains_if maintains_aret maintains_case_option maintains_abind_alift
      maintains_abind_unit [OF T_routing] maintains_try_encode T_save maintains_abind_unit [OF T_ledger]
      maintains_abind_unit [OF T_send_known [OF insertI1]] signed_vouches T_log T_pending_channel_update)
    (simp_all add: dec_nat_no_sep(2))

lemma T_lcss: "maintains (T X) (handle_lcss E p m) (\<lambda>_. True)"
proof -
  have state: "cd_lcss d = s \<Longrightarrow> vouches E d (LastCrossSignedState s)" for d s by (simp add: vouches_def)
  show ?thesis
    unfolding handle_lcss_def reconcile_lcss_def Let_def
    by (intro T_require maintains_if maintains_abind_unit [OF T_errored(1)] maintains_abind_unit [OF T_send_error]
        maintains_afail T_save T_send_known [OF insertI1] state) simp_all
qed

lemma T_branding: "maintains (T X) (handle_ask_branding E p m) (\<lambda>_. True)"
  unfolding handle_ask_branding_def
  by (intro maintains_case_option maintains_aret maintains_abind_alift T_send_free) simp_all

lemma override_vouches: "cd_proposed_override d = Some s \<Longrightarrow> vouches E d (StateOverride (state_override s))"
  by (simp add: vouches_def)

lemma default_error_uncommitted [simp]: "cd_uncommitted (with_default_error e d) = cd_uncommitted d"
  by (simp add: with_default_error_def)

lemma T_propose: "maintains (T X) (propose_override E p b) (\<lambda>_. True)"
  unfolding propose_override_def Let_def
  by (intro T_require maintains_if maintains_afail maintains_abind_alift maintains_abind_unit [OF T_day]
      maintains_try_encode T_save maintains_abind_unit [OF T_send_error] T_send_known [OF insertI1] override_vouches)
    simp_all

lemma T_set_channel: "maintains (T X) (set_channel E p q f) (\<lambda>_. True)"
proof -
  have reload: "maintains (T Y) (abind (require_channel E p) (\<lambda>reloaded.
      abind (channel_parameters_for_data E reloaded) (\<lambda>cp. aret (cp, True)))) (\<lambda>_. True)" for Y
    by (intro T_require maintains_abind_unit [OF T_parameters] maintains_aret) simp
  have override: "maintains (T Y) (set_channel_override E p q d n r) (\<lambda>_. True)"
    if "known_in Y (cd_uncommitted n)" for d n r Y
    unfolding set_channel_override_def Let_def
    by (intro maintains_abind_unit [OF maintains_if] maintains_alift maintains_aret maintains_if maintains_afail
        maintains_abind_alift maintains_abind_unit [OF T_day] maintains_try_encode T_save
        maintains_abind_unit [OF T_log [OF T_send_error]] maintains_abind_unit [OF T_log [OF T_send_known [OF insertI1]]]
        override_vouches reload) (simp_all add: that)
  show ?thesis
    unfolding set_channel_def Let_def
    by (intro T_require maintains_if maintains_afail maintains_abind_unit [OF T_parameters] maintains_aret
        maintains_abind_unit [OF T_routing] override T_save
        maintains_abind_unit [OF T_log [OF T_pending_channel_update]] maintains_abind_unit [OF T_parameters]) simp_all
qed

lemma T_accept_resize: "maintains (T X) (accept_resize E p x) (\<lambda>_. True)"
  unfolding accept_resize_def cas_json_def
  by (intro T_lift_store cas_attempts_ok)
    (auto dest!: entry_ok_channelD elim!: entry_ok_channel [rotated])

lemma T_remove: "maintains (T X) (remove_channel E p f) (\<lambda>_. True)"
  unfolding remove_channel_def
  by (intro T_require maintains_try_state maintains_if maintains_afail
      maintains_abind [OF T_lift_store [OF list_ok]] maintains_abind_unit [OF maintains_aforeach]
      maintains_abind_unit [OF T_delete] T_delete T_peers) simp_all

lemma T_connect:
  "maintains (T X) (plugin_handle_connect E p) (\<lambda>_. True)" "maintains (T X) (plugin_handle_disconnect p) (\<lambda>_. True)"
proof -
  show "maintains (T X) (plugin_handle_connect E p) (\<lambda>_. True)"
    unfolding plugin_handle_connect_def handle_connect_def
    by (intro maintains_abind_unit [OF T_peers(2)] T_load)
      (auto intro!: maintains_aret maintains_abind_unit [OF T_pending_channel_update] T_recover)
  show "maintains (T X) (plugin_handle_disconnect p) (\<lambda>_. True)"
    unfolding plugin_handle_disconnect_def handle_disconnect_def
    by (intro maintains_abind_unit [OF T_peers(2)] T_peers)
qed

lemma T_policy: "maintains (T X) (handle_policy E q) (\<lambda>_. True)"
proof -
  have upd: "maintains (T X) (lift_store (update_json (c_store E) (c_policy E) policy_key x g)) (\<lambda>_. True)" for x g
    by (intro T_lift_store update_json_ok) (auto intro: entry_ok_policy [of _ x])
  have "maintains (T X) (set_policy E x) (\<lambda>_. True)" for x
    unfolding set_policy_def
    by (intro maintains_acase_any T_store create_json_ok)
      (auto split: sum.split StoreError.split prod.split intro!: maintains_aret maintains_afail
        maintains_abind_unit [OF T_get(2)] upd intro: entry_ok_policy [rotated])
  then show ?thesis
    unfolding handle_policy_def
    by (intro maintains_abind_unit [OF maintains_amap_err [OF T_effective_policy]] maintains_abind_alift
        maintains_abind_unit [OF maintains_if] maintains_amap_err maintains_aret) simp_all
qed

text \<open>Every entry point keeps the order.\<close>

lemma T_dispatch: "maintains (T X) (dispatch_message E p m) (\<lambda>_. True)"
  by (cases m)
    (auto intro!: T_invoke T_lcss T_state_update T_fulfill T_updates T_resize T_preimages T_branding maintains_aret)

lemma T_custommsg: "maintains (T X) (handle_custommsg E p bs) (\<lambda>_. True)"
  unfolding handle_custommsg_def
  by (auto split: sum.split intro!: maintains_aret maintains_abind_unit [OF T_peers(1)] T_log T_dispatch)

lemma run_entry_backed:
  assumes "T X w"
  shows "T X (run_entry E e w)"
  using assms
  by (cases e) (auto intro!: maintains_snd T_custommsg T_connect T_payment_result T_htlc_add T_recover_all T_enforce T_peers
      T_direct_payment T_policy T_set_channel T_propose T_remove T_accept_resize T_secret)

end

end
