(* ===== verification/Service.thy ===== *)
theory Service
  imports Commands Contract Ordering
begin

text \<open>
  Requests keep what the controller keeps. The locale \<open>request_inv\<close> is an invariant of the world that
  the entry points of the controller keep, that does not look at the outside node, and of the store
  only at properties of its entries. An unlocked plugin that serves a request of lightningd, whatever
  its JSON holds, then keeps it too, and so do the spawned tasks and the rounds of a waiting hook. The
  invariants of \<open>host_rules\<close> and the order of \<open>durable_host\<close> are such invariants.
\<close>

section \<open>What a request may bring\<close>

text \<open>The entry point of the controller that a request with such arguments calls.\<close>

definition request_entry :: "('st, 'v, 'nd, 'm) plugin_env \<Rightarrow> rpc_method \<Rightarrow> Value \<Rightarrow> entry option" where
  "request_entry P m v =
     (case m of
        CAddSecret \<Rightarrow>
          (case (str_arg v 0 ''secret'', u64_arg v 1 ''capacity_msat'', u64_arg v 2 ''initial_balance_msat'') of
             (Inr s, Inr capacity, Inr initial) \<Rightarrow> Some (AddSecretCommand s capacity initial)
           | _ \<Rightarrow> None)
      | CPolicy \<Rightarrow> Some (PolicyCommand (policy_params v))
      | Custommsg \<Rightarrow> map_option (\<lambda>(peer, bytes). CustomMsg peer bytes) (custommsg_of P v)
      | _ \<Rightarrow> None)"

text \<open>The entry points that keep every invariant of \<open>host_rules\<close> whatever their arguments are.\<close>

fun free_entry :: "entry \<Rightarrow> bool" where
  "free_entry (CustomMsg _ _) = False"
| "free_entry (PolicyCommand _) = False"
| "free_entry (AddSecretCommand _ _ _) = False"
| "free_entry _ = True"

lemma maintains_recover:
  assumes "maintains I m (\<lambda>_. True)" and "\<And>e. maintains I (h e) (\<lambda>_. True)"
  shows "maintains I (recover m h) (\<lambda>_. True)"
  unfolding recover_def
  by (intro maintains_acase_any [OF assms(1)] maintains_case_sum maintains_aret maintains_if maintains_afail assms(2))
    simp

lemma maintains_answered: "maintains I m Q \<Longrightarrow> maintains I (answered m) (\<lambda>_. True)"
  unfolding answered_def by (rule maintains_abind [where P = Q]) (simp_all add: maintains_aret)

lemma maintains_acknowledged: "maintains I m Q \<Longrightarrow> maintains I (acknowledged m) (\<lambda>_. True)"
  unfolding acknowledged_def by (rule maintains_abind [where P = Q]) (simp_all add: maintains_aret)

section \<open>Invariants of requests\<close>

locale request_inv = host_env E view
  for E :: "('st, 'v, 'nd) controller" and view :: "'st \<Rightarrow> key \<Rightarrow> (u64 \<times> 'v) option" +
  fixes I :: "('st, 'nd) world \<Rightarrow> bool"
  assumes node_kept: "I w \<Longrightarrow> I (w\<lparr>w_node := nd\<rparr>)"
    and store_kept: "I w \<Longrightarrow> (\<And>K. store_ok E view K (w_store w) \<Longrightarrow> store_ok E view K st) \<Longrightarrow> I (w\<lparr>w_store := st\<rparr>)"
    and entry_kept: "free_entry e \<Longrightarrow> I w \<Longrightarrow> I (run_entry E e w)"
begin

lemma on_node_ok: "maintains I (on_node m) (\<lambda>_. True)"
  by (auto simp: maintains_def on_node_def azoom_def node_kept split: prod.splits)

lemma on_store_ok:
  assumes "\<And>K. maintains (store_ok E view K) m (\<lambda>_. True)"
  shows "maintains I (on_store m) (\<lambda>_. True)" and "maintains I (lift_store m) (\<lambda>_. True)"
proof -
  show "maintains I (on_store m) (\<lambda>_. True)"
  proof (rule maintainsI)
    fix w r w' assume w: "I w" and run: "on_store m w = (r, w')"
    have "store_ok E view K (w_store w')" if "store_ok E view K (w_store w)" for K
      using assms [of K] that run by (auto simp: maintains_def on_store_def azoom_def split: prod.splits)
    moreover have "w' = w\<lparr>w_store := w_store w'\<rparr>"
      using run by (auto simp: on_store_def azoom_def split: prod.splits)
    ultimately show "I w' \<and> (\<forall>a. r = Inr a \<longrightarrow> True)" using store_kept [OF w, of "w_store w'"] by simp
  qed
  then show "maintains I (lift_store m) (\<lambda>_. True)"
    unfolding lift_store_def by (rule maintains_amap_err)
qed

lemma entry_maintains: "(\<And>w. run_entry E e w = snd (m w)) \<Longrightarrow> free_entry e \<Longrightarrow> maintains I m (\<lambda>_. True)"
  using entry_kept [of e] by (auto simp: maintains_def)

lemma entries_ok:
  "maintains I (plugin_handle_connect E p) (\<lambda>_. True)" "maintains I (plugin_handle_disconnect p) (\<lambda>_. True)"
  "maintains I (handle_outgoing_payment_result E a b s) (\<lambda>_. True)"
  "maintains I (channel_handle_htlc_add_with_upstream_expiry E p h k a b x (Some n)) (\<lambda>_. True)"
  "maintains I (recover_committed_htlcs E) (\<lambda>_. True)" "maintains I (enforce_forward_deadlines E) (\<lambda>_. True)"
  "maintains I (note_initial_peer_connections c) (\<lambda>_. True)"
  "maintains I (send_direct_payment E p a y n x) (\<lambda>_. True)"
  "maintains I (set_channel E p q f) (\<lambda>_. True)" "maintains I (propose_override E p z) (\<lambda>_. True)"
  "maintains I (remove_channel E p f) (\<lambda>_. True)" "maintains I (remove_secret E t) (\<lambda>_. True)"
  by (rule entry_maintains [OF run_entry.simps(2)] entry_maintains [OF run_entry.simps(3)] entry_maintains [OF run_entry.simps(4)]
      entry_maintains [OF run_entry.simps(5)] entry_maintains [OF run_entry.simps(6)] entry_maintains [OF run_entry.simps(7)]
      entry_maintains [OF run_entry.simps(8)] entry_maintains [OF run_entry.simps(9)] entry_maintains [OF run_entry.simps(11)]
      entry_maintains [OF run_entry.simps(12)] entry_maintains [OF run_entry.simps(13)] entry_maintains [OF run_entry.simps(16)],
      simp)+

lemma load_ok: "maintains I (load_channel E p) (\<lambda>_. True)"
  unfolding load_channel_def
  by (rule maintains_acase_any [OF on_store_ok(1) [OF get_json_any]])
    (auto intro!: maintains_aret maintains_afail split: sum.splits StoreError.splits)

lemma policy_kept: "maintains I (effective_policy E) (\<lambda>_. True)"
  unfolding effective_policy_def
  by (rule maintains_acase_any [OF on_store_ok(1) [OF get_json_any]])
    (auto intro!: maintains_aret maintains_afail split: sum.splits StoreError.splits)

lemma list_ok_any: "good_key k \<Longrightarrow> maintains (store_ok E view K) (store_list (c_store E) k) (\<lambda>_. True)"
  by (rule maintains_weaken [OF list_ok]) simp_all

lemma list_channels_ok: "maintains I (list_channels E) (\<lambda>_. True)"
  unfolding list_channels_def
  by (rule maintains_abind_unit [OF on_store_ok(2) [OF list_ok_any]]) (auto intro!: maintains_aret)

lemma known_preimage_ok: "maintains I (known_preimage E h) (\<lambda>_. True)"
  unfolding known_preimage_def
  by (intro maintains_acase_any on_node_ok) (auto intro!: maintains_aret split: sum.split option.split)

lemma poll_ok: "maintains I (poll P E h) (\<lambda>_. True)"
proof (cases h)
  case (AwaitResolution key)
  then show ?thesis by (auto simp: maintains_def node_kept split: prod.split option.split)
qed (auto intro!: maintains_aret maintains_if maintains_abind_unit known_preimage_ok split: option.split)

lemma offer_accepted_ok: "maintains I (offer_accepted E p a) (\<lambda>_. True)"
  unfolding offer_accepted_def
  by (intro maintains_abind_unit maintains_amap_err entries_ok maintains_aret) simp

lemma hook_htlc_accepted_ok:
  assumes "pl_runtime S = Unlocked E"
  shows "maintains I (hook_htlc_accepted S v) (\<lambda>_. True)"
  unfolding hook_htlc_accepted_def
  by (auto simp: assms plugin_controller_def
      intro!: maintains_abind_alift maintains_case_option maintains_aret maintains_abind_unit maintains_recover
        maintains_amap_err list_channels_ok offer_accepted_ok)

lemma invoice_target_ok: "maintains I (hosted_invoice_target E i) (\<lambda>_. True)"
proof -
  have "maintains I (hint_target E r) (\<lambda>_. True)" for r
    unfolding hint_target_def
    by (auto intro!: maintains_aret maintains_case_option maintains_if maintains_abind_unit list_channels_ok
        split: list.split)
  then show ?thesis
    unfolding hosted_invoice_target_def
    using maintains_afind [where Q = "\<lambda>_. True" and I = I] by fastforce
qed

lemma pay_hosted_ok: "maintains I (pay_hosted P E i a p) (\<lambda>_. True)"
  unfolding pay_hosted_def Let_def
  by (intro maintains_abind_alift maintains_abind_unit [OF known_preimage_ok] maintains_case_option maintains_aret
      maintains_abind_unit maintains_acase_any on_node_ok maintains_amap_err entries_ok policy_kept)
    (auto intro!: maintains_aret split: sum.split)

lemma hook_rpc_command_ok:
  assumes "pl_runtime S = Unlocked E"
  shows "maintains I (hook_rpc_command P S v) (\<lambda>_. True)"
  unfolding hook_rpc_command_def Let_def
  by (auto simp: assms plugin_controller_def
      intro!: maintains_abind_alift maintains_if maintains_case_option maintains_aret maintains_abind_unit
        maintains_recover maintains_amap_err invoice_target_ok pay_hosted_ok)

lemma get_status_ok: "maintains I (get_status E p) (\<lambda>_. True)"
  unfolding get_status_def by (intro maintains_abind_unit load_ok maintains_aret) simp_all

lemma list_events_ok: "maintains I (on_store (list_events (ledger_of E) p)) (\<lambda>_. True)"
proof -
  have event: "maintains (store_ok E view K) (acase (get_json (c_store E) (c_event E) child) (\<lambda>r. case r of
      Inl _ \<Rightarrow> aret None
    | Inr (event, _) \<Rightarrow> (case p of Some pk \<Rightarrow> aret (if le_peer_pubkey event \<noteq> pk then None else Some event)
        | None \<Rightarrow> aret (Some event)))) (\<lambda>_. True)" if "good_key child" for child K
    by (intro maintains_acase_any get_json_any that)
      (auto intro!: maintains_aret split: sum.split option.split)
  show ?thesis
    unfolding list_events_def ledger_of_sel
    by (rule on_store_ok, rule maintains_abind [OF list_ok])
      (auto intro!: maintains_abind_unit maintains_acollect maintains_aret event simp: good_key_def)
qed

text \<open>One round of the deletion, given that the rest of it keeps the store.\<close>

lemma delete_subtree_loop_ok:
  assumes "delete_subtree_loop S pending n st = Some y"
  shows "S = c_store E \<and> store_ok E view K st \<and> (\<forall>(k, _) \<in> set pending. good_key k) \<longrightarrow>
    store_ok E view K (snd y)"
proof (rule delete_subtree_loop.raw_induct [OF _ assms], goal_cases)
  case (1 loop S pending n st y)
  note IH = 1(1) and body = 1(2)
  show ?case
  proof (intro impI, elim conjE)
    assume S: "S = c_store E" and st: "store_ok E view K st" and keys: "\<forall>(k, _) \<in> set pending. good_key k"
    show "store_ok E view K (snd y)"
    proof (cases pending)
      case Nil
      then show ?thesis using body st by auto
    next
      case (Cons kv rest)
      obtain k visited where kv: "kv = (k, visited)" by fastforce
      have k: "good_key k" "\<forall>(k, _) \<in> set rest. good_key k" using keys Cons kv by auto
      show ?thesis
      proof (cases visited)
        case True
        obtain x st1 where ex: "store_exists (c_store E) k st = (x, st1)" by fastforce
        have st1: "store_ok E view K st1"
          using maintainsD [OF exists_ok [OF k(1)] st ex] by blast
        obtain z st2 where del: "store_delete (c_store E) k st1 = (z, st2)" by fastforce
        have "store_ok E view K st2" using maintainsD [OF delete_ok [OF k(1)] st1 del] by blast
        then show ?thesis
          using IH [of "c_store E" rest] body st1 k(2) unfolding S
          by (auto simp: Cons kv True ex del split: sum.splits if_splits StoreError.splits)
      next
        case False
        obtain x st1 where ls: "store_list (c_store E) k st = (x, st1)" by fastforce
        have "store_ok E view K st1 \<and> (\<forall>ks. x = Inr ks \<longrightarrow> (\<forall>k \<in> set ks. good_key k))"
          using maintainsD [OF list_ok [OF k(1)] st ls] by blast
        then show ?thesis
          using IH [of "c_store E" "rev (map (\<lambda>child. (child, False)) (projr x)) @ (k, True) # rest" n st1 y] body k unfolding S
          by (cases x) (auto simp: Cons kv False ls)
      qed
    qed
  qed
qed

lemma cmd_uninstall_ok:
  assumes "pl_runtime S = Unlocked E" and "cmd_uninstall S w = Some (r, w')" and "I w"
  shows "I w'"
proof -
  obtain x st1 where ls: "store_list (c_store E) [''canopus'', ''channels''] (w_store w) = (x, st1)" by fastforce
  have st1: "store_ok E view K st1" if "store_ok E view K (w_store w)" for K
    using maintainsD [OF list_ok [OF good_keys(5)] that ls] by blast
  have root: "good_key [''canopus'']" by (simp add: good_key_def)
  have "w' = w\<lparr>w_store := w_store w'\<rparr> \<and> (\<forall>K. store_ok E view K (w_store w) \<longrightarrow> store_ok E view K (w_store w'))"
    using assms(2) st1 delete_subtree_loop_ok [of "c_store E" "[([''canopus''], False)]" 0 st1] root
    by (auto simp: cmd_uninstall_def plugin_controller_def assms(1) uninstall_store_def ls delete_subtree_def
        split: sum.splits if_splits)
  then show ?thesis using store_kept [OF assms(3)] by metis
qed

section \<open>Serving\<close>

lemma notifications_ok:
  assumes "pl_runtime S = Unlocked E"
  shows "maintains I (on_connect P S v) (\<lambda>_. True)" "maintains I (on_disconnect P S v) (\<lambda>_. True)"
    "maintains I (on_sendpay_success P S v) (\<lambda>_. True)" "maintains I (on_sendpay_failure P S v) (\<lambda>_. True)"
  unfolding on_connect_def on_disconnect_def on_sendpay_success_def on_sendpay_failure_def Let_def
  by (auto simp: assms plugin_controller_def
      intro!: maintains_case_option maintains_case_prod maintains_aret maintains_if maintains_abind_alift
        maintains_amap_err entries_ok)

lemma queries_ok:
  assumes "pl_runtime S = Unlocked E"
  shows "maintains I (cmd_list P S) (\<lambda>_. True)" "maintains I (cmd_channel P S v) (\<lambda>_. True)"
    "maintains I (cmd_lcss P S v) (\<lambda>_. True)" "maintains I (cmd_list_secrets S) (\<lambda>_. True)"
    "maintains I (cmd_events P S v) (\<lambda>_. True)"
  unfolding cmd_list_def cmd_channel_def cmd_lcss_def cmd_list_secrets_def cmd_events_def list_secrets_def
    get_channel_data_def Let_def
  by (auto simp: assms plugin_controller_def
      intro!: maintains_abind_alift maintains_abind_unit maintains_amap_err maintains_acollect maintains_aret
        maintains_case_option load_ok list_channels_ok get_status_ok list_events_ok on_store_ok list_ok_any)

lemma changes_ok:
  assumes "pl_runtime S = Unlocked E"
  shows "maintains I (cmd_remove_hc P S v) (\<lambda>_. True)" "maintains I (cmd_remove_secret S v) (\<lambda>_. True)"
    "maintains I (cmd_reset P S v) (\<lambda>_. True)" "maintains I (cmd_set_channel P S v) (\<lambda>_. True)"
  unfolding cmd_remove_hc_def cmd_remove_secret_def cmd_reset_def cmd_set_channel_def Let_def
  by (auto simp: assms plugin_controller_def
      intro!: maintains_abind_alift maintains_abind_unit maintains_amap_err maintains_aret maintains_case_prod
        entries_ok)

text \<open>The three requests whose entry point needs something of its arguments.\<close>

lemma guarded_ok:
  assumes "pl_runtime S = Unlocked E" and "I w" and "\<And>e. request_entry P m v = Some e \<Longrightarrow> I (run_entry E e w)"
  shows "m = Custommsg \<Longrightarrow> I (snd (hook_custommsg P S v w))"
    and "m = CAddSecret \<Longrightarrow> I (snd (answered (cmd_add_secret S v) w))"
    and "m = CPolicy \<Longrightarrow> I (snd (answered (cmd_policy P S v) w))"
  using assms
  by (auto simp: request_entry_def hook_custommsg_def cmd_add_secret_def cmd_policy_def answered_def
      plugin_controller_def abind_run amap_err_def alift_def aret_def split: option.split sum.split prod.split)

lemma serve_ok:
  assumes S: "pl_runtime S = Unlocked E" and w: "I w"
    and sound: "\<And>e. request_entry P m v = Some e \<Longrightarrow> I (run_entry E e w)"
    and run: "serve P m v S w = Some (r, S', w')"
  shows "I w'"
proof -
  have ack: "I w2" if "maintains I a (\<lambda>_. True)" "acknowledged a w = (x, w2)" for a x w2
    using maintains_snd [OF maintains_acknowledged [OF that(1)] w] that(2) by simp
  have ans: "I w2" if "maintains I a (\<lambda>_. True)" "answered a w = (x, w2)" for a x w2
    using maintains_snd [OF maintains_answered [OF that(1)] w] that(2) by simp
  have hook: "I w2" if "maintains I a (\<lambda>_. True)" "a w = (x, w2)" for a x w2
    using maintains_snd [OF that(1) w] that(2) by simp
  show ?thesis
  proof (cases m)
    case CUninstall
    then show ?thesis using cmd_uninstall_ok [OF S _ w] run by auto
  next
    case Custommsg
    then show ?thesis using guarded_ok(1) [OF S w, of P m v, OF sound] run by (auto split: prod.splits)
  next
    case CAddSecret
    then show ?thesis using guarded_ok(2) [OF S w, of P m v, OF sound] run by (auto split: prod.splits)
  next
    case CPolicy
    then show ?thesis using guarded_ok(3) [OF S w, of P m v, OF sound] run by (auto split: prod.splits)
  qed (use run w S in \<open>auto split: prod.splits
      elim!: ack [rotated] ans [rotated]
      elim: hook [OF hook_htlc_accepted_ok] hook [OF hook_rpc_command_ok]
      intro: notifications_ok queries_ok changes_ok maintains_alift\<close>)
qed

lemma run_task_ok:
  assumes "pl_runtime S = Unlocked E"
  shows "maintains I (run_task P t S) (\<lambda>_. True)"
proof -
  have log: "maintains I (log_error m) (\<lambda>_. True)" if "maintains I m (\<lambda>_. True)" for m :: "('st, 'nd, unit) handler"
    unfolding log_error_def
    by (rule maintains_acase_any [OF that]) (auto intro!: maintains_aret maintains_afail split: sum.split ChannelError.split)
  show ?thesis
    unfolding run_task_def assms
    by (auto intro!: log entries_ok maintains_acase_any on_node_ok maintains_aret split: task.split sum.split)
qed

end

section \<open>Runs of the plugin\<close>

text \<open>
  Everything that can happen to an unlocked plugin, from an empty store and an empty history: entry points of the
  controller and changes of the outside node, requests of lightningd, spawned tasks and rounds of waiting hooks.
  \<open>sound\<close> is what is assumed of the arguments in the world they meet.
\<close>

inductive plugin_run :: "('st, 'v, 'nd, 'm) plugin_env \<Rightarrow> ('st, 'v, 'nd) controller \<Rightarrow>
    ('st \<Rightarrow> key \<Rightarrow> (u64 \<times> 'v) option) \<Rightarrow> (('st, 'nd) world \<Rightarrow> entry \<Rightarrow> bool) \<Rightarrow> ('st, 'nd) world \<Rightarrow> bool"
  for P E view sound where
  start: "(\<And>k. view (w_store w) k = None) \<Longrightarrow> w_trace w = [] \<Longrightarrow> plugin_run P E view sound w"
| step: "plugin_run P E view sound w \<Longrightarrow> host_step E sound w w' \<Longrightarrow> plugin_run P E view sound w'"
| served: "plugin_run P E view sound w \<Longrightarrow> pl_runtime S = Unlocked E \<Longrightarrow>
    (\<And>e. request_entry P m v = Some e \<Longrightarrow> sound w e) \<Longrightarrow> serve P m v S w = Some (r, S', w') \<Longrightarrow>
    plugin_run P E view sound w'"
| spawned: "plugin_run P E view sound w \<Longrightarrow> pl_runtime S = Unlocked E \<Longrightarrow>
    plugin_run P E view sound (snd (run_task P t S w))"
| waited: "plugin_run P E view sound w \<Longrightarrow> plugin_run P E view sound (snd (poll P E h w))"

lemma host_reachable_run: "host_reachable E view sound w \<Longrightarrow> plugin_run P E view sound w"
  by (induction rule: host_reachable.induct) (auto intro: plugin_run.start plugin_run.step)

context request_inv
begin

lemma run_ok:
  assumes "plugin_run P E view sound w" and "\<And>w. (\<And>k. view (w_store w) k = None) \<Longrightarrow> w_trace w = [] \<Longrightarrow> I w"
    and "\<And>w e. I w \<Longrightarrow> sound w e \<Longrightarrow> I (run_entry E e w)"
  shows "I w"
  using assms(1)
proof (induction rule: plugin_run.induct)
  case (step w w')
  then show ?case by (auto elim!: host_stepE intro: node_kept assms(3))
next
  case (served w S m v r S' w')
  then show ?case using serve_ok [of S w P m v] assms(3) by blast
next
  case (spawned w S t)
  then show ?case using maintains_snd [OF run_task_ok] by blast
next
  case (waited w h)
  then show ?case using maintains_snd [OF poll_ok] by blast
qed (rule assms(2))

end

sublocale host_rules \<subseteq> kept: request_inv E view "world_ok E view K"
proof
  fix e w assume "free_entry e" "W w"
  then show "W (run_entry E e w)"
    by (intro run_entry_ok) (auto simp: entry_allowed_def split: entry.split)
qed (simp_all add: world_ok_def)

context host_rules
begin

lemma serve_kept:
  assumes "pl_runtime S = Unlocked E" and "W w" and "\<And>e. entry_allowed E view K allowed fresh w e"
    and "serve P m v S w = Some (r, S', w')"
  shows "W w'"
  by (rule kept.serve_ok [OF assms(1,2) _ assms(4)]) (rule run_entry_ok [OF assms(2,3)])

lemma run_ok:
  assumes "plugin_run P E view sound w"
    and "\<And>w e. W w \<Longrightarrow> sound w e \<Longrightarrow> entry_allowed E view K allowed fresh w e"
  shows "W w"
proof (rule kept.run_ok [OF assms(1)])
  fix w e assume "W w" "sound w e"
  then show "W (run_entry E e w)" by (intro run_entry_ok assms(2))
qed (simp add: world_ok_def store_ok_def)

end

sublocale durable_host \<subseteq> ordered: request_inv E view "order_inv E view {}"
proof
  fix e w assume "free_entry e" "T {} w"
  then show "T {} (run_entry E e w)" by (intro run_entry_backed)
qed (simp_all add: order_inv_def)

context durable_host
begin

lemma run_backed:
  assumes "plugin_run P E view sound w"
  shows "T {} w"
  by (rule ordered.run_ok [OF assms]) (simp add: order_inv_def store_ok_def, rule run_entry_backed)

lemma run_justified:
  assumes "plugin_run P E view sound w" and "w_trace w = before @ e # after"
  shows "justified E before e"
  using run_backed [OF assms(1)] assms(2) unfolding order_inv_def backed_def by blast

end

context host_env
begin

lemma serve_contract:
  assumes "pl_runtime S = Unlocked E" and "serve P m v S w = Some (r, S', w')"
    and "stored_channel E view w p = Some d" and "stored_channel E view w' p = Some d'"
  shows "evolved E p (contract_of d) (contract_of d')"
proof -
  let ?K = "contract_checks E p (contract_of d)"
  note rules = contract_rules [of p "contract_of d"]
  have "world_ok E view ?K w'"
    by (rule host_rules.serve_kept [OF rules assms(1) stored_world_ok [OF assms(3)] _ assms(2)])
      (rule contract_allowed [OF assms(3)])
  then show ?thesis
    using host.stored_good [OF host_rules.axioms(1) [OF rules] _ assms(4)] by auto
qed

lemma one_step_contract:
  assumes "host_step E sound w w' \<or> pl_runtime S = Unlocked E \<and> serve P m v S w = Some (r, S', w')"
    and "stored_channel E view w p = Some d" and "stored_channel E view w' p = Some d'"
  shows "evolved E p (contract_of d) (contract_of d')"
  using assms(1) host_step_contract [OF _ assms(2,3)] serve_contract [OF _ _ assms(2,3)] by blast

end

end
