(* ===== verification/Balance.thy ===== *)
theory Balance
  imports Service
begin

text \<open>
  The money invariant. A state is balanced when both balances and the HTLCs in flight add up to the
  channel capacity. Every stored channel is balanced, its proposed override included, and the stored
  policy and secrets can only open balanced channels. The laws of \<open>host_rules\<close> are discharged for
  this invariant, so it holds in every world the host reaches.
\<close>

section \<open>The invariant\<close>

definition balanced :: "LastCrossSignedState \<Rightarrow> bool" where
  "balanced s \<longleftrightarrow> funds s = unat (ihc_channel_capacity_msat (init_hosted_channel s))"

definition channel_ok :: "ChannelData \<Rightarrow> bool" where
  "channel_ok d \<longleftrightarrow> balanced (cd_lcss d) \<and>
     (case cd_proposed_override d of None \<Rightarrow> True | Some n \<Rightarrow> balanced n) \<and>
     (\<not> cd_established d \<longrightarrow> incoming_htlcs (cd_lcss d) = [] \<and> outgoing_htlcs (cd_lcss d) = [])"

definition policy_ok :: "ChannelPolicy \<Rightarrow> bool" where
  "policy_ok q \<longleftrightarrow> pol_initial_client_balance_msat q \<le> pol_channel_capacity_msat q"

definition secret_ok :: "ChannelSecret \<Rightarrow> bool" where
  "secret_ok s \<longleftrightarrow> sec_initial_balance_msat s \<le> sec_capacity_msat s"

definition money_checks :: checks where
  "money_checks =
     \<lparr>chk_channel = (\<lambda>p. channel_ok), chk_policy = policy_ok, chk_secret = secret_ok\<rparr>"

text \<open>
  A state the peer presents under our own valid signature is one we could have signed, that is a
  balanced one, and it carries no HTLC while the channel is not established.
\<close>

definition money_allowed :: "('st, 'v, 'nd) controller \<Rightarrow> PublicKey \<Rightarrow> ChannelData \<Rightarrow> HostedMessage \<Rightarrow> bool" where
  "money_allowed E p d m \<longleftrightarrow>
     (case m of
        LastCrossSignedState s \<Rightarrow> verify_remote_sig (c_crypto E) s (c_node_public E) \<longrightarrow>
          balanced s \<and> (cd_established d \<or> incoming_htlcs s = [] \<and> outgoing_htlcs s = [])
      | _ \<Rightarrow> True)"

section \<open>States that are balanced\<close>

lemma balanced_upd [simp]:
  "balanced (s\<lparr>block_day := d\<rparr>) = balanced s"
  "balanced (s\<lparr>local_updates := a\<rparr>) = balanced s"
  "balanced (s\<lparr>remote_updates := b\<rparr>) = balanced s"
  "balanced (s\<lparr>remote_sig_of_local := x\<rparr>) = balanced s"
  "balanced (s\<lparr>local_sig_of_remote := y\<rparr>) = balanced s"
  by (simp_all add: balanced_def)

lemma sign_balanced: "sign C k s = Inr s' \<Longrightarrow> balanced s' = balanced s"
  by (auto simp: sign_eq_Inr)

lemma lcss_next_init:
  assumes "lcss_next C sm = Inr n"
  shows "init_hosted_channel n = init_hosted_channel (sm_lcss sm)"
proof -
  obtain s where s: "rfold (lcss_step C) ((sm_lcss sm)\<lparr>local_updates := 0, remote_updates := 0\<rparr>)
      (sm_uncommitted sm) = Inr s" and n: "init_hosted_channel n = init_hosted_channel s"
    using assms by (auto simp: lcss_next_def rbind_eq_Inr)
  have "init_hosted_channel s = init_hosted_channel (sm_lcss sm)"
    by (rule rfold_invariant [OF s]) (auto dest: lcss_step_frame)
  then show ?thesis using n by simp
qed

lemma lcss_next_balanced: "lcss_next C sm = Inr n \<Longrightarrow> balanced n = balanced (sm_lcss sm)"
  using lcss_next_funds [of C sm n] lcss_next_init [of C sm n] by (simp add: balanced_def)

lemma new_channel_balanced: "policy_ok q \<Longrightarrow> channel_ok (new_channel_data q r)"
  by (simp add: policy_ok_def channel_ok_def new_channel_data_def balanced_def funds_def
      init_of_policy_def unat_sub word_le_nat_alt)

lemma override_balanced:
  "checked_sub (ihc_channel_capacity_msat init) a = Some b \<Longrightarrow>
     balanced (override_state d init day a b) \<and> balanced (override_state d init day b a)"
  by (auto simp: balanced_def funds_def override_state_def dest!: checked_sub_Some)

lemma resize_balanced:
  assumes "balanced s"
    and "(if new \<ge> ihc_channel_capacity_msat (init_hosted_channel s)
          then checked_add (local_balance_msat s) (new - ihc_channel_capacity_msat (init_hosted_channel s))
          else checked_sub (local_balance_msat s) (ihc_channel_capacity_msat (init_hosted_channel s) - new)) =
        Some bal"
  shows "balanced (s\<lparr>init_hosted_channel := (init_hosted_channel s)
      \<lparr>ihc_channel_capacity_msat := new, ihc_max_htlc_value_in_flight_msat := new\<rparr>,
      local_balance_msat := bal\<rparr>)"
proof (cases "ihc_channel_capacity_msat (init_hosted_channel s) \<le> new")
  case True
  then show ?thesis using assms
    by (auto simp: balanced_def funds_def unat_sub word_le_nat_alt dest!: checked_add_Some)
next
  case False
  then show ?thesis using assms
    by (auto simp: balanced_def funds_def unat_sub word_le_nat_alt dest!: checked_sub_Some)
qed

lemma channel_ok_upd:
  "channel_ok (d\<lparr>cd_uncommitted := u\<rparr>) = channel_ok d"
  "channel_ok (d\<lparr>cd_local_errors := e\<rparr>) = channel_ok d"
  "channel_ok (d\<lparr>cd_remote_errors := e\<rparr>) = channel_ok d"
  "channel_ok (d\<lparr>cd_channel_update_pending := b\<rparr>) = channel_ok d"
  "channel_ok (d\<lparr>cd_accepting_resize_sat := z\<rparr>) = channel_ok d"
  "channel_ok (d\<lparr>cd_routing_policy := q\<rparr>) = channel_ok d"
  by (simp_all add: channel_ok_def)

lemma secret_funds:
  "secret_ok s \<Longrightarrow> secret_ok (s\<lparr>sec_consumed := True\<rparr>)"
  "secret_ok s \<Longrightarrow> policy_ok (q\<lparr>pol_channel_capacity_msat := sec_capacity_msat s,
     pol_initial_client_balance_msat := sec_initial_balance_msat s\<rparr>)"
  by (simp_all add: secret_ok_def policy_ok_def)

lemma reverse_balanced: "balanced (reverse s) = balanced s"
  by (auto simp: balanced_def funds_def reverse_def)

lemma merge_policy_ok: "merge_policy q old = Inr new \<Longrightarrow> policy_ok new"
  by (auto simp: merge_policy_def rbind_eq_Inr Let_def policy_ok_def split: if_splits)

section \<open>The laws\<close>

text \<open>A host whose configured policy can be funded.\<close>

locale funded_host = host_env E view
  for E :: "('st, 'v, 'nd) controller" and view :: "'st \<Rightarrow> key \<Rightarrow> (u64 \<times> 'v) option" +
  assumes config_funded: "policy_ok (cfg_policy (c_config E))"

lemma money_checks_sel [simp]:
  "chk_channel money_checks p d = channel_ok d"
  "chk_policy money_checks = policy_ok"
  "chk_secret money_checks = secret_ok"
  by (simp_all add: money_checks_def)

lemma opening_balanced:
  assumes "channel_ok d" and "derive_status d = Opening"
    and "s = (cd_lcss d)\<lparr>block_day := day, local_updates := 0, remote_updates := 0, incoming_htlcs := [],
        outgoing_htlcs := [], remote_sig_of_local := x\<rparr>"
    and "sign C k s = Inr s'"
  shows "channel_ok (d\<lparr>cd_lcss := s', cd_established := True\<rparr>)"
proof -
  have "balanced s"
    using assms(1-3) by (auto simp: channel_ok_def derive_status_def balanced_def funds_def split: if_splits)
  then show ?thesis
    using assms(1) sign_balanced [OF assms(4)] by (simp add: channel_ok_def)
qed

lemma commit_balanced:
  assumes "channel_ok d" and "derive_status d = Active" and "lcss_next C (manager_of d) = Inr n"
    and "s = n\<lparr>block_day := day, remote_sig_of_local := x\<rparr>" and "sign C k s = Inr s'"
  shows "channel_ok (d\<lparr>cd_lcss := s'\<rparr>)"
  using assms(1,2,4) sign_balanced [OF assms(5)] lcss_next_balanced [OF assms(3)]
  by (auto simp: channel_ok_def manager_of_def derive_status_def split: if_splits)

lemma resized_balanced:
  assumes "channel_ok d" and "derive_status d = Active"
    and "(if new \<ge> ihc_channel_capacity_msat (init_hosted_channel (cd_lcss d))
       then checked_add (local_balance_msat (cd_lcss d))
         (new - ihc_channel_capacity_msat (init_hosted_channel (cd_lcss d)))
       else checked_sub (local_balance_msat (cd_lcss d))
         (ihc_channel_capacity_msat (init_hosted_channel (cd_lcss d)) - new)) = Some bal"
    and "sign C k ((cd_lcss d)\<lparr>init_hosted_channel :=
        (init_hosted_channel (cd_lcss d))\<lparr>ihc_channel_capacity_msat := new,
          ihc_max_htlc_value_in_flight_msat := new\<rparr>, local_balance_msat := bal\<rparr>) = Inr s'"
  shows "channel_ok (d\<lparr>cd_lcss := s'\<rparr>)"
  using assms(1,2) sign_balanced [OF assms(4)] resize_balanced [OF _ assms(3)]
  by (auto simp: channel_ok_def derive_status_def split: if_splits)

sublocale funded_host \<subseteq> money: host_rules E view money_checks "money_allowed E" "\<lambda>_. True"
proof unfold_locales
  fix p q d s r day x s' n i a b m
  show "chk_policy money_checks q \<Longrightarrow> chk_channel money_checks p (new_channel_data q r)"
    by (simp add: new_channel_balanced)
  show "chk_channel money_checks p d \<Longrightarrow> derive_status d = Overriding \<Longrightarrow>
      cd_proposed_override d = Some n \<Longrightarrow> s = n\<lparr>remote_sig_of_local := x\<rparr> \<Longrightarrow> verify_remote_sig (c_crypto E) s p \<Longrightarrow>
      sign (c_crypto E) (c_node_secret E) s = Inr s' \<Longrightarrow>
      chk_channel money_checks p (d\<lparr>cd_lcss := s', cd_suspended := False, cd_proposed_override := None,
        cd_established := True\<rparr>)"
    by (auto simp: channel_ok_def dest: sign_balanced)
  show "chk_channel money_checks p d \<Longrightarrow> checked_sub (ihc_channel_capacity_msat i) a = Some b \<Longrightarrow>
      s = override_state d i day a b \<or> s = override_state d i day b a \<Longrightarrow>
      sign (c_crypto E) (c_node_secret E) s = Inr s' \<Longrightarrow>
      chk_channel money_checks p (d\<lparr>cd_proposed_override := Some s'\<rparr>)"
    using override_balanced [of i a b d day] by (auto simp: channel_ok_def dest: sign_balanced)
  show "chk_channel money_checks p d \<Longrightarrow> money_allowed E p d (LastCrossSignedState m) \<Longrightarrow>
      verify_remote_sig (c_crypto E) m (c_node_public E) \<Longrightarrow>
      chk_channel money_checks p (d\<lparr>cd_lcss := reverse m\<rparr>)"
    by (auto simp: channel_ok_def money_allowed_def reverse_balanced)
qed (use config_funded in \<open>auto simp: secret_funds channel_ok_upd
    intro: opening_balanced commit_balanced resized_balanced\<close>)

section \<open>Runs\<close>

text \<open>
  What the money of a run rests on: the operator gives a secret whose initial balance is within its
  capacity, and the peer cannot present a state under our signature that we would not have signed.
\<close>

definition money_sound :: "('st, 'v, 'nd) controller \<Rightarrow> ('st \<Rightarrow> key \<Rightarrow> (u64 \<times> 'v) option) \<Rightarrow>
    ('st, 'nd) world \<Rightarrow> entry \<Rightarrow> bool" where
  "money_sound E view w e \<longleftrightarrow>
     (case e of
        AddSecretCommand s capacity initial \<Rightarrow> initial \<le> capacity
      | CustomMsg p bs \<Rightarrow>
          (\<forall>m d. decode_legacy_aware bs = Inr m \<longrightarrow> stored_channel E view w p = Some d \<longrightarrow>
             money_allowed E p d (dm_message m))
      | _ \<Rightarrow> True)"

lemma money_sound_allowed: "money_sound E view w e \<Longrightarrow> entry_allowed E view money_checks (money_allowed E) (\<lambda>_. True) w e"
  by (cases e) (auto simp: money_sound_def entry_allowed_def secret_ok_def dest: merge_policy_ok)

context funded_host
begin

lemma reachable_channels_ok:
  "plugin_run P E view (money_sound E view) w \<Longrightarrow> stored_channel E view w p = Some d \<Longrightarrow> channel_ok d"
  using money.stored_good [OF money.run_ok] money_sound_allowed by (metis money_checks_sel(1))

end

end
