(* ===== verification/Signatures.thy ===== *)
theory Signatures
  imports Service
begin

text \<open>
  The cross-signature invariant: the state of an established channel carries a valid signature of
  the peer and a valid signature of ours, and a proposed override carries ours. Every handler that
  stores a new state keeps it but the resizing of a channel, which stores a state that only we have
  signed; the invariant is stated for runs in which no resize is applied.
\<close>

section \<open>The invariant\<close>

definition host_signed :: "'c crypto_scheme \<Rightarrow> PublicKey \<Rightarrow> LastCrossSignedState \<Rightarrow> bool" where
  "host_signed C node s \<longleftrightarrow> verify_remote_sig C (reverse s) node"

definition cross_signed :: "('st, 'v, 'nd) controller \<Rightarrow> PublicKey \<Rightarrow> ChannelData \<Rightarrow> bool" where
  "cross_signed E p d \<longleftrightarrow>
     (cd_established d \<longrightarrow>
        verify_remote_sig (c_crypto E) (cd_lcss d) p \<and> host_signed (c_crypto E) (c_node_public E) (cd_lcss d)) \<and>
     (case cd_proposed_override d of None \<Rightarrow> True
      | Some n \<Rightarrow> host_signed (c_crypto E) (c_node_public E) n)"

definition sig_checks :: "('st, 'v, 'nd) controller \<Rightarrow> checks" where
  "sig_checks E =
     \<lparr>chk_channel = cross_signed E, chk_policy = (\<lambda>_. True), chk_secret = (\<lambda>_. True)\<rparr>"

definition no_resize :: "PublicKey \<Rightarrow> ChannelData \<Rightarrow> HostedMessage \<Rightarrow> bool" where
  "no_resize p d m \<longleftrightarrow>
     (case m of ResizeChannel _ \<Rightarrow> cd_accepting_resize_sat d = None | _ \<Rightarrow> True)"

section \<open>The laws\<close>

text \<open>A host whose node keys belong together.\<close>

locale signing_host = host_env E view
  for E :: "('st, 'v, 'nd) controller" and view :: "'st \<Rightarrow> key \<Rightarrow> (u64 \<times> 'v) option" +
  assumes node_keys: "key_pair (c_crypto E) (c_node_secret E) (c_node_public E)"

lemma sig_checks_sel [simp]:
  "chk_channel (sig_checks E) = cross_signed E"
  "chk_policy (sig_checks E) q"
  "chk_secret (sig_checks E) s"
  by (simp_all add: sig_checks_def)

sublocale signing_host \<subseteq> sigs: host_rules E view "sig_checks E" no_resize "\<lambda>_. True"
proof unfold_locales
  have signed: "host_signed (c_crypto E) (c_node_public E) s'"
    if "sign (c_crypto E) (c_node_secret E) s = Inr s'" for s s'
    unfolding host_signed_def by (rule sign_verifies_reversed [OF node_keys that])
  fix p q d s r day x s' n i a b d' m rm limit new bal u
  show "chk_channel (sig_checks E) p (new_channel_data q r)"
    by (simp add: cross_signed_def new_channel_data_def)
  show "chk_channel (sig_checks E) p d \<Longrightarrow> derive_status d = Opening \<Longrightarrow>
      verify_remote_sig (c_crypto E) s p \<Longrightarrow> sign (c_crypto E) (c_node_secret E) s = Inr s' \<Longrightarrow>
      chk_channel (sig_checks E) p (d\<lparr>cd_lcss := s', cd_established := True\<rparr>)"
    by (simp add: cross_signed_def signed sign_keeps_verification)
  show "chk_channel (sig_checks E) p d \<Longrightarrow> derive_status d = Active \<Longrightarrow>
      verify_remote_sig (c_crypto E) s p \<Longrightarrow> sign (c_crypto E) (c_node_secret E) s = Inr s' \<Longrightarrow>
      chk_channel (sig_checks E) p (d\<lparr>cd_lcss := s'\<rparr>)"
    by (simp add: cross_signed_def signed sign_keeps_verification)
  show "chk_channel (sig_checks E) p d \<Longrightarrow>
      verify_remote_sig (c_crypto E) s p \<Longrightarrow> sign (c_crypto E) (c_node_secret E) s = Inr s' \<Longrightarrow>
      chk_channel (sig_checks E) p (d\<lparr>cd_lcss := s', cd_suspended := False, cd_proposed_override := None,
        cd_established := True\<rparr>)"
    by (simp add: cross_signed_def signed sign_keeps_verification)
  show "chk_channel (sig_checks E) p d \<Longrightarrow> sign (c_crypto E) (c_node_secret E) s = Inr s' \<Longrightarrow>
      chk_channel (sig_checks E) p (d\<lparr>cd_proposed_override := Some s'\<rparr>)"
    by (simp add: cross_signed_def signed)
  show "chk_channel (sig_checks E) p d \<Longrightarrow> verify_remote_sig (c_crypto E) m (c_node_public E) \<Longrightarrow>
      verify_remote_sig (c_crypto E) (reverse m) p \<Longrightarrow>
      chk_channel (sig_checks E) p (d\<lparr>cd_lcss := reverse m\<rparr>)"
    by (simp add: cross_signed_def host_signed_def)
  show "no_resize p d (ResizeChannel rm) \<Longrightarrow> cd_accepting_resize_sat d = Some limit \<Longrightarrow>
      chk_channel (sig_checks E) p (d\<lparr>cd_lcss := s'\<rparr>)"
    by (simp add: no_resize_def)
qed (simp_all add: cross_signed_def)

section \<open>Runs\<close>

definition unresized :: "('st, 'v, 'nd) controller \<Rightarrow> ('st \<Rightarrow> key \<Rightarrow> (u64 \<times> 'v) option) \<Rightarrow>
    ('st, 'nd) world \<Rightarrow> entry \<Rightarrow> bool" where
  "unresized E view w e \<longleftrightarrow>
     (case e of
        CustomMsg p bs \<Rightarrow>
          (\<forall>m d. decode_legacy_aware bs = Inr m \<longrightarrow> stored_channel E view w p = Some d \<longrightarrow>
             no_resize p d (dm_message m))
      | _ \<Rightarrow> True)"

lemma unresized_allowed: "unresized E view w e \<Longrightarrow> entry_allowed E view (sig_checks E) no_resize (\<lambda>_. True) w e"
  by (cases e) (auto simp: unresized_def entry_allowed_def)

context signing_host
begin

lemma reachable_channels_signed:
  "plugin_run P E view (unresized E view) w \<Longrightarrow> stored_channel E view w p = Some d \<Longrightarrow> cross_signed E p d"
  using sigs.stored_good [OF sigs.run_ok] unresized_allowed by (metis sig_checks_sel(1))

end

end
