(* ===== verification/Deadlines.thy ===== *)
theory Deadlines
  imports Ordering
begin

text \<open>
  The deadlines of forwarded HTLCs. \<open>enforce_forward_deadlines\<close> runs periodically; it puts every active
  channel with an overdue HTLC into the error state: an offer that the peer has not committed in time,
  or a committed HTLC whose expiry the chain has reached while somebody upstream waits. The argument
  is about what the store shows: \<open>watched\<close> says that a channel with a property is stored, and that
  certain entries are there.
\<close>

section \<open>What the store shows\<close>

definition seen :: "('st, 'v, 'nd) controller \<Rightarrow> (key \<Rightarrow> (u64 \<times> 'v) option) \<Rightarrow> PublicKey \<Rightarrow> ChannelData option" where
  "seen E V p = (case V (channel_key E p) of None \<Rightarrow> None
     | Some (g, v) \<Rightarrow> (case from_slice (c_channel E) v of Inl _ \<Rightarrow> None | Inr d \<Rightarrow> Some d))"

lemma stored_seen: "stored_channel E view w p = seen E (view (w_store w)) p"
  by (simp add: stored_channel_def seen_def)

definition watched :: "('st, 'v, 'nd) controller \<Rightarrow> PublicKey \<Rightarrow> (ChannelData \<Rightarrow> bool) \<Rightarrow> (key \<rightharpoonup> u64 \<times> 'v) \<Rightarrow>
    (key \<Rightarrow> (u64 \<times> 'v) option) \<Rightarrow> bool" where
  "watched E p R F V \<longleftrightarrow> (\<exists>d. seen E V p = Some d \<and> R d) \<and> F \<subseteq>\<^sub>m V"

definition grows :: "(ChannelData \<Rightarrow> bool) \<Rightarrow> bool" where
  "grows R \<longleftrightarrow> (\<forall>d u. R d \<longrightarrow> R (d\<lparr>cd_uncommitted := cd_uncommitted d @ u\<rparr>))"

text \<open>An HTLC that is overdue at a time and a height.\<close>

definition overdue :: "u64 \<Rightarrow> u32 \<Rightarrow> ChannelData \<Rightarrow> UpdateAddHtlc \<Rightarrow> ForwardLink \<Rightarrow> bool" where
  "overdue now height d h l \<longleftrightarrow>
     Local (Add h) \<in> set (cd_uncommitted d) \<and> (\<exists>t \<le> now. fl_hosted_commit_deadline_unix l = Some t) \<or>
     h \<in> set (outgoing_htlcs (cd_lcss d)) \<and> fl_upstream_cltv_expiry l \<noteq> None \<and> htlc_cltv_expiry h \<le> height"

lemma status_uncommitted [simp]: "derive_status (d\<lparr>cd_uncommitted := u\<rparr>) = derive_status d"
  by (simp add: derive_status_def)

lemma status_errored: "derive_status d = Active \<Longrightarrow> derive_status (d\<lparr>cd_local_errors := es @ [e]\<rparr>) = SErrored"
  by (auto simp: derive_status_def split: if_splits)

lemma grows_status: "grows (\<lambda>d. derive_status d = s)" "grows (\<lambda>d. derive_status d = s \<and> overdue n k d h l)"
  by (auto simp: grows_def overdue_def)

context durable_host
begin

abbreviation watch :: "PublicKey \<Rightarrow> (ChannelData \<Rightarrow> bool) \<Rightarrow> (key \<rightharpoonup> u64 \<times> 'v) \<Rightarrow> ('st, 'nd) world \<Rightarrow> bool" where
  "watch p R F \<equiv> \<lambda>w. watched E p R F (view (w_store w))"

lemma channel_not_forward [simp]: "channel_key E q \<noteq> forward_key a b"
  by (simp add: channel_key_def forward_key_def)

lemma watched_save:
  assumes "watched E p R F V" and "\<And>q. channel_key E q \<notin> dom F" and "q = p \<Longrightarrow> R d"
    and "to_vec (c_channel E) d = Inr v"
  shows "watched E p R F (V(channel_key E q \<mapsto> (g, v)))"
proof -
  have "F \<subseteq>\<^sub>m V(channel_key E q \<mapsto> (g, v))"
    using assms(1,2) by (auto simp: watched_def map_le_def)
  moreover have "from_slice (c_channel E) v = Inr d" using channel_serde assms(4) by (simp add: serde_ok_def)
  ultimately show ?thesis
    using assms(1,3) by (cases "q = p") (auto simp: watched_def seen_def)
qed

lemma watched_delete:
  "watched E p R F V \<Longrightarrow> forward_key a b \<notin> dom F \<Longrightarrow> watched E p R F (V(forward_key a b := None))"
  by (auto simp: watched_def seen_def map_le_def)

lemma view_get: "good_key k \<Longrightarrow> maintains (\<lambda>w. \<Phi> (view (w_store w))) (on_store (get_json (c_store E) D k)) (\<lambda>_. True)"
  by (auto simp: maintains_def on_store_def azoom_def split: prod.splits dest!: get_json_law)

lemma view_list:
  "good_key k \<Longrightarrow> maintains (\<lambda>w. \<Phi> (view (w_store w))) (lift_store (store_list (c_store E) k)) (\<lambda>_. True)"
  by (auto simp: maintains_def lift_store_def amap_err_def on_store_def azoom_def
      split: prod.splits sum.splits) (use list_law [of k] in fastforce)+

lemma view_link: "maintains (\<lambda>w. \<Phi> (view (w_store w))) (load_link E a b) (\<lambda>_. True)"
  unfolding load_link_def
  by (rule maintains_acase_any [OF view_get])
    (auto simp: maintains_def split: sum.splits StoreError.splits)

lemma view_load: "maintains (\<lambda>w. \<Phi> (view (w_store w))) (load_channel E q) (\<lambda>_. True)"
  unfolding load_channel_def
  by (rule maintains_acase_any [OF view_get])
    (auto simp: maintains_def split: sum.splits StoreError.splits)

lemma view_channels: "maintains (\<lambda>w. \<Phi> (view (w_store w))) (list_channels E) (\<lambda>_. True)"
  unfolding list_channels_def by (rule maintains_abind_unit [OF view_list]) (simp_all add: maintains_def)

lemma view_peer: "maintains (\<lambda>w. \<Phi> (view (w_store w))) (peer_for_hosted_scid E a) (\<lambda>_. True)"
  unfolding peer_for_hosted_scid_def by (intro maintains_abind_unit [OF view_channels] maintains_aret) simp

lemma view_sends:
  "maintains (\<lambda>w. \<Phi> (view (w_store w))) (send_message E p m) (\<lambda>_. True)"
  "maintains (\<lambda>w. \<Phi> (view (w_store w))) (lift_node n) (\<lambda>_. True)"
  "maintains (\<lambda>w. \<Phi> (view (w_store w))) (record_event e) (\<lambda>_. True)"
  using store_inv_send [of "\<lambda>st. \<Phi> (view st)"] store_inv_lift_node [of "\<lambda>st. \<Phi> (view st)"]
    store_inv_record_event [of "\<lambda>st. \<Phi> (view st)"] by blast+

lemma view_pending: "maintains (\<lambda>w. \<Phi> (view (w_store w))) (state_update_for_uncommitted E d) (\<lambda>_. True)"
  unfolding state_update_for_uncommitted_def current_block_day_def
  by (intro maintains_try_state maintains_try_encode maintains_aret maintains_abind_unit [OF view_sends(2)]
      maintains_abind_unit [OF maintains_abind_unit [OF view_sends(2)]]) simp_all

text \<open>A channel that is loaded is the one the store shows.\<close>

lemma watch_load:
  assumes "\<And>r. (\<And>d. r = Some d \<Longrightarrow> q = p \<Longrightarrow> R d) \<Longrightarrow> (q = p \<Longrightarrow> r \<noteq> None) \<Longrightarrow> maintains (watch p R F) (f r) Q"
  shows "maintains (watch p R F) (abind (load_channel E q) f) Q"
proof (rule maintainsI)
  fix w x w' assume w: "watch p R F w" and run: "abind (load_channel E q) f w = (x, w')"
  obtain r w1 where load: "load_channel E q w = (r, w1)" by fastforce
  have w1: "watch p R F w1"
    using maintains_snd [OF view_load [of "watched E p R F" q] w] load by simp
  show "watch p R F w' \<and> (\<forall>a. x = Inr a \<longrightarrow> Q a)"
  proof (cases r)
    case (Inr y)
    then have "y = seen E (view (w_store w)) q" using load_stored load by (simp add: stored_seen)
    then have "maintains (watch p R F) (f y) Q"
      using w by (intro assms) (auto simp: watched_def)
    then show ?thesis using run load Inr w1 by (auto simp: abind_run maintains_def)
  qed (use run load w1 in \<open>auto simp: abind_run\<close>)
qed

lemma watch_save:
  assumes "\<And>q. channel_key E q \<notin> dom F" and "q = p \<Longrightarrow> R d"
  shows "maintains (watch p R F) (save_channel E q d g) (\<lambda>_. True)"
proof (rule maintainsI)
  fix w r w' assume "watch p R F w" and run: "save_channel E q d g w = (r, w')"
  then show "watch p R F w' \<and> (\<forall>a. r = Inr a \<longrightarrow> True)"
    using save_outcome [OF run] watched_save [of p R F "view (w_store w)" q d] assms
    by (cases r) (auto simp: wrote_def)
qed

lemma save_shows:
  assumes "save_channel E p d g w = (Inr u, w')" and "R d"
  shows "watch p R Map.empty w'"
  using save_outcome [OF assms(1)] assms(2) channel_serde
  by (auto simp: wrote_def watched_def seen_def serde_ok_def)

lemma watch_update:
  assumes "\<And>q. channel_key E q \<notin> dom F" and "grows R"
  shows "maintains (watch p R F) (send_local_update E q i u m) (\<lambda>_. True)"
proof -
  have "R d \<Longrightarrow> R (d\<lparr>cd_uncommitted := cd_uncommitted d @ [Local u]\<rparr>)" for d
    using assms(2) by (simp add: grows_def)
  then show ?thesis
    unfolding send_local_update_def require_channel_def abind_assoc Let_def
    by (intro watch_load maintains_abind_alift maintains_if maintains_aret
        maintains_abind_unit [OF view_pending] maintains_abind_unit [OF watch_save [OF assms(1)]]
        maintains_abind_unit [OF view_sends(1)] view_sends(1)) (auto simp: ok_or_eq_Inr)
qed

lemma watch_resolve:
  assumes "\<And>q. channel_key E q \<notin> dom F" and "grows R" and "forward_key a b \<notin> dom F"
  shows "maintains (watch p R F) (resolve_forward_fail E a b x) (\<lambda>_. True)"
proof -
  have "maintains (watch p R F) (on_store (store_delete (c_store E) (forward_key a b))) (\<lambda>_. True)"
  proof (rule maintainsI)
    fix w r w' assume w: "watch p R F w" and run: "on_store (store_delete (c_store E) (forward_key a b)) w = (r, w')"
    then obtain st where del: "store_delete (c_store E) (forward_key a b) (w_store w) = (r, st)" "w' = w\<lparr>w_store := st\<rparr>"
      by (auto simp: on_store_def azoom_def split: prod.splits)
    then show "watch p R F w' \<and> (\<forall>a. r = Inr a \<longrightarrow> True)"
      using write_outcome_cases [OF delete_law [OF good_keys(3) del(1)]] w watched_delete [OF w assms(3)] by auto
  qed
  then show ?thesis
    unfolding resolve_forward_fail_def send_local_fail_def Let_def
    by (intro maintains_abind_unit [OF view_link] maintains_case_option maintains_aret
        maintains_abind_unit [OF view_sends(3)] maintains_abind_unit [OF view_peer] maintains_abind_unit watch_update [OF assms(1,2)] view_sends(2)
        maintains_aignore) simp_all
qed

section \<open>Other channels\<close>

lemma forward_key_inj: "forward_key a b = forward_key c d \<longleftrightarrow> a = c \<and> b = d"
  by (auto simp: forward_key_def word_unat_eq_iff dest!: dec_nat_inj)

lemma watch_pending:
  assumes "\<And>q. channel_key E q \<notin> dom F" and "grows R" and "q \<noteq> p" and "\<And>b. forward_key (hosted_scid_of E q) b \<notin> dom F"
  shows "maintains (watch p R F) (enforce_pending_offer E q d now u) (\<lambda>_. True)"
  unfolding enforce_pending_offer_def mark_errored_def
  using assms
  by (auto split: UncommittedUpdate.split PendingUpdate.split
      intro!: maintains_aret maintains_abind_unit [OF view_link] maintains_case_option maintains_if
        maintains_abind_unit [OF watch_save] maintains_abind_unit [OF watch_resolve])

lemma watch_expiry:
  assumes "\<And>q. channel_key E q \<notin> dom F" and "grows R" and "q \<noteq> p" and "\<And>b. forward_key (hosted_scid_of E q) b \<notin> dom F"
    and "\<And>nd n nd'. node_get_block_height (c_node E) nd = (Inr n, nd') \<Longrightarrow> k \<le> n" and "\<And>n. ch = Some n \<Longrightarrow> k \<le> n"
  shows "maintains (watch p R F) (enforce_expiry_loop E q d ch hs) (\<lambda>r. \<forall>n. r = Some n \<longrightarrow> k \<le> n)"
  using assms(6)
proof (induction hs arbitrary: ch)
  case (Cons h hs)
  have node: "maintains (watch p R F) (lift_node (node_get_block_height (c_node E))) (\<lambda>n. k \<le> n)"
    using assms(5) by (fastforce simp: maintains_def lift_node_def amap_err_def on_node_def azoom_def split: prod.splits sum.splits)
  have height: "maintains (watch p R F) (case ch of Some x \<Rightarrow> aret x
      | None \<Rightarrow> lift_node (node_get_block_height (c_node E))) (\<lambda>n. k \<le> n)"
    using Cons.prems by (intro maintains_case_option maintains_aret node) simp
  show ?case
    unfolding enforce_expiry_loop.simps mark_errored_def
    using assms(1-4) Cons
    by (auto intro!: maintains_abind_unit [OF view_link] maintains_case_option maintains_if maintains_abind [OF height]
        maintains_abind_unit [OF watch_save] maintains_abind_unit [OF watch_resolve] maintains_aret Cons.IH)
qed (auto intro: maintains_aret)

lemma watch_channel:
  assumes "\<And>q. channel_key E q \<notin> dom F" and "grows R"
    and "q \<noteq> p \<and> (\<forall>b. forward_key (hosted_scid_of E q) b \<notin> dom F) \<or> q = p \<and> (\<forall>d. R d \<longrightarrow> derive_status d \<noteq> Active)"
    and "\<And>nd n nd'. node_get_block_height (c_node E) nd = (Inr n, nd') \<Longrightarrow> k \<le> n" and "\<And>n. ch = Some n \<Longrightarrow> k \<le> n"
  shows "maintains (watch p R F) (enforce_channel E now ch q) (\<lambda>r. \<forall>n. r = Some n \<longrightarrow> k \<le> n)"
  using assms(3)
proof
  assume q: "q \<noteq> p \<and> (\<forall>b. forward_key (hosted_scid_of E q) b \<notin> dom F)"
  have "maintains (watch p R F) (afind us (enforce_pending_offer E q d now)) (\<lambda>_. True)" for us d
    using maintains_afind [of us "watch p R F" "enforce_pending_offer E q d now" "\<lambda>_. True"] watch_pending [OF assms(1,2)] q
    by simp
  then show ?thesis
    unfolding enforce_channel_def
    using assms(5) q
    by (auto intro!: maintains_abind_unit [OF view_load] maintains_case_option maintains_aret maintains_if
        maintains_abind_unit watch_expiry [OF assms(1,2) _ _ assms(4)])
next
  assume "q = p \<and> (\<forall>d. R d \<longrightarrow> derive_status d \<noteq> Active)"
  then show ?thesis
    unfolding enforce_channel_def
    using assms(5) by (auto intro!: watch_load maintains_case_option maintains_aret maintains_if)
qed

section \<open>The overdue channel\<close>

lemma link_seen:
  assumes "load_link E a b w = (Inr r, w')"
  shows "view (w_store w') = view (w_store w) \<and> (case r of None \<Rightarrow> view (w_store w) (forward_key a b) = None
    | Some l \<Rightarrow> \<exists>g v. view (w_store w) (forward_key a b) = Some (g, v) \<and> from_slice (c_link E) v = Inr l)"
proof -
  obtain x st where run: "get_json (c_store E) (c_link E) (forward_key a b) (w_store w) = (x, st)" by fastforce
  show ?thesis
    using get_json_law [OF good_keys(3) run] assms run
    by (auto simp: load_link_def acase_run on_store_def azoom_def split: sum.splits StoreError.splits prod.splits)
qed

text \<open>The link of an HTLC as the store shows it, and whether it makes the HTLC overdue.\<close>

abbreviation linked :: "('st, 'nd) world \<Rightarrow> PublicKey \<Rightarrow> UpdateAddHtlc \<Rightarrow> ForwardLink \<Rightarrow> bool" where
  "linked w p h l \<equiv> \<exists>g v. view (w_store w) (forward_key (hosted_scid_of E p) (htlc_id h)) = Some (g, v) \<and>
     from_slice (c_link E) v = Inr l"

abbreviation errored :: "PublicKey \<Rightarrow> ('st, 'nd) world \<Rightarrow> bool" where
  "errored p \<equiv> watch p (\<lambda>d. derive_status d = SErrored) Map.empty"

lemma errored_after:
  assumes "derive_status d = Active" and "mark_errored E p d x w = (Inr u, w1)"
  shows "errored p w1" and "errored p (snd (resolve_forward_fail E a b y w1))"
proof -
  show w1: "errored p w1"
    using assms(2) unfolding mark_errored_def by (rule save_shows) (rule status_errored [OF assms(1)])
  show "errored p (snd (resolve_forward_fail E a b y w1))"
    by (rule maintains_snd [OF watch_resolve w1]) (simp_all add: grows_status)
qed

lemma pending_offer_run:
  assumes "enforce_pending_offer E p d now u w = (Inr r, w')" and "derive_status d = Active"
  shows "(case r of Some _ \<Rightarrow> errored p w'
    | None \<Rightarrow> view (w_store w') = view (w_store w) \<and>
        (\<forall>h l t. u = Local (Add h) \<longrightarrow> linked w p h l \<longrightarrow> fl_hosted_commit_deadline_unix l = Some t \<longrightarrow> now < t))"
proof (cases "\<exists>h. u = Local (Add h)")
  case True
  then obtain h where u: "u = Local (Add h)" by blast
  obtain x w1 where load: "load_link E (hosted_scid_of E p) (htlc_id h) w = (Inr x, w1)"
    and rest: "(case x of None \<Rightarrow> aret None
      | Some link \<Rightarrow>
          if (case fl_hosted_commit_deadline_unix link of None \<Rightarrow> True | Some d \<Rightarrow> d > now) then aret None
          else abind (mark_errored E p d HOSTED_DELIVERY_FAILED_ERROR) (\<lambda>_.
            abind (resolve_forward_fail E (hosted_scid_of E p) (htlc_id h) (be_bytes 2 0x1007)) (\<lambda>_. aret (Some ())))) w1 =
      (Inr r, w')"
    using assms(1) by (auto simp: enforce_pending_offer_def u abind_eq_Inr)
  show ?thesis
    using link_seen [OF load] rest u errored_after(2) [OF assms(2)]
    by (auto simp: abind_eq_Inr split: option.splits if_splits) (metis snd_conv)+
qed (use assms(1) in \<open>auto simp: enforce_pending_offer_def split: UncommittedUpdate.splits PendingUpdate.splits\<close>)

lemma pending_offers_run:
  assumes "afind us (enforce_pending_offer E p d now) w = (Inr r, w')" and "derive_status d = Active"
  shows "(case r of Some _ \<Rightarrow> errored p w'
    | None \<Rightarrow> view (w_store w') = view (w_store w) \<and>
        (\<forall>h l t. Local (Add h) \<in> set us \<longrightarrow> linked w p h l \<longrightarrow> fl_hosted_commit_deadline_unix l = Some t \<longrightarrow> now < t))"
  using assms(1)
proof (induction us arbitrary: w)
  case (Cons u us)
  obtain x w1 where one: "enforce_pending_offer E p d now u w = (Inr x, w1)"
    and rest: "(case x of Some _ \<Rightarrow> aret (Some ()) | None \<Rightarrow> afind us (enforce_pending_offer E p d now)) w1 = (Inr r, w')"
    using Cons.prems by (auto simp: abind_eq_Inr)
  show ?case
    using pending_offer_run [OF one assms(2)] rest Cons.IH [of w1]
    by (cases x) (auto split: option.splits)
qed auto

lemma expiry_run:
  assumes "enforce_expiry_loop E p d ch hs w = (Inr r, w')" and "derive_status d = Active"
    and "h \<in> set hs" and "linked w p h l" and "fl_upstream_cltv_expiry l \<noteq> None" and "htlc_cltv_expiry h \<le> k"
    and "\<And>nd n nd'. node_get_block_height (c_node E) nd = (Inr n, nd') \<Longrightarrow> k \<le> n" and "\<And>n. ch = Some n \<Longrightarrow> k \<le> n"
  shows "errored p w' \<and> (\<forall>n. r = Some n \<longrightarrow> k \<le> n)"
  using assms(1,3,4,8)
proof (induction hs arbitrary: ch w)
  case (Cons h' hs)
  obtain x w1 where load: "load_link E (hosted_scid_of E p) (htlc_id h') w = (Inr x, w1)"
    and rest: "(case x of
       None \<Rightarrow> enforce_expiry_loop E p d ch hs
     | Some link \<Rightarrow>
         if fl_upstream_cltv_expiry link = None then enforce_expiry_loop E p d ch hs
         else abind (case ch of Some n \<Rightarrow> aret n | None \<Rightarrow> lift_node (node_get_block_height (c_node E))) (\<lambda>height.
           if height < htlc_cltv_expiry h' then enforce_expiry_loop E p d (Some height) hs
           else abind (mark_errored E p d HOSTED_HTLC_EXPIRED_ERROR) (\<lambda>_.
             abind (resolve_forward_fail E (hosted_scid_of E p) (htlc_id h') (be_bytes 2 0x4008)) (\<lambda>_.
             aret (Some height))))) w1 = (Inr r, w')"
    using Cons.prems(1) by (auto simp: abind_eq_Inr)
  note seen = link_seen [OF load]
  show ?case
  proof (cases "x = None \<or> (\<exists>l. x = Some l \<and> fl_upstream_cltv_expiry l = None)")
    case True
    then have "enforce_expiry_loop E p d ch hs w1 = (Inr r, w')" using rest by auto
    moreover have "h \<noteq> h'" using True seen Cons.prems(3) assms(5) by auto
    ultimately show ?thesis using Cons.IH [of ch w1] Cons.prems(2-4) seen by auto
  next
    case False
    then obtain l' where l': "x = Some l'" "fl_upstream_cltv_expiry l' \<noteq> None" by auto
    obtain n w2 where height: "(case ch of Some n \<Rightarrow> aret n | None \<Rightarrow> lift_node (node_get_block_height (c_node E))) w1 = (Inr n, w2)"
      and rest2: "(if n < htlc_cltv_expiry h' then enforce_expiry_loop E p d (Some n) hs
           else abind (mark_errored E p d HOSTED_HTLC_EXPIRED_ERROR) (\<lambda>_.
             abind (resolve_forward_fail E (hosted_scid_of E p) (htlc_id h') (be_bytes 2 0x4008)) (\<lambda>_.
             aret (Some n)))) w2 = (Inr r, w')"
      using rest l' by (auto simp: abind_eq_Inr)
    have n: "k \<le> n" "view (w_store w2) = view (w_store w1)"
      using height Cons.prems(4) assms(7)
      by (auto simp: lift_node_def amap_err_def on_node_def azoom_def split: option.splits prod.splits sum.splits)
    show ?thesis
    proof (cases "n < htlc_cltv_expiry h'")
      case True
      then have "h \<noteq> h'" using n(1) assms(6) by auto
      then show ?thesis using Cons.IH [of "Some n" w2] Cons.prems(2-3) rest2 True n seen by auto
    next
      case False
      then show ?thesis
        using rest2 n(1) errored_after(2) [OF assms(2)] by (auto simp: abind_eq_Inr) (metis snd_conv)
    qed
  qed
qed simp

section \<open>A run of the enforcement\<close>

lemma errored_kept: "maintains (errored p) (enforce_channels E now ch ps) (\<lambda>_. True)"
proof (induction ps arbitrary: ch)
  case (Cons q ps)
  have "maintains (errored p) (enforce_channel E now ch q) (\<lambda>_. True)"
    by (rule maintains_weaken [OF watch_channel [where k = 0]]) (auto simp: grows_status)
  then show ?case by (simp add: maintains_abind_unit Cons)
qed (simp add: maintains_def)

lemma overdue_run:
  assumes "enforce_channel E now ch p w = (Inr r, w')"
    and "watch p (\<lambda>d. derive_status d = Active \<and> overdue now k d h l) [forward_key (hosted_scid_of E p) (htlc_id h) \<mapsto> (g, v)] w"
    and "from_slice (c_link E) v = Inr l"
    and "\<And>nd n nd'. node_get_block_height (c_node E) nd = (Inr n, nd') \<Longrightarrow> k \<le> n" and "\<And>n. ch = Some n \<Longrightarrow> k \<le> n"
  shows "errored p w'"
proof -
  obtain x w1 where load: "load_channel E p w = (Inr x, w1)"
    and rest: "(case x of None \<Rightarrow> aret ch
     | Some data \<Rightarrow>
         if derive_status data \<noteq> Active then aret ch
         else abind (afind (cd_uncommitted data) (enforce_pending_offer E p data now)) (\<lambda>hit. case hit of
           Some _ \<Rightarrow> aret ch
         | None \<Rightarrow> enforce_expiry_loop E p data ch (outgoing_htlcs (cd_lcss data)))) w1 = (Inr r, w')"
    using assms(1) by (auto simp: enforce_channel_def abind_eq_Inr)
  have w1: "view (w_store w1) = view (w_store w)"
    using maintains_snd [OF view_load [of "\<lambda>V. V = view (w_store w)" p], of w] load by simp
  obtain d where d: "x = Some d" "derive_status d = Active" "overdue now k d h l"
    using assms(2) load_stored [OF load] by (auto simp: stored_seen watched_def)
  have "Some (g, v) = view (w_store w) (forward_key (hosted_scid_of E p) (htlc_id h))"
    using assms(2) by (simp add: watched_def map_le_def)
  then have link: "linked w1 p h l" using assms(3) w1 by metis
  obtain y w2 where offers: "afind (cd_uncommitted d) (enforce_pending_offer E p d now) w1 = (Inr y, w2)"
    and rest2: "(case y of Some _ \<Rightarrow> aret ch
         | None \<Rightarrow> enforce_expiry_loop E p d ch (outgoing_htlcs (cd_lcss d))) w2 = (Inr r, w')"
    using rest d by (auto simp: abind_eq_Inr)
  show ?thesis
  proof (cases y)
    case None
    have w2: "view (w_store w2) = view (w_store w1)" "\<not> (Local (Add h) \<in> set (cd_uncommitted d) \<and> (\<exists>t \<le> now. fl_hosted_commit_deadline_unix l = Some t))"
      using pending_offers_run [OF offers d(2)] link None by (auto simp: not_le)
    have loop: "enforce_expiry_loop E p d ch (outgoing_htlcs (cd_lcss d)) w2 = (Inr r, w')" using rest2 None by simp
    have due: "h \<in> set (outgoing_htlcs (cd_lcss d))" "fl_upstream_cltv_expiry l \<noteq> None" "htlc_cltv_expiry h \<le> k"
      using d(3) w2(2) by (auto simp: overdue_def)
    have "linked w2 p h l" using link w2(1) by simp
    then show ?thesis
      using expiry_run [OF loop d(2) due(1) _ due(2,3)] assms(4,5) by blast
  qed (use pending_offers_run [OF offers d(2)] rest2 in auto)
qed

lemma enforced:
  assumes "enforce_channels E now ch ps w = (Inr u, w')" and "p \<in> set ps"
    and "\<And>q. q \<in> set ps \<Longrightarrow> q \<noteq> p \<Longrightarrow> hosted_scid_of E q \<noteq> hosted_scid_of E p"
    and "watch p (\<lambda>d. derive_status d = Active \<and> overdue now k d h l) [forward_key (hosted_scid_of E p) (htlc_id h) \<mapsto> (g, v)] w"
    and "from_slice (c_link E) v = Inr l"
    and "\<And>nd n nd'. node_get_block_height (c_node E) nd = (Inr n, nd') \<Longrightarrow> k \<le> n" and "\<And>n. ch = Some n \<Longrightarrow> k \<le> n"
  shows "errored p w'"
  using assms(1-4,7)
proof (induction ps arbitrary: ch w)
  case (Cons q ps)
  let ?F = "[forward_key (hosted_scid_of E p) (htlc_id h) \<mapsto> (g, v)]"
  obtain r w1 where one: "enforce_channel E now ch q w = (Inr r, w1)"
    and rest: "enforce_channels E now r ps w1 = (Inr u, w')"
    using Cons.prems(1) by (auto simp: abind_eq_Inr)
  show ?case
  proof (cases "q = p")
    case True
    have "errored p w1"
      by (rule overdue_run [OF _ Cons.prems(4) assms(5,6)]) (use one True Cons.prems(5) in auto)
    then show ?thesis using maintainsD [OF errored_kept _ rest] by blast
  next
    case False
    have "maintains (watch p (\<lambda>d. derive_status d = Active \<and> overdue now k d h l) ?F) (enforce_channel E now ch q)
        (\<lambda>r. \<forall>n. r = Some n \<longrightarrow> k \<le> n)"
      by (rule watch_channel) (use False Cons.prems(3,5) assms(6) in
          \<open>auto simp: grows_status forward_key_inj\<close>)
    from maintainsD [OF this Cons.prems(4) one]
    show ?thesis using Cons.IH [OF rest] Cons.prems(2,3) False by auto
  qed
qed simp

lemma deadlines_enforced:
  assumes "enforce_forward_deadlines_at E now w = (Inr u, w')" and "list_channels E w = (Inr peers, w1)" and "p \<in> set peers"
    and "\<And>q. q \<in> set peers \<Longrightarrow> q \<noteq> p \<Longrightarrow> hosted_scid_of E q \<noteq> hosted_scid_of E p"
    and "\<And>nd n nd'. node_get_block_height (c_node E) nd = (Inr n, nd') \<Longrightarrow> k \<le> n"
    and "stored_channel E view w p = Some d" and "derive_status d = Active" and "overdue now k d h l"
    and "view (w_store w) (forward_key (hosted_scid_of E p) (htlc_id h)) = Some (g, v)" and "from_slice (c_link E) v = Inr l"
  shows "\<exists>d'. stored_channel E view w' p = Some d' \<and> derive_status d' = SErrored"
proof -
  have run: "enforce_channels E now None peers w1 = (Inr u, w')"
    using assms(1,2) by (simp add: enforce_forward_deadlines_at_def abind_run)
  have "view (w_store w1) = view (w_store w)"
    using maintains_snd [OF view_channels [of "\<lambda>V. V = view (w_store w)"], of w] assms(2) by simp
  then have "watch p (\<lambda>d. derive_status d = Active \<and> overdue now k d h l) [forward_key (hosted_scid_of E p) (htlc_id h) \<mapsto> (g, v)] w1"
    using assms(6-9) by (simp add: watched_def stored_seen map_le_def)
  from enforced [OF run assms(3,4) this assms(10,5)] show ?thesis
    by (auto simp: watched_def stored_seen)
qed

end

end
