(* ===== verification/Admission.thy ===== *)
theory Admission
  imports Host_Rules
begin

text \<open>
  Which HTLCs the host offers to a hosted peer. \<open>channel_handle_htlc_add_with_upstream_expiry\<close> offers an
  HTLC of the network, of another hosted peer or of a recovery; every check stands before the first
  thing it records, so whatever it records shows that all checks passed. \<open>within_limits\<close> is the
  conjunction of them.
\<close>

definition within_limits :: "('st, 'v, 'nd) controller \<Rightarrow> ChannelData \<Rightarrow> UpdateAddHtlc \<Rightarrow> u64 \<Rightarrow> u32 option \<Rightarrow> bool" where
  "within_limits E d h incoming_scid upstream \<longleftrightarrow>
     derive_status d = Active \<and>
     (\<exists>next. lcss_next (c_crypto E) (manager_of d) = Inr next \<and>
        htlc_amount_msat h \<le> local_balance_msat next \<and>
        length (incoming_htlcs next) + length (outgoing_htlcs next) <
          unat (ihc_max_accepted_htlcs (init_hosted_channel (cd_lcss d))) \<and>
        min (unat (sum_msat (incoming_htlcs next @ outgoing_htlcs next)) + unat (htlc_amount_msat h)) (2 ^ 64 - 1) \<le>
          unat (ihc_max_htlc_value_in_flight_msat (init_hosted_channel (cd_lcss d)))) \<and>
     ihc_htlc_minimum_msat (init_hosted_channel (cd_lcss d)) \<le> htlc_amount_msat h \<and>
     (\<exists>routing. (\<forall>r. cd_routing_policy d = Some r \<longrightarrow> routing = r) \<and>
        htlc_amount_msat h \<le> rp_htlc_maximum_msat routing \<and>
        (\<forall>expiry. upstream = Some expiry \<longrightarrow> (\<exists>q. hosted_scid_of E q = incoming_scid) \<or>
           unat (htlc_cltv_expiry h) + unat (rp_cltv_expiry_delta routing) \<le> unat expiry))"

text \<open>What reads records nothing.\<close>

definition quiet :: "event list \<Rightarrow> bool \<Rightarrow> ('st, 'nd) world \<Rightarrow> bool" where
  "quiet tr C w \<longleftrightarrow> w_trace w = tr \<or> C"

lemma quiet_store: "maintains (quiet tr C) (on_store m) (\<lambda>_. True)" "maintains (quiet tr C) (lift_store m') (\<lambda>_. True)"
  by (auto simp: maintains_def quiet_def lift_store_def amap_err_def on_store_def azoom_def split: prod.splits sum.splits)

lemma quiet_node: "maintains (quiet tr C) (on_node m) (\<lambda>_. True)" "maintains (quiet tr C) (lift_node m') (\<lambda>_. True)"
  by (auto simp: maintains_def quiet_def lift_node_def amap_err_def on_node_def azoom_def split: prod.splits sum.splits)

lemma quiet_any: "C \<Longrightarrow> maintains (quiet tr C) m (\<lambda>_. True)"
  by (simp add: maintains_def quiet_def)

lemma quiet_policy: "maintains (quiet tr C) (effective_policy E) (\<lambda>_. True)"
  unfolding effective_policy_def
  by (rule maintains_acase_any [OF quiet_store(1)]) (auto simp: maintains_def split: sum.splits StoreError.splits)

lemma quiet_routing:
  "maintains (quiet tr C) (routing_policy_for_data E d) (\<lambda>r. \<forall>x. cd_routing_policy d = Some x \<longrightarrow> r = x)"
proof (cases "cd_routing_policy d")
  case None
  then show ?thesis
    unfolding routing_policy_for_data_def
    by (auto intro!: maintains_abind_unit [OF quiet_policy] maintains_aret)
qed (simp add: routing_policy_for_data_def maintains_def)

lemma quiet_source:
  "maintains (quiet tr C) (peer_for_hosted_scid E a) (\<lambda>r. r \<noteq> None \<longrightarrow> (\<exists>q. hosted_scid_of E q = a))"
  unfolding peer_for_hosted_scid_def list_channels_def
  by (intro maintains_abind_unit [OF maintains_abind_unit [OF quiet_store(2)]] maintains_aret)
    (auto simp: find_Some_iff)

lemma quiet_fail: "maintains (quiet tr C) (fail_message E k x) (\<lambda>_. True)"
  unfolding fail_message_def by (rule quiet_node)

lemma quiet_cltv:
  "maintains (quiet tr C) (case u of None \<Rightarrow> aret False
     | Some upstream \<Rightarrow>
         if source = None then
           abind (alift (ok_or (checked_add (htlc_cltv_expiry h) (ucast (rp_cltv_expiry_delta routing))) e))
             (\<lambda>needed. aret (upstream < needed))
         else aret False)
     (\<lambda>low. \<not> low \<longrightarrow> (\<forall>x. u = Some x \<longrightarrow> source \<noteq> None \<or>
        unat (htlc_cltv_expiry h) + unat (rp_cltv_expiry_delta routing) \<le> unat x))"
proof -
  have "unat (ucast (rp_cltv_expiry_delta routing) :: u32) = unat (rp_cltv_expiry_delta routing)"
    using unsigned_less [of "rp_cltv_expiry_delta routing", where 'a = nat]
    by (simp add: unsigned_ucast_eq take_bit_nat_eq_self)
  then show ?thesis
    by (auto simp: maintains_def abind_def ok_or_def checked_add_def not_less word_le_nat_alt unat_word_ariths
        split: option.splits if_splits)
qed

text \<open>The checks that follow the lookup of the preimage.\<close>

lemma quiet_checks:
  assumes "derive_status d = Active" and "within_limits E d h a u \<Longrightarrow> C"
  shows "maintains (quiet tr C)
    (abind (routing_policy_for_data E d) (\<lambda>routing.
     abind (peer_for_hosted_scid E a) (\<lambda>source_peer.
     abind (case u of None \<Rightarrow> aret False
       | Some upstream \<Rightarrow>
           if source_peer = None then
             abind (alift (ok_or (checked_add (htlc_cltv_expiry h) (ucast (rp_cltv_expiry_delta routing))) e))
               (\<lambda>needed. aret (upstream < needed))
           else aret False) (\<lambda>cltv_too_low.
     if cltv_too_low then fail_message E key 0x100d
     else if htlc_amount_msat h < ihc_htlc_minimum_msat (init_hosted_channel (cd_lcss d)) then fail_message E key 0x400e
     else if htlc_amount_msat h > rp_htlc_maximum_msat routing then fail_message E key 0x1007
     else abind (try_state (lcss_next (c_crypto E) (manager_of d))) (\<lambda>next.
     if htlc_amount_msat h > local_balance_msat next then fail_message E key 0x1007
     else if length (incoming_htlcs next) + length (outgoing_htlcs next) + 1 >
             unat (ihc_max_accepted_htlcs (init_hosted_channel (cd_lcss d))) then fail_message E key 0x1007
     else if saturating_add (sum_msat (incoming_htlcs next @ outgoing_htlcs next)) (htlc_amount_msat h) >
             ihc_max_htlc_value_in_flight_msat (init_hosted_channel (cd_lcss d)) then fail_message E key 0x1007
     else m))))) (\<lambda>_. True)"
proof (intro maintains_abind [OF quiet_routing] maintains_abind [OF quiet_source] maintains_abind [OF quiet_cltv]
    maintains_if quiet_fail maintains_try_state quiet_any assms(2), goal_cases)
  case (1 routing source low n)
  then show ?case
    using assms(1) unat_saturating_add [of "sum_msat (incoming_htlcs n @ outgoing_htlcs n)" "htlc_amount_msat h"]
    by (auto simp: within_limits_def not_less word_le_nat_alt)
qed

lemma require_records_nothing:
  assumes "require_channel E p w = (x, w1)"
  shows "w_trace w1 = w_trace w" "w_connections w1 = w_connections w"
  using assms by (auto simp: require_channel_def load_channel_def abind_run acase_run on_store_def azoom_def
      split: prod.splits sum.splits StoreError.splits)

context host_env
begin

lemma offer_guarded:
  assumes "channel_handle_htlc_add_with_upstream_expiry E p h key a b s u w = (r, w')" and "w_trace w' \<noteq> w_trace w"
  shows "\<exists>d. stored_channel E view w p = Some d \<and> within_limits E d h a u \<and> w_connections w p \<noteq> Some False"
proof -
  obtain x w1 where load: "require_channel E p w = (x, w1)" by fastforce
  note w1 = require_records_nothing [OF load]
  obtain d where d: "x = Inr d"
    using assms w1 load by (cases x) (auto simp: channel_handle_htlc_add_with_upstream_expiry_def abind_run)
  then have stored: "stored_channel E view w p = Some d" using require_stored load by blast
  define C where "C \<longleftrightarrow> within_limits E d h a u \<and> w_connections w p \<noteq> Some False"
  have start: "quiet (w_trace w) C w1" using w1 by (simp add: quiet_def)
  have known: "maintains (quiet (w_trace w) C)
      (acase (on_node (node_lookup_preimage (c_node E) (htlc_payment_hash h))) (\<lambda>known. case known of
         Inr (Some preimage) \<Rightarrow> lift_node (node_resolve_htlc (c_node E) key (Resolve preimage))
       | _ \<Rightarrow> m)) (\<lambda>_. True)" if "maintains (quiet (w_trace w) C) m (\<lambda>_. True)" for m
    by (intro maintains_acase_any [OF quiet_node(1)]) (auto split: sum.split option.split intro: that quiet_node)
  have "quiet (w_trace w) C w'"
  proof (cases "derive_status d = Active \<and> w_connections w p \<noteq> Some False")
    case True
    then have "within_limits E d h a u \<Longrightarrow> C" by (simp add: C_def)
    from maintainsD [OF known [OF quiet_checks [OF conjunct1 [OF True] this]] start] show ?thesis
      using assms(1) load d w1 True
      by (simp add: channel_handle_htlc_add_with_upstream_expiry_def abind_run peer_is_known_disconnected_def Let_def)
  next
    case False
    then show ?thesis
      using assms(1) load d w1 start maintainsD [OF quiet_fail start]
      by (auto simp: channel_handle_htlc_add_with_upstream_expiry_def abind_run peer_is_known_disconnected_def split: if_splits)
  qed
  then show ?thesis using assms(2) stored by (auto simp: quiet_def C_def)
qed

end

end
