(* ===== verification/Onion.thy ===== *)
theory Onion
  imports Sphinx
begin

text \<open>
  Properties of the onion code: the length prefixes agree with those of the wire codecs, the payload
  parser inverts the payload builder, peeling inverts construction, what peeling accepts is
  authentic, and the one input on which the payload parser panics.
\<close>

section \<open>BigSize\<close>

lemma write_bigsize_eq: "write_bigsize v = write_varint v"
  by (simp add: write_bigsize_def write_varint_def writer_defs)

lemma be_val_take_lt: "be_val (take n bs) < 256 ^ n"
proof -
  have "(256 :: nat) ^ length (take n bs) \<le> 256 ^ n" by (intro power_increasing) simp_all
  then show ?thesis using be_val_less [of "take n bs"] by linarith
qed

lemma ucast_be_val:
  "ucast (word_of_nat (be_val (take 2 bs)) :: u16) = (word_of_nat (be_val (take 2 bs)) :: u64)"
  "ucast (word_of_nat (be_val (take 4 bs)) :: u32) = (word_of_nat (be_val (take 4 bs)) :: u64)"
  using be_val_take_lt [of 2 bs] be_val_take_lt [of 4 bs]
  by (simp_all add: word_unat_eq_iff unat_ucast_u64 unat_of_nat)

lemma word_bounds:
  "(v :: u64) < 0x10000 \<longleftrightarrow> v \<le> 0xffff" "v < TLV_TYPE_HIGH_RANGE \<longleftrightarrow> v \<le> 0xffffffff"
  by (auto simp: word_less_nat_alt word_le_nat_alt TLV_TYPE_HIGH_RANGE_def)

lemma read_bigsize_iff_varint:
  "read_bigsize data = Inr (v, n) \<longleftrightarrow>
     (\<exists>rest. read_varint data = Inr (v, rest) \<and> n = length data - length rest)"
proof (cases data)
  case Nil
  then show ?thesis by (simp add: read_bigsize_def read_varint_def dbind_run read_u8_def)
next
  case (Cons b rest)
  then show ?thesis
    by (auto simp: read_bigsize_def Let_def dbind_run read_u16_def read_u32_def read_u64_def
        ucast_be_val word_bounds dret_def dfail_def split: if_splits)
qed

lemma read_bigsize_write: "read_bigsize (write_bigsize v @ rest) = Inr (v, length (write_bigsize v))"
  by (auto simp: read_bigsize_iff_varint write_bigsize_eq read_varint_write)

lemma bigsize_len_eq: "length (write_bigsize v) = bigsize_len v"
  by (simp add: write_bigsize_def bigsize_len_def)

section \<open>Comparison and streams\<close>

lemma word_zero_iff:
  "(a OR b = 0) \<longleftrightarrow> a = 0 \<and> b = 0" "(a XOR b = 0) \<longleftrightarrow> a = b" for a b :: "'a :: len word"
  by (auto simp: bit_eq_iff bit_or_iff bit_xor_iff)

lemma or_fold_zero:
  "foldl (\<lambda>acc (l, r). acc OR (l XOR r)) acc xs = (0 :: 'a :: len word) \<longleftrightarrow>
     acc = 0 \<and> (\<forall>(l, r) \<in> set xs. l = r)"
  by (induction xs arbitrary: acc) (auto simp: word_zero_iff split: prod.splits)

lemma constant_time_eq_iff: "constant_time_eq a b \<longleftrightarrow> a = b"
  by (auto simp: constant_time_eq_def or_fold_zero list_eq_iff_zip_eq set_zip split_beta)

lemma xor_zip: "length ds \<le> length ss \<Longrightarrow> xor_in_place ds ss = map2 (\<lambda>d s. d XOR s) ds ss"
  by (induction ds ss rule: xor_in_place.induct) auto

lemma length_xor [simp]: "length (xor_in_place ds ss) = length ds"
  by (induction ds ss rule: xor_in_place.induct) auto

lemma xor_append:
  "length a = length s \<Longrightarrow> xor_in_place (a @ b) (s @ t) = xor_in_place a s @ xor_in_place b t"
  by (induction a s rule: list_induct2) simp_all

lemma xor_involution: "xor_in_place (xor_in_place ds ss) ss = ds"
  by (induction ds ss rule: xor_in_place.induct) (simp_all add: xor.assoc)

lemma take_xor: "take n (xor_in_place ds ss) = xor_in_place (take n ds) (take n ss)"
  by (induction ds ss arbitrary: n rule: xor_in_place.induct)
    (auto simp: take_Cons split: nat.split)

section \<open>Payloads\<close>

definition tlv_bytes :: "u64 \<times> bytes \<Rightarrow> bytes" where
  "tlv_bytes r = write_bigsize (fst r) @ write_bigsize (word_of_nat (length (snd r))) @ snd r"

lemma write_bigsize_ne [simp]: "write_bigsize v \<noteq> []"
  by (simp add: write_bigsize_def)

lemma parse_step:
  assumes "length (pre @ tlv_bytes (t, v) @ rest) < 2 ^ 64" and "\<forall>l. last_type = Some l \<longrightarrow> l < t"
  shows "parse_tlv_loop (pre @ tlv_bytes (t, v) @ rest) (length pre) last_type flds =
    (case tlv_field t v flds of Inl e \<Rightarrow> Inl e
     | Inr f \<Rightarrow> parse_tlv_loop ((pre @ tlv_bytes (t, v)) @ rest) (length (pre @ tlv_bytes (t, v))) (Some t) f)"
proof -
  let ?len = "write_bigsize (word_of_nat (length v))"
  let ?data = "pre @ tlv_bytes (t, v) @ rest"
  let ?c1 = "length pre + length (write_bigsize t)"
  let ?c2 = "?c1 + length ?len"
  have data: "?data = pre @ write_bigsize t @ ?len @ v @ rest" by (simp add: tlv_bytes_def)
  have r1: "read_bigsize (drop (length pre) ?data) = Inr (t, length (write_bigsize t))"
    by (simp add: data read_bigsize_write)
  have "drop ?c1 ?data = ?len @ v @ rest" by (simp add: data)
  then have r2: "read_bigsize (drop ?c1 ?data) = Inr (word_of_nat (length v), length ?len)"
    by (simp add: read_bigsize_write)
  have un: "unat (word_of_nat (length v) :: u64) = length v"
    using assms(1) by (simp add: data unat_of_nat)
  have wrap: "(?c2 + length v) mod 2 ^ 64 = ?c2 + length v"
    using assms(1) by (simp add: data)
  have val: "take (?c2 + length v - ?c2) (drop ?c2 ?data) = v" by (simp add: data)
  have asc: "\<not> (case last_type of None \<Rightarrow> False | Some prev \<Rightarrow> t \<le> prev)"
    using assms(2) by (auto simp: not_le split: option.splits)
  have bounds: "length pre < length ?data" "\<not> length ?data < ?c2 + length v" "\<not> ?c2 + length v < ?c2"
    by (simp_all add: data)
  have "length (pre @ tlv_bytes (t, v)) = ?c2 + length v" by (simp add: tlv_bytes_def)
  then show ?thesis
    using bounds
    by (subst parse_tlv_loop.simps)
      (simp only: r1 r2 asc un wrap val Let_def sum.case prod.case if_True if_False not_False_eq_True
        append_assoc simp_thms)
qed

lemma parse_records:
  assumes "length (pre @ concat (map tlv_bytes rs)) < 2 ^ 64"
    and "sorted_wrt (<) (case last_type of None \<Rightarrow> map fst rs | Some l \<Rightarrow> l # map fst rs)"
  shows "parse_tlv_loop (pre @ concat (map tlv_bytes rs)) (length pre) last_type flds =
    rfold (\<lambda>f (t, v). tlv_field t v f) flds rs"
  using assms
proof (induction rs arbitrary: pre last_type flds)
  case Nil
  then show ?case by (simp add: parse_tlv_loop.simps)
next
  case (Cons r rs)
  obtain t v where r: "r = (t, v)" by fastforce
  have step: "parse_tlv_loop (pre @ tlv_bytes (t, v) @ concat (map tlv_bytes rs)) (length pre) last_type flds =
    (case tlv_field t v flds of Inl e \<Rightarrow> Inl e
     | Inr f \<Rightarrow> parse_tlv_loop ((pre @ tlv_bytes (t, v)) @ concat (map tlv_bytes rs))
         (length (pre @ tlv_bytes (t, v))) (Some t) f)"
    using Cons.prems r by (intro parse_step) (auto split: option.splits)
  have "parse_tlv_loop ((pre @ tlv_bytes (t, v)) @ concat (map tlv_bytes rs))
         (length (pre @ tlv_bytes (t, v))) (Some t) f = rfold (\<lambda>f (t, v). tlv_field t v f) f rs" for f
    using Cons.prems r by (intro Cons.IH) (auto split: option.splits)
  then show ?case
    using step by (simp add: r rbind_def split: sum.splits)
qed

lemma be_val_drop_zeros: "be_val (dropWhile (\<lambda>b. b = 0) bs) = be_val bs"
proof (induction bs)
  case (Cons b bs)
  then show ?case using be_val_append [of "[0]" bs] by (simp add: be_val_def)
qed simp

lemma minimal_be_tu:
  assumes "unat v < 256 ^ n" and "1 \<le> n" and "n \<le> 8"
  shows "be_tu (minimal_be v) n = Inr v" and "minimal_be v \<noteq> []" and "length (minimal_be v) \<le> 8"
proof -
  let ?d = "dropWhile (\<lambda>b. b = 0) (be_bytes 8 (unat v))"
  have val: "be_val ?d = unat v"
    using be_val_drop_zeros [of "be_bytes 8 (unat v)"] unsigned_less [of v, where 'a = nat] by simp
  have len: "length ?d \<le> 8" using length_dropWhile_le [of "\<lambda>b. b = 0" "be_bytes 8 (unat v)"] by simp
  show ne: "minimal_be v \<noteq> []" by (simp add: minimal_be_def Let_def split: list.split)
  have all: "be_tu (minimal_be v) n = Inr v \<and> length (minimal_be v) \<le> 8"
  proof (cases ?d)
    case Nil
    then have "unat v = 0" using val by (simp only: Nil be_val_def foldl_Nil)
    then have "v = 0" by (simp add: unat_eq_0)
    moreover have "minimal_be 0 = [0]" by code_simp
    ultimately show ?thesis using assms(2) by (simp add: be_tu_def be_val_def)
  next
    case (Cons b bs)
    have b: "b \<noteq> 0" using hd_dropWhile [of "\<lambda>b. b = 0" "be_bytes 8 (unat v)"] Cons by auto
    have "256 ^ length bs \<le> be_val (b # bs)"
      using be_val_append [of "[b]" bs] b
      by (simp add: be_val_def word_neq_0_conv word_less_nat_alt trans_le_add1)
    moreover have "be_val (b # bs) = unat v" using val Cons by simp
    ultimately have "256 ^ length bs < (256 :: nat) ^ n" using assms(1) by linarith
    then have "length bs < n" by (rule power_less_imp_less_exp [rotated]) simp
    then show ?thesis
      using Cons b val len by (simp add: minimal_be_def be_tu_def)
  qed
  then show "be_tu (minimal_be v) n = Inr v" and "length (minimal_be v) \<le> 8" by auto
qed

text \<open>A payment secret is an array of 32 bytes.\<close>

definition secret_sized :: "bytes option \<Rightarrow> bool" where
  "secret_sized secret \<longleftrightarrow> (case secret of None \<Rightarrow> True | Some s \<Rightarrow> length s = 32)"

text \<open>
  The records of a built payload, in the order they are written.
\<close>

definition payload_records :: "u64 \<Rightarrow> u32 \<Rightarrow> u64 option \<Rightarrow> bytes option \<Rightarrow> (u64 \<times> bytes) list" where
  "payload_records amount cltv scid secret =
     [(2, minimal_be amount), (4, minimal_be (ucast cltv))] @
     (case scid of None \<Rightarrow> [] | Some s \<Rightarrow> [(6, be_bytes 8 (unat s))]) @
     (case secret of None \<Rightarrow> []
      | Some s \<Rightarrow> let a = dropWhile (\<lambda>b. b = 0) (be_bytes 8 (unat amount))
          in [(8, s @ [word_of_nat (length a)] @ a)])"

lemma amount_bytes_len: "length (dropWhile (\<lambda>b. b = 0) (be_bytes 8 n)) \<le> 8"
  using length_dropWhile_le [of "\<lambda>b. b = 0" "be_bytes 8 n"] by simp

lemma build_payload_records:
  assumes "secret_sized secret"
  shows "build_payload amount cltv scid secret = concat (map tlv_bytes (payload_records amount cltv scid secret))"
  using assms
  by (auto simp: secret_sized_def build_payload_def payload_records_def tlv_bytes_def write_tlv_u64_def Let_def add_ac
      split: option.splits)

lemma write_bigsize_len: "length (write_bigsize v) \<le> 9"
  by (simp add: write_bigsize_def)

lemma tlv_bytes_len: "length (tlv_bytes r) \<le> 18 + length (snd r)"
  using write_bigsize_len [of "fst r"] write_bigsize_len [of "word_of_nat (length (snd r))"]
  by (simp add: tlv_bytes_def)

lemma minimal_be_len: "length (minimal_be v) \<le> 8"
  by (rule minimal_be_tu(3) [of v 8]) (use unsigned_less [of v, where 'a = nat] in simp_all)

lemma build_payload_len:
  assumes "secret_sized secret"
  shows "length (build_payload amount cltv scid secret) \<le> 236"
    and "2 \<le> length (build_payload amount cltv scid secret)"
proof -
  have small: "length (tlv_bytes r) \<le> 41 + 18" if "r \<in> set (payload_records amount cltv scid secret)" for r
    using that assms tlv_bytes_len [of r] minimal_be_len [of amount] minimal_be_len [of "ucast cltv"]
      amount_bytes_len [of "unat amount"]
    by (auto simp: secret_sized_def payload_records_def Let_def split: option.splits)
  have "length (concat (map tlv_bytes rs)) \<le> 59 * length rs"
    if "\<forall>r \<in> set rs. length (tlv_bytes r) \<le> 59" for rs
    using that by (induction rs) auto
  moreover have "length (payload_records amount cltv scid secret) \<le> 4"
    by (simp add: payload_records_def Let_def split: option.split)
  ultimately show "length (build_payload amount cltv scid secret) \<le> 236"
    using small by (fastforce simp: build_payload_records [OF assms])
  have "1 \<le> length (write_tlv_u64 t v)" for t v
    by (simp add: write_tlv_u64_def Suc_leI)
  from add_mono [OF this [of 2 amount] this [of 4 "ucast cltv"]]
  show "2 \<le> length (build_payload amount cltv scid secret)"
    unfolding build_payload_def length_append by linarith
qed

lemma ucast_cltv: "unat (ucast (c :: u32) :: u64) = unat c" "ucast (ucast c :: u64) = c"
  by (simp_all add: unat_ucast_u64 word_unat_eq_iff)

lemma payload_fields:
  assumes "secret_sized secret"
  shows "rfold (\<lambda>f (t, v). tlv_field t v f)
      \<lparr>pf_short_channel_id = None, pf_amt_to_forward = None, pf_outgoing_cltv_value = None\<rparr>
      (payload_records amount cltv scid secret) =
    Inr \<lparr>pf_short_channel_id = scid, pf_amt_to_forward = Some amount, pf_outgoing_cltv_value = Some cltv\<rparr>"
proof -
  have "be_tu (minimal_be amount) 8 = Inr amount"
    by (rule minimal_be_tu(1)) (use unsigned_less [of amount, where 'a = nat] in simp_all)
  moreover have "be_tu (minimal_be (ucast cltv)) 4 = Inr (ucast cltv)"
    by (rule minimal_be_tu(1)) (use unsigned_less [of cltv, where 'a = nat] in \<open>simp_all add: ucast_cltv\<close>)
  ultimately show ?thesis
    by (auto simp: payload_records_def tlv_field_def Let_def ucast_cltv split: option.splits)
qed

lemma payload_parses:
  assumes "secret_sized secret"
  shows "parse_tlv_payload (build_payload amount cltv scid secret) final =
    (if final \<or> scid \<noteq> None
     then Inr \<lparr>pf_short_channel_id = scid, pf_amt_to_forward = Some amount, pf_outgoing_cltv_value = Some cltv\<rparr>
     else Inl (invalid_payload ''missing short_channel_id for non-final payload''))"
proof -
  have "length (concat (map tlv_bytes (payload_records amount cltv scid secret))) < 2 ^ 64"
    using build_payload_len(1) [OF assms, where amount = amount and cltv = cltv and scid = scid] build_payload_records [OF assms, where amount = amount and cltv = cltv and scid = scid]
    by (simp add: order_le_less_trans)
  moreover have "sorted_wrt (<) (map fst (payload_records amount cltv scid secret))"
    by (simp add: payload_records_def Let_def split: option.splits)
  ultimately have "parse_tlv_loop (build_payload amount cltv scid secret) 0 None flds =
      rfold (\<lambda>f (t, v). tlv_field t v f) flds (payload_records amount cltv scid secret)" for flds
    using parse_records [of "[]" "payload_records amount cltv scid secret" None flds]
      build_payload_records [OF assms, where amount = amount and cltv = cltv and scid = scid] by simp
  then show ?thesis
    by (simp add: parse_tlv_payload_def payload_fields [OF assms])
qed

section \<open>Layers\<close>

text \<open>The plain hop data of one layer.\<close>

definition layer :: "bytes \<Rightarrow> bytes \<Rightarrow> bytes" where
  "layer payload nmac = write_bigsize (word_of_nat (length payload)) @ payload @ nmac"

lemma layer_len: "length payload \<le> 236 \<Longrightarrow> length nmac = 32 \<Longrightarrow> length (layer payload nmac) \<le> 277"
  using write_bigsize_len [of "word_of_nat (length payload)"] by (simp add: layer_def)

text \<open>
  What the onion code relies on of its crates: compressed keys are 33 bytes and parse back, the
  Diffie-Hellman products agree, tweaking a secret key tweaks its public key, HMAC-SHA256 has 32
  bytes and the ChaCha20 stream of a length is a prefix of the longer ones.
\<close>

locale sphinx_laws =
  fixes C :: "'c sphinx_crypto_scheme"
  assumes keys_parse: "scalar_from_be C (secret_bytes a) \<Longrightarrow> pk_ok C (pk_from_secret_key C a)"
    and dh: "scalar_from_be C (secret_bytes a) \<Longrightarrow> scalar_from_be C (secret_bytes b) \<Longrightarrow>
      pk_mul_tweak C (pk_from_secret_key C a) (secret_bytes b) =
      pk_mul_tweak C (pk_from_secret_key C b) (secret_bytes a)"
    and tweak: "scalar_from_be C (secret_bytes a) \<Longrightarrow> scalar_from_be C t \<Longrightarrow>
      sk_mul_tweak C a t = Some a' \<Longrightarrow>
      pk_mul_tweak C (pk_from_secret_key C a) t = Some (pk_from_secret_key C a') \<and>
      scalar_from_be C (secret_bytes a')"
    and mac_len: "length (hmac_mac C k d) = 32"
    and stream_len: "length (chacha20_keystream C k n) = n"
    and stream_prefix: "m \<le> n \<Longrightarrow> take m (chacha20_keystream C k n) = chacha20_keystream C k m"
begin

text \<open>What peeling does with an authentic layer, once the routing info is unwrapped.\<close>

lemma ecdh_commutes:
  assumes "scalar_from_be C (secret_bytes a)" and "scalar_from_be C (secret_bytes b)"
  shows "ecdh C a (pk_from_secret_key C b) = ecdh C b (pk_from_secret_key C a)"
  using assms dh [OF assms] by (simp add: ecdh_def)

lemma peel_layer:
  assumes E: "pk_ok C E" and ss: "ecdh C sk E = Inr ss" and H: "length H = 1300"
    and mac: "mac = hmac_mac C (hmac_mac C KEY_MU ss) (H @ ad)"
    and open_layer: "xor_in_place (H @ replicate 1300 0) (chacha20_keystream C (hmac_mac C KEY_RHO ss) 2600) =
      write_bigsize (word_of_nat (length payload)) @ payload @ nmac @ rest"
    and sizes: "length nmac = 32" "2 \<le> length payload" "length payload \<le> 236"
  shows "peel_onion C sk ([0] @ serialize E @ H @ mac) ad =
    rbind (parse_tlv_payload payload (list_all (\<lambda>b. b = 0) nmac)) (\<lambda>flds.
    rbind (if list_all (\<lambda>b. b = 0) nmac then Inr []
           else rbind (blind_pubkey C E (blinding_factor C E ss)) (\<lambda>E'.
             Inr ([0] @ serialize E' @ take 1300 rest @ nmac))) (\<lambda>next_onion.
    rbind (unwrap_panic (pf_amt_to_forward flds)) (\<lambda>amt.
    rbind (unwrap_panic (pf_outgoing_cltv_value flds)) (\<lambda>cltv.
    Inr \<lparr>po_short_channel_id = unwrap_or 0 (pf_short_channel_id flds), po_amt_to_forward = amt,
         po_outgoing_cltv_value = cltv, po_next_onion = next_onion, po_shared_secret = ss\<rparr>))))"
proof -
  define onion where "onion = [0] @ serialize E @ H @ mac"
  let ?len = "word_of_nat (length payload) :: u64"
  let ?w = "length (write_bigsize ?len)"
  have key: "length (serialize E) = 33" "pk_from_slice C (serialize E) = Some E"
    using E by (simp_all add: pk_ok_def)
  have mlen: "length mac = 32" by (simp add: mac mac_len)
  have parts: "length onion = 1366" "onion ! 0 = 0" "take 33 (drop (Suc 0) onion) = serialize E"
    "take 1300 (drop 34 onion) = H" "take 32 (drop 1334 onion) = mac"
    using key H mlen by (simp_all add: onion_def)
  have un: "unat ?len = length payload" using sizes by (simp add: unat_of_nat)
  have small: "\<not> ?len < 2" using sizes(2) un by (simp add: word_less_nat_alt)
  have "length (xor_in_place (H @ replicate 1300 0) (chacha20_keystream C (hmac_mac C KEY_RHO ss) 2600)) = 2600"
    using H by simp
  then have total: "?w + length payload + 32 + length rest = 2600"
    unfolding open_layer using sizes(1) by simp
  have w: "?w \<le> 9" by (rule write_bigsize_len)
  have "peel_onion C sk onion ad = rbind (parse_tlv_payload payload (list_all (\<lambda>b. b = 0) nmac)) (\<lambda>flds.
    rbind (if list_all (\<lambda>b. b = 0) nmac then Inr []
           else rbind (blind_pubkey C E (blinding_factor C E ss)) (\<lambda>E'.
             Inr ([0] @ serialize E' @ take 1300 rest @ nmac))) (\<lambda>next_onion.
    rbind (unwrap_panic (pf_amt_to_forward flds)) (\<lambda>amt.
    rbind (unwrap_panic (pf_outgoing_cltv_value flds)) (\<lambda>cltv.
    Inr \<lparr>po_short_channel_id = unwrap_or 0 (pf_short_channel_id flds), po_amt_to_forward = amt,
         po_outgoing_cltv_value = cltv, po_next_onion = next_onion, po_shared_secret = ss\<rparr>))))"
    using total w sizes small
    by (simp add: peel_onion_def constant_time_eq_iff ONION_PACKET_SIZE_def ONION_ROUTING_INFO_SIZE_def parts key ss
        derive_keys_def hmac_sha256_def chacha20_stream_def mac [symmetric] open_layer read_bigsize_write un Let_def)
  then show ?thesis by (simp only: onion_def)
qed

text \<open>A layer of the construction, and what unwrapping it yields.\<close>

lemma stream_split:
  "chacha20_keystream C k 2600 = chacha20_keystream C k 1300 @ drop 1300 (chacha20_keystream C k 2600)"
  using stream_prefix [of 1300 2600 k] append_take_drop_id [of 1300 "chacha20_keystream C k 2600"] by simp

lemma unwrap_wrapped:
  assumes "length plain = 1300"
  shows "xor_in_place (xor_in_place plain (chacha20_keystream C k 1300) @ zs) (chacha20_keystream C k 2600) =
    plain @ xor_in_place zs (drop 1300 (chacha20_keystream C k 2600))"
  using assms by (subst stream_split) (simp add: xor_append stream_len xor_involution)

lemma xor_zeros: "length ss = n \<Longrightarrow> xor_in_place (replicate n 0) ss = ss"
  by (induction ss arbitrary: n) auto

lemma unwrap_wrapped_zeros:
  assumes "length plain = 1300"
  shows "xor_in_place (xor_in_place plain (chacha20_keystream C k 1300) @ replicate 1300 0) (chacha20_keystream C k 2600) =
    plain @ drop 1300 (chacha20_keystream C k 2600)"
  using unwrap_wrapped [OF assms] by (simp add: xor_zeros stream_len)

lemma unwrap_filled:
  assumes "length hop + length zs = 1300" and "n + length hop \<le> 1300" and "length f = n"
  shows "\<exists>rest. xor_in_place
      (take (1300 - n) (xor_in_place (hop @ zs) (chacha20_keystream C k 1300)) @ f @ replicate 1300 0)
      (chacha20_keystream C k 2600) = hop @ rest"
proof -
  let ?m = "1300 - n"
  let ?s = "chacha20_keystream C k"
  have split: "?s 2600 = ?s ?m @ drop ?m (?s 2600)"
    using stream_prefix [of ?m 2600 k] append_take_drop_id [of ?m "?s 2600"] by simp
  have "take ?m (hop @ zs) = hop @ take (?m - length hop) zs" using assms(2) by simp
  then have "take ?m (xor_in_place (hop @ zs) (?s 1300)) =
      xor_in_place (hop @ take (?m - length hop) zs) (?s ?m)"
    using stream_prefix [of ?m 1300 k] by (simp add: take_xor)
  moreover have "length (hop @ take (?m - length hop) zs) = ?m" using assms by simp
  ultimately show ?thesis
    by (subst split) (simp add: xor_append stream_len xor_involution)
qed

lemma wrap_plain:
  assumes "length payload \<le> 236" and "length nmac = 32"
  shows "wrap_hop C ad None (payload, ss) (hp, nmac) =
    (let H = xor_in_place (layer payload nmac @ take (1300 - length (layer payload nmac)) hp)
           (chacha20_keystream C (hmac_mac C KEY_RHO ss) 1300)
     in Inr (H, hmac_mac C (hmac_mac C KEY_MU ss) (H @ ad)))"
  using layer_len [OF assms]
  by (simp add: wrap_hop_def layer_def [symmetric] ONION_ROUTING_INFO_SIZE_def derive_keys_def
      hmac_sha256_def chacha20_stream_def Let_def)

lemma wrap_filled:
  assumes "length payload \<le> 236" and "length nmac = 32" and "length f \<le> 277"
  shows "wrap_hop C ad (Some f) (payload, ss) (hp, nmac) =
    (let H = take (1300 - length f) (xor_in_place
           (layer payload nmac @ take (1300 - length (layer payload nmac)) hp)
           (chacha20_keystream C (hmac_mac C KEY_RHO ss) 1300)) @ f
     in Inr (H, hmac_mac C (hmac_mac C KEY_MU ss) (H @ ad)))"
  using layer_len [OF assms(1,2)] assms(3)
  by (simp add: wrap_hop_def layer_def [symmetric] ONION_ROUTING_INFO_SIZE_def derive_keys_def
      hmac_sha256_def chacha20_stream_def Let_def)

lemma peel_final:
  assumes "scalar_from_be C (secret_bytes sk)" and E: "pk_ok C E" and ss: "ecdh C sk E = Inr ss"
    and H: "length H = 1300" and secret: "secret_sized secret"
    and mac: "mac = hmac_mac C (hmac_mac C KEY_MU ss) (H @ ad)"
    and open_layer: "xor_in_place (H @ replicate 1300 0) (chacha20_keystream C (hmac_mac C KEY_RHO ss) 2600) =
      layer (build_payload amount cltv scid secret) (replicate 32 0) @ rest"
  shows "peel_onion C sk ([0] @ serialize E @ H @ mac) ad =
    Inr \<lparr>po_short_channel_id = unwrap_or 0 scid, po_amt_to_forward = amount,
         po_outgoing_cltv_value = cltv, po_next_onion = [], po_shared_secret = ss\<rparr>"
proof -
  have "list_all (\<lambda>b. b = 0) (replicate 32 (0 :: u8))" by (simp add: list_all_iff)
  then show ?thesis
    using peel_layer [OF E ss H mac, of "build_payload amount cltv scid secret" "replicate 32 0" rest]
      build_payload_len [OF secret, of amount cltv scid] open_layer
    by (simp add: layer_def payload_parses [OF secret] unwrap_panic_def)
qed

text \<open>A hop that is not the last finds the onion for the next one.\<close>

lemma peel_relay:
  assumes E: "pk_ok C E" and ss: "ecdh C sk E = Inr ss" and N: "blind_pubkey C E (blinding_factor C E ss) = Inr N"
    and H: "length H = 1300" and secret: "secret_sized secret"
    and mac: "mac = hmac_mac C (hmac_mac C KEY_MU ss) (H @ ad)"
    and next_mac: "length next_mac = 32" "next_mac \<noteq> replicate 32 0"
    and open_layer: "xor_in_place (H @ replicate 1300 0) (chacha20_keystream C (hmac_mac C KEY_RHO ss) 2600) =
      layer (build_payload amount cltv (Some scid) secret) next_mac @ rest" and rest: "take 1300 rest = next_data"
  shows "peel_onion C sk ([0] @ serialize E @ H @ mac) ad =
    Inr \<lparr>po_short_channel_id = scid, po_amt_to_forward = amount, po_outgoing_cltv_value = cltv,
         po_next_onion = [0] @ serialize N @ next_data @ next_mac, po_shared_secret = ss\<rparr>"
proof -
  have "\<not> list_all (\<lambda>b. b = 0) next_mac"
    using next_mac replicate_eqI [OF next_mac(1), of 0] by (auto simp: list_all_iff)
  then show ?thesis
    using peel_layer [OF E ss H mac, of "build_payload amount cltv (Some scid) secret" next_mac rest] N next_mac(1) rest
      build_payload_len [OF secret, of amount cltv "Some scid"] open_layer
    by (simp add: layer_def payload_parses [OF secret] unwrap_panic_def unwrap_or_def)
qed

lemma single_hop:
  assumes sk: "scalar_from_be C (secret_bytes sk)" and session: "scalar_from_be C (secret_bytes session)"
    and secret: "secret_sized secret"
    and secrets: "hop_secrets C session [(pk_from_secret_key C sk, payload)] = Inr [ss]"
    and payload: "payload = build_payload amount cltv scid secret"
  shows "\<exists>onion. create_payment_onion C session [(pk_from_secret_key C sk, payload)] ad = Inr onion \<and>
    length onion = 1366 \<and>
    peel_onion C sk onion ad =
      Inr \<lparr>po_short_channel_id = unwrap_or 0 scid, po_amt_to_forward = amount,
           po_outgoing_cltv_value = cltv, po_next_onion = [], po_shared_secret = ss\<rparr>"
proof -
  let ?L = "layer payload (replicate 32 0)"
  let ?plain = "?L @ take (1300 - length ?L) (replicate 1300 0)"
  let ?E = "pk_from_secret_key C session"
  define H where "H = xor_in_place ?plain (chacha20_keystream C (hmac_mac C KEY_RHO ss) 1300)"
  define mac where "mac = hmac_mac C (hmac_mac C KEY_MU ss) (H @ ad)"
  have len: "length payload \<le> 236" using build_payload_len [OF secret] payload by simp
  have pl: "length ?plain = 1300" using layer_len [OF len, of "replicate 32 0"] by simp
  have E: "pk_ok C ?E" by (rule keys_parse [OF session])
  have "ecdh C session (pk_from_secret_key C sk) = Inr ss"
    using secrets by (auto simp: rbind_eq_Inr Let_def split: if_splits)
  then have ss: "ecdh C sk ?E = Inr ss" using ecdh_commutes [OF sk session] by simp
  have create: "create_payment_onion C session [(pk_from_secret_key C sk, payload)] ad =
      Inr ([0] @ serialize ?E @ H @ mac)"
    using wrap_plain [OF len, of "replicate 32 0" ad ss "replicate 1300 0"] secrets
    by (simp add: create_payment_onion_def ONION_ROUTING_INFO_SIZE_def H_def mac_def Let_def del: hop_secrets.simps)
  have "length ([0] @ serialize ?E @ H @ mac) = 1366"
    using E pl by (simp add: pk_ok_def H_def mac_def mac_len)
  moreover have "peel_onion C sk ([0] @ serialize ?E @ H @ mac) ad =
      Inr \<lparr>po_short_channel_id = unwrap_or 0 scid, po_amt_to_forward = amount,
           po_outgoing_cltv_value = cltv, po_next_onion = [], po_shared_secret = ss\<rparr>"
    using unwrap_wrapped_zeros [OF pl, of "hmac_mac C KEY_RHO ss"] pl
    by (intro peel_final [OF sk E ss _ secret mac_def]) (simp_all add: H_def payload)
  ultimately show ?thesis using create by blast
qed

text \<open>
  Two hops. The inner layer is built with a filler that makes it equal to what the first hop
  computes after shifting its own layer out.
\<close>

lemma shift_out:
  fixes L1 H2 S :: bytes
  assumes "length H2 = 1300" and "length L1 \<le> 1300" and "length S = 1300"
    and "drop (1300 - length L1) H2 = take (length L1) S"
  shows "take 1300 (take (1300 - length L1) H2 @ S) = H2"
proof -
  have "take 1300 (take (1300 - length L1) H2 @ S) = take (1300 - length L1) H2 @ take (length L1) S"
    using assms(1,2) by (simp add: min.absorb2)
  also have "\<dots> = H2" using append_take_drop_id [of "1300 - length L1" H2] assms(4) by simp
  finally show ?thesis .
qed

lemma two_hop_secrets:
  assumes "hop_secrets C session [(p1, x1), (p2, x2)] = Inr [ss1, ss2]"
  obtains next_secret where "ecdh C session p1 = Inr ss1" and "ecdh C next_secret p2 = Inr ss2"
    and "scalar_from_be C (blinding_factor C (pk_from_secret_key C session) ss1)"
    and "sk_mul_tweak C session (blinding_factor C (pk_from_secret_key C session) ss1) = Some next_secret"
  using assms by (auto simp: rbind_eq_Inr Let_def ok_or_eq_Inr split: if_splits)

lemma two_hop_created:
  assumes secrets: "hop_secrets C session [(p1, x1), (p2, x2)] = Inr [ss1, ss2]"
    and len: "length x1 \<le> 236" "length x2 \<le> 236"
  defines "f \<equiv> take (encoded_hop_data_len (length x1)) (drop 1300 (chacha20_keystream C (hmac_mac C KEY_RHO ss1) 2600))"
  assumes inner: "wrap_hop C ad (Some f) (x2, ss2) (replicate 1300 0, replicate 32 0) = Inr (H2, mac2)"
    and outer: "wrap_hop C ad None (x1, ss1) (H2, mac2) = Inr (H1, mac1)"
  shows "create_payment_onion C session [(p1, x1), (p2, x2)] ad =
    Inr ([0] @ serialize (pk_from_secret_key C session) @ H1 @ mac1)"
  using assms
  by (simp add: create_payment_onion_def ONION_ROUTING_INFO_SIZE_def derive_keys_def hmac_sha256_def
      chacha20_stream_def Let_def del: hop_secrets.simps)

lemma encoded_len:
  "length payload \<le> 236 \<Longrightarrow> length nmac = 32 \<Longrightarrow>
     encoded_hop_data_len (length payload) = length (layer payload nmac)"
  by (simp add: encoded_hop_data_len_def layer_def bigsize_len_eq)

text \<open>The inner layer: it ends with the filler and its own hop opens it.\<close>

lemma inner_layer:
  assumes len: "length x2 \<le> 236" and f: "length f \<le> 277"
    and inner: "wrap_hop C ad (Some f) (x2, ss2) (replicate 1300 0, replicate 32 0) = Inr (H2, mac2)"
  obtains rest where "length H2 = 1300" and "drop (1300 - length f) H2 = f"
    and "mac2 = hmac_mac C (hmac_mac C KEY_MU ss2) (H2 @ ad)"
    and "xor_in_place (H2 @ replicate 1300 0) (chacha20_keystream C (hmac_mac C KEY_RHO ss2) 2600) =
      layer x2 (replicate 32 0) @ rest"
proof -
  let ?L = "layer x2 (replicate 32 0)"
  let ?zs = "take (1300 - length ?L) (replicate 1300 0)"
  let ?X = "xor_in_place (?L @ ?zs) (chacha20_keystream C (hmac_mac C KEY_RHO ss2) 1300)"
  have L: "length ?L \<le> 277" by (rule layer_len [OF len]) simp
  have H2: "H2 = take (1300 - length f) ?X @ f" and mac: "mac2 = hmac_mac C (hmac_mac C KEY_MU ss2) (H2 @ ad)"
    using wrap_filled [OF len _ f, of "replicate 32 0" ad ss2 "replicate 1300 0"] inner
    by (auto simp: Let_def)
  have "length ?L + length ?zs = 1300" using L by simp
  from unwrap_filled [OF this _ refl, of f "hmac_mac C KEY_RHO ss2"] L f obtain rest
    where "xor_in_place (H2 @ replicate 1300 0) (chacha20_keystream C (hmac_mac C KEY_RHO ss2) 2600) = ?L @ rest"
    by (auto simp: H2)
  moreover have "length H2 = 1300" "drop (1300 - length f) H2 = f" using L f by (simp_all add: H2)
  ultimately show thesis using mac that by blast
qed

text \<open>The outer layer: the first hop reads its payload and hands the inner layer on.\<close>

lemma outer_layer:
  assumes len: "length x1 \<le> 236" and H2: "length H2 = 1300" and mac2: "length mac2 = 32"
    and fill: "drop (1300 - length (layer x1 mac2)) H2 =
      take (length (layer x1 mac2)) (drop 1300 (chacha20_keystream C (hmac_mac C KEY_RHO ss1) 2600))"
  obtains H1 rest where "wrap_hop C ad None (x1, ss1) (H2, mac2) =
      Inr (H1, hmac_mac C (hmac_mac C KEY_MU ss1) (H1 @ ad))" and "length H1 = 1300"
    and "xor_in_place (H1 @ replicate 1300 0) (chacha20_keystream C (hmac_mac C KEY_RHO ss1) 2600) =
      layer x1 mac2 @ rest" and "take 1300 rest = H2"
proof -
  let ?L = "layer x1 mac2"
  let ?plain = "?L @ take (1300 - length ?L) H2"
  let ?S = "drop 1300 (chacha20_keystream C (hmac_mac C KEY_RHO ss1) 2600)"
  have L: "length ?L \<le> 277" by (rule layer_len [OF len mac2])
  have pl: "length ?plain = 1300" using L H2 by simp
  have "take 1300 (take (1300 - length ?L) H2 @ ?S) = H2"
    using L by (intro shift_out fill H2) (simp_all add: stream_len)
  moreover have "xor_in_place (xor_in_place ?plain (chacha20_keystream C (hmac_mac C KEY_RHO ss1) 1300) @
      replicate 1300 0) (chacha20_keystream C (hmac_mac C KEY_RHO ss1) 2600) =
      ?L @ (take (1300 - length ?L) H2 @ ?S)"
    using unwrap_wrapped_zeros [OF pl] by simp
  ultimately show thesis
    using wrap_plain [OF len mac2, of ad ss1 H2] pl
    by (intro that [of "xor_in_place ?plain (chacha20_keystream C (hmac_mac C KEY_RHO ss1) 1300)"
          "take (1300 - length ?L) H2 @ ?S"]) (simp_all add: Let_def)
qed

lemma two_hops:
  fixes sk1 sk2 session :: SecretKey
  assumes valid: "scalar_from_be C (secret_bytes sk1)" "scalar_from_be C (secret_bytes sk2)"
      "scalar_from_be C (secret_bytes session)"
    and sized: "secret_sized secret1" "secret_sized secret2"
    and x1_def: "x1 = build_payload amount1 cltv1 (Some scid) secret1"
    and x2_def: "x2 = build_payload amount2 cltv2 scid2 secret2"
    and secrets: "hop_secrets C session [(pk_from_secret_key C sk1, x1), (pk_from_secret_key C sk2, x2)] = Inr [ss1, ss2]"
    and inner: "wrap_hop C ad (Some (take (encoded_hop_data_len (length x1))
        (drop 1300 (chacha20_keystream C (hmac_mac C KEY_RHO ss1) 2600))))
      (x2, ss2) (replicate 1300 0, replicate 32 0) = Inr (H2, mac2)"
    and nonzero: "mac2 \<noteq> replicate 32 0"
  shows "\<exists>onion next_onion.
    create_payment_onion C session [(pk_from_secret_key C sk1, x1), (pk_from_secret_key C sk2, x2)] ad = Inr onion \<and>
    length onion = 1366 \<and> length next_onion = 1366 \<and>
    peel_onion C sk1 onion ad = Inr \<lparr>po_short_channel_id = scid, po_amt_to_forward = amount1,
      po_outgoing_cltv_value = cltv1, po_next_onion = next_onion, po_shared_secret = ss1\<rparr> \<and>
    peel_onion C sk2 next_onion ad = Inr \<lparr>po_short_channel_id = unwrap_or 0 scid2, po_amt_to_forward = amount2,
      po_outgoing_cltv_value = cltv2, po_next_onion = [], po_shared_secret = ss2\<rparr>"
proof -
  let ?E = "pk_from_secret_key C session"
  let ?f = "take (encoded_hop_data_len (length x1)) (drop 1300 (chacha20_keystream C (hmac_mac C KEY_RHO ss1) 2600))"
  obtain nsk where ss1: "ecdh C session (pk_from_secret_key C sk1) = Inr ss1"
    and ss2: "ecdh C nsk (pk_from_secret_key C sk2) = Inr ss2"
    and b: "scalar_from_be C (blinding_factor C ?E ss1)" "sk_mul_tweak C session (blinding_factor C ?E ss1) = Some nsk"
    by (rule two_hop_secrets [OF secrets])
  let ?N = "pk_from_secret_key C nsk"
  have N: "pk_mul_tweak C ?E (blinding_factor C ?E ss1) = Some ?N" "scalar_from_be C (secret_bytes nsk)"
    using tweak [OF valid(3) b] by simp_all
  have lens: "length x1 \<le> 236" "2 \<le> length x1" "length x2 \<le> 236"
    unfolding x1_def x2_def using build_payload_len sized by blast+
  have flen: "length ?f = encoded_hop_data_len (length x1)" "length ?f \<le> 277"
    using encoded_len [OF lens(1), of "replicate 32 0"] layer_len [OF lens(1), of "replicate 32 0"]
    by (simp_all add: stream_len)
  obtain rest2 where H2: "length H2 = 1300" "drop (1300 - length ?f) H2 = ?f"
    and mac2: "mac2 = hmac_mac C (hmac_mac C KEY_MU ss2) (H2 @ ad)"
    and open2: "xor_in_place (H2 @ replicate 1300 0) (chacha20_keystream C (hmac_mac C KEY_RHO ss2) 2600) =
      layer x2 (replicate 32 0) @ rest2"
    by (rule inner_layer [OF lens(3) flen(2) inner])
  have m2: "length mac2 = 32" by (simp add: mac2 mac_len)
  have elen: "encoded_hop_data_len (length x1) = length (layer x1 mac2)" by (rule encoded_len [OF lens(1) m2])
  obtain H1 rest1 where outer: "wrap_hop C ad None (x1, ss1) (H2, mac2) =
      Inr (H1, hmac_mac C (hmac_mac C KEY_MU ss1) (H1 @ ad))" and H1: "length H1 = 1300"
    and open1: "xor_in_place (H1 @ replicate 1300 0) (chacha20_keystream C (hmac_mac C KEY_RHO ss1) 2600) =
      layer x1 mac2 @ rest1" and rest1: "take 1300 rest1 = H2"
    by (rule outer_layer [OF lens(1) H2(1) m2, of ss1 ad]) (use H2(2) flen(1) elen in simp)
  define mac1 where "mac1 = hmac_mac C (hmac_mac C KEY_MU ss1) (H1 @ ad)"
  have E: "pk_ok C ?E" "pk_ok C ?N" by (auto intro: keys_parse valid N)
  have dh: "ecdh C sk1 ?E = Inr ss1" "ecdh C sk2 ?N = Inr ss2"
    using ss1 ss2 ecdh_commutes valid N(2) by simp_all
  have "blind_pubkey C ?E (blinding_factor C ?E ss1) = Inr ?N"
    using N b by (simp add: blind_pubkey_def)
  from peel_relay [OF E(1) dh(1) this H1 sized(1) mac1_def m2 nonzero _ rest1] open1
  have peel1: "peel_onion C sk1 ([0] @ serialize ?E @ H1 @ mac1) ad =
      Inr \<lparr>po_short_channel_id = scid, po_amt_to_forward = amount1, po_outgoing_cltv_value = cltv1,
           po_next_onion = [0] @ serialize ?N @ H2 @ mac2, po_shared_secret = ss1\<rparr>"
    by (simp add: x1_def)
  have "peel_onion C sk2 ([0] @ serialize ?N @ H2 @ mac2) ad =
      Inr \<lparr>po_short_channel_id = unwrap_or 0 scid2, po_amt_to_forward = amount2,
           po_outgoing_cltv_value = cltv2, po_next_onion = [], po_shared_secret = ss2\<rparr>"
    using open2 by (intro peel_final [OF valid(2) E(2) dh(2) H2(1) sized(2) mac2]) (simp add: x2_def)
  moreover have "create_payment_onion C session [(pk_from_secret_key C sk1, x1), (pk_from_secret_key C sk2, x2)] ad =
      Inr ([0] @ serialize ?E @ H1 @ mac1)"
    using two_hop_created [OF secrets lens(1,3) inner outer] by (simp add: mac1_def)
  moreover have "length ([0] @ serialize ?E @ H1 @ mac1) = 1366" "length ([0] @ serialize ?N @ H2 @ mac2) = 1366"
    using E H1 H2(1) m2 by (simp_all add: pk_ok_def mac1_def mac_len)
  ultimately show ?thesis using peel1 by blast
qed

end

section \<open>Round trips\<close>

text \<open>
  A concrete instance: products of 256-bit numbers for the curve, a constant HMAC key schedule
  and a stream of zeros. It satisfies every law, which shows that the laws are consistent.
\<close>

definition mul256 :: "bytes \<Rightarrow> bytes \<Rightarrow> bytes" where
  "mul256 a b = be_bytes 32 (be_val a * be_val b)"

definition model_sphinx :: sphinx_crypto where
  "model_sphinx = crypto.extend model_crypto
     \<lparr>scalar_from_be = (\<lambda>t. length t = 32),
      pk_mul_tweak = (\<lambda>pk t. Some (PublicKey (2 # mul256 (drop 1 (serialize pk)) t))),
      sk_mul_tweak = (\<lambda>sk t. Some (SecretKey (mul256 (secret_bytes sk) t))),
      pk_from_secret_key = model_pk,
      hmac_mac = (\<lambda>k d. be_bytes 32 (length d + 1)),
      chacha20_keystream = (\<lambda>k n. replicate n 0)\<rparr>"

lemma model_sphinx_sel [simp]:
  "sha256 model_sphinx = model_digest" "pk_from_slice model_sphinx = pk_from_slice model_crypto"
  "scalar_from_be model_sphinx t = (length t = 32)"
  "pk_mul_tweak model_sphinx pk t = Some (PublicKey (2 # mul256 (drop 1 (serialize pk)) t))"
  "sk_mul_tweak model_sphinx sk t = Some (SecretKey (mul256 (secret_bytes sk) t))"
  "pk_from_secret_key model_sphinx = model_pk"
  "hmac_mac model_sphinx k d = be_bytes 32 (length d + 1)"
  "chacha20_keystream model_sphinx k n = replicate n 0"
  by (simp_all add: model_sphinx_def crypto.defs model_crypto_def)

lemma model_pk_32: "length (secret_bytes a) = 32 \<Longrightarrow> model_pk a = PublicKey (2 # secret_bytes a)"
  using be_bytes_be_val [of "secret_bytes a"] by (simp add: model_pk_def)

interpretation zero_stream: sphinx_laws model_sphinx
proof unfold_locales
  fix a b a' :: SecretKey and t k d :: bytes and m n :: nat
  show "scalar_from_be model_sphinx (secret_bytes a) \<Longrightarrow> pk_ok model_sphinx (pk_from_secret_key model_sphinx a)"
    using model_pk_ok [of a] by (simp add: pk_ok_def)
  show "pk_mul_tweak model_sphinx (pk_from_secret_key model_sphinx a) (secret_bytes b) =
      pk_mul_tweak model_sphinx (pk_from_secret_key model_sphinx b) (secret_bytes a)"
    if "scalar_from_be model_sphinx (secret_bytes a)" "scalar_from_be model_sphinx (secret_bytes b)"
    using that by (simp add: model_pk_32 mul256_def mult.commute)
  show "pk_mul_tweak model_sphinx (pk_from_secret_key model_sphinx a) t = Some (pk_from_secret_key model_sphinx a') \<and>
      scalar_from_be model_sphinx (secret_bytes a')"
    if "scalar_from_be model_sphinx (secret_bytes a)" "scalar_from_be model_sphinx t"
      "sk_mul_tweak model_sphinx a t = Some a'"
    using that by (auto simp: model_pk_32 mul256_def)
qed simp_all

text \<open>
  An onion built for one recipient is 1366 bytes long and the recipient peels it: it finds the
  amount and the expiry the sender wrote, the short channel id if one was given and zero otherwise,
  no next onion, and the shared secret of the sender. \<open>sphinx_laws\<close> states what the
  crates promise; the session key is one for which the sender's key derivation succeeds.
\<close>

theorem single_hop_onion_peels:
  assumes "sphinx_laws C" and "scalar_from_be C (secret_bytes sk)"
    and "scalar_from_be C (secret_bytes session)" and "secret_sized secret"
    and "\<And>payload. hop_secrets C session [(pk_from_secret_key C sk, payload)] = Inr [ss]"
  shows "\<exists>onion. create_onion C session (pk_from_secret_key C sk) amount cltv scid secret ad = Inr onion \<and>
    length onion = ONION_PACKET_SIZE \<and>
    peel_onion C sk onion ad =
      Inr \<lparr>po_short_channel_id = scid, po_amt_to_forward = amount,
           po_outgoing_cltv_value = cltv, po_next_onion = [], po_shared_secret = ss\<rparr>"
proof -
  have "scid = unwrap_or 0 (if scid \<noteq> 0 then Some scid else None)" by (simp add: unwrap_or_def)
  then show ?thesis
    using sphinx_laws.single_hop [OF assms refl, of amount cltv "if scid \<noteq> 0 then Some scid else None" ad]
    unfolding create_onion_def ONION_PACKET_SIZE_def by simp
qed

definition sk_of :: "u8 \<Rightarrow> SecretKey" where
  "sk_of b = SecretKey (replicate 32 b)"

lemma model_hop_secrets:
  assumes "length (secret_bytes session) = 32"
  shows "\<exists>ss. \<forall>payload. hop_secrets model_sphinx session [(p1, payload)] = Inr [ss]"
    and "\<exists>ss1 ss2. \<forall>x1 x2. hop_secrets model_sphinx session [(p1, x1), (p2, x2)] = Inr [ss1, ss2]"
  using assms by (simp_all add: ecdh_def blinding_factor_def model_digest_def mul256_def Let_def)

theorem single_hop_onion_peels_witness:
  "\<exists>ss onion.
    create_onion model_sphinx (sk_of 7) (model_pk (sk_of 3)) 5000 144 0 (Some (replicate 32 1)) [9] = Inr onion \<and>
    length onion = ONION_PACKET_SIZE \<and>
    peel_onion model_sphinx (sk_of 3) onion [9] =
      Inr \<lparr>po_short_channel_id = 0, po_amt_to_forward = 5000,
           po_outgoing_cltv_value = 144, po_next_onion = [], po_shared_secret = ss\<rparr>"
proof -
  obtain ss where "\<And>payload. hop_secrets model_sphinx (sk_of 7) [(model_pk (sk_of 3), payload)] = Inr [ss]"
    using model_hop_secrets(1) [of "sk_of 7" "model_pk (sk_of 3)"] by (auto simp: sk_of_def)
  then show ?thesis
    using single_hop_onion_peels [OF zero_stream.sphinx_laws_axioms, of "sk_of 3" "sk_of 7" "Some (replicate 32 1)" ss 5000 144 0 "[9]"]
    by (auto simp: sk_of_def secret_sized_def)
qed

text \<open>
  C28. An onion built for a route of two hops is peeled by both: the first hop finds the short channel
  id, the amount and the expiry meant for it and a next onion of 1366 bytes, and the second hop
  peels that next onion as the final one. The filler the sender computes is exactly what the
  first hop appends when it shifts its own layer out. \<open>sphinx_laws\<close> states what the crates promise;
  \<open>mac2\<close> is the tag of the inner layer, which is not all zero, the mark of a final hop.
\<close>

theorem relay_onion_peels_twice:
  assumes "sphinx_laws C" and "scalar_from_be C (secret_bytes sk1)"
    and "scalar_from_be C (secret_bytes sk2)" and "scalar_from_be C (secret_bytes session)"
    and "\<And>x1 x2. hop_secrets C session [(pk_from_secret_key C sk1, x1), (pk_from_secret_key C sk2, x2)] = Inr [ss1, ss2]"
    and "wrap_hop C hash
      (Some (take (encoded_hop_data_len (length (build_payload amount cltv (Some scid) None)))
        (drop 1300 (chacha20_keystream C (hmac_mac C KEY_RHO ss1) 2600))))
      (build_payload amount cltv None None, ss2) (replicate 1300 0, replicate 32 0) = Inr (H2, mac2)"
    and "mac2 \<noteq> replicate 32 0"
  shows "\<exists>onion next_onion.
    create_relay_onion C session (pk_from_secret_key C sk1) (pk_from_secret_key C sk2) scid amount cltv hash = Inr onion \<and>
    length onion = ONION_PACKET_SIZE \<and> length next_onion = ONION_PACKET_SIZE \<and>
    peel_onion C sk1 onion hash = Inr \<lparr>po_short_channel_id = scid, po_amt_to_forward = amount,
      po_outgoing_cltv_value = cltv, po_next_onion = next_onion, po_shared_secret = ss1\<rparr> \<and>
    peel_onion C sk2 next_onion hash = Inr \<lparr>po_short_channel_id = 0, po_amt_to_forward = amount,
      po_outgoing_cltv_value = cltv, po_next_onion = [], po_shared_secret = ss2\<rparr>"
proof -
  have none: "secret_sized None" "unwrap_or 0 None = (0 :: u64)"
    by (simp_all add: secret_sized_def unwrap_or_def)
  show ?thesis
    using sphinx_laws.two_hops [OF assms(1-4) none(1) none(1) refl refl assms(5-7)] none(2)
    unfolding create_relay_onion_def ONION_PACKET_SIZE_def by simp
qed

theorem relay_onion_peels_twice_witness:
  "\<exists>ss1 ss2 onion next_onion.
    create_relay_onion model_sphinx (sk_of 7) (model_pk (sk_of 3)) (model_pk (sk_of 5)) 42 5000 144 [9] = Inr onion \<and>
    length onion = ONION_PACKET_SIZE \<and> length next_onion = ONION_PACKET_SIZE \<and>
    peel_onion model_sphinx (sk_of 3) onion [9] = Inr \<lparr>po_short_channel_id = 42, po_amt_to_forward = 5000,
      po_outgoing_cltv_value = 144, po_next_onion = next_onion, po_shared_secret = ss1\<rparr> \<and>
    peel_onion model_sphinx (sk_of 5) next_onion [9] = Inr \<lparr>po_short_channel_id = 0, po_amt_to_forward = 5000,
      po_outgoing_cltv_value = 144, po_next_onion = [], po_shared_secret = ss2\<rparr>"
proof -
  obtain ss1 ss2 where secrets: "\<And>x1 x2. hop_secrets model_sphinx (sk_of 7)
      [(model_pk (sk_of 3), x1), (model_pk (sk_of 5), x2)] = Inr [ss1, ss2]"
    using model_hop_secrets(2) [of "sk_of 7" "model_pk (sk_of 3)" "model_pk (sk_of 5)"] by (auto simp: sk_of_def)
  let ?x1 = "build_payload 5000 144 (Some 42) None"
  let ?x2 = "build_payload 5000 144 None None"
  let ?f = "take (encoded_hop_data_len (length ?x1)) (drop 1300 (replicate 2600 (0 :: u8)))"
  have "secret_sized None" by (simp add: secret_sized_def)
  note len = build_payload_len(1) [OF this, of 5000 144]
  have f: "length ?f \<le> 277"
    using zero_stream.encoded_len [OF len, of "replicate 32 0" "Some 42"]
      layer_len [OF len, of "replicate 32 0" "Some 42"] by simp
  obtain H2 mac2 where inner: "wrap_hop model_sphinx [9] (Some ?f) (?x2, ss2)
      (replicate 1300 0, replicate 32 0) = Inr (H2, mac2)"
    using zero_stream.wrap_filled [OF len [of None] _ f, of "replicate 32 0" "[9]" ss2 "replicate 1300 0"]
    by (simp add: Let_def)
  have "length H2 = 1300" "mac2 = hmac_mac model_sphinx (hmac_mac model_sphinx KEY_MU ss2) (H2 @ [9])"
    by (rule zero_stream.inner_layer [OF len f inner]; simp)+
  then have "be_val mac2 = 1302" by simp
  then have "mac2 \<noteq> replicate 32 0" by (auto simp: be_val_def numeral_eq_Suc)
  then show ?thesis
    using relay_onion_peels_twice [OF zero_stream.sphinx_laws_axioms, of "sk_of 3" "sk_of 5" "sk_of 7" ss1 ss2 "[9]" 5000 144 42 H2 mac2]
      secrets inner by (simp add: sk_of_def) blast
qed

section \<open>What peeling accepts\<close>

text \<open>
  C29. Whatever peeling accepts is authentic: the packet has 1366 bytes and version 0, its tag is the
  HMAC of the routing info and the associated data under the key of the secret shared with the
  ephemeral key in the packet, and the onion to forward is absent or again 1366 bytes long, with
  the tag the inner layer carries.
\<close>

theorem peeled_onion_is_authentic:
  assumes "peel_onion C sk onion ad = Inr p"
    and "\<And>pk t pk'. pk_mul_tweak C pk t = Some pk' \<Longrightarrow> length (serialize pk') = 33"
  shows "length onion = ONION_PACKET_SIZE \<and> onion ! 0 = 0 \<and>
    (\<exists>E. pk_from_slice C (take 33 (drop 1 onion)) = Some E \<and> ecdh C sk E = Inr (po_shared_secret p)) \<and>
    take 32 (drop 1334 onion) =
      hmac_mac C (hmac_mac C KEY_MU (po_shared_secret p)) (take ONION_ROUTING_INFO_SIZE (drop 34 onion) @ ad) \<and>
    (po_next_onion p = [] \<or> length (po_next_onion p) = ONION_PACKET_SIZE \<and> po_next_onion p ! 0 = 0)"
  using assms
  by (simp only: peel_onion_def Let_def rbind_eq_Inr ok_or_eq_Inr derive_keys_def hmac_sha256_def split_beta
      fst_conv snd_conv constant_time_eq_iff unwrap_panic_def blind_pubkey_def)
    (auto split: if_splits simp: ok_or_eq_Inr rbind_eq_Inr ONION_PACKET_SIZE_def ONION_ROUTING_INFO_SIZE_def)

theorem peeled_onion_is_authentic_witness:
  "\<exists>onion p. peel_onion model_sphinx (sk_of 3) onion [9] = Inr p \<and> length onion = ONION_PACKET_SIZE \<and>
    take 32 (drop 1334 onion) =
      hmac_mac model_sphinx (hmac_mac model_sphinx KEY_MU (po_shared_secret p))
        (take ONION_ROUTING_INFO_SIZE (drop 34 onion) @ [9])"
proof -
  obtain ss where "\<And>payload. hop_secrets model_sphinx (sk_of 7) [(model_pk (sk_of 3), payload)] = Inr [ss]"
    using model_hop_secrets(1) [of "sk_of 7" "model_pk (sk_of 3)"] by (auto simp: sk_of_def)
  then obtain onion p where "peel_onion model_sphinx (sk_of 3) onion [9] = Inr p"
    using zero_stream.single_hop [of "sk_of 3" "sk_of 7" None _ ss 5000 144 None "[9]"]
    by (auto simp: sk_of_def secret_sized_def)
  moreover from peeled_onion_is_authentic [OF this]
  have "length onion = ONION_PACKET_SIZE \<and> take 32 (drop 1334 onion) =
      hmac_mac model_sphinx (hmac_mac model_sphinx KEY_MU (po_shared_secret p))
        (take ONION_ROUTING_INFO_SIZE (drop 34 onion) @ [9])"
    by (simp add: mul256_def)
  ultimately show ?thesis by blast
qed

text \<open>
  The length prefixes of the onion code are those of the wire codecs: the writers agree, the
  length function is the length of what is written, and the readers accept the same prefixes with
  the same values, reporting the bytes consumed instead of the rest.
\<close>

theorem bigsize_is_varint:
  "write_bigsize v = write_varint v \<and> bigsize_len v = length (write_bigsize v) \<and>
   (read_bigsize data = Inr (w, n) \<longleftrightarrow>
     (\<exists>rest. read_varint data = Inr (w, rest) \<and> n = length data - length rest))"
  by (simp add: write_bigsize_eq bigsize_len_eq read_bigsize_iff_varint flip: bigsize_len_eq)


end
