(* ===== verification/Host_Model.thy ===== *)
theory Host_Model
  imports Balance Signatures Deadlines Admission Onion
begin

text \<open>
  A host that runs: the in-memory store and the mock node of the sources, the default configuration
  and the concrete instance of the cryptography at which the laws of the onion hold. Values are stored as they are, one constructor for
  each type. The contracts of the controller are discharged for it, which shows that the
  assumptions of the development hold together, and witnesses run the handlers on it.
\<close>

datatype stored =
    VChannel ChannelData
  | VPolicy ChannelPolicy
  | VSecret ChannelSecret
  | VLink ForwardLink
  | VMeta Meta
  | VEvent LedgerEvent
  | VMarker bool

definition stored_serde :: "('t \<Rightarrow> stored) \<Rightarrow> (stored \<Rightarrow> 't option) \<Rightarrow> ('t, stored) serde" where
  "stored_serde wrap proj =
     \<lparr>to_vec = (\<lambda>x. Inr (wrap x)),
      from_slice = (\<lambda>v. case proj v of Some x \<Rightarrow> Inr x | None \<Rightarrow> Inl ''invalid type'')\<rparr>"

definition host_secret :: SecretKey where
  "host_secret = SecretKey (replicate 32 7)"

definition peer_secret :: SecretKey where
  "peer_secret = SecretKey (replicate 32 9)"

definition host_pk :: PublicKey where
  "host_pk = model_pk host_secret"

definition peer_pk :: PublicKey where
  "peer_pk = model_pk peer_secret"

definition model_host :: "(stored MemoryStore, stored, MockNode) controller" where
  "model_host =
     \<lparr>c_crypto = model_sphinx, c_store = memory_store, c_node = mock_node,
      c_config = Config_default\<lparr>cfg_require_secret := False\<rparr>, c_node_secret = host_secret,
      c_node_public = host_pk, c_clock = (\<lambda>nd. Some 1700000000),
      c_session_key = (\<lambda>nd. (SecretKey (replicate 32 5), nd)), c_read_file = (\<lambda>f. None),
      c_channel = stored_serde VChannel (\<lambda>v. case v of VChannel d \<Rightarrow> Some d | _ \<Rightarrow> None),
      c_policy = stored_serde VPolicy (\<lambda>v. case v of VPolicy d \<Rightarrow> Some d | _ \<Rightarrow> None),
      c_secret = stored_serde VSecret (\<lambda>v. case v of VSecret d \<Rightarrow> Some d | _ \<Rightarrow> None),
      c_link = stored_serde VLink (\<lambda>v. case v of VLink d \<Rightarrow> Some d | _ \<Rightarrow> None),
      c_meta = stored_serde VMeta (\<lambda>v. case v of VMeta d \<Rightarrow> Some d | _ \<Rightarrow> None),
      c_event = stored_serde VEvent (\<lambda>v. case v of VEvent d \<Rightarrow> Some d | _ \<Rightarrow> None),
      c_marker = stored_serde VMarker (\<lambda>v. case v of VMarker d \<Rightarrow> Some d | _ \<Rightarrow> None)\<rparr>"

definition empty_world :: "(stored MemoryStore, MockNode) world" where
  "empty_world =
     \<lparr>w_store = [], w_node = MockNode_new 1440 host_pk ''regtest'', w_encodings = Map.empty,
      w_connections = Map.empty, w_trace = []\<rparr>"

lemma model_host_sel [simp]:
  "c_crypto model_host = model_sphinx" "c_store model_host = memory_store"
  "c_node model_host = mock_node" "c_node_secret model_host = host_secret"
  "c_node_public model_host = host_pk"
  by (simp_all add: model_host_def)

lemma stored_serde_ok: "(\<And>x. proj (wrap x) = Some x) \<Longrightarrow> serde_ok (stored_serde wrap proj)"
  by (simp add: serde_ok_def stored_serde_def)

interpretation mem_funded: funded_host model_host mem_view
proof (intro funded_host.intro host_env.intro host_env_axioms.intro funded_host_axioms.intro)
  show "keyed_store (c_store model_host) mem_view"
    using mem.keyed_store_axioms by simp
  show "hex_ok (c_crypto model_host)"
    using lower_hex_set by (simp add: hex_ok_def model_sphinx_def crypto.defs model_crypto_def unhex_lower_hex)
  show "serde_ok (c_channel model_host)" "serde_ok (c_policy model_host)" "serde_ok (c_secret model_host)"
    by (simp_all add: model_host_def stored_serde_ok)
  show "policy_ok (cfg_policy (c_config model_host))"
    by (simp add: model_host_def policy_ok_def Config_default_def ChannelPolicy_default_def)
qed

interpretation mem_signing: signing_host model_host mem_view
proof (intro signing_host.intro signing_host_axioms.intro)
  show "key_pair (c_crypto model_host) (c_node_secret model_host) (c_node_public model_host)"
    by (simp add: key_pair_def model_sphinx_def crypto.defs model_crypto_def model_sign_def model_pk_def host_pk_def)
qed (rule mem_funded.host_env_axioms)

interpretation mem_durable: durable_host model_host mem_view
proof (intro durable_host.intro durable_host_axioms.intro mem_funded.host_env_axioms)
  fix k :: key and v :: stored and g e st st'
  show "store_create (c_store model_host) k v st = (Inl e, st') \<Longrightarrow> mem_view st' = mem_view st"
    by (auto simp: memory_store_def mem_create_def split: if_splits)
  show "store_update (c_store model_host) k v g st = (Inl e, st') \<Longrightarrow> mem_view st' = mem_view st"
    by (auto simp: memory_store_def mem_update_def split: if_splits option.splits)
qed

section \<open>Runs of the memory host\<close>

lemma serde_of_host [simp]:
  "from_slice (c_channel model_host) (VChannel d) = Inr d" "to_vec (c_channel model_host) d = Inr (VChannel d)"
  by (simp_all add: model_host_def stored_serde_def)

lemma config_of_host [simp]:
  "cfg_chain_hash (c_config model_host) = replicate 32 0" "\<not> cfg_require_secret (c_config model_host)"
  "cfg_policy (c_config model_host) = ChannelPolicy_default"
  by (simp_all add: model_host_def Config_default_def)

lemma mem_get_view: "good_key k \<Longrightarrow> mem_get k st = (case mem_view st k of
    Some (g, b) \<Rightarrow> (Inr \<lparr>gv_generation = g, gv_bytes = b\<rparr>, st) | None \<Rightarrow> (Inl (NotFound k), st))"
  by (simp add: mem_get_def mem_view_def)

lemma mem_store_sel [simp]:
  "store_get memory_store = mem_get" "store_create memory_store = mem_create"
  "store_update memory_store = mem_update"
  by (simp_all add: memory_store_def)

lemma good_channel_key [simp]: "good_key (channel_key model_host p)" "good_key policy_key"
  by (rule mem_funded.good_keys)+

lemma load_run:
  "mem_view (w_store w) (channel_key model_host p) = None \<Longrightarrow> load_channel model_host p w = (Inr None, w)"
  "mem_view (w_store w) (channel_key model_host p) = Some (g, VChannel d) \<Longrightarrow>
     load_channel model_host p w = (Inr (Some d), w)"
  by (simp_all add: load_channel_def acase_run on_store_def azoom_def get_json_def abind_run mem_get_view)

lemma policy_run:
  "mem_view (w_store w) policy_key = None \<Longrightarrow> effective_policy model_host w = (Inr ChannelPolicy_default, w)"
  by (simp add: effective_policy_def acase_run on_store_def azoom_def get_json_def abind_run mem_get_view)

definition put_channel :: "PublicKey \<Rightarrow> u64 \<Rightarrow> ChannelData \<Rightarrow> (stored MemoryStore, MockNode) world \<Rightarrow>
    (stored MemoryStore, MockNode) world" where
  "put_channel p g d w =
     w\<lparr>w_store := bt_insert (key_to_string (channel_key model_host p)) (g, VChannel d) (w_store w),
       w_trace := w_trace w @ [Saved p d]\<rparr>"

lemma put_channel_stored [simp]: "stored_channel model_host mem_view (put_channel p g d w) p = Some d"
  by (simp add: put_channel_def stored_channel_def mem_view_upd)

lemma save_run:
  "mem_view (w_store w) (channel_key model_host p) = None \<Longrightarrow>
     save_channel model_host p d None w = (Inr (), put_channel p 0 d w)"
  "mem_view (w_store w) (channel_key model_host p) = Some (g, VChannel d0) \<Longrightarrow>
     save_channel model_host p d None w = (Inr (), put_channel p (g + 1) d w)"
  by (simp_all add: save_channel_def Let_def abind_run acase_run on_store_def lift_store_def azoom_def
      create_json_def update_json_def get_json_def mem_create_def mem_update_def mem_get_view
      amap_err_def record_event_def put_channel_def mem_view_def)

lemma save_conflict:
  "mem_view (w_store w) (channel_key model_host p) = Some (h, VChannel d0) \<Longrightarrow> h \<noteq> g \<Longrightarrow>
     save_channel model_host p d (Some g) w = (Inl (StoreErr (GenerationMismatch g h)), w)"
  by (simp add: save_channel_def Let_def abind_run on_store_def lift_store_def azoom_def update_json_def
      mem_update_def amap_err_def mem_view_def)

lemma send_keeps_store: "w_store (snd (send_message E p m w)) = w_store w"
  by (auto simp: send_message_def send_message_with_encoding_def peer_wire_encoding_def abind_run
      try_encode_def lift_node_def amap_err_def on_node_def azoom_def record_event_def map_err_def
      split: sum.split prod.split)

lemma stored_channel_store: "w_store w = w_store w' \<Longrightarrow> stored_channel E view w p = stored_channel E view w' p"
  by (simp add: stored_channel_def)

section \<open>A channel is requested\<close>

definition sample_invoke :: InvokeHostedChannel where
  "sample_invoke = \<lparr>inv_chain_hash = replicate 32 0, inv_refund_scriptpubkey = [1, 2], inv_secret = []\<rparr>"

lemma new_invoke_stores:
  assumes "mem_view (w_store w) policy_key = None"
    and "save_channel model_host p (new_channel_data ChannelPolicy_default [1, 2]) None w =
      (Inr (), put_channel p g (new_channel_data ChannelPolicy_default [1, 2]) w)"
  shows "stored_channel model_host mem_view
      (snd (handle_new_channel_invoke model_host p sample_invoke w)) p =
    Some (new_channel_data ChannelPolicy_default [1, 2])"
proof -
  have run: "handle_new_channel_invoke model_host p sample_invoke w =
      send_message model_host p (InitHostedChannel (init_of_policy ChannelPolicy_default))
        (put_channel p g (new_channel_data ChannelPolicy_default [1, 2]) w)"
    using assms by (simp add: handle_new_channel_invoke_def policy_for_invoke_def sample_invoke_def
        abind_run policy_run)
  show ?thesis
    unfolding run using put_channel_stored stored_channel_store [OF send_keeps_store] by metis
qed

lemma invoke_stores:
  "stored_channel model_host mem_view
     (snd (handle_invoke model_host p sample_invoke (empty_world\<lparr>w_encodings := e\<rparr>))) p =
   Some (new_channel_data ChannelPolicy_default [1, 2])"
proof -
  have none: "mem_view (w_store (empty_world\<lparr>w_encodings := e\<rparr>)) k = None" for k
    by (simp add: mem_view_def empty_world_def)
  show ?thesis
    using new_invoke_stores [OF none save_run(1) [OF none]]
    by (simp add: handle_invoke_def abind_run load_run(1) [OF none] sample_invoke_def)
qed

text \<open>The history of the request: the channel is saved, then its parameters are sent.\<close>

lemma send_run:
  assumes "mn_send_custom_msg_error (w_node w) = None" and "mn_send_custom_msg_fail_after (w_node w) = None"
    and "w_encodings w p = Some Strict" and "wf_msg m"
  shows "w_trace (snd (send_message model_host p m w)) = w_trace w @ [Sent p m]"
proof -
  obtain bs where "encode_with_encoding m Strict = Inr bs"
    using msg_codec.roundtrip [of m m] assms(4) by (auto simp: encode_with_encoding_def)
  then show ?thesis
    using assms by (simp add: send_message_def send_message_with_encoding_def peer_wire_encoding_def abind_run
        try_encode_def lift_node_def amap_err_def on_node_def azoom_def mock_node_def
        mock_send_custom_msg_def record_event_def unwrap_or_def)
qed

lemma invoke_history:
  "w_trace (snd (handle_invoke model_host p sample_invoke (empty_world\<lparr>w_encodings := [p \<mapsto> Strict]\<rparr>))) =
     [Saved p (new_channel_data ChannelPolicy_default [1, 2]), Sent p (InitHostedChannel (init_of_policy ChannelPolicy_default))]"
proof -
  let ?w = "empty_world\<lparr>w_encodings := [p \<mapsto> Strict]\<rparr>"
  let ?d = "new_channel_data ChannelPolicy_default [1, 2]"
  have none: "mem_view (w_store ?w) k = None" for k by (simp add: mem_view_def empty_world_def)
  have "handle_invoke model_host p sample_invoke ?w =
      send_message model_host p (InitHostedChannel (init_of_policy ChannelPolicy_default)) (put_channel p 0 ?d ?w)"
    by (simp add: handle_invoke_def abind_run load_run(1) [OF none] sample_invoke_def handle_new_channel_invoke_def
        policy_for_invoke_def policy_run [OF none] save_run(1) [OF none])
  moreover have "wf_msg (InitHostedChannel (init_of_policy ChannelPolicy_default))"
    by (simp add: init_of_policy_def wf_ihc_def ChannelPolicy_default_def UINT64_OVERFLOW_MAX_def)
  ultimately show ?thesis
    using send_run [of "put_channel p 0 ?d ?w"] by (simp add: put_channel_def empty_world_def MockNode_new_def)
qed

lemma sample_invoke_wf: "wf_msg (InvokeHostedChannel sample_invoke)"
  by (simp add: wf_invoke_def sample_invoke_def)

section \<open>The channel is opened\<close>

definition requested :: ChannelData where
  "requested = new_channel_data ChannelPolicy_default [1, 2]"

definition open_state :: LastCrossSignedState where
  "open_state = (cd_lcss requested)\<lparr>block_day := 10\<rparr>"

definition open_sig :: bytes where
  "open_sig = (case hosted_sig_hash model_sphinx open_state of
     Inr h \<Rightarrow> model_sign h peer_secret | Inl _ \<Rightarrow> [])"

definition open_update :: StateUpdate where
  "open_update = \<lparr>su_block_day = 10, su_local_updates = 0, su_remote_updates = 0,
     su_local_sig_of_remote = open_sig\<rparr>"

lemma host_crypto_sel [simp]:
  "sign_ecdsa model_sphinx = model_sign"
  "sig_from_compact model_sphinx x = (length x = 64)"
  "verify_ecdsa model_sphinx d x pk = (x = be_bytes 32 (be_val d) @ drop 1 (serialize pk))"
  by (simp_all add: model_sphinx_def crypto.defs model_crypto_def)

lemma open_state_wf: "wf_lcss open_state"
  by (simp add: open_state_def requested_def new_channel_data_def init_of_policy_def wf_lcss_def wf_ihc_def
      ChannelPolicy_default_def UINT64_OVERFLOW_MAX_def)

lemma open_sig_verifies:
  "verify_remote_sig model_sphinx (open_state\<lparr>remote_sig_of_local := open_sig\<rparr>) peer_pk"
  using hosted_sig_hash_ok [OF open_state_wf, of model_sphinx]
  by (auto simp: verify_remote_sig_def open_sig_def model_sign_def peer_pk_def model_pk_def)

lemma require_run:
  "mem_view (w_store w) (channel_key model_host p) = Some (g, VChannel d) \<Longrightarrow>
     require_channel model_host p w = (Inr d, w)"
  by (simp add: require_channel_def abind_run load_run ok_or_def)

lemma block_day_run:
  "current_block_day model_host w = (Inr (mn_block_height (w_node w) div 144), w)"
  by (simp add: current_block_day_def abind_run lift_node_def amap_err_def on_node_def azoom_def
      mock_get_block_height_def)

definition open_signed :: LastCrossSignedState where
  "open_signed = (case sign model_sphinx host_secret (open_state\<lparr>remote_sig_of_local := open_sig\<rparr>) of
     Inr s \<Rightarrow> s | Inl _ \<Rightarrow> open_state)"

definition opened :: ChannelData where
  "opened = requested\<lparr>cd_lcss := open_signed, cd_established := True\<rparr>"

lemma open_signed_run:
  "sign model_sphinx host_secret (open_state\<lparr>remote_sig_of_local := open_sig\<rparr>) = Inr open_signed"
proof -
  have "hosted_sig_hash model_sphinx (reverse (open_state\<lparr>remote_sig_of_local := open_sig\<rparr>)) =
      Inr (sha256 model_sphinx (material_image (reverse open_state)))"
    using hosted_sig_hash_ok [of "reverse open_state" model_sphinx] open_state_wf
    by (simp add: reverse_upd_sigs)
  then show ?thesis by (simp add: open_signed_def sign_def)
qed

text \<open>What is left to do once the opened channel is saved.\<close>

definition opening_tail :: "(stored MemoryStore, MockNode, unit) handler" where
  "opening_tail =
     abind (record_ledger_once model_host peer_pk (event_prefix model_host peer_pk open_signed @ ''open'')
       ChannelOpen (remote_balance_msat open_signed) None) (\<lambda>_.
     abind (send_message model_host peer_pk (StateUpdate (state_update open_signed))) (\<lambda>_.
     send_channel_update model_host peer_pk))"

lemma opening_tail_keeps:
  "\<not> is_ledger_key k \<Longrightarrow> maintains (\<lambda>w. mem_view (w_store w) k = x) opening_tail (\<lambda>_. True)"
  unfolding opening_tail_def by (intro maintains_abind_unit mem_funded.entry_kept) simp_all

lemma opening_saves:
  assumes stored: "mem_view (w_store w) (channel_key model_host peer_pk) = Some (g, VChannel requested)"
    and height: "mn_block_height (w_node w) = 1440"
  shows "handle_state_update model_host peer_pk open_update w = opening_tail (put_channel peer_pk (g + 1) opened w)"
proof -
  have s: "(cd_lcss requested)\<lparr>block_day := 10, local_updates := 0, remote_updates := 0, incoming_htlcs := [],
      outgoing_htlcs := [], remote_sig_of_local := open_sig\<rparr> = open_state\<lparr>remote_sig_of_local := open_sig\<rparr>"
    by (simp add: open_state_def requested_def new_channel_data_def)
  have status: "derive_status requested = Opening"
    by (simp add: requested_def new_channel_data_def derive_status_def)
  show ?thesis
    by (simp add: handle_state_update_def abind_run require_run [OF stored] status
        handle_opening_state_update_def block_day_run height open_update_def abs_diff_def s
        open_sig_verifies try_encode_def open_signed_run save_run(2) [OF stored] opened_def opening_tail_def)
qed

lemma opening_run:
  assumes "mem_view (w_store w) (channel_key model_host peer_pk) = Some (g, VChannel requested)"
    and "mn_block_height (w_node w) = 1440"
  shows "stored_channel model_host mem_view (snd (handle_state_update model_host peer_pk open_update w)) peer_pk =
    Some opened"
proof -
  have "mem_view (w_store (put_channel peer_pk (g + 1) opened w)) (channel_key model_host peer_pk) =
      Some (g + 1, VChannel opened)"
    by (simp add: put_channel_def mem_view_upd)
  from maintains_snd [OF opening_tail_keeps [OF mem_funded.channel_key_not_ledger(1)] this] show ?thesis
    unfolding opening_saves [OF assms] by (simp add: stored_channel_def)
qed

lemma open_update_wf: "wf_msg (StateUpdate open_update)"
  using hosted_sig_hash_ok [OF open_state_wf, of model_sphinx]
  by (simp add: open_update_def wf_state_update_def open_sig_def model_sign_def)

lemma from_slice_channel: "from_slice (c_channel model_host) v = Inr d \<longleftrightarrow> v = VChannel d"
  by (auto simp: model_host_def stored_serde_def split: stored.splits)

lemma stored_as:
  "stored_channel model_host mem_view w p = Some d \<longleftrightarrow>
     (\<exists>g. mem_view (w_store w) (channel_key model_host p) = Some (g, VChannel d))"
  by (auto simp: stored_channel_def from_slice_channel split: option.splits sum.splits)

text \<open>A message that the peer sends takes the host one step further.\<close>

lemma message_step:
  assumes "wf_msg m"
    and "\<And>bs. decode_legacy_aware bs = Inr \<lparr>dm_message = m, dm_encoding = Strict\<rparr> \<Longrightarrow> sound w (CustomMsg p bs)"
  shows "host_step model_host sound w
    (snd (dispatch_message model_host p m (w\<lparr>w_encodings := (w_encodings w)(p \<mapsto> Strict)\<rparr>)))"
proof -
  obtain bs where bs: "decode_legacy_aware bs = Inr \<lparr>dm_message = m, dm_encoding = Strict\<rparr>"
    "handle_custommsg model_host p bs w =
      log_error (dispatch_message model_host p m) (w\<lparr>w_encodings := (w_encodings w)(p \<mapsto> Strict)\<rparr>)"
    using custommsg_dispatches [OF assms(1)] by blast
  have "host_step model_host sound w (run_entry model_host (CustomMsg p bs) w)"
    by (intro host_step.entry assms(2) bs(1))
  then show ?thesis by (simp add: bs(2) log_error_world)
qed

lemma reach_requested:
  assumes "\<And>bs. decode_legacy_aware bs =
      Inr \<lparr>dm_message = InvokeHostedChannel sample_invoke, dm_encoding = Strict\<rparr> \<Longrightarrow>
      sound empty_world (CustomMsg peer_pk bs)"
  shows "\<exists>w. host_reachable model_host mem_view sound w \<and>
    stored_channel model_host mem_view w peer_pk = Some requested"
proof -
  have "host_reachable model_host mem_view sound empty_world"
    by (rule host_reachable.start) (simp_all add: empty_world_def mem_view_def)
  from host_reachable.step [OF this message_step [where sound = sound and p = peer_pk, OF sample_invoke_wf assms]] show ?thesis
    using invoke_stores [of peer_pk] by (auto simp: requested_def)
qed

lemma opening_step:
  assumes "\<And>w bs m. decode_legacy_aware bs = Inr \<lparr>dm_message = m, dm_encoding = Strict\<rparr> \<Longrightarrow>
      m \<in> {InvokeHostedChannel sample_invoke, StateUpdate open_update} \<Longrightarrow> sound w (CustomMsg peer_pk bs)"
  shows "\<exists>w w'. host_reachable model_host mem_view sound w \<and>
    stored_channel model_host mem_view w peer_pk = Some requested \<and> host_step model_host sound w w' \<and>
    stored_channel model_host mem_view w' peer_pk = Some opened"
proof -
  obtain w where w: "host_reachable model_host mem_view sound w"
      "stored_channel model_host mem_view w peer_pk = Some requested"
    using reach_requested [of sound] assms by blast
  let ?w = "w\<lparr>w_node := MockNode_new 1440 host_pk ''regtest''\<rparr>"
  obtain g where g: "mem_view (w_store w) (channel_key model_host peer_pk) = Some (g, VChannel requested)"
    using w(2) by (auto simp: stored_as)
  have reach: "host_reachable model_host mem_view sound ?w"
    by (rule host_reachable.step [OF w(1) host_step.outside])
  have "host_step model_host sound ?w
      (snd (dispatch_message model_host peer_pk (StateUpdate open_update)
        (?w\<lparr>w_encodings := (w_encodings ?w)(peer_pk \<mapsto> Strict)\<rparr>)))"
    by (intro message_step open_update_wf) (use assms in auto)
  moreover have "stored_channel model_host mem_view ?w peer_pk = Some requested"
    using g by (auto simp: stored_as)
  ultimately show ?thesis
    using reach opening_run [of "?w\<lparr>w_encodings := (w_encodings w)(peer_pk \<mapsto> Strict)\<rparr>" g] g
    by (auto simp: MockNode_new_def)
qed

lemma reach_opened:
  assumes "\<And>w bs m. decode_legacy_aware bs = Inr \<lparr>dm_message = m, dm_encoding = Strict\<rparr> \<Longrightarrow>
      m \<in> {InvokeHostedChannel sample_invoke, StateUpdate open_update} \<Longrightarrow> sound w (CustomMsg peer_pk bs)"
  shows "\<exists>w. host_reachable model_host mem_view sound w \<and>
    stored_channel model_host mem_view w peer_pk = Some opened"
  using opening_step [of sound] assms by (blast intro: host_reachable.step)

section \<open>A secret is consumed\<close>

definition sample_secret :: bytes where
  "sample_secret = replicate 32 3"

definition invited :: "(stored MemoryStore, MockNode) world" where
  "invited = empty_world\<lparr>w_store := [(key_to_string (secret_key model_host sample_secret),
     (0, VSecret \<lparr>sec_secret = [], sec_capacity_msat = 5000, sec_initial_balance_msat = 2000,
        sec_consumed = False\<rparr>))]\<rparr>"

lemma secret_serde [simp]:
  "from_slice (c_secret model_host) (VSecret s) = Inr s" "to_vec (c_secret model_host) s = Inr (VSecret s)"
  by (simp_all add: model_host_def stored_serde_def)

lemma invited_policy: "map_of (w_store invited) (key_to_string policy_key) = None"
proof -
  have "key_to_string (secret_key model_host sample_secret) \<noteq> key_to_string policy_key"
    using key_to_string_inj mem_funded.good_keys(2,4) mem_funded.key_kinds(3) by metis
  then show ?thesis by (simp add: invited_def)
qed

lemma invited_consumes:
  "\<exists>w'. consume_secret model_host sample_secret invited =
     (Inr (Some (ChannelPolicy_default\<lparr>pol_channel_capacity_msat := 5000,
        pol_initial_client_balance_msat := 2000\<rparr>)), w')"
proof -
  have pol: "effective_policy model_host invited = (Inr ChannelPolicy_default, invited)"
    using invited_policy by (intro policy_run) (simp add: mem_view_def)
  have len: "length sample_secret = 32" by (simp add: sample_secret_def)
  have get: "map_of (w_store invited) (key_to_string (secret_key model_host sample_secret)) =
      Some (0, VSecret \<lparr>sec_secret = [], sec_capacity_msat = 5000, sec_initial_balance_msat = 2000, sec_consumed = False\<rparr>)"
    by (simp add: invited_def)
  show ?thesis
    using len get pol
    by (simp add: consume_secret_def Let_def acase_run abind_run on_store_def lift_store_def azoom_def get_json_def
        mem_get_def amap_err_def update_json_def mem_update_def memory_store_def mem_delete_def)
qed

section \<open>An offer that is not committed in time\<close>

definition late_htlc :: UpdateAddHtlc where
  "late_htlc = \<lparr>htlc_channel_id = [], htlc_id = 7, htlc_amount_msat = 1000, htlc_payment_hash = [],
     htlc_cltv_expiry = 100, htlc_onion_routing_packet = [], htlc_tlv_stream = []\<rparr>"

definition late :: ChannelData where
  "late = opened\<lparr>cd_uncommitted := [Local (Add late_htlc)]\<rparr>"

definition late_link :: ForwardLink where
  "late_link = \<lparr>fl_incoming_scid = 1, fl_incoming_htlc_id = 2, fl_outgoing_scid = hosted_scid_of model_host peer_pk,
     fl_outgoing_htlc_id = 7, fl_upstream_cltv_expiry = Some 200, fl_hosted_commit_deadline_unix = Some 5,
     fl_payment_hash = [], fl_shared_secret = None\<rparr>"

abbreviation late_key :: key where
  "late_key \<equiv> forward_key (hosted_scid_of model_host peer_pk) 7"

definition late_world :: "(stored MemoryStore, MockNode) world" where
  "late_world = empty_world\<lparr>w_store := [(key_to_string (channel_key model_host peer_pk), (0, VChannel late)),
     (key_to_string late_key, (0, VLink late_link))]\<rparr>"

lemma link_serde [simp]: "from_slice (c_link model_host) (VLink l) = Inr l"
  by (simp add: model_host_def stored_serde_def)

lemma late_status: "derive_status late = Active" "incoming_htlcs (cd_lcss late) = []"
proof -
  have "incoming_htlcs open_signed = incoming_htlcs open_state"
    using open_signed_run by (auto simp: sign_def rbind_eq_Inr dest!: arg_cong [where f = incoming_htlcs])
  then show "derive_status late = Active" "incoming_htlcs (cd_lcss late) = []"
    by (simp_all add: late_def opened_def requested_def new_channel_data_def derive_status_def open_state_def)
qed

lemma set_map_filter: "set (List.map_filter f xs) = {y. \<exists>x \<in> set xs. f x = Some y}"
  by (induction xs) (auto simp: List.map_filter_simps split: option.splits)

lemma map_filter_single:
  assumes "set ks \<subseteq> {k}" and "f k = Some y"
  shows "set (List.map_filter f ks) \<subseteq> {y} \<and> (k \<in> set ks \<longrightarrow> y \<in> set (List.map_filter f ks))"
  using assms by (auto simp: set_map_filter)

text \<open>The peers of a memory store in which only this channel is kept.\<close>

lemma one_channel_listed:
  assumes "\<And>k. mem_view (w_store w) k \<noteq> None \<Longrightarrow> take 2 k = [''canopus'', ''channels''] \<Longrightarrow> k = channel_key model_host peer_pk"
  shows "\<exists>ps. list_channels model_host w = (Inr ps, w) \<and> set ps \<subseteq> {peer_pk} \<and>
    (mem_view (w_store w) (channel_key model_host peer_pk) \<noteq> None \<longrightarrow> peer_pk \<in> set ps)"
proof -
  let ?ks = "mem_children [''canopus'', ''channels''] (w_store w)"
  have set: "set ?ks = {take 3 k | k. mem_view (w_store w) k \<noteq> None \<and> take 2 k = [''canopus'', ''channels''] \<and> 2 < length k}"
    using mem.list_law [of "[''canopus'', ''channels'']" "w_store w"]
    by (simp add: memory_store_def mem_list_def good_key_def numeral_eq_Suc)
  have child: "take 3 (channel_key model_host peer_pk) = channel_key model_host peer_pk"
    "take 2 (channel_key model_host peer_pk) = [''canopus'', ''channels'']" "2 < length (channel_key model_host peer_pk)"
    by (simp_all add: channel_key_def)
  have "take 3 k = channel_key model_host peer_pk"
    if "mem_view (w_store w) k \<noteq> None" "take 2 k = [''canopus'', ''channels'']" for k
    using assms [OF that] child(1) by simp
  then have ks: "set ?ks \<subseteq> {channel_key model_host peer_pk}" unfolding set by blast
  let ?f = "\<lambda>child. if child = [] then None
      else case hex_decode (c_crypto model_host) (last child) of None \<Rightarrow> None
        | Some bytes \<Rightarrow> if length bytes = 33 then pk_from_slice (c_crypto model_host) bytes else None"
  have peer: "?f (channel_key model_host peer_pk) = Some peer_pk"
    using mem_funded.hex_law
    by (simp add: channel_key_def peer_hex_def hex_ok_def peer_pk_def model_pk_def model_sphinx_def crypto.defs model_crypto_def)
  have run: "list_channels model_host w = (Inr (List.map_filter ?f ?ks), w)"
    by (simp add: list_channels_def abind_run lift_store_def amap_err_def on_store_def azoom_def memory_store_def mem_list_def)
  have "channel_key model_host peer_pk \<in> set ?ks" if "mem_view (w_store w) (channel_key model_host peer_pk) \<noteq> None"
    unfolding set by (rule CollectI, rule exI [of _ "channel_key model_host peer_pk"]) (use child that in simp)
  then show ?thesis
    unfolding run using map_filter_single [OF ks, of ?f, OF peer] by blast
qed

lemma late_view: "mem_view (w_store late_world) = [channel_key model_host peer_pk \<mapsto> (0, VChannel late), late_key \<mapsto> (0, VLink late_link)]"
proof
  fix k
  have keys: "good_key (channel_key model_host peer_pk)" "good_key late_key" "channel_key model_host peer_pk \<noteq> late_key"
    using mem_funded.good_keys by (simp_all add: mem_durable.channel_not_forward)
  show "mem_view (w_store late_world) k = ([channel_key model_host peer_pk \<mapsto> (0, VChannel late), late_key \<mapsto> (0, VLink late_link)]) k"
    using keys by (auto simp: late_world_def mem_view_def key_to_string_inj)
qed

lemma late_listed:
  assumes "mem_view (w_store w) = [channel_key model_host peer_pk \<mapsto> x, late_key \<mapsto> y]"
  shows "\<exists>ps. list_channels model_host w = (Inr ps, w) \<and> set ps = {peer_pk}"
proof -
  have other: "take 2 late_key \<noteq> [''canopus'', ''channels'']" by (simp add: forward_key_def)
  have only: "k = channel_key model_host peer_pk"
    if "mem_view (w_store w) k \<noteq> None" "take 2 k = [''canopus'', ''channels'']" for k
    using that assms other by (auto split: if_splits)
  have "mem_view (w_store w) (channel_key model_host peer_pk) \<noteq> None" using assms by simp
  then show ?thesis using one_channel_listed [of w] only by blast
qed

lemma late_link_run:
  assumes "mem_view (w_store w) late_key = Some (g, VLink l)"
  shows "load_link model_host (hosted_scid_of model_host peer_pk) 7 w = (Inr (Some l), w)"
  using assms mem_funded.good_keys(3)
  by (simp add: load_link_def acase_run on_store_def azoom_def get_json_def abind_run mem_get_view)

lemma late_resolve_run:
  assumes "mem_view (w_store w) = [channel_key model_host peer_pk \<mapsto> (g, VChannel d), late_key \<mapsto> (0, VLink late_link)]"
    and "incoming_htlcs (cd_lcss d) = []"
  shows "\<exists>w'. resolve_forward_fail model_host (hosted_scid_of model_host peer_pk) 7 x w = (Inr (), w')"
proof -
  let ?v = "w\<lparr>w_trace := w_trace w @ [GaveBack (hosted_scid_of model_host peer_pk) 7]\<rparr>"
  obtain ps where ps: "list_channels model_host ?v = (Inr ps, ?v)" "set ps = {peer_pk}"
    using late_listed [of ?v "(g, VChannel d)" "(0, VLink late_link)"] assms(1) by auto
  have link: "load_link model_host (hosted_scid_of model_host peer_pk) 7 w = (Inr (Some late_link), w)"
    using assms(1) by (intro late_link_run) simp
  have "require_channel model_host peer_pk ?v = (Inr d, ?v)"
    using assms(1) by (intro require_run) (simp add: mem_durable.channel_not_forward)
  then have fail: "send_local_fail model_host peer_pk l z ?v = (Inr (), ?v)" for l z
    by (simp add: send_local_fail_def send_local_update_def abind_run assms(2))
  have "y = peer_pk" if "List.find P ps = Some y" for P y
    using that ps(2) nth_mem by (fastforce simp: find_Some_iff)
  then have source: "peer_for_hosted_scid model_host a ?v \<in> {(Inr None, ?v), (Inr (Some peer_pk), ?v)}" for a
    by (cases "List.find (\<lambda>peer. hosted_scid_of model_host peer = a) ps") (auto simp: peer_for_hosted_scid_def abind_run ps(1))
  show ?thesis
    using source [of "fl_incoming_scid late_link"]
    by (auto simp: resolve_forward_fail_def Let_def abind_run record_event_def link fail lift_node_def amap_err_def
        on_node_def azoom_def mock_resolve_htlc_def mock_node_def aignore_def split: prod.splits)
qed

lemma late_enforced: "\<exists>w'. enforce_forward_deadlines_at model_host 10 late_world = (Inr (), w')"
proof -
  let ?d = "late\<lparr>cd_local_errors := cd_local_errors late @ [HOSTED_DELIVERY_FAILED_ERROR]\<rparr>"
  obtain ps where ps: "list_channels model_host late_world = (Inr ps, late_world)" "set ps = {peer_pk}"
    using late_listed [OF late_view] by blast
  have now: "mem_view (w_store late_world) (channel_key model_host peer_pk) = Some (0, VChannel late)"
    "mem_view (w_store late_world) late_key = Some (0, VLink late_link)"
    by (simp_all add: late_view mem_durable.channel_not_forward)
  let ?w = "put_channel peer_pk 1 ?d late_world"
  have w: "mem_view (w_store ?w) = [channel_key model_host peer_pk \<mapsto> (1, VChannel ?d), late_key \<mapsto> (0, VLink late_link)]"
    by (simp add: put_channel_def mem_view_upd late_view mem_durable.channel_not_forward fun_upd_twist)
  obtain w1 where w1: "resolve_forward_fail model_host (hosted_scid_of model_host peer_pk) 7 (be_bytes 2 0x1007) ?w = (Inr (), w1)"
    using late_resolve_run [OF w] late_status(2) by auto
  have late: "cd_uncommitted late = [Local (Add late_htlc)]" "htlc_id late_htlc = 7"
    "fl_hosted_commit_deadline_unix late_link = Some 5"
    by (simp_all add: late_def late_htlc_def late_link_def)
  have first: "enforce_channel model_host 10 c peer_pk late_world = (Inr c, w1)" for c
    using w1 save_run(2) [OF now(1), of ?d]
    by (simp add: enforce_channel_def abind_run load_run(2) [OF now(1)] late_status(1) late
        late_link_run [OF now(2)] enforce_pending_offer_def mark_errored_def)
  have "mark_errored model_host peer_pk late HOSTED_DELIVERY_FAILED_ERROR late_world = (Inr (), ?w)"
    using save_run(2) [OF now(1), of ?d] by (simp add: mark_errored_def)
  from mem_durable.errored_after(2) [OF late_status(1) this, of "hosted_scid_of model_host peer_pk" 7 "be_bytes 2 0x1007"]
  have "mem_durable.errored peer_pk w1" by (simp add: w1)
  then obtain d' where d': "stored_channel model_host mem_view w1 peer_pk = Some d'" "derive_status d' = SErrored"
    by (auto simp: watched_def stored_seen)
  have rest: "enforce_channels model_host 10 c qs w1 = (Inr (), w1)" if "set qs \<subseteq> {peer_pk}" for c qs
    using that d' by (induction qs arbitrary: c) (auto simp: abind_run enforce_channel_def stored_as load_run(2))
  obtain qs where "ps = peer_pk # qs" "set qs \<subseteq> {peer_pk}" using ps(2) by (cases ps) auto
  then show ?thesis
    using first rest by (simp add: enforce_forward_deadlines_at_def abind_run ps(1))
qed

section \<open>An HTLC is offered\<close>

definition ready :: ChannelData where
  "ready = requested\<lparr>cd_established := True\<rparr>"

definition ready_world :: "(stored MemoryStore, MockNode) world" where
  "ready_world = empty_world\<lparr>w_store := [(key_to_string (channel_key model_host peer_pk), (0, VChannel ready))]\<rparr>"

definition offered_htlc :: UpdateAddHtlc where
  "offered_htlc = late_htlc\<lparr>htlc_amount_msat := 5000\<rparr>"

lemma ready_view: "mem_view (w_store ready_world) = [channel_key model_host peer_pk \<mapsto> (0, VChannel ready)]"
  by (auto simp: ready_world_def mem_view_def key_to_string_inj mem_funded.good_keys)

lemma history_kept:
  "maintains (\<lambda>w. w_trace w \<noteq> []) (send_message E p m) (\<lambda>_. True)"
  "maintains (\<lambda>w. w_trace w \<noteq> []) (current_block_day E) (\<lambda>_. True)"
  "maintains (\<lambda>w. w_trace w \<noteq> []) (save_channel E p d g) (\<lambda>_. True)"
  by (auto simp: maintains_def send_message_def send_message_with_encoding_def peer_wire_encoding_def abind_run acase_run
      try_encode_def current_block_day_def save_channel_def Let_def lift_node_def amap_err_def on_node_def azoom_def
      lift_store_def on_store_def record_event_def split: prod.splits sum.splits option.splits StoreError.splits)

lemma clock_run: "now_or_epoch_error model_host w = (Inr 1700000000, w)"
  by (simp add: now_or_epoch_error_def abind_run ok_or_def model_host_def)

lemma link_run:
  assumes "mem_view (w_store w) (forward_key a b) = None"
  shows "save_link model_host a b l w =
    (Inr (), w\<lparr>w_store := bt_insert (key_to_string (forward_key a b)) (0, VLink l) (w_store w)\<rparr>)"
proof -
  have "to_vec (c_link model_host) l = Inr (VLink l)" by (simp add: model_host_def stored_serde_def)
  then show ?thesis
    using assms mem_funded.good_keys(3)
    by (simp add: save_link_def acase_run on_store_def azoom_def create_json_def abind_run mem_create_def mem_view_def)
qed

lemma offer_recorded:
  assumes "mem_view (w_store w) = [channel_key model_host peer_pk \<mapsto> (0, VChannel ready)]"
  shows "w_trace (snd (offer_htlc model_host peer_pk ready h a b s u w)) \<noteq> []"
proof -
  let ?I = "\<lambda>w :: (stored MemoryStore, MockNode) world. w_trace w \<noteq> []"
  let ?i = "ucast (next_local_updates (manager_of ready)) + 1 :: u64"
  let ?h = "h\<lparr>htlc_channel_id := own_channel_id model_host peer_pk, htlc_id := ?i\<rparr>"
  let ?d = "ready\<lparr>cd_uncommitted := cd_uncommitted ready @ [Local (Add ?h)]\<rparr>"
  define deliver where "deliver = (\<lambda>msg. acase (send_message model_host peer_pk msg) (\<lambda>r. case r of
      Inr _ \<Rightarrow> aret ()
    | Inl err \<Rightarrow> abind (mark_errored model_host peer_pk ?d HOSTED_DELIVERY_FAILED_ERROR) (\<lambda>_. afail err)))"
  have deliver: "maintains ?I (deliver m) (\<lambda>_. True)" for m
    unfolding deliver_def mark_errored_def
    by (intro maintains_acase_any [OF history_kept(1)] maintains_case_sum maintains_aret
        maintains_abind_unit [OF history_kept(3)] maintains_afail) simp
  define tail where "tail = abind (deliver (UpdateAddHtlc ?h)) (\<lambda>_.
      abind (try_state (lcss_next (c_crypto model_host) (manager_of ?d))) (\<lambda>next.
      abind (current_block_day model_host) (\<lambda>day.
      abind (try_encode (sign (c_crypto model_host) (c_node_secret model_host) (next\<lparr>block_day := day\<rparr>))) (\<lambda>signed.
      deliver (StateUpdate (state_update signed))))))"
  have tail: "maintains ?I tail (\<lambda>_. True)"
    unfolding tail_def
    by (intro maintains_abind_unit [OF deliver] maintains_try_state maintains_abind_unit [OF history_kept(2)]
        maintains_try_encode deliver)
  let ?k = "forward_key (hosted_scid_of model_host peer_pk) ?i"
  have free: "mem_view (w_store w) ?k = None"
    using assms by (simp add: mem_durable.channel_not_forward not_sym)
  obtain l where run: "offer_htlc model_host peer_pk ready h a b s u w =
      abind (save_channel model_host peer_pk ?d None) (\<lambda>_. tail)
        (w\<lparr>w_store := bt_insert (key_to_string ?k) (0, VLink l) (w_store w)\<rparr>)"
    by (simp add: offer_htlc_def Let_def abind_run clock_run link_run [OF free] ok_or_def checked_add_def
        HOSTED_COMMIT_TIMEOUT_SECS_def tail_def deliver_def)
  have now: "mem_view (w_store (w\<lparr>w_store := bt_insert (key_to_string ?k) (0, VLink l) (w_store w)\<rparr>))
      (channel_key model_host peer_pk) = Some (0, VChannel ready)"
    using assms mem_funded.good_keys(3) by (simp add: mem_view_upd mem_durable.channel_not_forward)
  have "?I (put_channel peer_pk 1 ?d (w\<lparr>w_store := bt_insert (key_to_string ?k) (0, VLink l) (w_store w)\<rparr>))"
    by (simp add: put_channel_def)
  from maintains_snd [OF tail this] show ?thesis
    unfolding run using save_run(2) [OF now, of ?d] by (simp add: abind_run)
qed

lemma offer_made:
  "w_trace (snd (channel_handle_htlc_add_with_upstream_expiry model_host peer_pk offered_htlc key 1 2 None None ready_world)) \<noteq>
     w_trace ready_world"
proof -
  have chan: "require_channel model_host peer_pk ready_world = (Inr ready, ready_world)"
    by (intro require_run [of _ _ 0]) (simp add: ready_view)
  have quiet: "w_connections ready_world = Map.empty" "w_trace ready_world = []"
    "mn_preimages (w_node ready_world) = Map.empty"
    by (simp_all add: ready_world_def empty_world_def MockNode_new_def)
  have only: "k = channel_key model_host peer_pk" if "mem_view (w_store ready_world) k \<noteq> None" for k
    using that by (simp add: ready_view split: if_splits)
  obtain ps where ps: "list_channels model_host ready_world = (Inr ps, ready_world)"
    using one_channel_listed [of ready_world] only by blast
  have "channel_handle_htlc_add_with_upstream_expiry model_host peer_pk offered_htlc key 1 2 None None ready_world =
      offer_htlc model_host peer_pk ready offered_htlc 1 2 None None ready_world"
    by (simp add: channel_handle_htlc_add_with_upstream_expiry_def abind_run acase_run chan quiet peer_is_known_disconnected_def
        on_node_def azoom_def mock_lookup_preimage_def mock_node_def routing_policy_for_data_def peer_for_hosted_scid_def ps
        ready_def requested_def new_channel_data_def derive_status_def from_policy_def init_of_policy_def
        ChannelPolicy_default_def offered_htlc_def late_htlc_def try_state_def lcss_next_def manager_of_def rbind_def
        sum_msat_def saturating_add_def Let_def)
  then show ?thesis using offer_recorded [OF ready_view] quiet(2) by simp
qed

end
