(* ===== verification/Cln_Store.thy ===== *)
theory Cln_Store
  imports Store External Json
begin

text \<open>
  Model of \<^verbatim>\<open>src/src/cln_store.rs\<close>: the store that keeps its entries in lightningd's datastore. The RPC
  client is the field \<open>cl_call\<close>, an action on the state of lightningd; the answers are JSON
  values. \<open>datastore_ok\<close> states the documented behaviour of the datastore commands, and the store is
  shown to refine the store contract on top of it.
\<close>

section \<open>The adapter\<close>

record RpcError =
  rpc_message :: string

text \<open>The client, with the hex crate and the text of its errors.\<close>

type_synonym 'rpc rpc_call = "string \<Rightarrow> Value \<Rightarrow> ('rpc, RpcError, Value) action"

record 'rpc cln =
  cl_call :: "'rpc rpc_call"
  cl_crypto :: crypto
  cl_hex_error :: "string \<Rightarrow> string"

definition map_rpc_error :: "key \<Rightarrow> RpcError \<Rightarrow> StoreError" where
  "map_rpc_error key err =
     (let message = to_lowercase (rpc_message err) in
      if str_contains message ''already exists'' \<or> str_contains message ''already have''
      then AlreadyExists key
      else if str_contains message ''generation'' \<or> str_contains message ''does not match''
      then GenerationMismatch 0 0
      else if str_contains message ''not found'' \<or> str_contains message ''no such''
      then NotFound key
      else Backend (rpc_message err))"

definition datastore_params :: "key \<Rightarrow> string option \<Rightarrow> string \<Rightarrow> u64 option \<Rightarrow> Value" where
  "datastore_params key hex mode generation =
     JObject ([(''key'', json_strings key), (''mode'', JString mode)] @
       (case hex of None \<Rightarrow> [] | Some h \<Rightarrow> [(''hex'', JString h)]) @
       (case generation of None \<Rightarrow> [] | Some g \<Rightarrow> [(''generation'', JNumber (PosInt g))]))"

definition key_params :: "key \<Rightarrow> Value" where
  "key_params key = JObject [(''key'', json_strings key)]"

definition datastore_call :: "('rpc, 'x) cln_scheme \<Rightarrow> key \<Rightarrow> string option \<Rightarrow> string \<Rightarrow> u64 option \<Rightarrow>
    ('rpc, StoreError, Value) action" where
  "datastore_call L key hex mode generation =
     amap_err (map_rpc_error key) (cl_call L ''datastore'' (datastore_params key hex mode generation))"

definition list_entries :: "('rpc, 'x) cln_scheme \<Rightarrow> key \<Rightarrow> ('rpc, StoreError, Value list) action" where
  "list_entries L key =
     abind (amap_err (map_rpc_error key) (cl_call L ''listdatastore'' (key_params key))) (\<lambda>response.
     alift (ok_or (get_as as_array response ''datastore'')
       (Backend ''listdatastore missing datastore array'')))"

text \<open>The string parts of the key of an entry; parts that are not strings are dropped.\<close>

definition entry_key :: "Value \<Rightarrow> key option" where
  "entry_key entry = map_option (List.map_filter as_str) (get_as as_array entry ''key'')"

definition cln_get :: "('rpc, 'x) cln_scheme \<Rightarrow> key \<Rightarrow>
    ('rpc, StoreError, bytes GenerationValue) action" where
  "cln_get L key =
     abind (list_entries L key) (\<lambda>entries.
     abind (alift (ok_or (List.find (\<lambda>entry. entry_key entry = Some key) entries) (NotFound key))) (\<lambda>entry.
     abind (alift (ok_or (get_as as_str entry ''hex'') (Backend ''datastore entry missing hex''))) (\<lambda>hex.
     abind (alift (ok_or (hex_decode (cl_crypto L) hex) (Backend (cl_hex_error L hex)))) (\<lambda>bytes.
     aret \<lparr>gv_generation = (case get_as as_u64 entry ''generation'' of None \<Rightarrow> 0 | Some g \<Rightarrow> g), gv_bytes = bytes\<rparr>))))"

definition cln_exists :: "('rpc, 'x) cln_scheme \<Rightarrow> key \<Rightarrow> ('rpc, StoreError, bool) action" where
  "cln_exists L key =
     acase (cln_get L key) (\<lambda>r. case r of
       Inr _ \<Rightarrow> aret True
     | Inl (NotFound _) \<Rightarrow> aret False
     | Inl e \<Rightarrow> afail e)"

definition cln_create :: "('rpc, 'x) cln_scheme \<Rightarrow> key \<Rightarrow> bytes \<Rightarrow>
    ('rpc, StoreError, unit) action" where
  "cln_create L key val =
     abind (datastore_call L key (Some (hex_encode (cl_crypto L) val)) ''must-create'' None) (\<lambda>_. aret ())"

definition cln_update :: "('rpc, 'x) cln_scheme \<Rightarrow> key \<Rightarrow> bytes \<Rightarrow> u64 \<Rightarrow>
    ('rpc, StoreError, unit) action" where
  "cln_update L key val expected_generation =
     abind (datastore_call L key (Some (hex_encode (cl_crypto L) val)) ''must-replace'' (Some expected_generation))
       (\<lambda>_. aret ())"

definition cln_delete :: "('rpc, 'x) cln_scheme \<Rightarrow> key \<Rightarrow> ('rpc, StoreError, unit) action" where
  "cln_delete L key =
     abind (amap_err (map_rpc_error key) (cl_call L ''deldatastore'' (key_params key))) (\<lambda>_. aret ())"

text \<open>The loop of \<open>list\<close>: the first part below the prefix of every deeper key, once.\<close>

fun collect_children :: "key \<Rightarrow> Value list \<Rightarrow> key list \<Rightarrow> key list" where
  "collect_children pre [] result = result"
| "collect_children pre (entry # entries) result =
     collect_children pre entries
       (case entry_key entry of None \<Rightarrow> result
        | Some key_parts \<Rightarrow>
            if length key_parts \<le> length pre then result
            else if take (length pre) key_parts = pre then
              (let child = take (length pre + 1) key_parts in
               if child \<in> set result then result else result @ [child])
            else result)"

definition cln_list :: "('rpc, 'x) cln_scheme \<Rightarrow> key \<Rightarrow> ('rpc, StoreError, key list) action" where
  "cln_list L pre =
     abind (list_entries L pre) (\<lambda>entries. aret (collect_children pre entries []))"

definition cln_store :: "('rpc, 'x) cln_scheme \<Rightarrow> ('rpc, bytes) store_ops" where
  "cln_store L =
     \<lparr>store_get = cln_get L, store_exists = cln_exists L,
      store_create = cln_create L, store_update = cln_update L,
      store_delete = cln_delete L, store_list = cln_list L\<rparr>"

section \<open>The datastore\<close>

text \<open>
  What lightningd documents of its datastore. \<open>content\<close> is what it holds. A listing returns the entry
  under the key itself and one entry for each immediate child, which carries a value only if it is a
  leaf. A must-create call succeeds only on a free key and starts its generation at zero, a
  must-replace call succeeds only on an entry of the given generation and counts it up, and a call
  that is answered with an error changes nothing. Keys have no slash in their parts.
\<close>

definition entry_json :: "'c crypto_scheme \<Rightarrow> key \<Rightarrow> (u64 \<times> bytes) option \<Rightarrow> Value" where
  "entry_json C k e = JObject ((''key'', json_strings k) #
     (case e of None \<Rightarrow> [] | Some (g, b) \<Rightarrow>
        [(''generation'', JNumber (PosInt g)), (''hex'', JString (hex_encode C b))]))"

definition heads :: "(key \<Rightarrow> (u64 \<times> bytes) option) \<Rightarrow> key \<Rightarrow> key set" where
  "heads m k = {j. j = k \<and> m j \<noteq> None} \<union>
     {take (Suc (length k)) j | j. m j \<noteq> None \<and> take (length k) j = k \<and> length k < length j}"

definition list_ok :: "('rpc, 'x) cln_scheme \<Rightarrow> ('rpc \<Rightarrow> key \<Rightarrow> (u64 \<times> bytes) option) \<Rightarrow> bool" where
  "list_ok L content \<longleftrightarrow>
     (\<forall>k st r st'. cl_call L ''listdatastore'' (key_params k) st = (r, st') \<longrightarrow> content st' = content st \<and>
        (case r of Inl e \<Rightarrow> map_rpc_error k e \<noteq> NotFound k
         | Inr v \<Rightarrow> \<exists>es. get_as as_array v ''datastore'' = Some es \<and>
             set es = (\<lambda>j. entry_json (cl_crypto L) j (content st j)) ` heads (content st) k))"

definition create_ok :: "('rpc, 'x) cln_scheme \<Rightarrow> ('rpc \<Rightarrow> key \<Rightarrow> (u64 \<times> bytes) option) \<Rightarrow> bool" where
  "create_ok L content \<longleftrightarrow>
     (\<forall>k b st r st'. good_key k \<longrightarrow>
        cl_call L ''datastore'' (datastore_params k (Some (hex_encode (cl_crypto L) b)) ''must-create'' None) st =
          (r, st') \<longrightarrow>
        (case r of Inl e \<Rightarrow> content st' = content st \<and>
             (map_rpc_error k e = AlreadyExists k \<longrightarrow> content st k \<noteq> None)
         | Inr v \<Rightarrow> content st k = None \<and> content st' = (content st)(k \<mapsto> (0, b))))"

definition replace_ok :: "('rpc, 'x) cln_scheme \<Rightarrow> ('rpc \<Rightarrow> key \<Rightarrow> (u64 \<times> bytes) option) \<Rightarrow> bool" where
  "replace_ok L content \<longleftrightarrow>
     (\<forall>k b g st r st'. good_key k \<longrightarrow>
        cl_call L ''datastore''
          (datastore_params k (Some (hex_encode (cl_crypto L) b)) ''must-replace'' (Some g)) st = (r, st') \<longrightarrow>
        (case r of Inl e \<Rightarrow> content st' = content st
         | Inr v \<Rightarrow> (\<exists>old. content st k = Some (g, old)) \<and> content st' = (content st)(k \<mapsto> (g + 1, b))))"

definition delete_ok :: "('rpc, 'x) cln_scheme \<Rightarrow> ('rpc \<Rightarrow> key \<Rightarrow> (u64 \<times> bytes) option) \<Rightarrow> bool" where
  "delete_ok L content \<longleftrightarrow>
     (\<forall>k st r st'. good_key k \<longrightarrow> cl_call L ''deldatastore'' (key_params k) st = (r, st') \<longrightarrow>
        content st' = (case r of Inl e \<Rightarrow> content st | Inr v \<Rightarrow> (content st)(k := None)))"

definition datastore_ok :: "('rpc, 'x) cln_scheme \<Rightarrow> ('rpc \<Rightarrow> key \<Rightarrow> (u64 \<times> bytes) option) \<Rightarrow> bool" where
  "datastore_ok L content \<longleftrightarrow>
     hex_ok (cl_crypto L) \<and> (\<forall>st k. content st k \<noteq> None \<longrightarrow> good_key k) \<and>
     list_ok L content \<and> create_ok L content \<and> replace_ok L content \<and> delete_ok L content"

lemma datastore_ok_cong:
  assumes "cl_call L = cl_call L'" and "cl_crypto L = cl_crypto L'"
  shows "datastore_ok L content = datastore_ok L' content"
  unfolding datastore_ok_def list_ok_def create_ok_def replace_ok_def delete_ok_def assms ..

section \<open>The store contract holds on top of it\<close>

lemma entry_key_json [simp]: "entry_key (entry_json C k e) = Some k"
  by (simp add: entry_key_def entry_json_def get_as_def)

lemma map_rpc_error_cases:
  "map_rpc_error k e = AlreadyExists k \<or> map_rpc_error k e = GenerationMismatch 0 0 \<or>
   map_rpc_error k e = NotFound k \<or> map_rpc_error k e = Backend (rpc_message e)"
  by (simp add: map_rpc_error_def Let_def)

lemma list_entries_run:
  assumes "list_ok L content" and "list_entries L k st = (r, st')"
  shows "content st' = content st \<and>
    (case r of Inl e \<Rightarrow> \<forall>j. e \<noteq> NotFound j
     | Inr es \<Rightarrow> set es = (\<lambda>j. entry_json (cl_crypto L) j (content st j)) ` heads (content st) k)"
proof -
  obtain r1 st1 where run: "cl_call L ''listdatastore'' (key_params k) st = (r1, st1)" by fastforce
  have "content st1 = content st \<and> (case r1 of Inl e \<Rightarrow> map_rpc_error k e \<noteq> NotFound k
       | Inr v \<Rightarrow> \<exists>es. get_as as_array v ''datastore'' = Some es \<and>
           set es = (\<lambda>j. entry_json (cl_crypto L) j (content st j)) ` heads (content st) k)"
    using assms(1) run by (auto simp: list_ok_def)
  moreover have not_found: "map_rpc_error k e = NotFound j \<Longrightarrow> j = k" for e j
    using map_rpc_error_cases [of k e] by auto
  ultimately show ?thesis
    using assms(2) run not_found
    by (cases r1) (auto simp: list_entries_def abind_run amap_err_def)
qed

lemma find_entry:
  assumes "set es = (\<lambda>j. entry_json C j (m j)) ` heads m k"
  shows "List.find (\<lambda>e. entry_key e = Some k) es = (if m k = None then None else Some (entry_json C k (m k)))"
proof (cases "List.find (\<lambda>e. entry_key e = Some k) es")
  case None
  then have "\<forall>j \<in> heads m k. j \<noteq> k" using assms by (auto simp: find_None_iff)
  then show ?thesis using None by (auto simp: heads_def)
next
  case (Some e)
  then have e: "e \<in> set es" "entry_key e = Some k" by (auto simp: find_Some_iff)
  then obtain j where "j \<in> heads m k" "e = entry_json C j (m j)" using assms by auto
  moreover from this have "j = k" using e(2) by simp
  moreover have "k \<noteq> take (Suc (length k)) i" if "length k < length i" for i
    using that by (metis length_take min.absorb2 Suc_leI n_not_Suc_n)
  ultimately show ?thesis using Some by (auto simp: heads_def)
qed

lemma cln_get_run:
  assumes "datastore_ok L content" and "cln_get L k st = (r, st')"
  shows "content st' = content st \<and>
    (case r of Inr gv \<Rightarrow> content st k = Some (gv_generation gv, gv_bytes gv)
     | Inl (NotFound _) \<Rightarrow> content st k = None | Inl _ \<Rightarrow> True)"
proof -
  have hex: "hex_decode (cl_crypto L) (hex_encode (cl_crypto L) b) = Some b" for b
    using assms(1) by (simp add: datastore_ok_def hex_ok_def)
  obtain r1 st1 where run: "list_entries L k st = (r1, st1)" by fastforce
  have law: "content st1 = content st \<and> (case r1 of Inl e \<Rightarrow> \<forall>j. e \<noteq> NotFound j
      | Inr es \<Rightarrow> set es = (\<lambda>j. entry_json (cl_crypto L) j (content st j)) ` heads (content st) k)"
    using list_entries_run [OF _ run] assms(1) by (simp add: datastore_ok_def)
  show ?thesis
  proof (cases r1)
    case (Inl e)
    then show ?thesis using law run assms(2) by (auto simp: cln_get_def abind_run split: StoreError.split)
  next
    case (Inr es)
    then have "List.find (\<lambda>e. entry_key e = Some k) es =
        (if content st k = None then None else Some (entry_json (cl_crypto L) k (content st k)))"
      using law by (intro find_entry) simp
    then show ?thesis
      using law run assms(2) Inr hex
      by (cases "content st k") (auto simp: cln_get_def abind_run entry_json_def)
  qed
qed

lemma collect_children_set:
  assumes "\<And>e. e \<in> set es \<Longrightarrow> entry_key e \<noteq> None"
  shows "set (collect_children pre es acc) = set acc \<union>
    {take (Suc (length pre)) j | j e. e \<in> set es \<and> entry_key e = Some j \<and> length pre < length j \<and>
       take (length pre) j = pre}"
  using assms
proof (induction es arbitrary: acc)
  case (Cons e es)
  obtain j where j: "entry_key e = Some j" using Cons.prems [of e] by auto
  have IH: "set (collect_children pre es acc') = set acc' \<union>
    {take (Suc (length pre)) j | j e. e \<in> set es \<and> entry_key e = Some j \<and> length pre < length j \<and>
       take (length pre) j = pre}" for acc'
    using Cons by auto
  show ?case by (auto simp: IH j Let_def) (metis j not_le)
qed simp

lemma heads_children:
  "{take (Suc (length p)) j | j. j \<in> heads m p \<and> length p < length j \<and> take (length p) j = p} =
   {take (Suc (length p)) k | k. m k \<noteq> None \<and> take (length p) k = p \<and> length p < length k}"
proof -
  have trim: "take (Suc (length p)) (take (Suc (length p)) j) = take (Suc (length p)) j"
    "take (length p) (take (Suc (length p)) j) = take (length p) j" for j :: key
    by (simp_all add: min_def)
  show ?thesis unfolding heads_def by (auto simp: trim) (metis length_take min_less_iff_conj lessI trim)
qed

lemma cln_list_run:
  assumes "datastore_ok L content" and "cln_list L p st = (r, st')"
  shows "content st' = content st \<and> (\<forall>ks. r = Inr ks \<longrightarrow> set ks = {take (Suc (length p)) k | k.
    content st k \<noteq> None \<and> take (length p) k = p \<and> length p < length k})"
proof -
  obtain r1 st1 where run: "list_entries L p st = (r1, st1)" by fastforce
  have law: "content st1 = content st \<and> (case r1 of Inl e \<Rightarrow> \<forall>j. e \<noteq> NotFound j
      | Inr es \<Rightarrow> set es = (\<lambda>j. entry_json (cl_crypto L) j (content st j)) ` heads (content st) p)"
    using list_entries_run [OF _ run] assms(1) by (simp add: datastore_ok_def)
  show ?thesis
  proof (cases r1)
    case (Inl e)
    then show ?thesis using law run assms(2) by (auto simp: cln_list_def abind_run)
  next
    case (Inr es)
    have es: "set es = (\<lambda>j. entry_json (cl_crypto L) j (content st j)) ` heads (content st) p"
      using law Inr by simp
    have "set (collect_children p es []) =
        {take (Suc (length p)) j | j. j \<in> heads (content st) p \<and> length p < length j \<and> take (length p) j = p}"
      by (subst collect_children_set) (auto simp: es)
    then show ?thesis
      using law run assms(2) Inr unfolding heads_children by (auto simp: cln_list_def abind_run)
  qed
qed

lemma unit_call_run:
  "abind (amap_err f m) (\<lambda>_. aret ()) st =
     (case m st of (Inl e, st') \<Rightarrow> (Inl (f e), st') | (Inr v, st') \<Rightarrow> (Inr (), st'))"
  by (auto simp: abind_run amap_err_def split: prod.splits sum.splits)

lemma write_unchanged [simp]: "write_outcome (Inl e) b a b"
  by (cases e) (simp_all add: write_outcome_def)

lemma map_rpc_error_key: "map_rpc_error k e = AlreadyExists j \<Longrightarrow> j = k"
  using map_rpc_error_cases [of k e] by auto

lemma cln_create_run:
  assumes ok: "create_ok L content" and "good_key k" and run: "cln_create L k v st = (ru, st')"
  shows "write_outcome ru (content st) ((content st)(k \<mapsto> (0, v))) (content st') \<and>
    (ru = Inr () \<longrightarrow> content st k = None) \<and> (\<forall>k'. ru = Inl (AlreadyExists k') \<longrightarrow> content st k \<noteq> None) \<and>
    (content st k \<noteq> None \<longrightarrow> content st' = content st)"
proof -
  obtain r1 st1 where call: "cl_call L ''datastore''
      (datastore_params k (Some (hex_encode (cl_crypto L) v)) ''must-create'' None) st = (r1, st1)" by fastforce
  have "case r1 of Inl e \<Rightarrow> content st1 = content st \<and>
           (map_rpc_error k e = AlreadyExists k \<longrightarrow> content st k \<noteq> None)
       | Inr v' \<Rightarrow> content st k = None \<and> content st1 = (content st)(k \<mapsto> (0, v))"
    using ok assms(2) call unfolding create_ok_def by blast
  then show ?thesis
    using run call map_rpc_error_key [of k]
    by (cases r1) (auto simp: cln_create_def datastore_call_def unit_call_run)
qed

lemma cln_update_run:
  assumes ok: "replace_ok L content" and "good_key k" and run: "cln_update L k v g st = (ru, st')"
  shows "write_outcome ru (content st) ((content st)(k \<mapsto> (g + 1, v))) (content st') \<and>
    (ru = Inr () \<longrightarrow> (\<exists>old. content st k = Some (g, old))) \<and>
    ((\<nexists>old. content st k = Some (g, old)) \<longrightarrow> content st' = content st)"
proof -
  obtain r1 st1 where call: "cl_call L ''datastore''
      (datastore_params k (Some (hex_encode (cl_crypto L) v)) ''must-replace'' (Some g)) st = (r1, st1)" by fastforce
  have "case r1 of Inl e \<Rightarrow> content st1 = content st
       | Inr v' \<Rightarrow> (\<exists>old. content st k = Some (g, old)) \<and> content st1 = (content st)(k \<mapsto> (g + 1, v))"
    using ok assms(2) call unfolding replace_ok_def by blast
  then show ?thesis
    using run call by (cases r1) (auto simp: cln_update_def datastore_call_def unit_call_run)
qed

text \<open>A call that is answered with an error has written nothing.\<close>

lemma cln_writes_clean:
  assumes ok: "datastore_ok L content" and k: "good_key k"
  shows "cln_create L k v st = (Inl e, st') \<Longrightarrow> content st' = content st"
    and "cln_update L k v g st = (Inl e, st') \<Longrightarrow> content st' = content st"
proof -
  let ?call = "\<lambda>mode g. cl_call L ''datastore'' (datastore_params k (Some (hex_encode (cl_crypto L) v)) mode g) st"
  have laws: "create_ok L content" "replace_ok L content" using ok by (simp_all add: datastore_ok_def)
  have "?call ''must-create'' None = (Inl x, st1) \<Longrightarrow> content st1 = content st" for x st1
    using laws(1) [unfolded create_ok_def, rule_format, OF k] by fastforce
  then show "cln_create L k v st = (Inl e, st') \<Longrightarrow> content st' = content st"
    by (auto simp: cln_create_def datastore_call_def unit_call_run split: prod.splits sum.splits)
  have "?call ''must-replace'' (Some g) = (Inl x, st1) \<Longrightarrow> content st1 = content st" for x st1
    using laws(2) [unfolded replace_ok_def, rule_format, OF k] by fastforce
  then show "cln_update L k v g st = (Inl e, st') \<Longrightarrow> content st' = content st"
    by (auto simp: cln_update_def datastore_call_def unit_call_run split: prod.splits sum.splits)
qed

lemma cln_delete_run:
  assumes ok: "delete_ok L content" and "good_key k" and run: "cln_delete L k st = (ru, st')"
  shows "write_outcome ru (content st) ((content st)(k := None)) (content st')"
proof -
  obtain r1 st1 where call: "cl_call L ''deldatastore'' (key_params k) st = (r1, st1)" by fastforce
  have "content st1 = (case r1 of Inl e \<Rightarrow> content st | Inr v \<Rightarrow> (content st)(k := None))"
    using ok assms(2) call unfolding delete_ok_def by blast
  then show ?thesis using run call by (cases r1) (auto simp: cln_delete_def unit_call_run)
qed

lemma cln_store_lawful:
  assumes ok: "datastore_ok L content"
  shows "keyed_store (cln_store L) content"
proof (intro keyed_store.intro store_laws.intro)
  fix k :: key and st r st'
  assume "good_key k" "store_get (cln_store L) k st = (r, st')"
  then show "content st' = content st \<and>
      (case r of Inr gv \<Rightarrow> content st k = Some (gv_generation gv, gv_bytes gv)
       | Inl (NotFound _) \<Rightarrow> content st k = None | Inl _ \<Rightarrow> True)"
    using cln_get_run [OF ok, of k st r st'] by (simp add: cln_store_def)
next
  fix k :: key and st rb st'
  assume "good_key k" "store_exists (cln_store L) k st = (rb, st')"
  then show "content st' = content st \<and> (\<forall>b. rb = Inr b \<longrightarrow> b = (content st k \<noteq> None))"
    using cln_get_run [OF ok, of k st]
    by (auto simp: cln_store_def cln_exists_def acase_run split: prod.splits sum.splits StoreError.splits)
next
  fix k :: key and v st ru st'
  assume "good_key k" "store_create (cln_store L) k v st = (ru, st')"
  then show "write_outcome ru (content st) ((content st)(k \<mapsto> (0, v))) (content st') \<and>
      (ru = Inr () \<longrightarrow> content st k = None) \<and> (\<forall>k'. ru = Inl (AlreadyExists k') \<longrightarrow> content st k \<noteq> None) \<and>
      (content st k \<noteq> None \<longrightarrow> content st' = content st)"
    using ok cln_create_run [of L content k v st ru st'] by (simp add: cln_store_def datastore_ok_def)
next
  fix k :: key and v g st ru st'
  assume "good_key k" "store_update (cln_store L) k v g st = (ru, st')"
  then show "write_outcome ru (content st) ((content st)(k \<mapsto> (g + 1, v))) (content st') \<and>
      (ru = Inr () \<longrightarrow> (\<exists>old. content st k = Some (g, old))) \<and>
      ((\<nexists>old. content st k = Some (g, old)) \<longrightarrow> content st' = content st)"
    using ok cln_update_run [of L content k v g st ru st'] by (simp add: cln_store_def datastore_ok_def)
next
  fix k :: key and st ru st'
  assume "good_key k" "store_delete (cln_store L) k st = (ru, st')"
  then show "write_outcome ru (content st) ((content st)(k := None)) (content st')"
    using ok cln_delete_run [of L content k st ru st'] by (simp add: cln_store_def datastore_ok_def)
next
  fix p :: key and st rl st'
  assume "store_list (cln_store L) p st = (rl, st')"
  then show "content st' = content st \<and> (\<forall>ks. rl = Inr ks \<longrightarrow> set ks = {take (Suc (length p)) k | k.
      content st k \<noteq> None \<and> take (length p) k = p \<and> length p < length k})"
    using cln_list_run [OF ok] by (simp add: cln_store_def)
next
  fix st and k :: key
  assume "content st k \<noteq> None"
  then show "good_key k" using ok by (simp add: datastore_ok_def)
qed

text \<open>
  C14. The datastore adapter implements the store contract: on top of a datastore that behaves as
  lightningd documents, reading, testing, creating, updating with a generation, deleting and listing
  through the JSON calls do to the content of the datastore exactly what the store trait promises,
  so everything proved of the controller holds over it.
\<close>

theorem cln_store_refines_contract:
  assumes "datastore_ok L content"
  shows "keyed_store (cln_store L) content"
  using assms by (rule cln_store_lawful)

section \<open>A concrete datastore\<close>

type_synonym datastore = "(key \<times> (u64 \<times> bytes)) list"

definition param_key :: "Value \<Rightarrow> key" where
  "param_key v = (case entry_key v of None \<Rightarrow> [] | Some k \<Rightarrow> k)"

definition param_bytes :: "Value \<Rightarrow> bytes" where
  "param_bytes v = (case Option.bind (get_as as_str v ''hex'') unhex of None \<Rightarrow> [] | Some b \<Rightarrow> b)"

text \<open>It refuses entries below those of preimages.\<close>

definition storable :: "key \<Rightarrow> bool" where
  "storable k \<longleftrightarrow> good_key k \<and> (take 2 k = [''canopus'', ''preimages''] \<longrightarrow> length k = 3)"

definition ds_content :: "datastore \<Rightarrow> key \<Rightarrow> (u64 \<times> bytes) option" where
  "ds_content st k = (if storable k then map_of st k else None)"

definition ds_heads :: "datastore \<Rightarrow> key \<Rightarrow> key list" where
  "ds_heads st k = filter (\<lambda>j. j = k) (filter storable (map fst st)) @
     map (take (Suc (length k)))
       (filter (\<lambda>j. take (length k) j = k \<and> length k < length j) (filter storable (map fst st)))"

definition model_datastore :: "datastore rpc_call" where
  "model_datastore method v st =
     (let k = param_key v in
      if method = ''listdatastore'' then
        (Inr (JObject [(''datastore'', JArray (map (\<lambda>j. entry_json model_crypto j (ds_content st j)) (ds_heads st k)))]), st)
      else if method = ''deldatastore'' then (Inr (JObject []), filter (\<lambda>(j, _). j \<noteq> k) st)
      else if \<not> storable k then (Inl \<lparr>rpc_message = ''Parent key exists''\<rparr>, st)
      else if get_as as_str v ''mode'' = Some ''create-or-replace'' then
        (Inr (JObject []), (k, (0, param_bytes v)) # st)
      else if get_as as_str v ''mode'' = Some ''must-create'' then
        (if map_of st k \<noteq> None then (Inl \<lparr>rpc_message = ''Key already exists''\<rparr>, st)
         else (Inr (JObject []), (k, (0, param_bytes v)) # st))
      else (case map_of st k of
          None \<Rightarrow> (Inl \<lparr>rpc_message = ''Key does not exist''\<rparr>, st)
        | Some (g, _) \<Rightarrow>
            if get_as as_u64 v ''generation'' \<noteq> Some g then (Inl \<lparr>rpc_message = ''generation is different''\<rparr>, st)
            else (Inr (JObject []), (k, (g + 1, param_bytes v)) # st)))"

definition model_cln :: "datastore cln" where
  "model_cln = \<lparr>cl_call = model_datastore, cl_crypto = model_crypto, cl_hex_error = (\<lambda>s. ''odd length'')\<rparr>"

lemma model_cln_sel [simp]: "cl_call model_cln = model_datastore" "cl_crypto model_cln = model_crypto"
  by (simp_all add: model_cln_def)

lemma param_simps [simp]:
  "param_key (key_params k) = k" "param_key (datastore_params k h m g) = k"
  "param_bytes (datastore_params k (Some (lower_hex b)) m g) = b"
  by (simp_all add: param_key_def key_params_def entry_key_def datastore_params_def param_bytes_def
      unhex_lower_hex split: option.splits)

lemma param_mode [simp]:
  "get_as as_str (datastore_params k h m g) ''mode'' = Some m"
  "get_as as_u64 (datastore_params k h m (Some i)) ''generation'' = Some i"
  by (simp_all add: datastore_params_def split: option.splits)

lemma map_of_without: "map_of (filter (\<lambda>(j, _). j \<noteq> k) xs) = (map_of xs)(k := None)"
  by (induction xs) auto

lemma ds_content_upd [simp]:
  "storable k \<Longrightarrow> ds_content ((k, e) # st) = (ds_content st)(k \<mapsto> e)"
  "ds_content (filter (\<lambda>(j, _). j \<noteq> k) st) = (ds_content st)(k := None)"
  by (auto simp: ds_content_def fun_eq_iff map_of_without)

lemma ds_heads_set: "set (ds_heads st k) = heads (ds_content st) k"
  by (force simp: ds_heads_def heads_def ds_content_def map_of_eq_None_iff simp del: not_None_eq split: if_splits)

lemma model_datastore_ok: "datastore_ok model_cln ds_content"
proof -
  have "list_ok model_cln ds_content"
    by (auto simp: list_ok_def model_datastore_def ds_heads_set)
  moreover have "create_ok model_cln ds_content"
  proof -
    have "\<not> str_contains (to_lowercase ''Parent key exists'') ''already exists''"
      "\<not> str_contains (to_lowercase ''Parent key exists'') ''already have''"
      by code_simp+
    then have parent: "map_rpc_error k \<lparr>rpc_message = ''Parent key exists''\<rparr> \<noteq> AlreadyExists k" for k
      by (simp add: map_rpc_error_def Let_def)
    have free: "storable k \<Longrightarrow> ds_content st k = map_of st k" for st k by (simp add: ds_content_def)
    show ?thesis
      unfolding create_ok_def
      by (intro allI impI) (auto simp: model_datastore_def parent free split: if_splits simp del: not_None_eq)
  qed
  moreover have "replace_ok model_cln ds_content"
    by (auto simp: replace_ok_def model_datastore_def split: if_splits option.splits)
      (simp add: ds_content_def)
  moreover have "delete_ok model_cln ds_content"
    by (auto simp: delete_ok_def model_datastore_def)
  ultimately show ?thesis
    using model_hex_ok by (auto simp: datastore_ok_def ds_content_def storable_def split: if_splits)
qed

theorem cln_store_refines_contract_witness: "keyed_store (cln_store model_cln) ds_content"
  using cln_store_refines_contract [OF model_datastore_ok] .

interpretation cln: keyed_store "cln_store model_cln" ds_content
  by (rule cln_store_lawful [OF model_datastore_ok])

end
