(* ===== verification/Serde.thy ===== *)
theory Serde
  imports Ledger External Json "HOL-Library.Countable" "HOL-Library.Monad_Syntax"
begin

text \<open>
  The JSON form of what the plugin persists, as the serde attributes in \<^verbatim>\<open>src/src/store.rs\<close>,
  \<^verbatim>\<open>config.rs\<close>, \<^verbatim>\<open>ledger.rs\<close>, \<^verbatim>\<open>wire/lcss.rs\<close> and \<^verbatim>\<open>wire/codecs.rs\<close> declare it: field names, renamed and
  tagged variants, hexadecimal adapters and defaults for members that older records lack. A \<open>form\<close> is
  the serialiser and the deserialiser of one type, with the condition under which a value of the
  model is a value of the Rust type (the lengths of arrays, strings in UTF-8). The text layer of
  \<^verbatim>\<open>serde_json\<close> is a parameter. Structs as JSON arrays and variants by number, which serde also reads
  and nothing here writes, are not modelled.
\<close>

section \<open>Forms\<close>

record 't form =
  ser :: "'t \<Rightarrow> Value"
  de :: "Value \<Rightarrow> 't option"
  fits :: "'t \<Rightarrow> bool"

text \<open>Values that can be written as JSON text: no fractions, and strings in UTF-8.\<close>

abbreviation utf8 :: "string \<Rightarrow> bool" where
  "utf8 s \<equiv> valid_utf8 (bytes_of_string s)"

fun printable :: "Value \<Rightarrow> bool" where
  "printable JNull \<longleftrightarrow> True"
| "printable (JBool b) \<longleftrightarrow> True"
| "printable (JNumber n) \<longleftrightarrow> (case n of PosInt _ \<Rightarrow> True | _ \<Rightarrow> False)"
| "printable (JString s) \<longleftrightarrow> utf8 s"
| "printable (JArray vs) \<longleftrightarrow> list_all printable vs"
| "printable (JObject ms) \<longleftrightarrow> list_all (\<lambda>(n, v). utf8 n \<and> printable v) ms"

locale json_form =
  fixes F :: "'t form"
  assumes read_back [simp]: "fits F x \<Longrightarrow> de F (ser F x) = Some x"
    and ser_printable [simp]: "fits F x \<Longrightarrow> printable (ser F x)"

locale nonnull_form = json_form +
  assumes nonnull [simp]: "ser F x \<noteq> JNull"

lemma ascii_utf8: "\<forall>c \<in> set s. (of_char c :: nat) < 128 \<Longrightarrow> utf8 s"
proof (induction s)
  case (Cons c s)
  have "(word_of_nat (of_char c) :: u8) < 0x80"
    using Cons.prems by (auto simp: word_less_nat_alt unat_of_nat)
  then have step: "utf8_step (bytes_of_string (c # s)) = (True, 1)"
    by (simp add: utf8_step_def byte_at_def bytes_of_string_def)
  have "drop 1 (bytes_of_string (c # s)) = bytes_of_string s" by (simp add: bytes_of_string_def)
  then show ?case
    using Cons by (subst valid_utf8.simps) (simp add: step)
qed (simp add: bytes_of_string_def)

section \<open>Primitive forms\<close>

text \<open>Unsigned integers of a width; a larger number does not fit.\<close>

definition u64_form :: "u64 form" where
  "u64_form = \<lparr>ser = (\<lambda>n. JNumber (PosInt n)), de = as_u64, fits = (\<lambda>_. True)\<rparr>"

definition uint_form :: "('a :: len word) form" where
  "uint_form = \<lparr>ser = (\<lambda>n. JNumber (PosInt (ucast n))),
     de = (\<lambda>v. Option.bind (as_u64 v) (\<lambda>n.
       if unat n < 2 ^ LENGTH('a) then Some (ucast n) else None)),
     fits = (\<lambda>_. LENGTH('a) \<le> 64)\<rparr>"

definition bool_form :: "bool form" where
  "bool_form = \<lparr>ser = JBool, de = as_bool, fits = (\<lambda>_. True)\<rparr>"

definition string_form :: "string form" where
  "string_form = \<lparr>ser = JString, de = as_str, fits = utf8\<rparr>"

definition list_form :: "'t form \<Rightarrow> 't list form" where
  "list_form F = \<lparr>ser = (\<lambda>xs. JArray (map (ser F) xs)),
     de = (\<lambda>v. Option.bind (as_array v) (\<lambda>vs. those (map (de F) vs))), fits = list_all (fits F)\<rparr>"

definition option_form :: "'t form \<Rightarrow> 't option form" where
  "option_form F = \<lparr>ser = case_option JNull (ser F),
     de = (\<lambda>v. if v = JNull then Some None else map_option Some (de F v)), fits = pred_option (fits F)\<rparr>"

text \<open>A Rust array of \<open>n\<close> bytes without an adapter is a JSON array of \<open>n\<close> numbers.\<close>

definition byte_array_form :: "nat \<Rightarrow> bytes form" where
  "byte_array_form n = \<lparr>ser = ser (list_form uint_form),
     de = (\<lambda>v. Option.bind (de (list_form uint_form) v) (\<lambda>bs. if length bs = n then Some bs else None)),
     fits = (\<lambda>bs. length bs = n)\<rparr>"

lemma ucast_narrow:
  assumes "LENGTH('a :: len) \<le> 64"
  shows "unat (ucast (n :: 'a word) :: u64) < 2 ^ LENGTH('a)" "ucast (ucast n :: u64) = n"
proof -
  have n: "unat n < 2 ^ LENGTH('a)" by (rule unsigned_less)
  also have "(2 :: nat) ^ LENGTH('a) \<le> 2 ^ 64" using assms by (rule power_increasing) simp
  finally have "take_bit 64 (unat n) = unat n" by (simp add: take_bit_nat_eq_self)
  then have eq: "unat (ucast n :: u64) = unat n"
    unfolding unsigned_ucast_eq unsigned_take_bit_eq by simp
  then show "unat (ucast n :: u64) < 2 ^ LENGTH('a)" using n by simp
  have "unat (ucast (ucast n :: u64) :: 'a word) = unat n"
    unfolding unsigned_ucast_eq [of "ucast n :: u64"] unsigned_take_bit_eq eq
    using n by (simp add: take_bit_nat_eq_self)
  then show "ucast (ucast n :: u64) = n" by (simp add: word_unat_eq_iff)
qed

interpretation u64: nonnull_form u64_form
  by unfold_locales (simp_all add: u64_form_def)

interpretation uint: nonnull_form uint_form
  by unfold_locales (simp_all add: uint_form_def ucast_narrow)

interpretation bool: nonnull_form bool_form
  by unfold_locales (simp_all add: bool_form_def)

interpretation str: nonnull_form string_form
  by unfold_locales (simp_all add: string_form_def)

lemma fits_simps [simp]:
  "fits u64_form n" "fits (uint_form :: ('a :: len word) form) m \<longleftrightarrow> LENGTH('a) \<le> 64" "fits bool_form b"
  "fits string_form s \<longleftrightarrow> utf8 s" "fits (list_form F) xs \<longleftrightarrow> list_all (fits F) xs"
  "fits (option_form F) y \<longleftrightarrow> pred_option (fits F) y" "fits (byte_array_form k) bs \<longleftrightarrow> length bs = k"
  by (simp_all add: u64_form_def uint_form_def bool_form_def string_form_def list_form_def
      option_form_def byte_array_form_def)

context json_form
begin

lemma those_back: "list_all (fits F) xs \<Longrightarrow> those (map (de F \<circ> ser F) xs) = Some xs"
  by (induction xs) simp_all

lemma list_printable: "list_all (fits F) xs \<Longrightarrow> list_all printable (map (ser F) xs)"
  by (induction xs) simp_all

lemma list_nonnull: "nonnull_form (list_form F)"
  by unfold_locales (simp_all add: list_form_def those_back list_printable)

end

context nonnull_form
begin

lemma option_ok: "json_form (option_form F)"
proof
  fix y :: "'a option"
  assume "fits (option_form F) y"
  then show "de (option_form F) (ser (option_form F) y) = Some y" "printable (ser (option_form F) y)"
    by (cases y; simp add: option_form_def)+
qed

end

interpretation uints: nonnull_form "list_form uint_form"
  by (rule uint.list_nonnull)

interpretation strs: nonnull_form "list_form string_form"
  by (rule str.list_nonnull)

interpretation u64_opt: json_form "option_form u64_form"
  by (rule u64.option_ok)

interpretation uint_opt: json_form "option_form uint_form"
  by (rule uint.option_ok)

interpretation str_opt: json_form "option_form string_form"
  by (rule str.option_ok)

lemma byte_array_ok: "nonnull_form (byte_array_form n)"
proof
  fix bs :: bytes
  have all: "list_all (fits uint_form) bs" by (simp add: list_all_iff)
  assume "fits (byte_array_form n) bs"
  then show "de (byte_array_form n) (ser (byte_array_form n) bs) = Some bs" "printable (ser (byte_array_form n) bs)"
    using uints.read_back [of bs] uints.ser_printable [of bs] all by (simp_all add: byte_array_form_def)
qed (simp add: byte_array_form_def)

interpretation array: nonnull_form "byte_array_form n" for n
  by (rule byte_array_ok)

section \<open>Hexadecimal adapters\<close>

definition serde_bytes_hex :: "'c crypto_scheme \<Rightarrow> bytes form" where
  "serde_bytes_hex C = \<lparr>ser = (\<lambda>b. JString (hex_encode C b)),
     de = (\<lambda>v. Option.bind (as_str v) (hex_decode C)), fits = (\<lambda>_. True)\<rparr>"

text \<open>The adapter of an array refuses another length.\<close>

definition hex_array :: "'c crypto_scheme \<Rightarrow> nat \<Rightarrow> bytes form" where
  "hex_array C n = \<lparr>ser = (\<lambda>b. JString (hex_encode C b)),
     de = (\<lambda>v. Option.bind (Option.bind (as_str v) (hex_decode C)) (\<lambda>bytes.
       if length bytes \<noteq> n then None else Some bytes)), fits = (\<lambda>b. length b = n)\<rparr>"

definition serde_array_hex_32 :: "'c crypto_scheme \<Rightarrow> bytes form" where
  "serde_array_hex_32 C = hex_array C 32"

definition store_serde_array_hex_32 :: "'c crypto_scheme \<Rightarrow> bytes form" where
  "store_serde_array_hex_32 C = hex_array C 32"

definition serde_array_hex_64 :: "'c crypto_scheme \<Rightarrow> bytes form" where
  "serde_array_hex_64 C = hex_array C 64"

definition serde_option_array_hex_32 :: "'c crypto_scheme \<Rightarrow> bytes option form" where
  "serde_option_array_hex_32 C = \<lparr>
     ser = (\<lambda>b. case b of Some bytes \<Rightarrow> JString (hex_encode C bytes) | None \<Rightarrow> JNull),
     de = (\<lambda>v. Option.bind (de (option_form string_form) v) (\<lambda>s. case s of None \<Rightarrow> Some None
       | Some s \<Rightarrow> Option.bind (hex_decode C s) (\<lambda>bytes.
           if length bytes \<noteq> 32 then None else Some (Some bytes)))),
     fits = pred_option (\<lambda>b. length b = 32)\<rparr>"

lemmas hex_form_defs = serde_array_hex_32_def store_serde_array_hex_32_def serde_array_hex_64_def

lemma fits_hex [simp]:
  "fits (serde_bytes_hex C) b" "fits (serde_array_hex_32 C) b \<longleftrightarrow> length b = 32"
  "fits (store_serde_array_hex_32 C) b \<longleftrightarrow> length b = 32" "fits (serde_array_hex_64 C) b \<longleftrightarrow> length b = 64"
  "fits (serde_option_array_hex_32 C) y \<longleftrightarrow> pred_option (\<lambda>b. length b = 32) y"
  by (simp_all add: serde_bytes_hex_def hex_form_defs hex_array_def serde_option_array_hex_32_def)

locale hex_crate =
  fixes C :: "'c crypto_scheme"
  assumes hex: "hex_ok C"
begin

lemma hex_back [simp]: "hex_decode C (hex_encode C b) = Some b"
  using hex by (simp add: hex_ok_def)

lemma hex_utf8 [simp]: "utf8 (hex_encode C b)"
proof (rule ascii_utf8, rule ballI)
  fix c
  assume "c \<in> set (hex_encode C b)"
  then have "c \<in> set ''0123456789abcdef''" using hex unfolding hex_ok_def by blast
  then show "(of_char c :: nat) < 128" by auto
qed

lemma hex_array_ok: "nonnull_form (hex_array C n)"
  by unfold_locales (simp_all add: hex_array_def)

end

sublocale hex_crate \<subseteq> bytes: nonnull_form "serde_bytes_hex C"
  by unfold_locales (simp_all add: serde_bytes_hex_def)

sublocale hex_crate \<subseteq> array: nonnull_form "serde_array_hex_32 C"
  unfolding hex_form_defs by (rule hex_array_ok)

sublocale hex_crate \<subseteq> store_array: nonnull_form "store_serde_array_hex_32 C"
  unfolding hex_form_defs by (rule hex_array_ok)

sublocale hex_crate \<subseteq> sig: nonnull_form "serde_array_hex_64 C"
  unfolding hex_form_defs by (rule hex_array_ok)

sublocale hex_crate \<subseteq> opt_array: json_form "serde_option_array_hex_32 C"
  by unfold_locales
    (auto simp: serde_option_array_hex_32_def option_form_def string_form_def split: option.splits)

section \<open>Structs and enums\<close>

text \<open>
  A struct is read from an object. Members with other names are ignored, a repeated member is an
  error, and a member that is missing is an error or, with the attribute \<open>default\<close>, the default.
\<close>

definition members :: "string list \<Rightarrow> Value \<Rightarrow> (string \<times> Value) list option" where
  "members names v =
     (case v of JObject ms \<Rightarrow>
        if list_all (\<lambda>n. length (filter (\<lambda>(k, _). k = n) ms) \<le> 1) names then Some ms else None
      | _ \<Rightarrow> None)"

definition field :: "'t form \<Rightarrow> (string \<times> Value) list \<Rightarrow> string \<Rightarrow> 't option" where
  "field F ms name = Option.bind (map_of ms name) (de F)"

definition field_or :: "'t \<Rightarrow> 't form \<Rightarrow> (string \<times> Value) list \<Rightarrow> string \<Rightarrow> 't option" where
  "field_or d F ms name = (case map_of ms name of None \<Rightarrow> Some d | Some v \<Rightarrow> de F v)"

text \<open>An internally tagged enum: the tag of an object and its other members.\<close>

definition tagged :: "string \<Rightarrow> Value \<Rightarrow> (string \<times> Value) option" where
  "tagged tag v =
     (case v of JObject ms \<Rightarrow>
        (case map snd (filter (\<lambda>(k, _). k = tag) ms) of
           [JString t] \<Rightarrow> Some (t, JObject (filter (\<lambda>(k, _). k \<noteq> tag) ms))
         | _ \<Rightarrow> None)
      | _ \<Rightarrow> None)"

text \<open>Policies, secrets and bookkeeping.\<close>

definition policy_form :: "ChannelPolicy form" where
  "policy_form = \<lparr>
     ser = (\<lambda>x. JObject [
       (''channel_capacity_msat'', ser u64_form (pol_channel_capacity_msat x)),
       (''initial_client_balance_msat'', ser u64_form (pol_initial_client_balance_msat x)),
       (''max_htlc_value_in_flight_msat'', ser u64_form (pol_max_htlc_value_in_flight_msat x)),
       (''htlc_minimum_msat'', ser u64_form (pol_htlc_minimum_msat x)),
       (''max_accepted_htlcs'', ser uint_form (pol_max_accepted_htlcs x)),
       (''fee_base_msat'', ser uint_form (pol_fee_base_msat x)),
       (''fee_proportional_millionths'', ser uint_form (pol_fee_proportional_millionths x)),
       (''cltv_expiry_delta'', ser uint_form (pol_cltv_expiry_delta x))]),
     de = (\<lambda>v. do {
       ms \<leftarrow> members [''channel_capacity_msat'', ''initial_client_balance_msat'',
         ''max_htlc_value_in_flight_msat'', ''htlc_minimum_msat'', ''max_accepted_htlcs'',
         ''fee_base_msat'', ''fee_proportional_millionths'', ''cltv_expiry_delta''] v;
       a \<leftarrow> field u64_form ms ''channel_capacity_msat'';
       b \<leftarrow> field u64_form ms ''initial_client_balance_msat'';
       c \<leftarrow> field u64_form ms ''max_htlc_value_in_flight_msat'';
       d \<leftarrow> field u64_form ms ''htlc_minimum_msat'';
       e \<leftarrow> field uint_form ms ''max_accepted_htlcs'';
       f \<leftarrow> field uint_form ms ''fee_base_msat'';
       g \<leftarrow> field uint_form ms ''fee_proportional_millionths'';
       h \<leftarrow> field uint_form ms ''cltv_expiry_delta'';
       Some \<lparr>pol_channel_capacity_msat = a, pol_initial_client_balance_msat = b,
         pol_max_htlc_value_in_flight_msat = c, pol_htlc_minimum_msat = d,
         pol_max_accepted_htlcs = e, pol_fee_base_msat = f,
         pol_fee_proportional_millionths = g, pol_cltv_expiry_delta = h\<rparr>}),
     fits = (\<lambda>x. fits u64_form (pol_channel_capacity_msat x) \<and>
       fits u64_form (pol_initial_client_balance_msat x) \<and>
       fits u64_form (pol_max_htlc_value_in_flight_msat x) \<and>
       fits u64_form (pol_htlc_minimum_msat x) \<and>
       fits uint_form (pol_max_accepted_htlcs x) \<and>
       fits uint_form (pol_fee_base_msat x) \<and>
       fits uint_form (pol_fee_proportional_millionths x) \<and>
       fits uint_form (pol_cltv_expiry_delta x))\<rparr>"

definition secret_form :: "ChannelSecret form" where
  "secret_form = \<lparr>
     ser = (\<lambda>x. JObject [
       (''secret'', ser string_form (sec_secret x)),
       (''capacity_msat'', ser u64_form (sec_capacity_msat x)),
       (''initial_balance_msat'', ser u64_form (sec_initial_balance_msat x)),
       (''consumed'', ser bool_form (sec_consumed x))]),
     de = (\<lambda>v. do {
       ms \<leftarrow> members [''secret'', ''capacity_msat'', ''initial_balance_msat'', ''consumed''] v;
       a \<leftarrow> field string_form ms ''secret'';
       b \<leftarrow> field u64_form ms ''capacity_msat'';
       c \<leftarrow> field u64_form ms ''initial_balance_msat'';
       d \<leftarrow> field bool_form ms ''consumed'';
       Some \<lparr>sec_secret = a, sec_capacity_msat = b, sec_initial_balance_msat = c,
         sec_consumed = d\<rparr>}),
     fits = (\<lambda>x. fits string_form (sec_secret x) \<and>
       fits u64_form (sec_capacity_msat x) \<and>
       fits u64_form (sec_initial_balance_msat x) \<and>
       fits bool_form (sec_consumed x))\<rparr>"

definition meta_form :: "Meta form" where
  "meta_form = \<lparr>
     ser = (\<lambda>x. JObject [
       (''next_ledger_seq'', ser u64_form (meta_next_ledger_seq x)),
       (''current_block_height'', ser uint_form (meta_current_block_height x))]),
     de = (\<lambda>v. do {
       ms \<leftarrow> members [''next_ledger_seq'', ''current_block_height''] v;
       a \<leftarrow> field u64_form ms ''next_ledger_seq'';
       b \<leftarrow> field uint_form ms ''current_block_height'';
       Some \<lparr>meta_next_ledger_seq = a, meta_current_block_height = b\<rparr>}),
     fits = (\<lambda>x. fits u64_form (meta_next_ledger_seq x) \<and>
       fits uint_form (meta_current_block_height x))\<rparr>"

definition routing_form :: "ChannelRoutingPolicy form" where
  "routing_form = \<lparr>
     ser = (\<lambda>x. JObject [
       (''fee_base_msat'', ser uint_form (rp_fee_base_msat x)),
       (''fee_proportional_millionths'', ser uint_form (rp_fee_proportional_millionths x)),
       (''cltv_expiry_delta'', ser uint_form (rp_cltv_expiry_delta x)),
       (''htlc_maximum_msat'', ser u64_form (rp_htlc_maximum_msat x))]),
     de = (\<lambda>v. do {
       ms \<leftarrow> members [''fee_base_msat'', ''fee_proportional_millionths'', ''cltv_expiry_delta'',
         ''htlc_maximum_msat''] v;
       a \<leftarrow> field uint_form ms ''fee_base_msat'';
       b \<leftarrow> field uint_form ms ''fee_proportional_millionths'';
       c \<leftarrow> field uint_form ms ''cltv_expiry_delta'';
       d \<leftarrow> field u64_form ms ''htlc_maximum_msat'';
       Some \<lparr>rp_fee_base_msat = a, rp_fee_proportional_millionths = b,
         rp_cltv_expiry_delta = c, rp_htlc_maximum_msat = d\<rparr>}),
     fits = (\<lambda>x. fits uint_form (rp_fee_base_msat x) \<and>
       fits uint_form (rp_fee_proportional_millionths x) \<and>
       fits uint_form (rp_cltv_expiry_delta x) \<and>
       fits u64_form (rp_htlc_maximum_msat x))\<rparr>"

fun event_type_name :: "LedgerEventType \<Rightarrow> string" where
  "event_type_name ChannelOpen = ''channel_open''"
| "event_type_name HtlcForwarded = ''htlc_forwarded''"
| "event_type_name HtlcFulfilled = ''htlc_fulfilled''"
| "event_type_name HtlcFailed = ''htlc_failed''"
| "event_type_name Override = ''override''"
| "event_type_name Resize = ''resize''"
| "event_type_name FeeEarned = ''fee_earned''"

definition event_type_form :: "LedgerEventType form" where
  "event_type_form = \<lparr>ser = (\<lambda>t. JString (event_type_name t)),
     de = (\<lambda>v. Option.bind (as_str v) (\<lambda>s. List.find (\<lambda>t. event_type_name t = s)
       [ChannelOpen, HtlcForwarded, HtlcFulfilled, HtlcFailed, Override, Resize, FeeEarned])),
     fits = (\<lambda>_. True)\<rparr>"

text \<open>An absent optional member is \<open>None\<close> with or without the attribute.\<close>

definition event_form :: "LedgerEvent form" where
  "event_form = \<lparr>
     ser = (\<lambda>x. JObject [
       (''seq'', ser u64_form (le_seq x)),
       (''event_id'', ser (option_form string_form) (le_event_id x)),
       (''peer_pubkey'', ser string_form (le_peer_pubkey x)),
       (''event_type'', ser event_type_form (le_event_type x)),
       (''amount_msat'', ser u64_form (le_amount_msat x)),
       (''fee_msat'', ser u64_form (le_fee_msat x)),
       (''payment_hash'', ser (option_form string_form) (le_payment_hash x)),
       (''timestamp'', ser u64_form (le_timestamp x))]),
     de = (\<lambda>v. do {
       ms \<leftarrow> members [''seq'', ''event_id'', ''peer_pubkey'', ''event_type'', ''amount_msat'',
         ''fee_msat'', ''payment_hash'', ''timestamp''] v;
       a \<leftarrow> field u64_form ms ''seq'';
       b \<leftarrow> field_or None (option_form string_form) ms ''event_id'';
       c \<leftarrow> field string_form ms ''peer_pubkey'';
       d \<leftarrow> field event_type_form ms ''event_type'';
       e \<leftarrow> field u64_form ms ''amount_msat'';
       f \<leftarrow> field u64_form ms ''fee_msat'';
       g \<leftarrow> field_or None (option_form string_form) ms ''payment_hash'';
       h \<leftarrow> field u64_form ms ''timestamp'';
       Some \<lparr>le_seq = a, le_event_id = b, le_peer_pubkey = c, le_event_type = d,
         le_amount_msat = e, le_fee_msat = f, le_payment_hash = g, le_timestamp = h\<rparr>}),
     fits = (\<lambda>x. fits u64_form (le_seq x) \<and>
       fits (option_form string_form) (le_event_id x) \<and>
       fits string_form (le_peer_pubkey x) \<and>
       fits event_type_form (le_event_type x) \<and>
       fits u64_form (le_amount_msat x) \<and>
       fits u64_form (le_fee_msat x) \<and>
       fits (option_form string_form) (le_payment_hash x) \<and>
       fits u64_form (le_timestamp x))\<rparr>"

definition link_form :: "'c crypto_scheme \<Rightarrow> ForwardLink form" where
  "link_form C = \<lparr>
     ser = (\<lambda>x. JObject [
       (''incoming_scid'', ser u64_form (fl_incoming_scid x)),
       (''incoming_htlc_id'', ser u64_form (fl_incoming_htlc_id x)),
       (''outgoing_scid'', ser u64_form (fl_outgoing_scid x)),
       (''outgoing_htlc_id'', ser u64_form (fl_outgoing_htlc_id x)),
       (''upstream_cltv_expiry'', ser (option_form uint_form) (fl_upstream_cltv_expiry x)),
       (''hosted_commit_deadline_unix'', ser (option_form u64_form) (fl_hosted_commit_deadline_unix x)),
       (''payment_hash'', ser (store_serde_array_hex_32 C) (fl_payment_hash x)),
       (''shared_secret'', ser (serde_option_array_hex_32 C) (fl_shared_secret x))]),
     de = (\<lambda>v. do {
       ms \<leftarrow> members [''incoming_scid'', ''incoming_htlc_id'', ''outgoing_scid'', ''outgoing_htlc_id'',
         ''upstream_cltv_expiry'', ''hosted_commit_deadline_unix'', ''payment_hash'',
         ''shared_secret''] v;
       a \<leftarrow> field u64_form ms ''incoming_scid'';
       b \<leftarrow> field u64_form ms ''incoming_htlc_id'';
       c \<leftarrow> field u64_form ms ''outgoing_scid'';
       d \<leftarrow> field u64_form ms ''outgoing_htlc_id'';
       e \<leftarrow> field_or None (option_form uint_form) ms ''upstream_cltv_expiry'';
       f \<leftarrow> field_or None (option_form u64_form) ms ''hosted_commit_deadline_unix'';
       g \<leftarrow> field (store_serde_array_hex_32 C) ms ''payment_hash'';
       h \<leftarrow> field_or None (serde_option_array_hex_32 C) ms ''shared_secret'';
       Some \<lparr>fl_incoming_scid = a, fl_incoming_htlc_id = b, fl_outgoing_scid = c,
         fl_outgoing_htlc_id = d, fl_upstream_cltv_expiry = e,
         fl_hosted_commit_deadline_unix = f, fl_payment_hash = g, fl_shared_secret = h\<rparr>}),
     fits = (\<lambda>x. fits u64_form (fl_incoming_scid x) \<and>
       fits u64_form (fl_incoming_htlc_id x) \<and>
       fits u64_form (fl_outgoing_scid x) \<and>
       fits u64_form (fl_outgoing_htlc_id x) \<and>
       fits (option_form uint_form) (fl_upstream_cltv_expiry x) \<and>
       fits (option_form u64_form) (fl_hosted_commit_deadline_unix x) \<and>
       fits (store_serde_array_hex_32 C) (fl_payment_hash x) \<and>
       fits (serde_option_array_hex_32 C) (fl_shared_secret x))\<rparr>"

text \<open>HTLCs, cross-signed states and channels. The arrays of an HTLC have no adapter.\<close>

definition htlc_form :: "'c crypto_scheme \<Rightarrow> UpdateAddHtlc form" where
  "htlc_form C = \<lparr>
     ser = (\<lambda>x. JObject [
       (''channel_id'', ser (byte_array_form 32) (htlc_channel_id x)),
       (''id'', ser u64_form (htlc_id x)),
       (''amount_msat'', ser u64_form (htlc_amount_msat x)),
       (''payment_hash'', ser (byte_array_form 32) (htlc_payment_hash x)),
       (''cltv_expiry'', ser uint_form (htlc_cltv_expiry x)),
       (''onion_routing_packet'', ser (serde_bytes_hex C) (htlc_onion_routing_packet x)),
       (''tlv_stream'', ser (serde_bytes_hex C) (htlc_tlv_stream x))]),
     de = (\<lambda>v. do {
       ms \<leftarrow> members [''channel_id'', ''id'', ''amount_msat'', ''payment_hash'', ''cltv_expiry'',
         ''onion_routing_packet'', ''tlv_stream''] v;
       a \<leftarrow> field (byte_array_form 32) ms ''channel_id'';
       b \<leftarrow> field u64_form ms ''id'';
       c \<leftarrow> field u64_form ms ''amount_msat'';
       d \<leftarrow> field (byte_array_form 32) ms ''payment_hash'';
       e \<leftarrow> field uint_form ms ''cltv_expiry'';
       f \<leftarrow> field (serde_bytes_hex C) ms ''onion_routing_packet'';
       g \<leftarrow> field_or [] (serde_bytes_hex C) ms ''tlv_stream'';
       Some \<lparr>htlc_channel_id = a, htlc_id = b, htlc_amount_msat = c, htlc_payment_hash = d,
         htlc_cltv_expiry = e, htlc_onion_routing_packet = f, htlc_tlv_stream = g\<rparr>}),
     fits = (\<lambda>x. fits (byte_array_form 32) (htlc_channel_id x) \<and>
       fits u64_form (htlc_id x) \<and>
       fits u64_form (htlc_amount_msat x) \<and>
       fits (byte_array_form 32) (htlc_payment_hash x) \<and>
       fits uint_form (htlc_cltv_expiry x) \<and>
       fits (serde_bytes_hex C) (htlc_onion_routing_packet x) \<and>
       fits (serde_bytes_hex C) (htlc_tlv_stream x))\<rparr>"

definition init_form :: "InitHostedChannel form" where
  "init_form = \<lparr>
     ser = (\<lambda>x. JObject [
       (''max_htlc_value_in_flight_msat'', ser u64_form (ihc_max_htlc_value_in_flight_msat x)),
       (''htlc_minimum_msat'', ser u64_form (ihc_htlc_minimum_msat x)),
       (''max_accepted_htlcs'', ser uint_form (ihc_max_accepted_htlcs x)),
       (''channel_capacity_msat'', ser u64_form (ihc_channel_capacity_msat x)),
       (''initial_client_balance_msat'', ser u64_form (ihc_initial_client_balance_msat x)),
       (''features'', ser (list_form uint_form) (ihc_features x))]),
     de = (\<lambda>v. do {
       ms \<leftarrow> members [''max_htlc_value_in_flight_msat'', ''htlc_minimum_msat'', ''max_accepted_htlcs'',
         ''channel_capacity_msat'', ''initial_client_balance_msat'', ''features''] v;
       a \<leftarrow> field u64_form ms ''max_htlc_value_in_flight_msat'';
       b \<leftarrow> field u64_form ms ''htlc_minimum_msat'';
       c \<leftarrow> field uint_form ms ''max_accepted_htlcs'';
       d \<leftarrow> field u64_form ms ''channel_capacity_msat'';
       e \<leftarrow> field u64_form ms ''initial_client_balance_msat'';
       f \<leftarrow> field (list_form uint_form) ms ''features'';
       Some \<lparr>ihc_max_htlc_value_in_flight_msat = a, ihc_htlc_minimum_msat = b,
         ihc_max_accepted_htlcs = c, ihc_channel_capacity_msat = d,
         ihc_initial_client_balance_msat = e, ihc_features = f\<rparr>}),
     fits = (\<lambda>x. fits u64_form (ihc_max_htlc_value_in_flight_msat x) \<and>
       fits u64_form (ihc_htlc_minimum_msat x) \<and>
       fits uint_form (ihc_max_accepted_htlcs x) \<and>
       fits u64_form (ihc_channel_capacity_msat x) \<and>
       fits u64_form (ihc_initial_client_balance_msat x) \<and>
       fits (list_form uint_form) (ihc_features x))\<rparr>"

definition lcss_form :: "'c crypto_scheme \<Rightarrow> LastCrossSignedState form" where
  "lcss_form C = \<lparr>
     ser = (\<lambda>x. JObject [
       (''is_host'', ser bool_form (is_host x)),
       (''last_refund_scriptpubkey'', ser (serde_bytes_hex C) (last_refund_scriptpubkey x)),
       (''init_hosted_channel'', ser init_form (init_hosted_channel x)),
       (''block_day'', ser uint_form (block_day x)),
       (''local_balance_msat'', ser u64_form (local_balance_msat x)),
       (''remote_balance_msat'', ser u64_form (remote_balance_msat x)),
       (''local_updates'', ser uint_form (local_updates x)),
       (''remote_updates'', ser uint_form (remote_updates x)),
       (''incoming_htlcs'', ser (list_form (htlc_form C)) (incoming_htlcs x)),
       (''outgoing_htlcs'', ser (list_form (htlc_form C)) (outgoing_htlcs x)),
       (''remote_sig_of_local'', ser (serde_array_hex_64 C) (remote_sig_of_local x)),
       (''local_sig_of_remote'', ser (serde_array_hex_64 C) (local_sig_of_remote x))]),
     de = (\<lambda>v. do {
       ms \<leftarrow> members [''is_host'', ''last_refund_scriptpubkey'', ''init_hosted_channel'',
         ''block_day'', ''local_balance_msat'', ''remote_balance_msat'',
         ''local_updates'', ''remote_updates'', ''incoming_htlcs'', ''outgoing_htlcs'',
         ''remote_sig_of_local'', ''local_sig_of_remote''] v;
       a \<leftarrow> field bool_form ms ''is_host'';
       b \<leftarrow> field (serde_bytes_hex C) ms ''last_refund_scriptpubkey'';
       c \<leftarrow> field init_form ms ''init_hosted_channel'';
       d \<leftarrow> field uint_form ms ''block_day'';
       e \<leftarrow> field u64_form ms ''local_balance_msat'';
       f \<leftarrow> field u64_form ms ''remote_balance_msat'';
       g \<leftarrow> field uint_form ms ''local_updates'';
       h \<leftarrow> field uint_form ms ''remote_updates'';
       i \<leftarrow> field (list_form (htlc_form C)) ms ''incoming_htlcs'';
       j \<leftarrow> field (list_form (htlc_form C)) ms ''outgoing_htlcs'';
       k \<leftarrow> field (serde_array_hex_64 C) ms ''remote_sig_of_local'';
       l \<leftarrow> field (serde_array_hex_64 C) ms ''local_sig_of_remote'';
       Some \<lparr>is_host = a, last_refund_scriptpubkey = b, init_hosted_channel = c,
         block_day = d, local_balance_msat = e, remote_balance_msat = f,
         local_updates = g, remote_updates = h, incoming_htlcs = i, outgoing_htlcs = j,
         remote_sig_of_local = k, local_sig_of_remote = l\<rparr>}),
     fits = (\<lambda>x. fits bool_form (is_host x) \<and>
       fits (serde_bytes_hex C) (last_refund_scriptpubkey x) \<and>
       fits init_form (init_hosted_channel x) \<and>
       fits uint_form (block_day x) \<and>
       fits u64_form (local_balance_msat x) \<and>
       fits u64_form (remote_balance_msat x) \<and>
       fits uint_form (local_updates x) \<and>
       fits uint_form (remote_updates x) \<and>
       fits (list_form (htlc_form C)) (incoming_htlcs x) \<and>
       fits (list_form (htlc_form C)) (outgoing_htlcs x) \<and>
       fits (serde_array_hex_64 C) (remote_sig_of_local x) \<and>
       fits (serde_array_hex_64 C) (local_sig_of_remote x))\<rparr>"

fun pending_members :: "'c crypto_scheme \<Rightarrow> PendingUpdate \<Rightarrow> (string \<times> Value) list" where
  "pending_members C (Add h) = [(''type'', JString ''add''), (''htlc'', ser (htlc_form C) h)]"
| "pending_members C (Fulfill cid i preimage) =
     [(''type'', JString ''fulfill''), (''channel_id'', ser (serde_array_hex_32 C) cid), (''id'', ser u64_form i),
      (''preimage'', ser (store_serde_array_hex_32 C) preimage)]"
| "pending_members C (Fail cid i reason) =
     [(''type'', JString ''fail''), (''channel_id'', ser (serde_array_hex_32 C) cid), (''id'', ser u64_form i),
      (''reason'', ser (serde_bytes_hex C) reason)]"
| "pending_members C (FailMalformed cid i onion_hash code) =
     [(''type'', JString ''fail_malformed''), (''channel_id'', ser (serde_array_hex_32 C) cid), (''id'', ser u64_form i),
      (''sha256_of_onion'', ser (store_serde_array_hex_32 C) onion_hash), (''failure_code'', ser uint_form code)]"

definition pending_de :: "'c crypto_scheme \<Rightarrow> Value \<Rightarrow> PendingUpdate option" where
  "pending_de C v = do {
     (t, content) \<leftarrow> tagged ''type'' v;
     if t = ''add'' then do {
       ms \<leftarrow> members [''htlc''] content;
       h \<leftarrow> field (htlc_form C) ms ''htlc'';
       Some (Add h)}
     else if t = ''fulfill'' then do {
       ms \<leftarrow> members [''channel_id'', ''id'', ''preimage''] content;
       cid \<leftarrow> field (serde_array_hex_32 C) ms ''channel_id'';
       i \<leftarrow> field u64_form ms ''id'';
       preimage \<leftarrow> field (store_serde_array_hex_32 C) ms ''preimage'';
       Some (Fulfill cid i preimage)}
     else if t = ''fail'' then do {
       ms \<leftarrow> members [''channel_id'', ''id'', ''reason''] content;
       cid \<leftarrow> field (serde_array_hex_32 C) ms ''channel_id'';
       i \<leftarrow> field u64_form ms ''id'';
       reason \<leftarrow> field (serde_bytes_hex C) ms ''reason'';
       Some (Fail cid i reason)}
     else if t = ''fail_malformed'' then do {
       ms \<leftarrow> members [''channel_id'', ''id'', ''sha256_of_onion'', ''failure_code''] content;
       cid \<leftarrow> field (serde_array_hex_32 C) ms ''channel_id'';
       i \<leftarrow> field u64_form ms ''id'';
       onion_hash \<leftarrow> field (store_serde_array_hex_32 C) ms ''sha256_of_onion'';
       code \<leftarrow> field uint_form ms ''failure_code'';
       Some (FailMalformed cid i onion_hash code)}
     else None}"

fun pending_fits :: "'c crypto_scheme \<Rightarrow> PendingUpdate \<Rightarrow> bool" where
  "pending_fits C (Add h) \<longleftrightarrow> fits (htlc_form C) h"
| "pending_fits C (Fulfill cid i preimage) \<longleftrightarrow> length cid = 32 \<and> length preimage = 32"
| "pending_fits C (Fail cid i reason) \<longleftrightarrow> length cid = 32"
| "pending_fits C (FailMalformed cid i onion_hash code) \<longleftrightarrow> length cid = 32 \<and> length onion_hash = 32"

definition pending_form :: "'c crypto_scheme \<Rightarrow> PendingUpdate form" where
  "pending_form C = \<lparr>ser = (\<lambda>p. JObject (pending_members C p)), de = pending_de C, fits = pending_fits C\<rparr>"

text \<open>The direction is a tag beside the members of the update.\<close>

fun update_parts :: "UncommittedUpdate \<Rightarrow> string \<times> PendingUpdate" where
  "update_parts (Local p) = (''local'', p)"
| "update_parts (Remote p) = (''remote'', p)"

definition update_form :: "'c crypto_scheme \<Rightarrow> UncommittedUpdate form" where
  "update_form C = \<lparr>
     ser = (\<lambda>u. JObject ((''direction'', JString (fst (update_parts u))) # pending_members C (snd (update_parts u)))),
     de = (\<lambda>v. do {
       (t, content) \<leftarrow> tagged ''direction'' v;
       if t = ''local'' then map_option Local (pending_de C content)
       else if t = ''remote'' then map_option Remote (pending_de C content)
       else None}),
     fits = (\<lambda>u. pending_fits C (snd (update_parts u)))\<rparr>"

definition channel_form :: "'c crypto_scheme \<Rightarrow> ChannelData form" where
  "channel_form C = \<lparr>
     ser = (\<lambda>x. JObject [
       (''lcss'', ser (lcss_form C) (cd_lcss x)),
       (''uncommitted'', ser (list_form (update_form C)) (cd_uncommitted x)),
       (''local_errors'', ser (list_form string_form) (cd_local_errors x)),
       (''remote_errors'', ser (list_form string_form) (cd_remote_errors x)),
       (''suspended'', ser bool_form (cd_suspended x)),
       (''proposed_override'', ser (option_form (lcss_form C)) (cd_proposed_override x)),
       (''last_refund_scriptpubkey'', ser (serde_bytes_hex C) (cd_last_refund_scriptpubkey x)),
       (''established'', ser bool_form (cd_established x)),
       (''accepting_resize_sat'', ser (option_form u64_form) (cd_accepting_resize_sat x)),
       (''routing_policy'', ser (option_form routing_form) (cd_routing_policy x)),
       (''channel_update_pending'', ser bool_form (cd_channel_update_pending x))]),
     de = (\<lambda>v. do {
       ms \<leftarrow> members [''lcss'', ''uncommitted'', ''local_errors'', ''remote_errors'', ''suspended'',
         ''proposed_override'', ''last_refund_scriptpubkey'', ''established'',
         ''accepting_resize_sat'', ''routing_policy'', ''channel_update_pending''] v;
       a \<leftarrow> field (lcss_form C) ms ''lcss'';
       b \<leftarrow> field_or [] (list_form (update_form C)) ms ''uncommitted'';
       c \<leftarrow> field_or [] (list_form string_form) ms ''local_errors'';
       d \<leftarrow> field_or [] (list_form string_form) ms ''remote_errors'';
       e \<leftarrow> field_or False bool_form ms ''suspended'';
       f \<leftarrow> field_or None (option_form (lcss_form C)) ms ''proposed_override'';
       g \<leftarrow> field_or [] (serde_bytes_hex C) ms ''last_refund_scriptpubkey'';
       h \<leftarrow> field_or False bool_form ms ''established'';
       i \<leftarrow> field_or None (option_form u64_form) ms ''accepting_resize_sat'';
       j \<leftarrow> field_or None (option_form routing_form) ms ''routing_policy'';
       k \<leftarrow> field_or False bool_form ms ''channel_update_pending'';
       Some \<lparr>cd_lcss = a, cd_uncommitted = b, cd_local_errors = c, cd_remote_errors = d,
         cd_suspended = e, cd_proposed_override = f, cd_last_refund_scriptpubkey = g,
         cd_established = h, cd_accepting_resize_sat = i, cd_routing_policy = j,
         cd_channel_update_pending = k\<rparr>}),
     fits = (\<lambda>x. fits (lcss_form C) (cd_lcss x) \<and>
       fits (list_form (update_form C)) (cd_uncommitted x) \<and>
       fits (list_form string_form) (cd_local_errors x) \<and>
       fits (list_form string_form) (cd_remote_errors x) \<and>
       fits bool_form (cd_suspended x) \<and>
       fits (option_form (lcss_form C)) (cd_proposed_override x) \<and>
       fits (serde_bytes_hex C) (cd_last_refund_scriptpubkey x) \<and>
       fits bool_form (cd_established x) \<and>
       fits (option_form u64_form) (cd_accepting_resize_sat x) \<and>
       fits (option_form routing_form) (cd_routing_policy x) \<and>
       fits bool_form (cd_channel_update_pending x))\<rparr>"

section \<open>Every form reads back what it writes\<close>

lemmas struct_defs = members_def field_def field_or_def tagged_def

interpretation policy: nonnull_form policy_form
  by unfold_locales (simp_all add: policy_form_def struct_defs ascii_utf8)

interpretation secret: nonnull_form secret_form
  by unfold_locales (simp_all add: secret_form_def struct_defs ascii_utf8)

interpretation meta: nonnull_form meta_form
  by unfold_locales (simp_all add: meta_form_def struct_defs ascii_utf8)

interpretation routing: nonnull_form routing_form
  by unfold_locales (simp_all add: routing_form_def struct_defs ascii_utf8)

interpretation event_type: nonnull_form event_type_form
proof
  fix t :: LedgerEventType
  show "de event_type_form (ser event_type_form t) = Some t" "printable (ser event_type_form t)"
    by (cases t; simp add: event_type_form_def ascii_utf8)+
qed (simp add: event_type_form_def)

interpretation event: nonnull_form event_form
  by unfold_locales (simp_all add: event_form_def struct_defs ascii_utf8 event_type.read_back)

interpretation init: nonnull_form init_form
  by unfold_locales (simp_all add: init_form_def struct_defs ascii_utf8)

interpretation routing_opt: json_form "option_form routing_form"
  by (rule routing.option_ok)

sublocale hex_crate \<subseteq> link: nonnull_form "link_form C"
  by unfold_locales (simp_all add: link_form_def struct_defs ascii_utf8)

sublocale hex_crate \<subseteq> htlc: nonnull_form "htlc_form C"
  by unfold_locales (simp_all add: htlc_form_def struct_defs ascii_utf8)

sublocale hex_crate \<subseteq> htlcs: nonnull_form "list_form (htlc_form C)"
  by (rule htlc.list_nonnull)

sublocale hex_crate \<subseteq> lcss: nonnull_form "lcss_form C"
  by unfold_locales (simp_all add: lcss_form_def struct_defs ascii_utf8)

sublocale hex_crate \<subseteq> lcss_opt: json_form "option_form (lcss_form C)"
  by (rule lcss.option_ok)

context hex_crate
begin

lemma pending_back: "pending_fits C p \<Longrightarrow> pending_de C (JObject (pending_members C p)) = Some p"
  by (cases p) (simp_all add: pending_de_def struct_defs)

lemma pending_printable: "pending_fits C p \<Longrightarrow> list_all (\<lambda>(n, v). utf8 n \<and> printable v) (pending_members C p)"
  by (cases p) (simp_all add: ascii_utf8)

lemma no_direction: "filter (\<lambda>(k, _). k = ''direction'') (pending_members C p) = []"
  "filter (\<lambda>(k, _). k \<noteq> ''direction'') (pending_members C p) = pending_members C p"
  by (cases p; simp)+

end

sublocale hex_crate \<subseteq> pending: nonnull_form "pending_form C"
  by unfold_locales (simp_all add: pending_form_def pending_back pending_printable)

sublocale hex_crate \<subseteq> update: nonnull_form "update_form C"
proof
  fix u :: UncommittedUpdate
  assume "fits (update_form C) u"
  then show "de (update_form C) (ser (update_form C) u) = Some u" "printable (ser (update_form C) u)"
    by (cases u; simp add: update_form_def tagged_def no_direction pending_back pending_printable ascii_utf8)+
qed (simp add: update_form_def)

sublocale hex_crate \<subseteq> updates: nonnull_form "list_form (update_form C)"
  by (rule update.list_nonnull)

sublocale hex_crate \<subseteq> channel: nonnull_form "channel_form C"
  by unfold_locales (simp_all add: channel_form_def struct_defs ascii_utf8)

interpretation model_hex: hex_crate model_crypto
  by unfold_locales (rule model_hex_ok)

section \<open>Stored bytes\<close>

text \<open>
  The text layer of \<^verbatim>\<open>serde_json\<close>, with the text of an error for a type and an input. What it relies on:
  printing a value and parsing the text gives the value back.
\<close>

record json_text =
  jt_print :: "Value \<Rightarrow> bytes"
  jt_parse :: "bytes \<Rightarrow> Value option"
  jt_error :: "string \<Rightarrow> bytes \<Rightarrow> string"

definition text_ok :: "json_text \<Rightarrow> bool" where
  "text_ok T \<longleftrightarrow> (\<forall>v. printable v \<longrightarrow> jt_parse T (jt_print T v) = Some v)"

definition json_serde :: "json_text \<Rightarrow> string \<Rightarrow> 't form \<Rightarrow> ('t, bytes) serde" where
  "json_serde T type F =
     \<lparr>to_vec = (\<lambda>x. if fits F x then Inr (jt_print T (ser F x)) else Inl (''not a '' @ type)),
      from_slice = (\<lambda>b. case Option.bind (jt_parse T b) (de F) of
        Some x \<Rightarrow> Inr x | None \<Rightarrow> Inl (jt_error T type b))\<rparr>"

context json_form
begin

lemma stored_back:
  assumes "text_ok T"
  shows "serde_ok (json_serde T type F)"
    and "fits F x \<Longrightarrow> \<exists>v. to_vec (json_serde T type F) x = Inr v \<and> from_slice (json_serde T type F) v = Inr x"
  using assms by (simp_all add: serde_ok_def json_serde_def text_ok_def)

end

context hex_crate
begin

lemma records_back:
  assumes "text_ok T"
  shows "fits (channel_form C) d \<Longrightarrow> \<exists>b. to_vec (json_serde T n (channel_form C)) d = Inr b \<and>
      from_slice (json_serde T n (channel_form C)) b = Inr d"
    and "fits (link_form C) l \<Longrightarrow> \<exists>b. to_vec (json_serde T n (link_form C)) l = Inr b \<and>
      from_slice (json_serde T n (link_form C)) b = Inr l"
    and "serde_ok (json_serde T n (channel_form C))"
  by (fact channel.stored_back(2) [OF assms] link.stored_back(2) [OF assms] channel.stored_back(1) [OF assms])+

text \<open>Members that older versions did not write are missing from their records.\<close>

lemma short_channel:
  "fits (lcss_form C) s \<Longrightarrow> de (channel_form C) (JObject [(''lcss'', ser (lcss_form C) s)]) =
     Some \<lparr>cd_lcss = s, cd_uncommitted = [], cd_local_errors = [], cd_remote_errors = [], cd_suspended = False,
       cd_proposed_override = None, cd_last_refund_scriptpubkey = [], cd_established = False,
       cd_accepting_resize_sat = None, cd_routing_policy = None, cd_channel_update_pending = False\<rparr>"
  by (simp add: channel_form_def struct_defs)

lemma short_link:
  "length h = 32 \<Longrightarrow> de (link_form C) (JObject [(''incoming_scid'', ser u64_form a), (''incoming_htlc_id'', ser u64_form b),
      (''outgoing_scid'', ser u64_form c), (''outgoing_htlc_id'', ser u64_form e),
      (''payment_hash'', ser (store_serde_array_hex_32 C) h)]) =
     Some \<lparr>fl_incoming_scid = a, fl_incoming_htlc_id = b, fl_outgoing_scid = c, fl_outgoing_htlc_id = e,
       fl_upstream_cltv_expiry = None, fl_hosted_commit_deadline_unix = None, fl_payment_hash = h,
       fl_shared_secret = None\<rparr>"
  by (simp add: link_form_def struct_defs)

end

text \<open>
  C23. Every record the plugin persists is written and read back: a channel, a forward link, a ledger
  event, the policy, a secret or the metadata, with fields of the lengths their Rust types have and
  strings in UTF-8, serialises without an error and its bytes deserialise to the same record, through
  the tagged variants, the hexadecimal adapters and the plain arrays alike.
\<close>

theorem stored_json_roundtrip:
  assumes "text_ok T" and "hex_ok C"
  shows "(\<forall>d. fits (channel_form C) d \<longrightarrow> (\<exists>b. to_vec (json_serde T n (channel_form C)) d = Inr b \<and>
      from_slice (json_serde T n (channel_form C)) b = Inr d)) \<and>
    (\<forall>l. fits (link_form C) l \<longrightarrow> (\<exists>b. to_vec (json_serde T n (link_form C)) l = Inr b \<and>
      from_slice (json_serde T n (link_form C)) b = Inr l)) \<and>
    (\<forall>e. fits event_form e \<longrightarrow> (\<exists>b. to_vec (json_serde T n event_form) e = Inr b \<and>
      from_slice (json_serde T n event_form) b = Inr e)) \<and>
    (\<forall>q. \<exists>b. to_vec (json_serde T n policy_form) q = Inr b \<and> from_slice (json_serde T n policy_form) b = Inr q) \<and>
    (\<forall>s. fits secret_form s \<longrightarrow> (\<exists>b. to_vec (json_serde T n secret_form) s = Inr b \<and>
      from_slice (json_serde T n secret_form) b = Inr s)) \<and>
    (\<forall>m. \<exists>b. to_vec (json_serde T n meta_form) m = Inr b \<and> from_slice (json_serde T n meta_form) b = Inr m)"
proof -
  have hex: "hex_crate C" using assms(2) by (rule hex_crate.intro)
  have "fits policy_form q" "fits meta_form m" for q m by (simp_all add: policy_form_def meta_form_def)
  then show ?thesis
    using hex_crate.records_back [OF hex assms(1)]
      event.stored_back(2) [OF assms(1)] policy.stored_back(2) [OF assms(1)]
      secret.stored_back(2) [OF assms(1)] meta.stored_back(2) [OF assms(1)]
    by blast
qed

section \<open>A concrete text layer\<close>

instance json_number :: countable
  by countable_datatype

instance Value :: countable
  by countable_datatype

definition model_text :: json_text where
  "model_text = \<lparr>jt_print = (\<lambda>v. replicate (to_nat v) 0), jt_parse = (\<lambda>b. Some (from_nat (length b))),
     jt_error = (\<lambda>type b. ''expected '' @ type)\<rparr>"

lemma model_text_ok: "text_ok model_text"
  by (simp add: text_ok_def model_text_def)

lemma sample_record_fits:
  "fits (channel_form model_crypto) \<lparr>cd_lcss = sample_lcss, cd_uncommitted = [Local (Fulfill (replicate 32 1) 7 (replicate 32 2))],
     cd_local_errors = [''timeout''], cd_remote_errors = [], cd_suspended = False,
     cd_proposed_override = Some sample_lcss, cd_last_refund_scriptpubkey = [1, 2], cd_established = True,
     cd_accepting_resize_sat = Some 5, cd_routing_policy = None, cd_channel_update_pending = True\<rparr>"
  by (simp add: channel_form_def lcss_form_def init_form_def sample_lcss_def update_form_def ascii_utf8)

theorem stored_json_roundtrip_witness:
  "\<exists>d b. cd_proposed_override d = Some sample_lcss \<and>
     to_vec (json_serde model_text ''ChannelData'' (channel_form model_crypto)) d = Inr b \<and>
     from_slice (json_serde model_text ''ChannelData'' (channel_form model_crypto)) b = Inr d"
  using stored_json_roundtrip [OF model_text_ok model_hex_ok, of "''ChannelData''"] sample_record_fits
  by (metis (no_types, lifting) ChannelData.select_convs(6))

text \<open>
  Records of older versions load: a channel that holds nothing but its cross-signed state is read
  with no pending updates, no errors, no override, no resize and not established, and a forward link
  without expiry, deadline and shared secret is read without them.
\<close>

lemma old_records_load:
  assumes "hex_ok C" and "fits (lcss_form C) s" and "length h = 32"
  shows "de (channel_form C) (JObject [(''lcss'', ser (lcss_form C) s)]) =
     Some \<lparr>cd_lcss = s, cd_uncommitted = [], cd_local_errors = [], cd_remote_errors = [], cd_suspended = False,
       cd_proposed_override = None, cd_last_refund_scriptpubkey = [], cd_established = False,
       cd_accepting_resize_sat = None, cd_routing_policy = None, cd_channel_update_pending = False\<rparr> \<and>
    de (link_form C) (JObject [(''incoming_scid'', ser u64_form a), (''incoming_htlc_id'', ser u64_form b),
      (''outgoing_scid'', ser u64_form c), (''outgoing_htlc_id'', ser u64_form e),
      (''payment_hash'', ser (store_serde_array_hex_32 C) h)]) =
     Some \<lparr>fl_incoming_scid = a, fl_incoming_htlc_id = b, fl_outgoing_scid = c, fl_outgoing_htlc_id = e,
       fl_upstream_cltv_expiry = None, fl_hosted_commit_deadline_unix = None, fl_payment_hash = h,
       fl_shared_secret = None\<rparr>"
  using hex_crate.short_channel [OF hex_crate.intro] hex_crate.short_link [OF hex_crate.intro] assms by blast

end
