(* ===== verification/Production.thy ===== *)
theory Production
  imports Host_Model Cln_Store Serde
begin

text \<open>
  The plugin as \<^verbatim>\<open>src/src/main.rs\<close> puts it together: the controller over the datastore adapter of
  \<^verbatim>\<open>cln_store.rs\<close>, with the serialisers that the persisted types derive. \<open>on_datastore\<close> says that a
  controller has these collaborators. A plugin that starts, with or without the detour over the
  unlock command, runs such a controller with a validated configuration and the keys of the secret
  file, so the contracts that the properties of the whole host assume hold for it.
\<close>

definition on_datastore :: "('rpc, 'x) cln_scheme \<Rightarrow> json_text \<Rightarrow> ('rpc, bytes, 'nd) controller \<Rightarrow> bool" where
  "on_datastore L T E \<longleftrightarrow> c_store E = cln_store L \<and>
     c_channel E = json_serde T ''ChannelData'' (channel_form (c_crypto E)) \<and>
     c_policy E = json_serde T ''ChannelPolicy'' policy_form \<and>
     c_secret E = json_serde T ''ChannelSecret'' secret_form \<and>
     c_link E = json_serde T ''ForwardLink'' (link_form (c_crypto E)) \<and>
     c_meta E = json_serde T ''Meta'' meta_form \<and>
     c_event E = json_serde T ''LedgerEvent'' event_form \<and>
     c_marker E = json_serde T ''bool'' bool_form"

lemma datastore_host:
  assumes "on_datastore L T E" and "datastore_ok L content" and "text_ok T" and "hex_ok (c_crypto E)"
  shows "host_env E content"
proof (intro host_env.intro host_env_axioms.intro)
  show "keyed_store (c_store E) content"
    using cln_store_lawful [OF assms(2)] assms(1) by (simp add: on_datastore_def)
  show "serde_ok (c_channel E)"
    using hex_crate.records_back(3) [OF hex_crate.intro [OF assms(4)] assms(3)] assms(1) by (simp add: on_datastore_def)
  show "serde_ok (c_policy E)" "serde_ok (c_secret E)"
    using policy.stored_back(1) [OF assms(3)] secret.stored_back(1) [OF assms(3)] assms(1)
    by (simp_all add: on_datastore_def)
qed (rule assms(4))

lemma datastore_durable:
  assumes "on_datastore L T E" and "datastore_ok L content" and "host_env E content"
  shows "durable_host E content"
  by (intro durable_host.intro durable_host_axioms.intro assms(3))
    (use cln_writes_clean [OF assms(2)] assms(1) in \<open>auto simp: on_datastore_def cln_store_def\<close>)

text \<open>What the start of the plugin builds.\<close>

lemma runtime_parts:
  assumes "build_runtime P config rpc hsm pass = Inr (Unlocked E)"
  shows "c_config E = config \<and> c_crypto E = c_crypto (pe_host P) \<and>
    (on_datastore L T (pe_host P) \<longrightarrow> on_datastore L T E) \<and>
    c_node_public E = public_key_of (pe_keys P) (c_node_secret E)"
  using assms
  by (auto simp: build_runtime_def on_datastore_def rbind_eq_Inr from_file_with_passphrase_def from_hsm_secret_bytes_def
      from_secret_material_def split: sum.splits option.splits if_splits)

lemma started_config:
  assumes "plugin_start P options dir rpc network = Inr S"
  shows "policy_ok (cfg_policy (pl_config S)) \<and>
    (\<forall>E. pl_runtime S = Unlocked E \<longrightarrow>
       build_runtime P (pl_config S) (pl_rpc_path S) (pl_hsm_secret_path S) None = Inr (Unlocked E))"
proof -
  obtain config hash where config: "config_from_options P options = Inr config"
    and S: "pl_config S = config\<lparr>cfg_network := network, cfg_chain_hash := hash,
        cfg_hsm_secret_path := path_join dir ''hsm_secret''\<rparr>"
      "pl_rpc_path S = path_join dir rpc" "pl_hsm_secret_path S = path_join dir ''hsm_secret''"
    and run: "rbind (case build_runtime P (pl_config S) (pl_rpc_path S) (pl_hsm_secret_path S) None of
        Inr runtime \<Rightarrow> Inr runtime
      | Inl err \<Rightarrow> if requires_unlock err then Inr (Locked (pe_show_error P err)) else Inl err) Inr = Inr (pl_runtime S)"
    using assms by (auto simp: plugin_start_def Let_def rbind_eq_Inr)
  have "policy_ok (cfg_policy config)"
    using config by (auto simp: config_from_options_def Config_validate_def policy_ok_def rbind_eq_Inr split: if_splits)
  then show ?thesis
    using S(1) run by (auto split: sum.splits if_splits)
qed

lemma unlocked_runtime:
  assumes "cmd_unlock P v S = (r, S')" and "pl_runtime S' = Unlocked E" and "is_locked S"
  shows "\<exists>pass. build_runtime P (pl_config S) (pl_rpc_path S) (pl_hsm_secret_path S) (Some pass) = Inr (Unlocked E)"
  using assms
  by (auto simp: cmd_unlock_def rbind_eq_Inr split: if_splits sum.splits RuntimeState.splits)

text \<open>
  C9. The plugin that runs is a lawful host. When the plugin starts, and when a locked one is unlocked,
  over a datastore that behaves as lightningd documents and with the serialisers of the persisted
  types, the controller it then uses meets the contract that everything proved of the host assumes:
  a lawful store whose failed writes change nothing, faithful serialisation, a policy within its capacity and, if the curve library
  derives matching public keys, a key pair to sign with.
\<close>

theorem started_plugin_is_lawful:
  assumes "plugin_start P options dir rpc network = Inr S"
    and "S' = S \<or> is_locked S \<and> cmd_unlock P v S = (r, S')" and "pl_runtime S' = Unlocked E"
    and "on_datastore L T (pe_host P)" and "datastore_ok L content" and "text_ok T"
    and "hex_ok (c_crypto (pe_host P))"
  shows "funded_host E content \<and> durable_host E content \<and>
    ((\<forall>sk. key_pair (c_crypto (pe_host P)) sk (public_key_of (pe_keys P) sk)) \<longrightarrow> signing_host E content)"
proof -
  obtain pass where run: "build_runtime P (pl_config S) (pl_rpc_path S) (pl_hsm_secret_path S) pass = Inr (Unlocked E)"
    using assms(2,3) started_config [OF assms(1)] unlocked_runtime [of P v S r S' E] by auto
  note parts = runtime_parts [OF run, of L T]
  have host: "host_env E content"
    by (rule datastore_host [OF _ assms(5,6)]) (use parts assms(4,7) in simp_all)
  show ?thesis
    using host parts datastore_durable [OF _ assms(5) host, of T] assms(4) started_config [OF assms(1)]
    by (auto intro!: funded_host.intro funded_host_axioms.intro signing_host.intro signing_host_axioms.intro)
qed

section \<open>A plugin on the concrete datastore\<close>

definition ds_host :: "(datastore, bytes, MockNode) controller" where
  "ds_host =
     \<lparr>c_crypto = model_sphinx, c_store = cln_store model_cln, c_node = mock_node,
      c_config = Config_default, c_node_secret = host_secret, c_node_public = host_pk,
      c_clock = (\<lambda>nd. Some 1700000000), c_session_key = (\<lambda>nd. (SecretKey (replicate 32 5), nd)),
      c_read_file = (\<lambda>f. None),
      c_channel = json_serde model_text ''ChannelData'' (channel_form model_sphinx),
      c_policy = json_serde model_text ''ChannelPolicy'' policy_form,
      c_secret = json_serde model_text ''ChannelSecret'' secret_form,
      c_link = json_serde model_text ''ForwardLink'' (link_form model_sphinx),
      c_meta = json_serde model_text ''Meta'' meta_form,
      c_event = json_serde model_text ''LedgerEvent'' event_form,
      c_marker = json_serde model_text ''bool'' bool_form\<rparr>"

lemma ds_host_ok: "on_datastore model_cln model_text ds_host" "hex_ok (c_crypto ds_host)"
  using mem_funded.hex_law by (simp_all add: on_datastore_def ds_host_def)

lemma plain_file_keys:
  "\<exists>keys. from_file_with_passphrase model_keys (\<lambda>_. Inr (replicate 32 5)) path None = Inr keys"
proof -
  have "derive_secret model_keys (replicate 32 5) 1 = Inr (SecretKey ([1, 0, 0, 0] @ replicate 28 5))"
    by (subst derive_secret.simps) (simp add: first_salts)
  then show ?thesis
    by (simp add: from_file_with_passphrase_def from_hsm_secret_bytes_def extract_hsm_secret_material_def
        detect_hsm_secret_kind_def LEGACY_PLAIN_LEN_def from_secret_material_def NODE_KEY_IKM_LEN_def
        derive_secret.simps [of _ _ 0] first_salts)
qed

lemma regtest_hash: "chain_hash_for_network model_sphinx ''regtest'' =
    Inr (the (unhex ''06226e46111a0b59caaf126043eb5bbf28c34f3a5e332a1fc7b2b73cf188910f''))"
proof -
  have "map_option length (unhex ''06226e46111a0b59caaf126043eb5bbf28c34f3a5e332a1fc7b2b73cf188910f'') = Some 32"
    by code_simp
  then show ?thesis by (auto simp: chain_hash_for_network_def model_sphinx_def crypto.defs model_crypto_def)
qed

theorem started_plugin_is_lawful_witness:
  "\<forall>P. \<exists>S E. plugin_start (P\<lparr>pe_host := ds_host, pe_keys := model_keys,
       pe_read_bytes := \<lambda>_. Inr (replicate 32 5), pe_connect := \<lambda>_. None\<rparr>) (\<lambda>_. Inr None) ''/ln'' ''rpc'' ''regtest'' = Inr S \<and>
     pl_runtime S = Unlocked E \<and> funded_host E ds_content"
proof
  fix P :: "(datastore, bytes, MockNode, string) plugin_env"
  let ?P = "P\<lparr>pe_host := ds_host, pe_keys := model_keys, pe_read_bytes := \<lambda>_. Inr (replicate 32 5), pe_connect := \<lambda>_. None\<rparr>"
  obtain keys where keys: "from_file_with_passphrase model_keys (\<lambda>_. Inr (replicate 32 5)) (path_join ''/ln'' ''hsm_secret'') None = Inr keys"
    using plain_file_keys by blast
  have "config_from_options ?P (\<lambda>_. Inr None) = Inr Config_default"
    by (simp add: config_from_options_def config_setters_def opt_def Config_default_def Config_validate_def
        ChannelPolicy_default_def)
  then obtain S E where start: "plugin_start ?P (\<lambda>_. Inr None) ''/ln'' ''rpc'' ''regtest'' = Inr S" "pl_runtime S = Unlocked E"
    using keys by (simp add: plugin_start_def Let_def ds_host_def regtest_hash build_runtime_def)
  have "funded_host E ds_content"
    using started_plugin_is_lawful [OF start(1) disjI1 [OF refl] start(2) _ model_datastore_ok model_text_ok]
      ds_host_ok by simp
  then show "\<exists>S E. plugin_start ?P (\<lambda>_. Inr None) ''/ln'' ''rpc'' ''regtest'' = Inr S \<and>
     pl_runtime S = Unlocked E \<and> funded_host E ds_content"
    using start by blast
qed

end
