(* ===== verification/Host_Runs.thy ===== *)
theory Host_Runs
  imports Host_Model
begin

text \<open>
  Runs of the model host that reach the effects whose order is shown: a client reveals a preimage, a
  payment is sent to the network, a forward is failed. A stage of a run is described by the entries of
  the store apart from the ledger. The state of the channel is brought to the point of interest by a
  cross-signed state that the client presents.
\<close>

section \<open>Stages\<close>

abbreviation peer_key :: key where
  "peer_key \<equiv> channel_key model_host peer_pk"

definition stage :: "(key \<rightharpoonup> u64 \<times> stored) \<Rightarrow> (stored MemoryStore, MockNode) world \<Rightarrow> bool" where
  "stage F w \<longleftrightarrow> host_reachable model_host mem_view (\<lambda>_ _. True) w \<and>
     (\<forall>k. \<not> is_ledger_key k \<longrightarrow> mem_view (w_store w) k = F k)"

lemma stage_entry: "stage F w \<Longrightarrow> \<not> is_ledger_key k \<Longrightarrow> mem_view (w_store w) k = F k"
  by (simp add: stage_def)

lemma stage_channel: "stage F w \<Longrightarrow> mem_view (w_store w) peer_key = F peer_key"
  by (simp add: stage_entry mem_funded.channel_key_not_ledger)

lemma forward_key_not_ledger: "\<not> is_ledger_key (forward_key a b)"
  by (auto simp: is_ledger_key_def meta_key_def ledger_key_def marker_key_def forward_key_def)

lemma stage_outside: "stage F w \<Longrightarrow> stage F (w\<lparr>w_node := nd\<rparr>)"
  using host_reachable.step [OF _ host_step.outside] by (fastforce simp: stage_def)

lemma entry_reached: "stage F w \<Longrightarrow> host_reachable model_host mem_view (\<lambda>_ _. True) (run_entry model_host e w)"
  using host_reachable.step [OF _ host_step.entry] by (fastforce simp: stage_def)

lemma stage_run:
  assumes "stage F w" and "\<And>k. \<not> is_ledger_key k \<Longrightarrow> mem_view (w_store (run_entry model_host e w)) k = G k"
  shows "stage G (run_entry model_host e w)"
  using assms entry_reached by (simp add: stage_def)

text \<open>The world in which the handler of a message of the peer starts.\<close>

abbreviation heard :: "(stored MemoryStore, MockNode) world \<Rightarrow> (stored MemoryStore, MockNode) world" where
  "heard w \<equiv> w\<lparr>w_encodings := (w_encodings w)(peer_pk \<mapsto> Strict)\<rparr>"

lemma message_reached:
  assumes "stage F w" and "wf_msg m"
  shows "host_reachable model_host mem_view (\<lambda>_ _. True) (snd (dispatch_message model_host peer_pk m (heard w)))"
  using assms(1) host_reachable.step [OF _ message_step [OF assms(2)]] by (simp add: stage_def)

lemma stage_message:
  assumes "stage F w" and "wf_msg m"
    and "\<And>k. \<not> is_ledger_key k \<Longrightarrow> mem_view (w_store (snd (dispatch_message model_host peer_pk m (heard w)))) k = G k"
  shows "stage G (snd (dispatch_message model_host peer_pk m (heard w)))"
  using assms message_reached [OF assms(1,2)] by (simp add: stage_def)

lemma put_view: "mem_view (w_store (put_channel peer_pk g d w)) = (mem_view (w_store w))(peer_key \<mapsto> (g, VChannel d))"
  by (simp add: put_channel_def mem_view_upd)

lemma stage_requested: "\<exists>w. stage [peer_key \<mapsto> (0, VChannel requested)] w"
proof -
  let ?w = "heard empty_world"
  have none: "mem_view (w_store ?w) k = None" for k by (simp add: mem_view_def empty_world_def)
  have "handle_invoke model_host peer_pk sample_invoke ?w =
      send_message model_host peer_pk (InitHostedChannel (init_of_policy ChannelPolicy_default)) (put_channel peer_pk 0 requested ?w)"
    by (simp add: handle_invoke_def abind_run load_run(1) [OF none] sample_invoke_def handle_new_channel_invoke_def
        policy_for_invoke_def policy_run [OF none] save_run(1) [OF none] requested_def)
  then have "mem_view (w_store (snd (dispatch_message model_host peer_pk (InvokeHostedChannel sample_invoke) ?w))) =
      [peer_key \<mapsto> (0, VChannel requested)]"
    using none by (auto simp: send_keeps_store put_view)
  moreover have "stage Map.empty empty_world"
    by (auto simp: stage_def empty_world_def mem_view_def intro: host_reachable.start)
  ultimately show ?thesis
    using stage_message [OF _ sample_invoke_wf] by metis
qed

lemma stage_opened: "\<exists>w. stage [peer_key \<mapsto> (1, VChannel opened)] w"
proof -
  obtain w0 where w0: "stage [peer_key \<mapsto> (0, VChannel requested)] w0" using stage_requested by blast
  let ?w = "w0\<lparr>w_node := MockNode_new 1440 host_pk ''regtest''\<rparr>"
  have w: "stage [peer_key \<mapsto> (0, VChannel requested)] ?w" by (rule stage_outside [OF w0])
  have run: "dispatch_message model_host peer_pk (StateUpdate open_update) (heard ?w) = opening_tail (put_channel peer_pk 1 opened (heard ?w))"
    using opening_saves [of "heard ?w" 0] stage_channel [OF w] by (simp add: MockNode_new_def)
  have "mem_view (w_store (snd (opening_tail (put_channel peer_pk 1 opened (heard ?w))))) k = [peer_key \<mapsto> (1, VChannel opened)] k"
    if "\<not> is_ledger_key k" for k
    by (rule maintains_snd [OF opening_tail_keeps [OF that]]) (use stage_entry [OF w that] in \<open>simp add: put_view\<close>)
  then show ?thesis
    using stage_message [OF w open_update_wf] run by metis
qed

section \<open>A state that the client presents\<close>

definition crossed :: "LastCrossSignedState \<Rightarrow> LastCrossSignedState" where
  "crossed s = s
     \<lparr>remote_sig_of_local := model_sign (sha256 model_sphinx (material_image s)) peer_secret,
      local_sig_of_remote := model_sign (sha256 model_sphinx (material_image (reverse s))) host_secret\<rparr>"

lemma crossed_sel [simp]:
  "incoming_htlcs (crossed s) = incoming_htlcs s" "outgoing_htlcs (crossed s) = outgoing_htlcs s"
  "local_updates (crossed s) = local_updates s" "remote_updates (crossed s) = remote_updates s"
  "init_hosted_channel (crossed s) = init_hosted_channel s"
  by (simp_all add: crossed_def)

lemma crossed_verifies:
  assumes "wf_lcss s"
  shows "verify_remote_sig model_sphinx (crossed s) peer_pk" "verify_remote_sig model_sphinx (reverse (crossed s)) host_pk"
    "wf_lcss (crossed s)"
  using assms hosted_sig_hash_ok [of s model_sphinx] hosted_sig_hash_ok [of "reverse s" model_sphinx]
  by (auto simp: crossed_def verify_remote_sig_def reverse_upd_sigs model_sign_def peer_pk_def host_pk_def model_pk_def wf_lcss_def)

lemma stage_adopted:
  assumes "stage F w" and "F peer_key = Some (g, VChannel d)" and "wf_lcss s"
    and "local_updates (cd_lcss d) \<le> local_updates s" and "remote_updates (cd_lcss d) < remote_updates s"
  shows "\<exists>w'. stage (F(peer_key \<mapsto> (g + 1, VChannel (d\<lparr>cd_lcss := crossed s, cd_uncommitted := []\<rparr>)))) w'"
proof -
  let ?d = "d\<lparr>cd_lcss := crossed s, cd_uncommitted := []\<rparr>" and ?m = "reverse (crossed s)"
  have now: "mem_view (w_store (heard w)) peer_key = Some (g, VChannel d)" using stage_channel [OF assms(1)] assms(2) by simp
  have "dispatch_message model_host peer_pk (LastCrossSignedState ?m) (heard w) =
      send_message model_host peer_pk (LastCrossSignedState (crossed s)) (put_channel peer_pk (g + 1) ?d (heard w))"
    using assms(4,5) crossed_verifies [OF assms(3)] leD [OF assms(4)] less_not_sym [OF assms(5)] less_imp_neq [OF assms(5)]
    by (simp add: handle_lcss_def reconcile_lcss_def Let_def abind_run require_run [OF now] save_run(2) [OF now])
  then have "mem_view (w_store (snd (dispatch_message model_host peer_pk (LastCrossSignedState ?m) (heard w)))) =
      (mem_view (w_store w))(peer_key \<mapsto> (g + 1, VChannel ?d))"
    by (simp add: send_keeps_store put_view)
  moreover have "wf_msg (LastCrossSignedState ?m)" using crossed_verifies(3) [OF assms(3)] by simp
  ultimately show ?thesis
    using stage_message [OF assms(1)] stage_entry [OF assms(1)] by (metis fun_upd_apply)
qed

section \<open>The client reveals a preimage\<close>

definition revealed_preimage :: bytes where
  "revealed_preimage = replicate 32 5"

definition owed_htlc :: UpdateAddHtlc where
  "owed_htlc = \<lparr>htlc_channel_id = replicate 32 0, htlc_id = 1, htlc_amount_msat = 5000,
     htlc_payment_hash = model_digest revealed_preimage, htlc_cltv_expiry = 2000,
     htlc_onion_routing_packet = replicate 1366 0, htlc_tlv_stream = []\<rparr>"

definition owing :: ChannelData where
  "owing = opened\<lparr>cd_lcss := crossed (open_state\<lparr>outgoing_htlcs := [owed_htlc], remote_updates := 1\<rparr>), cd_uncommitted := []\<rparr>"

definition claim :: UpdateFulfillHtlc where
  "claim = \<lparr>ff_channel_id = replicate 32 0, ff_id = 1, ff_payment_preimage = revealed_preimage, ff_tlv_stream = []\<rparr>"

lemma claim_wf: "wf_msg (UpdateFulfillHtlc claim)"
  by (simp add: wf_fulfill_def claim_def revealed_preimage_def UINT64_OVERFLOW_MAX_def)

lemma htlc_image_len: "wf_htlc h \<Longrightarrow> length (htlc_tlv_stream h) < 1000 \<Longrightarrow> wf_state_htlc h"
  by (auto simp: wf_state_htlc_def wf_htlc_def htlc_image_def ONION_ROUTING_PACKET_SIZE_def fixed_sizes)

lemma owed_wf: "wf_htlc owed_htlc"
  by (simp add: wf_htlc_def owed_htlc_def model_digest_def ONION_ROUTING_PACKET_SIZE_def UINT64_OVERFLOW_MAX_def)

lemma opened_counters: "local_updates (cd_lcss opened) = 0" "remote_updates (cd_lcss opened) = 0"
proof -
  obtain x where x: "open_signed = open_state\<lparr>remote_sig_of_local := open_sig, local_sig_of_remote := x\<rparr>"
    using open_signed_run by (auto simp: sign_eq_Inr)
  show "local_updates (cd_lcss opened) = 0" "remote_updates (cd_lcss opened) = 0"
    unfolding opened_def x by (simp_all add: open_state_def requested_def new_channel_data_def)
qed

lemma opened_htlcs: "incoming_htlcs (cd_lcss opened) = []" "outgoing_htlcs (cd_lcss opened) = []"
  "init_hosted_channel (cd_lcss opened) = init_of_policy ChannelPolicy_default"
  "local_balance_msat (cd_lcss opened) = 100000000"
proof -
  obtain x where x: "open_signed = open_state\<lparr>remote_sig_of_local := open_sig, local_sig_of_remote := x\<rparr>"
    using open_signed_run by (auto simp: sign_eq_Inr)
  show "incoming_htlcs (cd_lcss opened) = []" "outgoing_htlcs (cd_lcss opened) = []"
    "init_hosted_channel (cd_lcss opened) = init_of_policy ChannelPolicy_default"
    "local_balance_msat (cd_lcss opened) = 100000000"
    unfolding opened_def x
    by (simp_all add: open_state_def requested_def new_channel_data_def ChannelPolicy_default_def)
qed

lemma stage_owing: "\<exists>w. stage [peer_key \<mapsto> (2, VChannel owing)] w"
proof -
  let ?s = "open_state\<lparr>outgoing_htlcs := [owed_htlc], remote_updates := 1\<rparr>"
  obtain w where w: "stage [peer_key \<mapsto> (1, VChannel opened)] w" using stage_opened by blast
  have "wf_lcss ?s" using open_state_wf htlc_image_len [OF owed_wf] by (simp add: wf_lcss_def owed_htlc_def)
  then show ?thesis
    using stage_adopted [OF w, of 1 opened ?s] by (simp add: owing_def opened_counters)
qed

definition expired :: ChannelData where
  "expired = owing\<lparr>cd_local_errors := [HOSTED_HTLC_EXPIRED_ERROR]\<rparr>"

lemma owing_state:
  "derive_status owing = Active" "cd_local_errors owing = []" "cd_uncommitted owing = []"
  "outgoing_htlcs (cd_lcss owing) = [owed_htlc]" "derive_status expired = SErrored"
  by (simp_all add: expired_def owing_def opened_def requested_def new_channel_data_def derive_status_def)

lemma claim_accepted:
  assumes "stage [peer_key \<mapsto> (2, VChannel owing)] w"
  shows "\<exists>d before. w_trace (snd (dispatch_message model_host peer_pk (UpdateFulfillHtlc claim) (heard w))) =
      before @ [Saved peer_pk d] \<and> cd_uncommitted d = [Remote (Fulfill (replicate 32 0) 1 revealed_preimage)]"
proof -
  have now: "mem_view (w_store (heard w)) peer_key = Some (2, VChannel owing)" using stage_channel [OF assms] by simp
  have link: "load_link model_host (hosted_scid_of model_host peer_pk) 1 v = (Inr None, v)"
    if "mem_view (w_store v) (forward_key (hosted_scid_of model_host peer_pk) 1) = None" for v
    using that mem_funded.good_keys(3)
    by (simp add: load_link_def acase_run on_store_def azoom_def get_json_def abind_run mem_get_view)
  have free: "mem_view (w_store w) (forward_key (hosted_scid_of model_host peer_pk) 1) = None"
    using stage_entry [OF assms forward_key_not_ledger] by (simp add: mem_durable.channel_not_forward not_sym)
  let ?d = "push_remote owing (Fulfill (replicate 32 0) 1 revealed_preimage)"
  let ?v = "w\<lparr>w_encodings := (w_encodings w)(peer_pk \<mapsto> Strict),
    w_node := (w_node w)\<lparr>mn_preimages := (mn_preimages (w_node w))(model_digest revealed_preimage \<mapsto> revealed_preimage)\<rparr>,
    w_trace := w_trace w @ [Kept (model_digest revealed_preimage) revealed_preimage]\<rparr>"
  have "mem_view (w_store ?v) peer_key = Some (2, VChannel owing)" using now by simp
  note save = save_run(2) [OF this, of ?d]
  have "mem_view (w_store (put_channel peer_pk 3 ?d ?v)) (forward_key (hosted_scid_of model_host peer_pk) 1) = None"
    using free by (simp add: put_view mem_durable.channel_not_forward not_sym)
  then have "dispatch_message model_host peer_pk (UpdateFulfillHtlc claim) (heard w) = (Inr (), put_channel peer_pk 3 ?d ?v)"
    using owing_state free save
    by (simp add: handle_update_fulfill_def Let_def abind_run require_run [OF now] has_uncommitted_remote_resolution_def
        claim_def owed_htlc_def hosted_settlement_is_safe_def link keep_preimage_def lift_node_def amap_err_def on_node_def
        azoom_def mock_node_def mock_store_preimage_def record_event_def resolve_forward_fulfill_def)
  then show ?thesis by (simp add: put_channel_def push_remote_def owing_state)
qed

section \<open>A payment is sent to the network\<close>

definition pay_scid :: u64 where
  "pay_scid = hosted_scid_of model_host peer_pk + 1"

definition pay_hash :: bytes where
  "pay_hash = replicate 32 6"

definition pay_onion :: bytes where
  "pay_onion = (case create_onion model_sphinx (SecretKey (replicate 32 5)) host_pk 4000 1800 pay_scid None pay_hash of
     Inr onion \<Rightarrow> onion | Inl _ \<Rightarrow> [])"

definition paid_htlc :: UpdateAddHtlc where
  "paid_htlc = \<lparr>htlc_channel_id = replicate 32 0, htlc_id = 1, htlc_amount_msat = 5000, htlc_payment_hash = pay_hash,
     htlc_cltv_expiry = 2000, htlc_onion_routing_packet = pay_onion, htlc_tlv_stream = []\<rparr>"

definition paying :: ChannelData where
  "paying = opened\<lparr>cd_lcss := crossed (open_state\<lparr>incoming_htlcs := [paid_htlc], remote_updates := 1\<rparr>), cd_uncommitted := []\<rparr>"

lemma pay_onion_peels:
  "length pay_onion = 1366 \<and> (\<exists>ss. peel_onion model_sphinx host_secret pay_onion pay_hash =
     Inr \<lparr>po_short_channel_id = pay_scid, po_amt_to_forward = 4000, po_outgoing_cltv_value = 1800, po_next_onion = [],
       po_shared_secret = ss\<rparr>)"
proof -
  let ?k = "SecretKey (replicate 32 5)"
  obtain ss where ss: "hop_secrets model_sphinx ?k [(host_pk, payload)] = Inr [ss]" for payload
    using model_hop_secrets(1) [of ?k host_pk] by auto
  have pk: "pk_from_secret_key model_sphinx host_secret = host_pk" by (simp add: host_pk_def)
  have "scalar_from_be model_sphinx (secret_bytes host_secret)" "scalar_from_be model_sphinx (secret_bytes ?k)" "secret_sized None"
    by (simp_all add: host_secret_def secret_sized_def)
  from single_hop_onion_peels [OF zero_stream.sphinx_laws_axioms this, unfolded pk, OF ss, of 4000 1800 pay_scid pay_hash]
  show ?thesis by (auto simp: pay_onion_def ONION_PACKET_SIZE_def)
qed

lemma stage_paying: "\<exists>w. stage [peer_key \<mapsto> (2, VChannel paying)] w"
proof -
  let ?s = "open_state\<lparr>incoming_htlcs := [paid_htlc], remote_updates := 1\<rparr>"
  obtain w where w: "stage [peer_key \<mapsto> (1, VChannel opened)] w" using stage_opened by blast
  have "wf_htlc paid_htlc"
    using pay_onion_peels
    by (simp add: wf_htlc_def paid_htlc_def pay_hash_def ONION_ROUTING_PACKET_SIZE_def UINT64_OVERFLOW_MAX_def)
  then have "wf_lcss ?s"
    using open_state_wf htlc_image_len [of paid_htlc] by (simp add: wf_lcss_def paid_htlc_def)
  then show ?thesis
    using stage_adopted [OF w, of 1 opened ?s] by (simp add: paying_def opened_counters)
qed

lemma no_links:
  assumes "stage [peer_key \<mapsto> x] w" and "w_store v = w_store w"
  shows "forward_link_for_incoming model_host a b v = (Inr None, v)"
proof -
  obtain r st where l: "store_list memory_store [''canopus'', ''htlc_forwards''] (w_store v) = (r, st)" by fastforce
  have "mem_view (w_store w) k = None" if "take 2 k = [''canopus'', ''htlc_forwards'']" for k
  proof -
    have "\<not> is_ledger_key k" "k \<noteq> peer_key"
      using that by (auto simp: is_ledger_key_def meta_key_def ledger_key_def marker_key_def channel_key_def)
    then show ?thesis using stage_entry [OF assms(1)] by simp
  qed
  then have "r = Inr ks \<Longrightarrow> set ks = {}" for ks
    using mem.list_law [OF _ l] assms(2) mem_funded.good_keys(6) by (auto simp: numeral_2_eq_2)
  moreover have st: "st = w_store v" "\<exists>ks. r = Inr ks" using l by (auto simp: memory_store_def mem_list_def)
  ultimately have "r = Inr []" by auto
  then show ?thesis
    using l st(1) by (simp add: forward_link_for_incoming_def abind_run lift_store_def amap_err_def on_store_def azoom_def)
qed

text \<open>The one channel of a stage is listed, also after it was written again.\<close>

lemma listed:
  assumes "stage F w" and "\<And>k. k \<noteq> peer_key \<Longrightarrow> mem_view (w_store v) k = mem_view (w_store w) k"
    and "mem_view (w_store v) peer_key \<noteq> None"
    and "\<And>k. F k \<noteq> None \<Longrightarrow> take 2 k = [''canopus'', ''channels''] \<Longrightarrow> k = peer_key"
  shows "\<exists>ps. list_channels model_host v = (Inr ps, v) \<and> set ps = {peer_pk}"
proof -
  have "k = peer_key" if "mem_view (w_store v) k \<noteq> None" "take 2 k = [''canopus'', ''channels'']" for k
  proof (rule ccontr)
    assume k: "k \<noteq> peer_key"
    have "\<not> is_ledger_key k"
      using that(2) by (auto simp: is_ledger_key_def meta_key_def ledger_key_def marker_key_def)
    then have "F k \<noteq> None" using that(1) stage_entry [OF assms(1)] assms(2) [OF k] by simp
    then show False using assms(4) that(2) k by blast
  qed
  then show ?thesis using one_channel_listed [of v] assms(3) by blast
qed

lemma no_target:
  assumes "\<exists>ps. list_channels model_host v = (Inr ps, v) \<and> set ps = {peer_pk}" and "scid \<noteq> hosted_scid_of model_host peer_pk"
  shows "peer_for_hosted_scid model_host scid v = (Inr None, v)"
proof -
  obtain ps where ps: "list_channels model_host v = (Inr ps, v)" "set ps = {peer_pk}" using assms(1) by blast
  then have "List.find (\<lambda>peer. hosted_scid_of model_host peer = scid) ps = None"
    using assms(2) by (simp add: find_None_iff)
  then show ?thesis by (simp add: peer_for_hosted_scid_def abind_run ps(1))
qed

lemma listed_alone:
  assumes "stage [peer_key \<mapsto> x] w" and "w_store v = w_store w"
  shows "\<exists>ps. list_channels model_host v = (Inr ps, v) \<and> set ps = {peer_pk}"
proof (rule listed [OF assms(1)])
  show "k = peer_key" if "[peer_key \<mapsto> x] k \<noteq> None" for k
    using that by (cases "k = peer_key") simp_all
qed (use stage_channel [OF assms(1)] assms(2) in simp_all)

lemma payment_sent:
  assumes "stage [peer_key \<mapsto> (2, VChannel paying)] w" and "w_node w = MockNode_new 1440 host_pk ''regtest''"
  shows "\<exists>params. w_trace (run_entry model_host (Connected peer_pk) w) = w_trace w @ [PaidOut peer_pk params] \<and>
    sop_first_amount_msat params = 4000 \<and> sop_payment_hash params = pay_hash"
proof -
  let ?v = "w\<lparr>w_connections := (w_connections w)(peer_pk \<mapsto> True)\<rparr>"
  have now: "mem_view (w_store ?v) peer_key = Some (2, VChannel paying)" using stage_channel [OF assms(1)] by simp
  obtain ss where peel: "peel_onion model_sphinx host_secret pay_onion pay_hash =
     Inr \<lparr>po_short_channel_id = pay_scid, po_amt_to_forward = 4000, po_outgoing_cltv_value = 1800, po_next_onion = [],
       po_shared_secret = ss\<rparr>"
    using pay_onion_peels by blast
  have target: "peer_for_hosted_scid model_host pay_scid ?v = (Inr None, ?v)"
    by (rule no_target [OF listed_alone [OF assms(1)]]) (simp_all add: pay_scid_def)
  have link: "forward_link_for_incoming model_host a b ?v = (Inr None, ?v)" for a b
    by (rule no_links [OF assms(1)]) simp
  have "mem_view (w_store ?v) (forward_key pay_scid 1) = None"
    using stage_entry [OF assms(1) forward_key_not_ledger] by (simp add: mem_durable.channel_not_forward not_sym)
  note save = link_run [OF this]
  have paying: "derive_status paying = Active" "cd_channel_update_pending paying = False" "cd_uncommitted paying = []"
    "incoming_htlcs (cd_lcss paying) = [paid_htlc]" "outgoing_htlcs (cd_lcss paying) = []"
    "init_hosted_channel (cd_lcss paying) = init_of_policy ChannelPolicy_default"
    by (simp_all add: paying_def opened_def requested_def new_channel_data_def derive_status_def open_state_def)
  have htlc: "htlc_id paid_htlc = 1" "htlc_amount_msat paid_htlc = 5000" "htlc_payment_hash paid_htlc = pay_hash"
    "htlc_onion_routing_packet paid_htlc = pay_onion"
    by (simp_all add: paid_htlc_def)
  have node: "mn_send_onion_error (w_node w) = None" "mn_block_height (w_node w) = 1440"
    using assms(2) by (simp_all add: MockNode_new_def)
  show ?thesis
    by (simp add: plugin_handle_connect_def handle_connect_def note_peer_connection_def abind_run load_run(2) [OF now] paying
        recover_channel_htlcs_def recover_incoming_htlc_def has_uncommitted_local_resolution_def link
        dispatch_committed_incoming_htlc_def sum_msat_def init_of_policy_def ChannelPolicy_default_def htlc peel target
        dispatch_to_node_def Let_def save height_or_zero_def acase_run on_node_def azoom_def mock_node_def
        mock_get_block_height_def mock_send_onion_def node record_event_def recover_outgoing_htlcs_def)
qed

section \<open>A forward is failed\<close>

text \<open>Messages go out when the node does not refuse them.\<close>

definition delivers :: "(key \<rightharpoonup> u64 \<times> stored) \<Rightarrow> (stored MemoryStore, MockNode) world \<Rightarrow> bool" where
  "delivers G w \<longleftrightarrow> mn_send_custom_msg_error (w_node w) = None \<and> mn_send_custom_msg_fail_after (w_node w) = None \<and>
     w_encodings w peer_pk = Some Strict \<and> (\<forall>k. \<not> is_ledger_key k \<longrightarrow> mem_view (w_store w) k = G k)"

lemma send_delivers:
  assumes "delivers G w" and "wf_msg m"
  shows "\<exists>w'. send_message model_host peer_pk m w = (Inr (), w') \<and> delivers G w'"
proof -
  obtain bs where "encode_with_encoding m Strict = Inr bs"
    using msg_codec.roundtrip [of m m] assms(2) by (auto simp: encode_with_encoding_def)
  then show ?thesis
    using assms(1) by (simp add: delivers_def send_message_def send_message_with_encoding_def peer_wire_encoding_def abind_run
        try_encode_def lift_node_def amap_err_def on_node_def azoom_def mock_node_def
        mock_send_custom_msg_def record_event_def unwrap_or_def)
qed

lemma stage_ready: "\<exists>w. stage [peer_key \<mapsto> (1, VChannel opened)] w \<and> w_node w = MockNode_new 1440 host_pk ''regtest'' \<and>
    w_encodings w peer_pk = Some Strict \<and> w_connections w peer_pk = Some True"
proof -
  obtain w where w: "stage [peer_key \<mapsto> (1, VChannel opened)] w" using stage_opened by blast
  let ?v = "w\<lparr>w_connections := (w_connections w)(peer_pk \<mapsto> True)\<rparr>"
  have now: "mem_view (w_store ?v) peer_key = Some (1, VChannel opened)" using stage_channel [OF w] by simp
  have none: "incoming_htlcs (cd_lcss opened) = [] \<and> outgoing_htlcs (cd_lcss opened) = []" by (simp add: opened_htlcs)
  have "cd_channel_update_pending opened = False"
    by (simp add: opened_def requested_def new_channel_data_def)
  then have "run_entry model_host (Connected peer_pk) w = ?v"
    using none
    by (simp add: plugin_handle_connect_def handle_connect_def note_peer_connection_def abind_run load_run(2) [OF now]
        recover_channel_htlcs_def recover_outgoing_htlcs_def)
  then have v: "stage [peer_key \<mapsto> (1, VChannel opened)] ?v"
    using stage_run [OF w, of "Connected peer_pk"] stage_entry [OF w] by simp
  let ?m = "AskBrandingInfo \<lparr>ask_chain_hash = replicate 32 0\<rparr>"
  have "dispatch_message model_host peer_pk ?m (heard ?v) = (Inr (), heard ?v)"
    by (simp add: handle_ask_branding_def model_host_def Config_default_def)
  then have "stage [peer_key \<mapsto> (1, VChannel opened)] (heard ?v)"
    using stage_message [OF v, of ?m] stage_entry [OF v] by simp
  from stage_outside [OF this] show ?thesis by fastforce
qed

definition upstream_scid :: u64 where
  "upstream_scid = hosted_scid_of model_host peer_pk + 1"

definition forward_htlc :: UpdateAddHtlc where
  "forward_htlc = owed_htlc\<lparr>htlc_channel_id := own_channel_id model_host peer_pk\<rparr>"

definition forward_link :: ForwardLink where
  "forward_link = \<lparr>fl_incoming_scid = upstream_scid, fl_incoming_htlc_id = 2,
     fl_outgoing_scid = hosted_scid_of model_host peer_pk, fl_outgoing_htlc_id = 1, fl_upstream_cltv_expiry = Some 5000,
     fl_hosted_commit_deadline_unix = Some 1700000030, fl_payment_hash = model_digest revealed_preimage, fl_shared_secret = None\<rparr>"

abbreviation link_key :: key where
  "link_key \<equiv> forward_key (hosted_scid_of model_host peer_pk) 1"

definition offering :: ChannelData where
  "offering = opened\<lparr>cd_uncommitted := [Local (Add forward_htlc)]\<rparr>"

lemma deliver_keeps:
  assumes "wf_msg m"
  shows "maintains (delivers G) (acase (send_message model_host peer_pk m) (\<lambda>r. case r of
      Inr _ \<Rightarrow> aret () | Inl err \<Rightarrow> abind (mark_errored model_host peer_pk d e) (\<lambda>_. afail err))) (\<lambda>_. True)"
  by (rule maintainsI) (use send_delivers [OF _ assms] in \<open>fastforce simp: acase_run\<close>)

lemma offer_run:
  assumes "stage [peer_key \<mapsto> (1, VChannel opened)] w" and "w_node w = MockNode_new 1440 host_pk ''regtest''"
    and "w_encodings w peer_pk = Some Strict"
  shows "delivers [peer_key \<mapsto> (2, VChannel offering), link_key \<mapsto> (0, VLink forward_link)]
    (snd (offer_htlc model_host peer_pk opened owed_htlc upstream_scid 2 None (Some 5000) w))"
proof -
  let ?G = "[peer_key \<mapsto> (2, VChannel offering), link_key \<mapsto> (0, VLink forward_link)]"
  define deliver where "deliver = (\<lambda>msg. acase (send_message model_host peer_pk msg) (\<lambda>r. case r of
      Inr _ \<Rightarrow> aret ()
    | Inl err \<Rightarrow> abind (mark_errored model_host peer_pk offering HOSTED_DELIVERY_FAILED_ERROR) (\<lambda>_. afail err)))"
  define tail where "tail = abind (deliver (UpdateAddHtlc forward_htlc)) (\<lambda>_.
      abind (try_state (lcss_next (c_crypto model_host) (manager_of offering))) (\<lambda>next.
      abind (current_block_day model_host) (\<lambda>day.
      abind (try_encode (sign (c_crypto model_host) (c_node_secret model_host) (next\<lparr>block_day := day\<rparr>))) (\<lambda>signed.
      deliver (StateUpdate (state_update signed))))))"
  have "length (own_channel_id model_host peer_pk) = 32"
    by (simp add: own_channel_id_def channel_id_def model_digest_def split: prod.split)
  then have add: "wf_msg (UpdateAddHtlc forward_htlc)" using owed_wf by (simp add: forward_htlc_def wf_htlc_def)
  have update: "wf_msg (StateUpdate (state_update s))" if "sign model_sphinx sk x = Inr s" for s x sk
    using that by (auto simp: sign_eq_Inr state_update_def wf_state_update_def model_sign_def)
  have day: "maintains (delivers ?G) (current_block_day model_host) (\<lambda>_. True)"
    by (simp add: maintains_def block_day_run)
  have tail: "maintains (delivers ?G) tail (\<lambda>_. True)"
    unfolding tail_def deliver_def
    by (intro maintains_abind_unit [OF deliver_keeps] maintains_try_state maintains_abind_unit [OF day]
        maintains_try_encode deliver_keeps add update) simp_all
  have counter: "next_local_updates (manager_of opened) = 0"
    by (simp add: next_local_updates_def manager_of_def opened_counters)
      (simp add: opened_def requested_def new_channel_data_def)
  have htlc: "owed_htlc\<lparr>htlc_channel_id := own_channel_id model_host peer_pk, htlc_id := 1\<rparr> = forward_htlc"
    "htlc_payment_hash owed_htlc = model_digest revealed_preimage"
    by (simp_all add: forward_htlc_def owed_htlc_def)
  have data: "opened\<lparr>cd_uncommitted := cd_uncommitted opened @ [Local (Add forward_htlc)]\<rparr> = offering"
    by (simp add: offering_def opened_def requested_def new_channel_data_def)
  have free: "mem_view (w_store w) link_key = None"
    using stage_entry [OF assms(1) forward_key_not_ledger] by (simp add: mem_durable.channel_not_forward not_sym)
  let ?w = "w\<lparr>w_store := bt_insert (key_to_string link_key) (0, VLink forward_link) (w_store w)\<rparr>"
  have now: "mem_view (w_store ?w) peer_key = Some (1, VChannel opened)"
    using stage_channel [OF assms(1)] mem_funded.good_keys(3) by (simp add: mem_view_upd mem_durable.channel_not_forward)
  have "offer_htlc model_host peer_pk opened owed_htlc upstream_scid 2 None (Some 5000) w = tail (put_channel peer_pk 2 offering ?w)"
    using save_run(2) [OF now, of offering] link_run [OF free, of forward_link]
    by (simp add: offer_htlc_def Let_def counter htlc data abind_run clock_run ok_or_def checked_add_def forward_link_def
        HOSTED_COMMIT_TIMEOUT_SECS_def tail_def deliver_def)
  moreover have "delivers ?G (put_channel peer_pk 2 offering ?w)"
    using assms(2,3) stage_entry [OF assms(1)] mem_funded.good_keys(3)
    by (auto simp: delivers_def put_channel_def mem_view_upd MockNode_new_def mem_durable.channel_not_forward)
  ultimately show ?thesis using maintains_snd [OF tail] by simp
qed

lemma stage_offered: "\<exists>w. stage [peer_key \<mapsto> (2, VChannel offering), link_key \<mapsto> (0, VLink forward_link)] w"
proof -
  obtain w where w: "stage [peer_key \<mapsto> (1, VChannel opened)] w" "w_node w = MockNode_new 1440 host_pk ''regtest''"
    "w_encodings w peer_pk = Some Strict" "w_connections w peer_pk = Some True"
    using stage_ready by blast
  let ?G = "[peer_key \<mapsto> (2, VChannel offering), link_key \<mapsto> (0, VLink forward_link)]"
  let ?e = "HtlcAccepted peer_pk owed_htlc ''k'' upstream_scid 2 None 5000"
  have chan: "require_channel model_host peer_pk w = (Inr opened, w)"
    using stage_channel [OF w(1)] by (intro require_run [of _ _ 1]) simp
  have source: "peer_for_hosted_scid model_host upstream_scid w = (Inr None, w)"
    by (rule no_target [OF listed_alone [OF w(1)]]) (simp_all add: upstream_scid_def)
  have node: "mn_preimages (w_node w) = Map.empty" using w(2) by (simp add: MockNode_new_def)
  have opened: "derive_status opened = Active" "cd_routing_policy opened = Some (from_policy ChannelPolicy_default)" "cd_uncommitted opened = []"
    by (simp_all add: opened_def requested_def new_channel_data_def derive_status_def)
  have "channel_handle_htlc_add_with_upstream_expiry model_host peer_pk owed_htlc ''k'' upstream_scid 2 None (Some 5000) w =
      offer_htlc model_host peer_pk opened owed_htlc upstream_scid 2 None (Some 5000) w"
    by (simp add: channel_handle_htlc_add_with_upstream_expiry_def abind_run acase_run chan opened node w(4)
        peer_is_known_disconnected_def on_node_def azoom_def mock_lookup_preimage_def mock_node_def
        routing_policy_for_data_def source opened_htlcs from_policy_def init_of_policy_def ChannelPolicy_default_def
        owed_htlc_def try_state_def lcss_next_def manager_of_def rbind_def sum_msat_def saturating_add_def Let_def
        ok_or_def checked_add_def)
  then have "delivers ?G (run_entry model_host ?e w)"
    using offer_run [OF w(1-3)] by simp
  then have "mem_view (w_store (run_entry model_host ?e w)) k = ?G k" if "\<not> is_ledger_key k" for k
    using that unfolding delivers_def by blast
  from stage_run [OF w(1) this] show ?thesis by blast
qed

lemma stage_forwarded: "\<exists>w. stage [link_key \<mapsto> (0, VLink forward_link), peer_key \<mapsto> (3, VChannel owing)] w"
proof -
  let ?s = "open_state\<lparr>outgoing_htlcs := [owed_htlc], remote_updates := 1\<rparr>"
  obtain w where w: "stage [peer_key \<mapsto> (2, VChannel offering), link_key \<mapsto> (0, VLink forward_link)] w"
    using stage_offered by blast
  have "wf_lcss ?s" using open_state_wf htlc_image_len [OF owed_wf] by (simp add: wf_lcss_def owed_htlc_def)
  moreover have "offering\<lparr>cd_lcss := crossed ?s, cd_uncommitted := []\<rparr> = owing"
    by (simp add: offering_def owing_def)
  ultimately show ?thesis
    using stage_adopted [OF w, of 2 offering ?s]
    by (simp add: offering_def opened_counters)
qed

lemma link_loaded:
  assumes "mem_view (w_store w) link_key = Some (g, VLink l)"
  shows "load_link model_host (hosted_scid_of model_host peer_pk) 1 w = (Inr (Some l), w)"
  using assms mem_funded.good_keys(3)
  by (simp add: load_link_def acase_run on_store_def azoom_def get_json_def abind_run mem_get_view)

lemma listed_linked:
  assumes "stage [link_key \<mapsto> x, peer_key \<mapsto> y] w" and "\<And>k. k \<noteq> peer_key \<Longrightarrow> mem_view (w_store v) k = mem_view (w_store w) k"
    and "mem_view (w_store v) peer_key \<noteq> None"
  shows "\<exists>ps. list_channels model_host v = (Inr ps, v) \<and> set ps = {peer_pk}"
proof (rule listed [OF assms])
  show "k = peer_key" if "[link_key \<mapsto> x, peer_key \<mapsto> y] k \<noteq> None" "take 2 k = [''canopus'', ''channels'']" for k
  proof -
    have "k \<noteq> link_key" using that(2) by (auto simp: forward_key_def)
    then show ?thesis using that(1) by (cases "k = peer_key") simp_all
  qed
qed

lemma link_given_back:
  assumes "list_channels model_host (w\<lparr>w_trace := w_trace w @ [GaveBack (hosted_scid_of model_host peer_pk) 1]\<rparr>) =
      (Inr ps, w\<lparr>w_trace := w_trace w @ [GaveBack (hosted_scid_of model_host peer_pk) 1]\<rparr>)" and "set ps = {peer_pk}"
    and "mem_view (w_store w) link_key = Some (0, VLink forward_link)"
  shows "\<exists>w'. resolve_forward_fail model_host (hosted_scid_of model_host peer_pk) 1 x w = (Inr (), w') \<and>
    w_trace w' = w_trace w @ [GaveBack (hosted_scid_of model_host peer_pk) 1] \<and>
    mem_view (w_store w') peer_key = mem_view (w_store w) peer_key"
  using no_target [of "w\<lparr>w_trace := w_trace w @ [GaveBack (hosted_scid_of model_host peer_pk) 1]\<rparr>" upstream_scid]
    assms(1,2) mem_funded.good_keys(3)
  by (simp add: resolve_forward_fail_def Let_def abind_run link_loaded [OF assms(3)] record_event_def lift_node_def
      amap_err_def on_node_def azoom_def mock_node_def mock_resolve_htlc_def aignore_def on_store_def memory_store_def
      mem_delete_def mem_view_upd forward_link_def mem_durable.channel_not_forward upstream_scid_def)

lemma forward_failed:
  assumes w: "stage [link_key \<mapsto> (0, VLink forward_link), peer_key \<mapsto> (3, VChannel owing)] w"
    and height: "mn_block_height (w_node w) = 2100"
  shows "w_trace (run_entry model_host EnforceDeadlines w) =
    w_trace w @ [Saved peer_pk expired, GaveBack (hosted_scid_of model_host peer_pk) 1]"
proof -
  let ?w = "put_channel peer_pk 4 expired w"
  let ?v = "?w\<lparr>w_trace := w_trace ?w @ [GaveBack (hosted_scid_of model_host peer_pk) 1]\<rparr>"
  have now: "mem_view (w_store w) peer_key = Some (3, VChannel owing)" "mem_view (w_store w) link_key = Some (0, VLink forward_link)"
    using stage_channel [OF w] stage_entry [OF w forward_key_not_ledger] mem_durable.channel_not_forward [symmetric]
    by simp_all
  have mark: "mark_errored model_host peer_pk owing HOSTED_HTLC_EXPIRED_ERROR w = (Inr (), ?w)"
    using save_run(2) [OF now(1), of expired] by (simp add: mark_errored_def expired_def owing_state)
  have link: "mem_view (w_store ?w) link_key = Some (0, VLink forward_link)"
    using now(2) mem_durable.channel_not_forward [symmetric] by (simp add: put_view)
  obtain ps where ps: "list_channels model_host w = (Inr ps, w)" "set ps = {peer_pk}"
    using listed_linked [OF w, of w] now(1) by blast
  have "\<exists>ps. list_channels model_host ?v = (Inr ps, ?v) \<and> set ps = {peer_pk}"
    by (rule listed_linked [OF w]) (simp_all add: put_view)
  then obtain w1 where w1: "resolve_forward_fail model_host (hosted_scid_of model_host peer_pk) 1 (be_bytes 2 0x4008) ?w = (Inr (), w1)"
      "w_trace w1 = w_trace ?v" "mem_view (w_store w1) peer_key = Some (4, VChannel expired)"
    using link_given_back [OF _ _ link, of _ "be_bytes 2 0x4008"] by (auto simp: put_view)
  have first: "enforce_channel model_host 1700000000 None peer_pk w = (Inr (Some 2100), w1)"
    using w1(1) mark height
    by (simp add: enforce_channel_def abind_run load_run(2) [OF now(1)] owing_state link_loaded [OF now(2)] forward_link_def
        owed_htlc_def lift_node_def amap_err_def on_node_def azoom_def mock_node_def mock_get_block_height_def)
  have rest: "enforce_channels model_host 1700000000 c qs w1 = (Inr (), w1)" if "set qs \<subseteq> {peer_pk}" for c qs
    using that by (induction qs arbitrary: c) (auto simp: abind_run enforce_channel_def load_run(2) [OF w1(3)] owing_state)
  obtain qs where "ps = peer_pk # qs" "set qs \<subseteq> {peer_pk}" using ps(2) by (cases ps) auto
  then have "enforce_forward_deadlines model_host w = (Inr (), w1)"
    using first rest by (simp add: enforce_forward_deadlines_def enforce_forward_deadlines_at_def clock_run abind_run ps(1))
  then show ?thesis using w1(2) by (simp add: put_channel_def)
qed

end
