(* ===== verification/Subtree.thy ===== *)
theory Subtree
  imports Plugin Cln_Store "HOL-Library.Multiset"
begin

text \<open>
  The deletion of a subtree (\<open>delete_subtree\<close> in \<^verbatim>\<open>src/src/store.rs\<close>), which uninstalling the plugin
  rests on. The walk keeps a stack of keys; a key that has not been visited is replaced by its
  children, which are longer, so over a store with finitely many entries the walk ends. Every entry
  below the root is below a key of the stack until it is deleted.
\<close>

definition below :: "key \<Rightarrow> key \<Rightarrow> bool" where
  "below p k \<longleftrightarrow> take (length p) k = p"

lemma below_refl [simp]: "below k k"
  by (simp add: below_def)

lemma below_trans: "below p q \<Longrightarrow> below q k \<Longrightarrow> below p k"
  by (simp add: below_def) (metis length_take min.bounded_iff nat_le_linear take_all_iff take_take min.absorb1)

definition rank :: "nat \<Rightarrow> key \<times> bool \<Rightarrow> nat" where
  "rank D = (\<lambda>(k, visited). if visited then 0 else Suc (D - length k))"

text \<open>The entries left below the root, and what is on the stack: keys that stand for all of them.\<close>

definition left :: "key \<Rightarrow> (key \<Rightarrow> 'e option) \<Rightarrow> key set" where
  "left root V = {k. below root k \<and> V k \<noteq> None}"

definition stands_for :: "key \<times> bool \<Rightarrow> key \<Rightarrow> bool" where
  "stands_for p k \<longleftrightarrow> (if snd p then fst p = k else below (fst p) k)"

lemma stands_for_simps [simp]: "stands_for (q, True) k = (q = k)" "stands_for (q, False) k = below q k"
  by (simp_all add: stands_for_def)

definition covers :: "key \<Rightarrow> (key \<times> bool) list \<Rightarrow> (key \<Rightarrow> 'e option) \<Rightarrow> bool" where
  "covers root pending V \<longleftrightarrow> (\<forall>p \<in> set pending. below root (fst p) \<and> good_key (fst p)) \<and>
     (\<forall>k \<in> left root V. \<exists>p \<in> set pending. stands_for p k)"

lemma left_upd [simp]: "left root (V(k := None)) = left root V - {k}"
  by (auto simp: left_def)

text \<open>
  What the walk has done when it answers \<open>r\<close>: no entry outside the subtree changed and none was
  altered; when it succeeds the subtree is empty and the counter grew by its number of entries.
\<close>

definition wiped :: "key \<Rightarrow> nat \<Rightarrow> (key \<Rightarrow> 'e option) \<Rightarrow> StoreError + nat \<Rightarrow> (key \<Rightarrow> 'e option) \<Rightarrow> bool" where
  "wiped root n V r V' \<longleftrightarrow> (\<forall>k. V' k = V k \<or> below root k \<and> V' k = None) \<and>
     (\<forall>m. r = Inr m \<longrightarrow> left root V' = {} \<and> m = n + card (left root V))"

lemma wiped_error: "below root k \<Longrightarrow> V' = V \<or> V' = V(k := None) \<Longrightarrow> wiped root n V (Inl e) V'"
  by (auto simp: wiped_def split: if_splits)

lemma wiped_nothing [simp]: "wiped root n V (Inl e) V"
  by (simp add: wiped_def)

lemma wiped_delete:
  assumes "wiped root (n + 1) (V(k := None)) r V'" and "below root k" and "V k \<noteq> None" and "finite (dom V)"
  shows "wiped root n V r V'"
proof -
  have "k \<in> left root V" using assms(2,3) by (simp add: left_def)
  moreover have "finite (left root V)"
    by (rule finite_subset [OF _ assms(4)]) (auto simp: left_def)
  ultimately have "card (left root V) = Suc (card (left root (V(k := None))))"
    using card_Suc_Diff1 [of "left root V" k] by simp
  moreover have "V' j = V j \<or> below root j \<and> V' j = None" for j
    using assms(1,2) unfolding wiped_def by (cases "j = k") (metis fun_upd_apply)+
  ultimately show ?thesis
    using assms(1) unfolding wiped_def by (simp del: left_upd)
qed

lemma covers_done: "covers root [] V \<Longrightarrow> wiped root n V (Inr n) V"
  by (simp add: covers_def wiped_def)

lemma covers_pop: "covers root ((k, True) # rest) V \<Longrightarrow> covers root rest (V(k := None))"
  unfolding covers_def by fastforce

lemma covers_absent: "covers root ((k, True) # rest) V \<Longrightarrow> V k = None \<Longrightarrow> covers root rest V"
  using covers_pop [of root k rest V] by (simp add: fun_upd_idem)

lemma covers_expand:
  assumes "covers root ((k, False) # rest) V"
    and "\<And>c. c \<in> set ks \<Longrightarrow> below root c \<and> good_key c"
    and "\<And>j. V j \<noteq> None \<Longrightarrow> below k j \<Longrightarrow> j \<noteq> k \<Longrightarrow> \<exists>c \<in> set ks. below c j"
  shows "covers root (rev (map (\<lambda>c. (c, False)) ks) @ (k, True) # rest) V"
  unfolding covers_def
proof (rule conjI)
  let ?P = "rev (map (\<lambda>c. (c, False)) ks) @ (k, True) # rest"
  show "\<forall>p \<in> set ?P. below root (fst p) \<and> good_key (fst p)"
    using assms(1,2) unfolding covers_def by auto
  have "\<exists>p \<in> set ?P. stands_for p j" if j: "j \<in> left root V" for j
  proof -
    consider p where "p \<in> set rest" "stands_for p j" | "below k j" "j = k" | "below k j" "j \<noteq> k"
      using assms(1) j unfolding covers_def by force
    then show ?thesis
      using assms(3) [of j] j by cases (force simp: left_def)+
  qed
  then show "\<forall>j \<in> left root V. \<exists>p \<in> set ?P. stands_for p j" ..
qed

lemma rank_smaller: "length k < length c \<Longrightarrow> length c \<le> D \<Longrightarrow> rank D (c, False) < rank D (k, False)"
  by (simp add: rank_def)

text \<open>A store whose \<open>delete\<close> answers \<open>NotFound\<close> only for an entry it does not hold.\<close>

locale deleting_store = keyed_store +
  assumes missing_law: "good_key k \<Longrightarrow> store_delete S k st = (Inl (NotFound j), st') \<Longrightarrow> view st k = None"
begin

lemma children_law:
  assumes "good_key k" and "store_list S k st = (Inr ks, st')"
  shows "view st' = view st"
    and "set ks = {take (Suc (length k)) j | j. view st j \<noteq> None \<and> below k j \<and> length k < length j}"
  using list_law [OF _ assms(2)] assms(1) by (auto simp: below_def)

lemma child_law:
  assumes "good_key k" and "store_list S k st = (Inr ks, st')" and "c \<in> set ks"
  shows "good_key c \<and> below k c \<and> length c = Suc (length k) \<and> (\<exists>j. view st j \<noteq> None \<and> length c \<le> length j)"
proof -
  obtain j where j: "c = take (Suc (length k)) j" "view st j \<noteq> None" "below k j" "length k < length j"
    using children_law(2) [OF assms(1,2)] assms(3) by blast
  then have "good_key j" using view_law by blast
  then have "good_key c" using j by (auto simp: good_key_def dest: in_set_takeD)
  moreover have "below k c \<and> length c = Suc (length k) \<and> length c \<le> length j"
    using j by (auto simp: below_def min_def)
  ultimately show ?thesis using j(2) by blast
qed

lemma covers_push:
  assumes "covers root ((k, False) # rest) (view st)" and "store_list S k st = (Inr ks, st')"
  shows "covers root (rev (map (\<lambda>c. (c, False)) ks) @ (k, True) # rest) (view st')"
proof -
  have k: "good_key k" "below root k" using assms(1) by (auto simp: covers_def)
  note ks = children_law [OF k(1) assms(2)] child_law [OF k(1) assms(2)]
  have "\<exists>c \<in> set ks. below c j" if "view st j \<noteq> None" "below k j" "j \<noteq> k" for j
  proof -
    have "length k < length j" using that(2,3) by (metis below_def linorder_not_less take_all)
    then have "take (Suc (length k)) j \<in> set ks" and "below (take (Suc (length k)) j) j"
      using that(1,2) ks(2) by (auto simp: below_def min_def simp del: not_None_eq)
    then show ?thesis by blast
  qed
  moreover have "below root c \<and> good_key c" if "c \<in> set ks" for c
    using ks(3) [OF that] k(2) below_trans by blast
  ultimately show ?thesis
    by (intro covers_expand [OF assms(1) [folded ks(1)]]) (simp_all add: ks(1) del: not_None_eq)
qed

lemma ranks_push:
  assumes "good_key k" and "store_list S k st = (Inr ks, st')" and "\<And>j. view st j \<noteq> None \<Longrightarrow> length j \<le> D"
  shows "(image_mset (rank D) (mset (rev (map (\<lambda>c. (c, False)) ks) @ (k, True) # rest)),
          image_mset (rank D) (mset ((k, False) # rest))) \<in> mult1 less_than"
proof -
  have "rank D (c, False) < rank D (k, False)" if "c \<in> set ks" for c
    using child_law [OF assms(1,2) that] assms(3) by (intro rank_smaller) (auto simp del: not_None_eq intro: le_trans)
  then have "b < rank D (k, False)" if "b \<in># add_mset (rank D (k, True)) (image_mset (\<lambda>c. rank D (c, False)) (mset ks))" for b
    using that by (auto simp: rank_def)
  then have "(image_mset (rank D) (mset rest) + add_mset (rank D (k, True)) (image_mset (\<lambda>c. rank D (c, False)) (mset ks)),
      add_mset (rank D (k, False)) (image_mset (rank D) (mset rest))) \<in> mult1 less_than"
    by - (rule mult1I [OF refl refl], simp)
  then show ?thesis by (simp add: multiset.map_comp comp_def ac_simps)
qed

lemma visit_step:
  assumes "finite (dom (view st))" and c: "covers root ((k, True) # rest) (view st)"
    and IH: "\<And>m st'. view st' = view st \<or> view st' = (view st)(k := None) \<Longrightarrow> covers root rest (view st') \<Longrightarrow>
      \<exists>r st''. delete_subtree_loop S rest m st' = Some (r, st'') \<and> wiped root m (view st') r (view st'')"
  shows "\<exists>r st'. delete_subtree_loop S ((k, True) # rest) n st = Some (r, st') \<and> wiped root n (view st) r (view st')"
proof -
  have k: "good_key k" "below root k" using c by (auto simp: covers_def)
  note loop = delete_subtree_loop.simps [of S "(k, True) # rest" n st]
  obtain r1 st1 where e: "store_exists S k st = (r1, st1)" by (cases "store_exists S k st")
  note e_law = exists_law [OF k(1) e]
  obtain r2 st2 where d: "store_delete S k st1 = (r2, st2)" by (cases "store_delete S k st1")
  note d_law = delete_law [OF k(1) d]
  consider (failed) x where "r1 = Inl x" | (absent) "r1 = Inr False"
    | (deleted) u where "r1 = Inr True" "r2 = Inr u" | (missing) j where "r1 = Inr True" "r2 = Inl (NotFound j)"
    | (refused) x where "r1 = Inr True" "r2 = Inl x" "\<And>j. x \<noteq> NotFound j"
    by (metis (full_types) sum.exhaust)
  then show ?thesis
  proof cases
    case failed
    then show ?thesis using loop e e_law by simp
  next
    case absent
    then have "view st k = None" and "view st1 = view st" using e_law by simp_all (metis option.exhaust surj_pair)
    then show ?thesis using absent loop e covers_absent [OF c] IH [of st1 n] by simp
  next
    case deleted
    then have "view st2 = (view st)(k := None)" and "view st k \<noteq> None" using d_law e_law by auto
    then show ?thesis
      using deleted loop e d IH [of st2 "n + 1"] covers_pop [OF c] wiped_delete [OF _ k(2) _ assms(1)] by fastforce
  next
    case missing
    then show ?thesis using missing_law [OF k(1), of st1 j st2] d e_law by auto
  next
    case refused
    then show ?thesis
      using loop e d e_law write_outcome_cases [OF d_law] wiped_error [OF k(2)]
      by (auto split: StoreError.splits)
  qed
qed

lemma list_step:
  assumes c: "covers root ((k, False) # rest) (view st)"
    and IH: "\<And>ks st'. store_list S k st = (Inr ks, st') \<Longrightarrow>
      \<exists>r st''. delete_subtree_loop S (rev (map (\<lambda>c. (c, False)) ks) @ (k, True) # rest) n st' = Some (r, st'') \<and>
        wiped root n (view st') r (view st'')"
  shows "\<exists>r st'. delete_subtree_loop S ((k, False) # rest) n st = Some (r, st') \<and> wiped root n (view st) r (view st')"
proof -
  have k: "good_key k" "below root k" using c by (auto simp: covers_def)
  note loop = delete_subtree_loop.simps [of S "(k, False) # rest" n st]
  obtain r1 st1 where l: "store_list S k st = (r1, st1)" by (cases "store_list S k st")
  have "view st1 = view st" using list_law [OF _ l] k(1) by blast
  then show ?thesis
    using loop l IH [of _ st1] wiped_error [OF k(2)] by (cases r1) auto
qed

lemma walk_wipes:
  assumes "\<And>k. view st k \<noteq> None \<Longrightarrow> length k \<le> D" and "finite (dom (view st))" and "covers root pending (view st)"
  shows "\<exists>r st'. delete_subtree_loop S pending n st = Some (r, st') \<and> wiped root n (view st) r (view st')"
proof -
  have "wf (mult1 less_than)" by (rule wf_mult1) simp
  then show ?thesis
    using assms
  proof (induction "image_mset (rank D) (mset pending)" arbitrary: pending n st rule: wf_induct_rule)
    case (less pending n st)
    consider (finished) "pending = []" | (visited) k rest where "pending = (k, True) # rest"
      | (fresh) k rest where "pending = (k, False) # rest"
      by (metis (full_types) list.exhaust surj_pair)
    then show ?case
    proof cases
      case finished
      then show ?thesis using covers_done less.prems(3) by (simp add: delete_subtree_loop.simps)
    next
      case visited
      have pop: "(image_mset (rank D) (mset rest), image_mset (rank D) (mset pending)) \<in> mult1 less_than"
        using mult1I [of _ "rank D (k, True)" "image_mset (rank D) (mset rest)" _ "{#}"] visited by simp
      have shrinks: "length j \<le> D" if "view st' = view st \<or> view st' = (view st)(k := None)" "view st' j \<noteq> None" for st' j
        using that less.prems(1) [of j] by (auto split: if_splits simp del: not_None_eq)
      have "finite (dom (view st'))" if "view st' = view st \<or> view st' = (view st)(k := None)" for st'
        using that less.prems(2) by auto
      then show ?thesis
        unfolding visited
        using visit_step [OF less.prems(2) less.prems(3) [unfolded visited]] less.hyps(1) [OF pop] shrinks
        by blast
    next
      case fresh
      have "good_key k" using less.prems(3) fresh by (auto simp: covers_def)
      note step = children_law(1) [OF this] ranks_push [OF this _ less.prems(1), where rest = rest, folded fresh]
      show ?thesis
        unfolding fresh
      proof (rule list_step [OF less.prems(3) [unfolded fresh]])
        fix ks st' assume l: "store_list S k st = (Inr ks, st')"
        then show "\<exists>r st''. delete_subtree_loop S (rev (map (\<lambda>c. (c, False)) ks) @ (k, True) # rest) n st' = Some (r, st'') \<and>
            wiped root n (view st') r (view st'')"
          by (intro less.hyps(1) [OF step(2) [OF l]])
            (use less.prems covers_push [OF _ l] step(1) [OF l] fresh in \<open>simp_all del: not_None_eq\<close>)
      qed
    qed
  qed
qed

lemma subtree_wiped:
  assumes "finite (dom (view st))" and "good_key root"
  shows "\<exists>r st'. delete_subtree S root st = Some (r, st') \<and> wiped root 0 (view st) r (view st')"
proof -
  have "finite (length ` dom (view st))" using assms(1) by simp
  then have D: "length k \<le> Max (length ` dom (view st))" if "view st k \<noteq> None" for k
    using that by (intro Max_ge) auto
  show ?thesis
    unfolding delete_subtree_def
    by (rule walk_wipes [OF D assms(1)]) (use assms(2) in \<open>auto simp: covers_def left_def\<close>)
qed

lemma uninstalled:
  assumes "finite (dom (view st))"
  shows "\<exists>r st'. uninstall_store S st = Some (r, st') \<and>
    (\<forall>k. view st' k = view st k \<or> below [''canopus''] k \<and> view st' k = None) \<and>
    (\<forall>n. r = Inr n \<longrightarrow> left [''canopus''] (view st') = {} \<and> n = card (left [''canopus''] (view st))) \<and>
    ((\<exists>k \<in> left [''canopus'', ''channels''] (view st). 2 < length k) \<longrightarrow>
       view st' = view st \<and> (\<exists>e. r = Inl e))"
proof -
  have g: "good_key [''canopus'', ''channels'']" "good_key [''canopus'']" by (simp_all add: good_key_def)
  obtain r1 st1 where l: "store_list S [''canopus'', ''channels''] st = (r1, st1)" by fastforce
  have same: "view st1 = view st" using list_law [OF _ l] g by blast
  have found: "r1 \<noteq> Inr []" if "\<exists>k \<in> left [''canopus'', ''channels''] (view st). 2 < length k"
    using that children_law(2) [OF g(1), of st "[]" st1] l by (fastforce simp: left_def)
  show ?thesis
  proof (cases "r1 = Inr []")
    case True
    obtain r st' where "delete_subtree S [''canopus''] st1 = Some (r, st')" and "wiped [''canopus''] 0 (view st) r (view st')"
      using subtree_wiped [OF _ g(2), of st1] assms same by auto
    then show ?thesis
      using True found l by (cases r) (auto simp: uninstall_store_def wiped_def map_err_def)
  next
    case False
    then show ?thesis
      using l same by (cases r1) (auto simp: uninstall_store_def)
  qed
qed

end

interpretation mem_deleting: deleting_store memory_store mem_view
  by unfold_locales (simp add: memory_store_def mem_delete_def)

lemma cln_deleting_store:
  assumes "datastore_ok L content"
    and "\<And>k st e st'. good_key k \<Longrightarrow> cl_call L ''deldatastore'' (key_params k) st = (Inl e, st') \<Longrightarrow>
      map_rpc_error k e = NotFound k \<Longrightarrow> content st k = None"
  shows "deleting_store (cln_store L) content"
proof (intro deleting_store.intro deleting_store_axioms.intro cln_store_lawful [OF assms(1)])
  fix k st j st'
  assume k: "good_key k" and d: "store_delete (cln_store L) k st = (Inl (NotFound j), st')"
  obtain r st1 where c: "cl_call L ''deldatastore'' (key_params k) st = (r, st1)" by fastforce
  have not_found: "map_rpc_error k e = NotFound i \<Longrightarrow> i = k" for e i
    using map_rpc_error_cases [of k e] by auto
  show "content st k = None"
    using d c assms(2) [OF k] not_found
    by (auto simp: cln_store_def cln_delete_def abind_run amap_err_def map_err_def split: sum.splits)
qed

interpretation cln_deleting: deleting_store "cln_store model_cln" ds_content
  by (rule cln_deleting_store [OF model_datastore_ok]) (simp add: model_cln_def model_datastore_def)

lemma mem_finite: "finite (dom (mem_view st))"
proof -
  have "inj_on key_to_string {k. good_key k}" by (intro inj_onI) (auto dest: key_to_string_inj)
  moreover have "dom (mem_view st) \<subseteq> key_to_string -` (fst ` set st) \<inter> {k. good_key k}"
    using mem_view_dom [of st] by blast
  ultimately show ?thesis
    using finite_vimage_IntI [of "fst ` set st" key_to_string "{k. good_key k}"] finite_subset by blast
qed

declare delete_subtree_loop.simps [code]

section \<open>Uninstalling\<close>

text \<open>
  C21. Uninstalling ends, over any lawful store with finitely many entries. It never alters an entry
  and removes none outside \<^verbatim>\<open>canopus\<close>. While a hosted channel is stored it is refused and the store
  stays as it is; when it succeeds no entry of the plugin is left, and the number it reports is the
  number of entries there were.
\<close>

theorem uninstall_wipes:
  assumes "deleting_store S view" and "finite (dom (view st))"
  shows "\<exists>r st'. uninstall_store S st = Some (r, st') \<and>
    (\<forall>k. view st' k = view st k \<or> below [''canopus''] k \<and> view st' k = None) \<and>
    (\<forall>n. r = Inr n \<longrightarrow> left [''canopus''] (view st') = {} \<and> n = card (left [''canopus''] (view st))) \<and>
    ((\<exists>k \<in> left [''canopus'', ''channels''] (view st). 2 < length k) \<longrightarrow>
       view st' = view st \<and> (\<exists>e. r = Inl e))"
  using deleting_store.uninstalled [OF assms] .

theorem uninstall_wipes_witness:
  "uninstall_store memory_store [(''canopus/ledger/1'', (0, True)), (''canopus/policy'', (1, True)), (''other'', (2, True))] =
     Some (Inr 2, [(''other'', (2, True))]) \<and>
   (\<exists>e st'. uninstall_store memory_store [(''canopus/channels/02'', (0, True)), (''canopus/policy'', (1, True))] =
     Some (Inl e, st') \<and> mem_view st' = mem_view [(''canopus/channels/02'', (0, True)), (''canopus/policy'', (1, True))])"
proof (rule conjI)
  let ?st = "[(''canopus/channels/02'', (0, True)), (''canopus/policy'', (1, True))] :: bool MemoryStore"
  show "uninstall_store memory_store [(''canopus/ledger/1'', (0, True)), (''canopus/policy'', (1, True)), (''other'', (2, True))] =
     Some (Inr 2, [(''other'', (2, True))])"
    by code_simp
  have "mem_view ?st [''canopus'', ''channels'', ''02''] = Some (0, True)" by code_simp
  then have "[''canopus'', ''channels'', ''02''] \<in> left [''canopus'', ''channels''] (mem_view ?st)"
    by (simp add: left_def below_def del: not_None_eq)
  then have "\<exists>k \<in> left [''canopus'', ''channels''] (mem_view ?st). 2 < length k" by force
  then show "\<exists>e st'. uninstall_store memory_store ?st = Some (Inl e, st') \<and> mem_view st' = mem_view ?st"
    using uninstall_wipes [OF mem_deleting.deleting_store_axioms mem_finite, of ?st] by blast
qed

end
