(* ===== verification/Scanner.thy ===== *)
theory Scanner
  imports Node "HOL-Library.List_Lexorder"
begin

text \<open>
  Model of \<^verbatim>\<open>src/src/scanner.rs\<close>: the scan of new blocks for payment preimages that a client
  published in OP_RETURN outputs. The block parser of the \<^verbatim>\<open>bitcoin\<close> crate is the parameter
  \<open>deserialize_block\<close>, which gives the output scripts of each transaction. The set of watched hashes
  is a list without order; Rust's lexicographic order on byte arrays is the order of
  \<open>List_Lexorder\<close>.
\<close>

section \<open>Pushed data\<close>

definition OP_RETURN :: u8 where "OP_RETURN = 0x6a"

text \<open>What the opcode match decides: leave the loop, go on, or read so many bytes of a script.\<close>

datatype push_step = Break | NextOpcode | Push nat bytes

definition push_length :: "u8 \<Rightarrow> bytes \<Rightarrow> push_step" where
  "push_length opcode script =
     (if 0x01 \<le> opcode \<and> opcode \<le> 0x4b then Push (unat opcode) script
      else if opcode = 0x4c then
        (case script of [] \<Rightarrow> Break | len # rest \<Rightarrow> Push (unat len) rest)
      else if opcode = 0x4d then
        (if length script < 2 then Break else Push (le_val (take 2 script)) (drop 2 script))
      else if opcode = 0x4e then
        (if length script < 4 then Break else Push (le_val (take 4 script)) (drop 4 script))
      else NextOpcode)"

fun chunks_exact :: "nat \<Rightarrow> nat \<Rightarrow> bytes \<Rightarrow> bytes list" where
  "chunks_exact n 0 data = []"
| "chunks_exact n (Suc k) data = take n data # chunks_exact n k (drop n data)"

definition candidates :: "bytes \<Rightarrow> bytes list" where
  "candidates data =
     (if length data = 32 then [data]
      else if length data mod 32 = 0 then chunks_exact 32 (length data div 32) data
      else [])"

lemma push_length_shrinks:
  "push_length opcode script = Push len rest \<Longrightarrow> length rest \<le> length script"
  by (auto simp: push_length_def split: if_splits list.splits)

function pushed_32_byte_values :: "bytes \<Rightarrow> bytes list" where
  "pushed_32_byte_values [] = []"
| "pushed_32_byte_values (opcode # rest) =
     (case push_length opcode rest of
        Break \<Rightarrow> []
      | NextOpcode \<Rightarrow> pushed_32_byte_values rest
      | Push len script \<Rightarrow>
          if length script < len then []
          else candidates (take len script) @ pushed_32_byte_values (drop len script))"
  by pat_completeness auto
termination
  by (relation "measure length") (auto dest: push_length_shrinks)

section \<open>Scanning\<close>

definition scan_script_for_preimages :: "'c crypto_scheme \<Rightarrow> bytes list \<Rightarrow> bytes \<Rightarrow> bytes list" where
  "scan_script_for_preimages C inflight_hashes script =
     (case script of [] \<Rightarrow> []
      | b # rest \<Rightarrow>
          if b \<noteq> OP_RETURN then []
          else filter (\<lambda>candidate. sha256 C candidate \<in> set inflight_hashes)
                 (pushed_32_byte_values rest))"

definition sort_dedup :: "bytes list \<Rightarrow> bytes list" where
  "sort_dedup found = remdups_adj (sort found)"

definition scan_block_for_preimages :: "'c crypto_scheme \<Rightarrow> (bytes \<Rightarrow> bytes list list option) \<Rightarrow>
    string \<Rightarrow> bytes list \<Rightarrow> bytes list" where
  "scan_block_for_preimages C deserialize_block block_hex inflight_hashes =
     (case hex_decode C block_hex of None \<Rightarrow> []
      | Some bytes \<Rightarrow>
          (case deserialize_block bytes of None \<Rightarrow> []
           | Some txdata \<Rightarrow>
               sort_dedup (concat (map (\<lambda>output.
                 concat (map (scan_script_for_preimages C inflight_hashes) output)) txdata))))"

record PreimageScanner =
  ps_last_scanned_height :: u32
  ps_inflight_hashes :: "bytes list"

definition PreimageScanner_new :: PreimageScanner where
  "PreimageScanner_new = \<lparr>ps_last_scanned_height = 0, ps_inflight_hashes = []\<rparr>"

definition watch :: "bytes \<Rightarrow> PreimageScanner \<Rightarrow> PreimageScanner" where
  "watch payment_hash s = s\<lparr>ps_inflight_hashes := List.insert payment_hash (ps_inflight_hashes s)\<rparr>"

definition unwatch :: "bytes \<Rightarrow> PreimageScanner \<Rightarrow> PreimageScanner" where
  "unwatch payment_hash s = s\<lparr>ps_inflight_hashes := removeAll payment_hash (ps_inflight_hashes s)\<rparr>"

text \<open>The loop over the new heights; it stops at the first block the node does not give.\<close>

fun scan_heights :: "'c crypto_scheme \<Rightarrow> (bytes \<Rightarrow> bytes list list option) \<Rightarrow> 'nd node_ops \<Rightarrow>
    bytes list \<Rightarrow> u32 list \<Rightarrow> bytes list \<Rightarrow> PreimageScanner \<times> 'nd \<Rightarrow> bytes list \<times> PreimageScanner \<times> 'nd" where
  "scan_heights C B N hashes [] found (s, nd) = (found, s, nd)"
| "scan_heights C B N hashes (height # heights) found (s, nd) =
     (case node_get_raw_block_by_height N height nd of
        (Inl e, nd') \<Rightarrow> (found, s, nd')
      | (Inr block_hex, nd') \<Rightarrow>
          scan_heights C B N hashes heights (found @ scan_block_for_preimages C B block_hex hashes)
            (s\<lparr>ps_last_scanned_height := height\<rparr>, nd'))"

text \<open>\<open>last.saturating_add(1)..=current\<close>\<close>

definition height_range :: "u32 \<Rightarrow> u32 \<Rightarrow> u32 list" where
  "height_range last_height current =
     map word_of_nat [min (unat last_height + 1) (2 ^ 32 - 1) ..< unat current + 1]"

definition scan_once :: "'c crypto_scheme \<Rightarrow> (bytes \<Rightarrow> bytes list list option) \<Rightarrow> 'nd node_ops \<Rightarrow>
    PreimageScanner \<times> 'nd \<Rightarrow> bytes list \<times> PreimageScanner \<times> 'nd" where
  "scan_once C B N st =
     (let (s, nd) = st in
      case node_get_block_height N nd of
        (Inl e, nd') \<Rightarrow> ([], s, nd')
      | (Inr current_height, nd') \<Rightarrow>
          if current_height \<le> ps_last_scanned_height s then ([], s, nd')
          else case scan_heights C B N (ps_inflight_hashes s)
                 (height_range (ps_last_scanned_height s) current_height) [] (s, nd') of
            (found, st') \<Rightarrow> (sort_dedup found, st'))"

section \<open>What a script pushes\<close>

text \<open>
  The push operations of Bitcoin script, in the form a script builder writes them: the length in
  the opcode up to 75 bytes, then in one, two or four little-endian bytes.
\<close>

definition push_slice :: "bytes \<Rightarrow> bytes" where
  "push_slice d =
     (if length d \<le> 75 then word_of_nat (length d) # d
      else if length d < 256 then 0x4c # word_of_nat (length d) # d
      else if length d < 65536 then 0x4d # le_bytes 2 (length d) @ d
      else 0x4e # le_bytes 4 (length d) @ d)"

lemma push_slice_step:
  assumes "length d < 2 ^ 32"
  shows "pushed_32_byte_values (push_slice d @ rest) = candidates d @ pushed_32_byte_values rest"
proof -
  consider "d = []" | "d \<noteq> []" "length d \<le> 75" | "75 < length d" "length d < 256"
    | "256 \<le> length d" "length d < 65536" | "65536 \<le> length d"
    by linarith
  then show ?thesis
  proof cases
    case 1
    then show ?thesis by (simp add: push_slice_def push_length_def candidates_def)
  next
    case 2
    moreover have "1 \<le> length d" using 2 by (simp add: Suc_leI)
    ultimately show ?thesis
      by (simp add: push_slice_def push_length_def word_le_nat_alt unat_of_nat)
  next
    case 3
    then show ?thesis by (simp add: push_slice_def push_length_def unat_of_nat)
  next
    case 4
    then show ?thesis by (simp add: push_slice_def push_length_def)
  next
    case 5
    then show ?thesis using assms by (simp add: push_slice_def push_length_def)
  qed
qed

lemma pushed_values:
  "(\<And>d. d \<in> set ds \<Longrightarrow> length d < 2 ^ 32) \<Longrightarrow>
     pushed_32_byte_values (concat (map push_slice ds)) = concat (map candidates ds)"
  by (induction ds) (simp_all add: push_slice_step)

lemma chunks_exact_len: "k * n \<le> length data \<Longrightarrow> c \<in> set (chunks_exact n k data) \<Longrightarrow> length c = n"
proof (induction k arbitrary: data)
  case (Suc k)
  have "k * n \<le> length (drop n data)" using Suc.prems(1) by simp
  then show ?case using Suc.IH [of "drop n data"] Suc.prems by (auto simp: min_def)
qed simp

lemma candidates_len: "c \<in> set (candidates data) \<Longrightarrow> length c = 32"
  using chunks_exact_len [of "length data div 32" 32 data c] by (auto simp: candidates_def split: if_splits)

lemma pushed_len: "v \<in> set (pushed_32_byte_values script) \<Longrightarrow> length v = 32"
  by (induction script rule: pushed_32_byte_values.induct)
    (auto split: push_step.splits if_splits dest: candidates_len)

lemma sorted_distinct_adj: "sorted xs \<Longrightarrow> distinct (remdups_adj xs)" for xs :: "'a :: linorder list"
  by (induction xs rule: remdups_adj.induct) (auto simp: order_less_le)

lemma sort_dedup_set [simp]: "set (sort_dedup xs) = set xs"
  by (simp add: sort_dedup_def)

lemma sort_dedup_sorted: "sorted (sort_dedup xs)" "distinct (sort_dedup xs)"
  by (simp_all add: sort_dedup_def sorted_distinct_adj)

text \<open>
  Pushed data is read back from any script a builder writes: the values found are, in order, the
  pushes of 32 bytes and the 32-byte pieces of the pushes whose length is a multiple of 32; every
  value found has 32 bytes, in malformed scripts too.
\<close>

theorem pushes_are_read:
  "(\<forall>v \<in> set (pushed_32_byte_values script). length v = 32) \<and>
   ((\<forall>d \<in> set ds. length d < 2 ^ 32) \<longrightarrow>
      pushed_32_byte_values (concat (map push_slice ds)) = concat (map candidates ds))"
  by (simp add: pushed_values pushed_len)

theorem pushes_are_read_witness:
  "pushed_32_byte_values (concat (map push_slice [[1, 2], replicate 32 7, replicate 64 9])) =
     [replicate 32 7, replicate 32 9, replicate 32 9]"
proof -
  have "candidates (replicate 64 9) = [replicate 32 9, replicate 32 9]"
    by (simp add: candidates_def numeral_2_eq_2)
  then show ?thesis
    using pushes_are_read [of "[]" "[[1, 2], replicate 32 7, replicate 64 9]"] by (simp add: candidates_def)
qed

text \<open>
  A block scan finds exactly the watched preimages that some OP_RETURN output of the block
  pushes, each once and in ascending order; a block that does not decode yields nothing.
\<close>

theorem block_scan_is_exact:
  "set (scan_block_for_preimages C B block_hex hashes) =
     {p. \<exists>bytes txdata output script.
        hex_decode C block_hex = Some bytes \<and> B bytes = Some txdata \<and> output \<in> set txdata \<and>
        OP_RETURN # script \<in> set output \<and> p \<in> set (pushed_32_byte_values script) \<and>
        sha256 C p \<in> set hashes} \<and>
   sorted (scan_block_for_preimages C B block_hex hashes) \<and>
   distinct (scan_block_for_preimages C B block_hex hashes)"
proof -
  have script: "p \<in> set (scan_script_for_preimages C hashes script) \<longleftrightarrow>
      (\<exists>rest. script = OP_RETURN # rest \<and> p \<in> set (pushed_32_byte_values rest) \<and> sha256 C p \<in> set hashes)"
    for p script
    by (auto simp: scan_script_for_preimages_def split: list.splits)
  show ?thesis
    by (auto simp: scan_block_for_preimages_def script sort_dedup_sorted split: option.splits)
qed

section \<open>Scanning a chain\<close>

lemma word_range:
  fixes l l' :: "'a :: len word"
  shows "(\<exists>h \<in> {unat l + 1 ..< unat l' + 1}. P (word_of_nat h :: 'a word)) \<longleftrightarrow> (\<exists>h. l < h \<and> h \<le> l' \<and> P h)"
proof
  assume "\<exists>h \<in> {unat l + 1 ..< unat l' + 1}. P (word_of_nat h :: 'a word)"
  then obtain h where h: "h \<in> {unat l + 1 ..< unat l' + 1}" "P (word_of_nat h :: 'a word)" by blast
  moreover have "h < 2 ^ LENGTH('a)" using h unsigned_less [of l', where 'a = nat] unfolding atLeastLessThan_iff by linarith
  ultimately show "\<exists>h. l < h \<and> h \<le> l' \<and> P h"
    by (intro exI [of _ "word_of_nat h"]) (simp add: word_less_nat_alt word_le_nat_alt unat_of_nat)
next
  assume "\<exists>h. l < h \<and> h \<le> l' \<and> P h"
  then obtain h where "l < h" "h \<le> l'" "P h" by blast
  then show "\<exists>h \<in> {unat l + 1 ..< unat l' + 1}. P (word_of_nat h :: 'a word)"
    by (intro bexI [of _ "unat h"]) (simp_all add: word_less_nat_alt word_le_nat_alt)
qed

text \<open>
  A node that serves blocks: it reports a tip and gives the block at a height exactly when its
  chain has one, and reading changes neither.
\<close>

locale block_source =
  fixes N :: "'nd node_ops" and chain :: "'nd \<Rightarrow> u32 \<Rightarrow> string option" and tip :: "'nd \<Rightarrow> u32"
  assumes height_law: "\<exists>nd'. node_get_block_height N nd = (Inr (tip nd), nd') \<and> chain nd' = chain nd"
    and block_law: "node_get_raw_block_by_height N h nd = (r, nd') \<Longrightarrow>
      chain nd' = chain nd \<and> (case chain nd h of None \<Rightarrow> isl r | Some b \<Rightarrow> r = Inr b)"
begin

lemma scan_heights_covers:
  assumes "scan_heights C B N hashes (map word_of_nat [a ..< b]) found (s, nd) = (found', s', nd')"
    and "a \<le> b" and "b \<le> 2 ^ 32" and "unat (ps_last_scanned_height s) + 1 = a"
  shows "unat (ps_last_scanned_height s') + 1 \<in> {a .. b} \<and> chain nd' = chain nd \<and>
    ps_inflight_hashes s' = ps_inflight_hashes s \<and>
    (\<forall>h \<in> {a ..< unat (ps_last_scanned_height s') + 1}. chain nd (word_of_nat h) \<noteq> None) \<and>
    (unat (ps_last_scanned_height s') + 1 < b \<longrightarrow>
       chain nd (word_of_nat (unat (ps_last_scanned_height s') + 1)) = None) \<and>
    set found' = set found \<union> (\<Union>h \<in> {a ..< unat (ps_last_scanned_height s') + 1}.
       set (scan_block_for_preimages C B (the (chain nd (word_of_nat h))) hashes))"
  using assms
proof (induction "b - a" arbitrary: a found s nd)
  case 0
  then show ?case by simp
next
  case (Suc k)
  then have ab: "a < b" by simp
  then have range: "map word_of_nat [a ..< b] = (word_of_nat a :: u32) # map word_of_nat [Suc a ..< b]"
    by (simp add: upt_conv_Cons)
  obtain r nd1 where r: "node_get_raw_block_by_height N (word_of_nat a) nd = (r, nd1)" by fastforce
  note law = block_law [OF r]
  have una: "unat (word_of_nat a :: u32) = a" using ab Suc.prems(3) by (simp add: unat_of_nat)
  show ?case
  proof (cases "chain nd (word_of_nat a)")
    case None
    then obtain e where "r = Inl e" using law by (auto simp: isl_def)
    then have "found' = found" "s' = s" "nd' = nd1" using Suc.prems(1) r by (simp_all add: range)
    then show ?thesis using law None Suc.prems ab by auto
  next
    case (Some blk)
    let ?s = "s\<lparr>ps_last_scanned_height := word_of_nat a\<rparr>"
    have run: "scan_heights C B N hashes (map word_of_nat [Suc a ..< b])
        (found @ scan_block_for_preimages C B blk hashes) (?s, nd1) = (found', s', nd')"
      using Suc.prems(1) r law Some by (simp add: range)
    have IH: "unat (ps_last_scanned_height s') + 1 \<in> {Suc a .. b} \<and> chain nd' = chain nd1 \<and>
      ps_inflight_hashes s' = ps_inflight_hashes ?s \<and>
      (\<forall>h \<in> {Suc a ..< unat (ps_last_scanned_height s') + 1}. chain nd1 (word_of_nat h) \<noteq> None) \<and>
      (unat (ps_last_scanned_height s') + 1 < b \<longrightarrow>
         chain nd1 (word_of_nat (unat (ps_last_scanned_height s') + 1)) = None) \<and>
      set found' = set (found @ scan_block_for_preimages C B blk hashes) \<union>
        (\<Union>h \<in> {Suc a ..< unat (ps_last_scanned_height s') + 1}.
          set (scan_block_for_preimages C B (the (chain nd1 (word_of_nat h))) hashes))"
      using Suc.hyps(2) Suc.prems ab una by (intro Suc.hyps(1) [OF _ run]) simp_all
    have "{a ..< unat (ps_last_scanned_height s') + 1} =
        insert a {Suc a ..< unat (ps_last_scanned_height s') + 1}"
      using IH by auto
    then show ?thesis using IH law Some by auto
  qed
qed

lemma scan_once_covers:
  assumes "scan_once C B N (s, nd) = (found, s', nd')"
  shows "ps_last_scanned_height s \<le> ps_last_scanned_height s' \<and>
    (\<forall>h. ps_last_scanned_height s < h \<and> h \<le> ps_last_scanned_height s' \<longrightarrow> chain nd h \<noteq> None \<and> h \<le> tip nd) \<and>
    (ps_last_scanned_height s' < tip nd \<longrightarrow> chain nd (ps_last_scanned_height s' + 1) = None) \<and>
    set found = {p. \<exists>h b. ps_last_scanned_height s < h \<and> h \<le> ps_last_scanned_height s' \<and>
      chain nd h = Some b \<and> p \<in> set (scan_block_for_preimages C B b (ps_inflight_hashes s))} \<and>
    sorted found \<and> distinct found \<and> ps_inflight_hashes s' = ps_inflight_hashes s"
proof -
  obtain nd1 where h: "node_get_block_height N nd = (Inr (tip nd), nd1)" "chain nd1 = chain nd"
    using height_law by blast
  let ?l = "unat (ps_last_scanned_height s)" and ?c = "unat (tip nd)"
  show ?thesis
  proof (cases "tip nd \<le> ps_last_scanned_height s")
    case True
    then have "found = []" "s' = s" using assms h by (simp_all add: scan_once_def)
    then show ?thesis using True by auto
  next
    case False
    then have lt: "?l < ?c" by (simp add: word_less_nat_alt not_le)
    have c: "?c < 2 ^ 32" using unsigned_less [of "tip nd", where 'a = nat] by simp
    have range: "height_range (ps_last_scanned_height s) (tip nd) = map word_of_nat [?l + 1 ..< ?c + 1]"
      using lt c by (simp add: height_range_def min_def)
    obtain raw where run: "scan_heights C B N (ps_inflight_hashes s) (map word_of_nat [?l + 1 ..< ?c + 1]) [] (s, nd1)
        = (raw, s', nd')" and found: "found = sort_dedup raw"
      using assms h False by (auto simp: scan_once_def range split: prod.splits)
    let ?l' = "unat (ps_last_scanned_height s')"
    have cov: "?l' + 1 \<in> {?l + 1 .. ?c + 1}" "ps_inflight_hashes s' = ps_inflight_hashes s"
      "\<forall>h \<in> {?l + 1 ..< ?l' + 1}. chain nd (word_of_nat h) \<noteq> None"
      "?l' + 1 < ?c + 1 \<longrightarrow> chain nd (word_of_nat (?l' + 1)) = None"
      "set raw = (\<Union>h \<in> {?l + 1 ..< ?l' + 1}.
         set (scan_block_for_preimages C B (the (chain nd (word_of_nat h))) (ps_inflight_hashes s)))"
      using scan_heights_covers [OF run] lt c h(2) by auto
    have mono: "ps_last_scanned_height s \<le> ps_last_scanned_height s'" "ps_last_scanned_height s' \<le> tip nd"
      using cov(1) by (simp_all add: word_le_nat_alt)
    have "\<not> (\<exists>h \<in> {?l + 1 ..< ?l' + 1}. chain nd (word_of_nat h) = None)" using cov(3) by blast
    then have present: "\<forall>h. ps_last_scanned_height s < h \<and> h \<le> ps_last_scanned_height s' \<longrightarrow> chain nd h \<noteq> None"
      using word_range [of "ps_last_scanned_height s" "ps_last_scanned_height s'" "\<lambda>h. chain nd h = None"]
      by (simp only: simp_thms) metis
    have "ps_last_scanned_height s' < tip nd \<longrightarrow> chain nd (ps_last_scanned_height s' + 1) = None"
      using cov(4) by (simp add: word_less_nat_alt add.commute)
    moreover have "p \<in> set raw \<longleftrightarrow> (\<exists>h b. ps_last_scanned_height s < h \<and> h \<le> ps_last_scanned_height s' \<and>
        chain nd h = Some b \<and> p \<in> set (scan_block_for_preimages C B b (ps_inflight_hashes s)))" for p
      using word_range [of "ps_last_scanned_height s" "ps_last_scanned_height s'"
          "\<lambda>h. p \<in> set (scan_block_for_preimages C B (the (chain nd h)) (ps_inflight_hashes s))"] present
      unfolding cov(5) by (auto, force)
    ultimately show ?thesis
      using mono present cov(2) by (auto simp: found sort_dedup_sorted)
  qed
qed

end

interpretation mock_blocks: block_source mock_node mn_raw_blocks mn_block_height
  by unfold_locales
    (auto simp: mock_get_block_height_def mock_get_raw_block_by_height_def split: option.splits)

text \<open>
  C25. A scan skips no block. After one scan of a node that serves its chain, the scanned height has
  not fallen, every block between the old and the new height was there and was read, the scan stops
  short of the tip only at a block the node does not have, and what it returns are exactly the
  watched preimages published in the blocks it passed, each once, in ascending order.
\<close>

theorem scan_skips_no_block:
  assumes "block_source N chain tip" and "scan_once C B N (s, nd) = (found, s', nd')"
  shows "ps_last_scanned_height s \<le> ps_last_scanned_height s' \<and>
    (\<forall>h. ps_last_scanned_height s < h \<and> h \<le> ps_last_scanned_height s' \<longrightarrow> chain nd h \<noteq> None \<and> h \<le> tip nd) \<and>
    (ps_last_scanned_height s' < tip nd \<longrightarrow> chain nd (ps_last_scanned_height s' + 1) = None) \<and>
    set found = {p. \<exists>h b. ps_last_scanned_height s < h \<and> h \<le> ps_last_scanned_height s' \<and>
      chain nd h = Some b \<and> p \<in> set (scan_block_for_preimages C B b (ps_inflight_hashes s))} \<and>
    sorted found \<and> distinct found \<and> ps_inflight_hashes s' = ps_inflight_hashes s"
  by (rule block_source.scan_once_covers [OF assms])

text \<open>A chain of one block whose only output publishes a preimage.\<close>

definition one_block_node :: MockNode where
  "one_block_node = (MockNode_new 1 (model_pk (SecretKey [7])) ''regtest'')
     \<lparr>mn_raw_blocks := [1 \<mapsto> lower_hex [42]]\<rparr>"

definition one_output :: "bytes \<Rightarrow> bytes list list option" where
  "one_output bs = Some [[OP_RETURN # push_slice (replicate 32 5)]]"

definition watching :: PreimageScanner where
  "watching = watch (model_digest (replicate 32 5)) PreimageScanner_new"

theorem scan_skips_no_block_witness:
  "\<exists>found s' nd'. scan_once model_crypto one_output mock_node (watching, one_block_node) = (found, s', nd') \<and>
     ps_last_scanned_height s' = 1 \<and> set found = {replicate 32 5}"
proof -
  obtain found s' nd' where run:
    "scan_once model_crypto one_output mock_node (watching, one_block_node) = (found, s', nd')"
    by (metis prod_cases3)
  note ok = scan_skips_no_block [OF mock_blocks.block_source_axioms run]
  have chain: "mn_raw_blocks one_block_node h = (if h = 1 then Some (lower_hex [42]) else None)"
    and tip: "mn_block_height one_block_node = 1" for h
    by (simp_all add: one_block_node_def MockNode_new_def)
  have start: "ps_last_scanned_height watching = 0"
    "ps_inflight_hashes watching = [model_digest (replicate 32 5)]"
    by (simp_all add: watching_def watch_def PreimageScanner_new_def)
  have "ps_last_scanned_height s' = 1"
  proof (cases "ps_last_scanned_height s' = 0")
    case True
    then show ?thesis using ok chain [of 1] tip by simp
  next
    case False
    then have "mn_raw_blocks one_block_node (ps_last_scanned_height s') \<noteq> None"
      using ok start by (simp add: word_gt_0)
    then show ?thesis using chain by (metis option.distinct(1))
  qed
  moreover have "pushed_32_byte_values (push_slice (replicate 32 5)) = [replicate 32 5]"
    using pushed_values [of "[replicate 32 5]"] by (simp add: candidates_def)
  then have "set (scan_block_for_preimages model_crypto one_output (lower_hex [42])
      [model_digest (replicate 32 5)]) = {replicate 32 5}"
    by (auto simp: scan_block_for_preimages_def unhex_lower_hex one_output_def scan_script_for_preimages_def)
  ultimately show ?thesis
    using ok run chain start by auto
qed

end
