(* ===== verification/Htlc.thy ===== *)
theory Htlc
  imports Host_Rules
begin

text \<open>
  Model of \<^verbatim>\<open>src/src/htlc.rs\<close>: the manager that answers the accepted-HTLC hook and resolves incoming
  HTLCs from the results of outgoing payments. The startup grace period only delays an answer and
  is left out. The manager state is the table of pending HTLCs beside the world of the controller.
\<close>

section \<open>The manager\<close>

record PendingHtlc =
  ph_result_key :: string
  ph_incoming_scid :: u64
  ph_incoming_htlc_id :: u64
  ph_amount_msat :: u64
  ph_payment_hash :: bytes
  ph_cltv_expiry :: u32
  ph_onion :: bytes
  ph_shared_secret :: "bytes option"

type_synonym pending = "string \<rightharpoonup> PendingHtlc"

definition HtlcManager_new :: pending where
  "HtlcManager_new = Map.empty"

text \<open>\<open>rsplit_once('/')\<close>: the part after the last slash, if there is a slash.\<close>

definition after_last_slash :: "string \<Rightarrow> string option" where
  "after_last_slash s =
     (if CHR ''/'' \<in> set s then Some (rev (takeWhile (\<lambda>c. c \<noteq> CHR ''/'') (rev s))) else None)"

definition htlc_id_of_key :: "string \<Rightarrow> u64" where
  "htlc_id_of_key result_key = unwrap_or 0 (Option.bind (after_last_slash result_key) parse_u64)"

text \<open>Errors of the listing make the lookup fail: \<open>list_channels().await.ok()?\<close>\<close>

definition find_channel_by_scid :: "('st, 'v, 'nd) controller \<Rightarrow> u64 \<Rightarrow> ('st, 'nd, PublicKey option) handler" where
  "find_channel_by_scid E scid =
     acase (list_channels E) (\<lambda>r. case r of
       Inl _ \<Rightarrow> aret None
     | Inr channels \<Rightarrow> aret (List.find (\<lambda>peer_id.
         hosted_short_channel_id (c_node_public E) peer_id = scid) channels))"

definition handle_htlc_accepted :: "('st, 'v, 'nd) controller \<Rightarrow> string \<Rightarrow> u64 option \<Rightarrow> u64 \<Rightarrow> bytes \<Rightarrow>
    u32 \<Rightarrow> bytes \<Rightarrow> bytes option \<Rightarrow> pending \<times> ('st, 'nd) world \<Rightarrow>
    HtlcResolution option \<times> pending \<times> ('st, 'nd) world" where
  "handle_htlc_accepted E result_key incoming_scid amount_msat payment_hash cltv_expiry onion
     shared_secret mw =
     (let (pending, w) = mw in
      case incoming_scid of
        None \<Rightarrow> (Some Continue, pending, w)
      | Some scid \<Rightarrow>
          (case find_channel_by_scid E scid w of
             (Inr (Some peer_id), w1) \<Rightarrow>
               (case on_node (node_lookup_preimage (c_node E) payment_hash) w1 of
                  (Inr (Some preimage), w2) \<Rightarrow> (Some (Resolve preimage), pending, w2)
                | (_, w2) \<Rightarrow>
                    let pending_htlc =
                          \<lparr>ph_result_key = result_key, ph_incoming_scid = scid,
                           ph_incoming_htlc_id = htlc_id_of_key result_key,
                           ph_amount_msat = amount_msat, ph_payment_hash = payment_hash,
                           ph_cltv_expiry = cltv_expiry, ph_onion = onion,
                           ph_shared_secret = shared_secret\<rparr>;
                        htlc =
                          \<lparr>htlc_channel_id = replicate 32 0, htlc_id = 0,
                           htlc_amount_msat = amount_msat, htlc_payment_hash = payment_hash,
                           htlc_cltv_expiry = cltv_expiry, htlc_onion_routing_packet = onion,
                           htlc_tlv_stream = []\<rparr> in
                    (case channel_handle_htlc_add_with_upstream_expiry E peer_id htlc result_key scid
                            (ph_incoming_htlc_id pending_htlc) (ph_shared_secret pending_htlc)
                            (Some cltv_expiry) w2 of
                       (Inr _, w3) \<Rightarrow> (None, pending(result_key \<mapsto> pending_htlc), w3)
                     | (Inl e, w3) \<Rightarrow> (Some (FailMessage 0x1007 []), pending, w3)))
           | (_, w1) \<Rightarrow> (Some Continue, pending, w1)))"

definition handle_payment_result :: "('st, 'v, 'nd) controller \<Rightarrow> u64 \<Rightarrow> u64 \<Rightarrow> PaymentStatus \<Rightarrow>
    ('st, 'nd, unit) handler" where
  "handle_payment_result E outgoing_scid outgoing_htlc_id status =
     (let forward = forward_key outgoing_scid outgoing_htlc_id in
      acase (on_store (get_json (c_store E) (c_link E) forward)) (\<lambda>r. case r of
        Inl _ \<Rightarrow> aret ()
      | Inr (link, _) \<Rightarrow>
          let result_key = result_key_of link in
          (case status of
             Succeeded preimage \<Rightarrow>
               abind (aignore (on_node (node_store_preimage (c_node E) (fl_payment_hash link) preimage))) (\<lambda>_.
               abind (aignore (on_node (node_resolve_htlc (c_node E) result_key (Resolve preimage)))) (\<lambda>_.
               aignore (on_store (store_delete (c_store E) forward))))
           | Failed failure_onion \<Rightarrow>
               abind (aignore (on_node (node_resolve_htlc (c_node E) result_key (ResolveFail failure_onion)))) (\<lambda>_.
               aignore (on_store (store_delete (c_store E) forward)))
           | Pending \<Rightarrow> aret ()
           | Unknown \<Rightarrow> aret ())))"

definition peel_client_onion :: "('st, 'v, 'nd) controller \<Rightarrow> bytes \<Rightarrow> bytes \<Rightarrow> sphinx_fault + PeeledOnion" where
  "peel_client_onion E onion payment_hash =
     peel_onion (c_crypto E) (c_node_secret E) onion payment_hash"

section \<open>The manager keeps what the controller keeps\<close>

context host
begin

lemma find_channel_ok: "maintains W (find_channel_by_scid E scid) (\<lambda>_. True)"
  unfolding find_channel_by_scid_def
  by (intro maintains_acase_any list_channels_ok) (auto intro!: maintains_aret split: sum.split)

lemma accepted_ok:
  assumes "W w"
  shows "W (snd (snd (handle_htlc_accepted E key scid amt hash cltv onion ss (pending, w))))"
proof (cases scid)
  case None
  then show ?thesis using assms by (simp add: handle_htlc_accepted_def)
next
  case (Some s)
  obtain r1 w1 where find: "find_channel_by_scid E s w = (r1, w1)" by fastforce
  have w1: "W w1" using maintainsD [OF find_channel_ok assms find] by blast
  obtain r2 w2 where look: "on_node (node_lookup_preimage (c_node E) hash) w1 = (r2, w2)" by fastforce
  have w2: "W w2" using maintainsD [OF maintains_on_node w1 look] by blast
  have "W (snd (channel_handle_htlc_add_with_upstream_expiry E p h key s i t u w2))" for p h i t u
    using maintains_snd [OF htlc_add_with_expiry_ok w2] by blast
  then show ?thesis
    using w1 w2 Some find look
    by (auto simp: handle_htlc_accepted_def Let_def split: sum.splits option.splits prod.splits)
      (metis snd_conv)+
qed

lemma payment_result_ok: "maintains W (handle_payment_result E a b s) (\<lambda>_. True)"
  unfolding handle_payment_result_def Let_def
  by (intro maintains_acase_any maintains_case_sum maintains_case_prod)
    (auto intro!: maintains_aret maintains_abind_unit maintains_aignore maintains_on_node
      maintains_on_store delete_ok maintains_weaken [OF get_json_ok] split: PaymentStatus.split)

end

end
