(* ===== verification/Cln_Node.thy ===== *)
theory Cln_Node
  imports Cln_Store Node Channel_Id
begin

text \<open>
  Model of \<^verbatim>\<open>src/src/cln_node.rs\<close>: the node operations as calls of lightningd's RPC, and the parsing of
  the JSON answers. The RPC client, the hex crate and the text form of public keys are parameters,
  fields of \<open>cln_node\<close>. The state is that of lightningd together with the table of resolutions that
  the accepted-HTLC hook picks up.
\<close>

section \<open>Parsing answers\<close>

record 'rpc cln_node = "'rpc cln" +
  cn_node_id :: PublicKey
  cn_pk_to_string :: "PublicKey \<Rightarrow> string"
  cn_pk_from_str :: "string \<Rightarrow> string + PublicKey"

record 'rpc ClnNode =
  cn_rpc :: 'rpc
  cn_pending_resolutions :: "string \<rightharpoonup> HtlcResolution"

record FirstHop =
  fh_id :: PublicKey

definition peer_connection_states_from_listpeers :: "(string \<Rightarrow> string + PublicKey) \<Rightarrow> Value \<Rightarrow>
    NodeError + (PublicKey \<rightharpoonup> bool)" where
  "peer_connection_states_from_listpeers from_str response =
     (case get_as as_array response ''peers'' of
        None \<Rightarrow> Inl (Rpc ''listpeers missing peers array'')
      | Some peers \<Rightarrow> Inr (foldl (\<lambda>states peer.
          case get_as as_str peer ''id'' of None \<Rightarrow> states
          | Some text \<Rightarrow> (case from_str text of Inl _ \<Rightarrow> states
              | Inr pk \<Rightarrow> states(pk \<mapsto>
                  (case get_as as_bool peer ''connected'' of None \<Rightarrow> False | Some c \<Rightarrow> c))))
          Map.empty peers))"

text \<open>The filter of the loop: the channel is the asked one, ours to send on, and not inactive.\<close>

definition usable_channel :: "string \<Rightarrow> u64 \<Rightarrow> Value \<Rightarrow> bool" where
  "usable_channel node_id scid channel \<longleftrightarrow>
     Option.bind (get_as as_str channel ''short_channel_id'') parse_short_channel_id = Some scid \<and>
     get_as as_str channel ''source'' = Some node_id \<and>
     get_as as_bool channel ''active'' \<noteq> Some False"

definition first_hop_from_listchannels :: "('rpc, 'x) cln_node_scheme \<Rightarrow> u64 \<Rightarrow> Value \<Rightarrow>
    NodeError + FirstHop" where
  "first_hop_from_listchannels N scid response =
     (case get_as as_array response ''channels'' of
        None \<Rightarrow> Inl (Rpc ''listchannels missing channels array'')
      | Some channels \<Rightarrow>
          (case List.find (usable_channel (cn_pk_to_string N (cn_node_id N)) scid) channels of
             None \<Rightarrow> Inl (NodeNotFound (''active outgoing channel for scid '' @ format_short_channel_id scid))
           | Some channel \<Rightarrow>
               (case get_as as_str channel ''destination'' of
                  None \<Rightarrow> Inl (Rpc ''listchannels entry missing destination'')
                | Some destination \<Rightarrow>
                    (case cn_pk_from_str N destination of Inl e \<Rightarrow> Inl (Rpc e)
                     | Inr pk \<Rightarrow> Inr \<lparr>fh_id = pk\<rparr>))))"

text \<open>What the loop over the payments returns for one of them; \<open>None\<close> goes on to the next.\<close>

definition payment_status_of :: "('rpc, 'x) cln_node_scheme \<Rightarrow> string \<Rightarrow> Value \<Rightarrow>
    (NodeError + PaymentStatus) option" where
  "payment_status_of N label payment =
     (if get_as as_str payment ''label'' \<noteq> Some label then None
      else case get_as as_str payment ''status'' of
        None \<Rightarrow> None
      | Some status \<Rightarrow>
          if status = ''complete'' then
            Some (case get_as as_str payment ''payment_preimage'' of
                None \<Rightarrow> Inl (Rpc ''complete sendpay missing preimage'')
              | Some preimage_hex \<Rightarrow>
                  (case hex_decode (cl_crypto N) preimage_hex of
                     None \<Rightarrow> Inl (Rpc (cl_hex_error N preimage_hex))
                   | Some bytes \<Rightarrow>
                       if length bytes \<noteq> 32 then Inl (Rpc ''preimage is not 32 bytes'')
                       else Inr (Succeeded bytes)))
          else if status = ''failed'' then
            Some (Inr (Failed
              (case Option.bind (case json_get payment ''erroronion'' of
                       None \<Rightarrow> json_get payment ''onionreply'' | Some v \<Rightarrow> Some v) as_str of
                 None \<Rightarrow> []
               | Some onion \<Rightarrow> (case hex_decode (cl_crypto N) onion of None \<Rightarrow> [] | Some b \<Rightarrow> b))))
          else if status = ''pending'' then Some (Inr Pending)
          else None)"

fun first_status :: "('rpc, 'x) cln_node_scheme \<Rightarrow> string \<Rightarrow> Value list \<Rightarrow> NodeError + PaymentStatus" where
  "first_status N label [] = Inr Unknown"
| "first_status N label (payment # pays) =
     (case payment_status_of N label payment of Some r \<Rightarrow> r | None \<Rightarrow> first_status N label pays)"

definition payment_status_from_listsendpays_response :: "('rpc, 'x) cln_node_scheme \<Rightarrow> string \<Rightarrow> Value \<Rightarrow>
    NodeError + PaymentStatus" where
  "payment_status_from_listsendpays_response N label response =
     (case get_as as_array response ''payments'' of
        None \<Rightarrow> Inr Unknown
      | Some pays \<Rightarrow> first_status N label pays)"

definition sendonion_params :: "('rpc, 'x) cln_node_scheme \<Rightarrow> FirstHop \<Rightarrow> SendOnionParams \<Rightarrow> Value" where
  "sendonion_params N first_hop p =
     JObject
      [(''onion'', JString (hex_encode (cl_crypto N) (sop_onion p))),
       (''payment_hash'', JString (hex_encode (cl_crypto N) (sop_payment_hash p))),
       (''label'', JString (sop_label p)),
       (''groupid'', JNumber (PosInt (sop_group_id p))),
       (''partid'', JNumber (PosInt (sop_part_id p))),
       (''first_hop'', JObject
          [(''id'', JString (cn_pk_to_string N (fh_id first_hop))),
           (''amount_msat'', JString (dec_nat (unat (sop_first_amount_msat p)) @ ''msat'')),
           (''delay'', JNumber (PosInt (ucast (sop_first_delay p))))])]"

section \<open>Calls\<close>

definition ClnNode_from_rpc :: "'rpc \<Rightarrow> 'rpc ClnNode" where
  "ClnNode_from_rpc rpc = \<lparr>cn_rpc = rpc, cn_pending_resolutions = Map.empty\<rparr>"

definition take_resolution :: "string \<Rightarrow> 'rpc ClnNode \<Rightarrow> HtlcResolution option \<times> 'rpc ClnNode" where
  "take_resolution key nd =
     (cn_pending_resolutions nd key,
      nd\<lparr>cn_pending_resolutions := (cn_pending_resolutions nd)(key := None)\<rparr>)"

definition cln_call :: "('rpc, 'x) cln_node_scheme \<Rightarrow> string \<Rightarrow> Value \<Rightarrow> ('rpc ClnNode, NodeError, Value) action" where
  "cln_call N method params =
     azoom cn_rpc (\<lambda>rpc nd. nd\<lparr>cn_rpc := rpc\<rparr>) (amap_err (\<lambda>e. Rpc (rpc_message e)) (cl_call N method params))"

definition first_hop_for_scid :: "('rpc, 'x) cln_node_scheme \<Rightarrow> u64 \<Rightarrow> ('rpc ClnNode, NodeError, FirstHop) action" where
  "first_hop_for_scid N scid =
     abind (cln_call N ''listchannels''
         (JObject [(''short_channel_id'', JString (format_short_channel_id scid))])) (\<lambda>response.
     alift (first_hop_from_listchannels N scid response))"

definition peer_connection_states :: "('rpc, 'x) cln_node_scheme \<Rightarrow>
    ('rpc ClnNode, NodeError, PublicKey \<rightharpoonup> bool) action" where
  "peer_connection_states N =
     abind (cln_call N ''listpeers'' (JObject [])) (\<lambda>response.
     alift (peer_connection_states_from_listpeers (cn_pk_from_str N) response))"

definition cln_send_custom_msg :: "('rpc, 'x) cln_node_scheme \<Rightarrow> PublicKey \<Rightarrow> bytes \<Rightarrow>
    ('rpc ClnNode, NodeError, unit) action" where
  "cln_send_custom_msg N peer_pubkey msg_bytes =
     abind (cln_call N ''sendcustommsg'' (JObject
         [(''node_id'', JString (cn_pk_to_string N peer_pubkey)),
          (''msg'', JString (hex_encode (cl_crypto N) msg_bytes))])) (\<lambda>_. aret ())"

definition cln_send_onion :: "('rpc, 'x) cln_node_scheme \<Rightarrow> SendOnionParams \<Rightarrow>
    ('rpc ClnNode, NodeError, unit) action" where
  "cln_send_onion N p =
     abind (first_hop_for_scid N (sop_first_scid p)) (\<lambda>first_hop.
     abind (cln_call N ''sendonion'' (sendonion_params N first_hop p)) (\<lambda>_. aret ()))"

definition cln_inspect_outgoing_payment :: "('rpc, 'x) cln_node_scheme \<Rightarrow> bytes \<Rightarrow> string \<Rightarrow>
    ('rpc ClnNode, NodeError, PaymentStatus) action" where
  "cln_inspect_outgoing_payment N payment_hash label =
     abind (cln_call N ''listsendpays''
         (JObject [(''payment_hash'', JString (hex_encode (cl_crypto N) payment_hash))])) (\<lambda>response.
     alift (payment_status_from_listsendpays_response N label response))"

definition cln_get_block_height :: "('rpc, 'x) cln_node_scheme \<Rightarrow> ('rpc ClnNode, NodeError, u32) action" where
  "cln_get_block_height N =
     abind (cln_call N ''getinfo'' (JObject [])) (\<lambda>response.
     alift (ok_or (map_option ucast (get_as as_u64 response ''blockheight''))
       (Rpc ''getinfo missing blockheight'')))"

text \<open>\<open>response.get(a).or_else(|| response.get(b)).and_then(as_str)\<close>\<close>

definition first_string :: "Value \<Rightarrow> string \<Rightarrow> string \<Rightarrow> string option" where
  "first_string response a b =
     Option.bind (case json_get response a of None \<Rightarrow> json_get response b | Some v \<Rightarrow> Some v) as_str"

definition cln_get_raw_block_by_height :: "('rpc, 'x) cln_node_scheme \<Rightarrow> u32 \<Rightarrow>
    ('rpc ClnNode, NodeError, string) action" where
  "cln_get_raw_block_by_height N height =
     abind (cln_call N ''getrawblockbyheight''
         (JObject [(''height'', JNumber (PosInt (ucast height)))])) (\<lambda>response.
     alift (ok_or (first_string response ''block'' ''hex'')
       (Rpc ''getrawblockbyheight missing block hex'')))"

definition cln_new_address :: "('rpc, 'x) cln_node_scheme \<Rightarrow> ('rpc ClnNode, NodeError, string) action" where
  "cln_new_address N =
     abind (cln_call N ''newaddr'' (JObject [])) (\<lambda>response.
     alift (ok_or (first_string response ''bech32'' ''p2tr'') (Rpc ''newaddr returned no address'')))"

definition cln_resolve_htlc :: "string \<Rightarrow> HtlcResolution \<Rightarrow> ('rpc ClnNode, NodeError, unit) action" where
  "cln_resolve_htlc result_key resolution =
     amodify (\<lambda>nd. nd\<lparr>cn_pending_resolutions := (cn_pending_resolutions nd)(result_key \<mapsto> resolution)\<rparr>)"

definition cln_get_info :: "('rpc, 'x) cln_node_scheme \<Rightarrow> ('rpc ClnNode, NodeError, NodeInfo) action" where
  "cln_get_info N =
     abind (cln_call N ''getinfo'' (JObject [])) (\<lambda>response.
     aret \<lparr>ni_network = (case get_as as_str response ''network'' of None \<Rightarrow> [] | Some s \<Rightarrow> s),
           ni_chain_hash = replicate 32 0,
           ni_block_height = ucast (case get_as as_u64 response ''blockheight'' of None \<Rightarrow> 0 | Some h \<Rightarrow> h),
           ni_our_pubkey = cn_node_id N\<rparr>)"

definition preimage_key :: "'c crypto_scheme \<Rightarrow> bytes \<Rightarrow> key" where
  "preimage_key C payment_hash = [''canopus'', ''preimages'', hex_encode C payment_hash]"

definition cln_store_preimage :: "('rpc, 'x) cln_node_scheme \<Rightarrow> bytes \<Rightarrow> bytes \<Rightarrow>
    ('rpc ClnNode, NodeError, unit) action" where
  "cln_store_preimage N payment_hash preimage =
     abind (cln_call N ''datastore'' (datastore_params (preimage_key (cl_crypto N) payment_hash)
         (Some (hex_encode (cl_crypto N) preimage)) ''create-or-replace'' None)) (\<lambda>_. aret ())"

definition cln_lookup_preimage :: "('rpc, 'x) cln_node_scheme \<Rightarrow> bytes \<Rightarrow>
    ('rpc ClnNode, NodeError, bytes option) action" where
  "cln_lookup_preimage N payment_hash =
     abind (cln_call N ''listdatastore'' (key_params (preimage_key (cl_crypto N) payment_hash))) (\<lambda>response.
     case get_as as_array response ''datastore'' of
       None \<Rightarrow> aret None
     | Some [] \<Rightarrow> aret None
     | Some (entry # _) \<Rightarrow>
         (case get_as as_str entry ''hex'' of
            None \<Rightarrow> aret None
          | Some hex_value \<Rightarrow>
              (case hex_decode (cl_crypto N) hex_value of
                 None \<Rightarrow> afail (Rpc (cl_hex_error N hex_value))
               | Some bytes \<Rightarrow>
                   if length bytes \<noteq> 32 then afail (Rpc ''preimage is not 32 bytes'')
                   else aret (Some bytes))))"

definition cln_delete_preimage :: "('rpc, 'x) cln_node_scheme \<Rightarrow> bytes \<Rightarrow>
    ('rpc ClnNode, NodeError, unit) action" where
  "cln_delete_preimage N payment_hash =
     abind (cln_call N ''deldatastore'' (key_params (preimage_key (cl_crypto N) payment_hash))) (\<lambda>_. aret ())"

definition cln_node_ops :: "('rpc, 'x) cln_node_scheme \<Rightarrow> 'rpc ClnNode node_ops" where
  "cln_node_ops N =
     \<lparr>node_send_custom_msg = cln_send_custom_msg N, node_send_onion = cln_send_onion N,
      node_inspect_outgoing_payment = cln_inspect_outgoing_payment N,
      node_get_block_height = cln_get_block_height N,
      node_get_raw_block_by_height = cln_get_raw_block_by_height N,
      node_new_address = cln_new_address N, node_resolve_htlc = cln_resolve_htlc,
      node_get_info = cln_get_info N, node_store_preimage = cln_store_preimage N,
      node_lookup_preimage = cln_lookup_preimage N, node_delete_preimage = cln_delete_preimage N\<rparr>"

section \<open>What the answers say\<close>

text \<open>A concrete adapter over the concrete datastore.\<close>

definition model_node :: "datastore cln_node" where
  "model_node = cln.extend model_cln
     \<lparr>cn_node_id = model_pk (SecretKey [7]), cn_pk_to_string = (\<lambda>pk. lower_hex (serialize pk)),
      cn_pk_from_str = (\<lambda>s. Inr (model_pk (SecretKey [9])))\<rparr>"

lemma payment_status_of_Inr:
  assumes "payment_status_of N label p = Some (Inr s)"
  shows "get_as as_str p ''label'' = Some label \<and>
    (case s of
       Succeeded preimage \<Rightarrow> get_as as_str p ''status'' = Some ''complete'' \<and> length preimage = 32 \<and>
         Option.bind (get_as as_str p ''payment_preimage'') (hex_decode (cl_crypto N)) = Some preimage
     | Failed onion \<Rightarrow> get_as as_str p ''status'' = Some ''failed''
     | Pending \<Rightarrow> get_as as_str p ''status'' = Some ''pending''
     | Unknown \<Rightarrow> False)"
proof -
  have label: "get_as as_str p ''label'' = Some label"
    using assms by (simp add: payment_status_of_def split: if_splits)
  obtain status where status: "get_as as_str p ''status'' = Some status"
    using assms label by (cases "get_as as_str p ''status''") (simp_all add: payment_status_of_def)
  consider "status = ''complete''" | "status = ''failed''" | "status = ''pending''"
    using assms label status by (simp add: payment_status_of_def split: if_splits)
  then show ?thesis
  proof cases
    case 1
    then show ?thesis
      using assms label status
      by (auto simp: payment_status_of_def split: option.splits if_splits)
  next
    case 2
    then show ?thesis using assms label status by (auto simp: payment_status_of_def)
  next
    case 3
    then show ?thesis using assms label status by (auto simp: payment_status_of_def)
  qed
qed

lemma first_status_Inr:
  assumes "first_status N label pays = Inr s"
  shows "(s = Unknown \<and> (\<forall>p \<in> set pays. payment_status_of N label p = None)) \<or>
    (\<exists>p \<in> set pays. payment_status_of N label p = Some (Inr s))"
  using assms by (induction pays) (auto split: option.splits)

lemma model_node_sel [simp]:
  "cl_call model_node = model_datastore" "cl_crypto model_node = model_crypto"
  "cn_node_id model_node = model_pk (SecretKey [7])" "cn_pk_to_string model_node pk = lower_hex (serialize pk)"
  "cn_pk_from_str model_node s = Inr (model_pk (SecretKey [9]))"
  by (simp_all add: model_node_def cln.defs model_cln_def)

text \<open>
  The status of an outgoing payment is never taken from another payment: a success is reported only
  from a payment with the asked label that lightningd lists as complete, with its 32-byte preimage, a
  failure and a pending state only from one it lists as failed or pending, and unknown only if no
  payment with the label has any of these states.
\<close>

theorem payment_status_is_genuine:
  assumes "payment_status_from_listsendpays_response N label response = Inr s"
    and "get_as as_array response ''payments'' = Some pays"
  shows "case s of
      Succeeded preimage \<Rightarrow> length preimage = 32 \<and> (\<exists>p \<in> set pays.
        get_as as_str p ''label'' = Some label \<and> get_as as_str p ''status'' = Some ''complete'' \<and>
        Option.bind (get_as as_str p ''payment_preimage'') (hex_decode (cl_crypto N)) = Some preimage)
    | Failed onion \<Rightarrow> (\<exists>p \<in> set pays. get_as as_str p ''label'' = Some label \<and>
        get_as as_str p ''status'' = Some ''failed'')
    | Pending \<Rightarrow> (\<exists>p \<in> set pays. get_as as_str p ''label'' = Some label \<and>
        get_as as_str p ''status'' = Some ''pending'')
    | Unknown \<Rightarrow> (\<forall>p \<in> set pays. get_as as_str p ''label'' = Some label \<longrightarrow>
        get_as as_str p ''status'' \<notin> {Some ''complete'', Some ''failed'', Some ''pending''})"
proof -
  have "first_status N label pays = Inr s"
    using assms by (simp add: payment_status_from_listsendpays_response_def)
  from first_status_Inr [OF this] show ?thesis
  proof
    assume "s = Unknown \<and> (\<forall>p \<in> set pays. payment_status_of N label p = None)"
    then show ?thesis by (auto simp: payment_status_of_def split: if_splits option.splits)
  next
    assume "\<exists>p \<in> set pays. payment_status_of N label p = Some (Inr s)"
    then obtain p where "p \<in> set pays" "payment_status_of N label p = Some (Inr s)" by blast
    then show ?thesis using payment_status_of_Inr [of N label p s] by (cases s) auto
  qed
qed

theorem payment_status_is_genuine_witness:
  "payment_status_from_listsendpays_response model_node ''2/2''
      (JObject [(''payments'', JArray [JObject [(''label'', JString ''1/1''), (''status'', JString ''complete'')],
         JObject [(''label'', JString ''2/2''), (''status'', JString ''pending'')]])]) = Inr Pending \<and>
   (\<exists>p \<in> set [JObject [(''label'', JString ''1/1''), (''status'', JString ''complete'')],
         JObject [(''label'', JString ''2/2''), (''status'', JString ''pending'')]].
      get_as as_str p ''label'' = Some ''2/2'' \<and> get_as as_str p ''status'' = Some ''pending'')"
proof -
  let ?pays = "[JObject [(''label'', JString ''1/1''), (''status'', JString ''complete'')],
         JObject [(''label'', JString ''2/2''), (''status'', JString ''pending'')]]"
  have run: "payment_status_from_listsendpays_response model_node ''2/2''
      (JObject [(''payments'', JArray ?pays)]) = Inr Pending"
    by (simp add: payment_status_from_listsendpays_response_def payment_status_of_def)
  then show ?thesis
    using payment_status_is_genuine [OF run, of ?pays] by simp
qed

text \<open>
  The first hop of an outgoing payment is the destination of a channel with the asked short channel
  id whose source is this node and which is not inactive, and the answer is not-found exactly when
  the listing has no such channel.
\<close>

theorem first_hop_is_usable:
  assumes "get_as as_array response ''channels'' = Some channels"
  shows "(\<forall>hop. first_hop_from_listchannels N scid response = Inr hop \<longrightarrow>
      (\<exists>c \<in> set channels. usable_channel (cn_pk_to_string N (cn_node_id N)) scid c \<and>
         (\<exists>d. get_as as_str c ''destination'' = Some d \<and> cn_pk_from_str N d = Inr (fh_id hop)))) \<and>
    ((\<exists>t. first_hop_from_listchannels N scid response = Inl (NodeNotFound t)) \<longleftrightarrow>
      (\<forall>c \<in> set channels. \<not> usable_channel (cn_pk_to_string N (cn_node_id N)) scid c))"
proof (cases "List.find (usable_channel (cn_pk_to_string N (cn_node_id N)) scid) channels")
  case None
  then have "\<forall>c \<in> set channels. \<not> usable_channel (cn_pk_to_string N (cn_node_id N)) scid c"
    by (simp add: find_None_iff)
  moreover have "first_hop_from_listchannels N scid response =
      Inl (NodeNotFound (''active outgoing channel for scid '' @ format_short_channel_id scid))"
    using assms None by (simp add: first_hop_from_listchannels_def)
  ultimately show ?thesis by auto
next
  case (Some c)
  then have "c \<in> set channels" "usable_channel (cn_pk_to_string N (cn_node_id N)) scid c"
    by (auto simp: find_Some_iff)
  then show ?thesis
    using assms Some
    by (auto simp: first_hop_from_listchannels_def split: option.splits sum.splits)
qed

theorem first_hop_is_usable_witness:
  "\<exists>c \<in> set [JObject [(''short_channel_id'', JString (format_short_channel_id 42)),
       (''source'', JString (lower_hex (serialize (model_pk (SecretKey [7]))))), (''destination'', JString ''peer'')]].
     usable_channel (cn_pk_to_string model_node (cn_node_id model_node)) 42 c \<and>
     (\<exists>d. get_as as_str c ''destination'' = Some d \<and> cn_pk_from_str model_node d = Inr (model_pk (SecretKey [9])))"
proof -
  let ?chans = "[JObject [(''short_channel_id'', JString (format_short_channel_id 42)),
       (''source'', JString (lower_hex (serialize (model_pk (SecretKey [7]))))), (''destination'', JString ''peer'')]]"
  have "first_hop_from_listchannels model_node 42 (JObject [(''channels'', JArray ?chans)]) =
      Inr \<lparr>fh_id = model_pk (SecretKey [9])\<rparr>"
    by (simp add: first_hop_from_listchannels_def usable_channel_def parse_format_scid)
  then show ?thesis
    using first_hop_is_usable [of "JObject [(''channels'', JArray ?chans)]" ?chans model_node 42] by simp
qed

section \<open>Preimages\<close>

text \<open>
  The datastore call with which preimages are written, and that nothing is stored below them.
\<close>

definition upsert_ok :: "('rpc, 'x) cln_scheme \<Rightarrow> ('rpc \<Rightarrow> key \<Rightarrow> (u64 \<times> bytes) option) \<Rightarrow> bool" where
  "upsert_ok L content \<longleftrightarrow>
     (\<forall>k b st v st'. cl_call L ''datastore''
          (datastore_params k (Some (hex_encode (cl_crypto L) b)) ''create-or-replace'' None) st =
          (Inr v, st') \<longrightarrow>
        (\<exists>g. content st' = (content st)(k \<mapsto> (g, b))))"

definition preimages_flat :: "('rpc, 'x) cln_scheme \<Rightarrow> ('rpc \<Rightarrow> key \<Rightarrow> (u64 \<times> bytes) option) \<Rightarrow> bool" where
  "preimages_flat L content \<longleftrightarrow>
     (\<forall>st h j. content st j \<noteq> None \<longrightarrow> take 3 j = preimage_key (cl_crypto L) h \<longrightarrow>
        j = preimage_key (cl_crypto L) h)"

definition known_preimages :: "('rpc, 'x) cln_scheme \<Rightarrow> ('rpc \<Rightarrow> key \<Rightarrow> (u64 \<times> bytes) option) \<Rightarrow>
    'rpc ClnNode \<Rightarrow> bytes \<rightharpoonup> bytes" where
  "known_preimages L content nd h = map_option snd (content (cn_rpc nd) (preimage_key (cl_crypto L) h))"

lemma flat_heads:
  assumes "preimages_flat L content"
  shows "heads (content st) (preimage_key (cl_crypto L) h) =
    (if content st (preimage_key (cl_crypto L) h) = None then {} else {preimage_key (cl_crypto L) h})"
proof -
  let ?k = "preimage_key (cl_crypto L) h"
  have "j = ?k" if "content st j \<noteq> None" "take (length ?k) j = ?k" for j
    using assms that unfolding preimages_flat_def by (simp add: preimage_key_def eval_nat_numeral)
  then have "\<not> (content st j \<noteq> None \<and> take (length ?k) j = ?k \<and> length ?k < length j)" for j
    by (metis order_less_irrefl)
  then show ?thesis unfolding heads_def by auto
qed

lemma cln_keeps_preimage:
  fixes nd :: "'a ClnNode"
  assumes "hex_ok (cl_crypto N)" and up: "upsert_ok N content"
    and "node_store_preimage (cln_node_ops N) h p nd = (Inr (), nd')"
  shows "known_preimages N content nd' = (known_preimages N content nd)(h \<mapsto> p)"
proof -
  have inj: "preimage_key (cl_crypto N) a = preimage_key (cl_crypto N) b \<longleftrightarrow> a = b" for a b
    using assms(1) by (metis hex_ok_def list.inject option.inject preimage_key_def)
  from assms(3) obtain v st' where call: "cl_call N ''datastore'' (datastore_params (preimage_key (cl_crypto N) h)
      (Some (hex_encode (cl_crypto N) p)) ''create-or-replace'' None) (cn_rpc nd) = (Inr v, st')"
    and nd': "nd' = nd\<lparr>cn_rpc := st'\<rparr>"
    by (auto simp: cln_node_ops_def cln_store_preimage_def cln_call_def azoom_def abind_run amap_err_def
        split: prod.splits sum.splits)
  then obtain g where "content st' = (content (cn_rpc nd))(preimage_key (cl_crypto N) h \<mapsto> (g, p))"
    using up unfolding upsert_ok_def by blast
  then show ?thesis by (auto simp: nd' known_preimages_def fun_eq_iff inj)
qed

lemma cln_finds_preimage:
  fixes nd :: "'a ClnNode"
  assumes ok: "datastore_ok N content" and flat: "preimages_flat N content"
    and run: "node_lookup_preimage (cln_node_ops N) h nd = (Inr q, nd'')"
  shows "known_preimages N content nd'' = known_preimages N content nd \<and> q = known_preimages N content nd h"
proof -
  let ?k = "preimage_key (cl_crypto N) h"
  have hex: "hex_decode (cl_crypto N) (hex_encode (cl_crypto N) b) = Some b" for b
    using ok by (simp add: datastore_ok_def hex_ok_def)
  obtain r st1 where call: "cl_call N ''listdatastore'' (key_params ?k) (cn_rpc nd) = (r, st1)" by fastforce
  then obtain v where r: "r = Inr v"
    using run by (cases r) (auto simp: cln_node_ops_def cln_lookup_preimage_def cln_call_def azoom_def
        abind_run amap_err_def)
  have "content st1 = content (cn_rpc nd) \<and> (\<exists>es. get_as as_array v ''datastore'' = Some es \<and>
      set es = (\<lambda>j. entry_json (cl_crypto N) j (content (cn_rpc nd) j)) ` heads (content (cn_rpc nd)) ?k)"
    using ok call r unfolding datastore_ok_def list_ok_def by fastforce
  then obtain es where same: "content st1 = content (cn_rpc nd)"
    and es: "get_as as_array v ''datastore'' = Some es"
    and set: "set es = (if content (cn_rpc nd) ?k = None then {}
      else {entry_json (cl_crypto N) ?k (content (cn_rpc nd) ?k)})"
    by (auto simp: flat_heads [OF flat])
  have "nd'' = nd\<lparr>cn_rpc := st1\<rparr> \<and> q = known_preimages N content nd h"
  proof (cases "content (cn_rpc nd) ?k")
    case None
    then show ?thesis
      using run call r es set by (auto simp: cln_node_ops_def cln_lookup_preimage_def cln_call_def azoom_def
          abind_run amap_err_def known_preimages_def)
  next
    case (Some e)
    then obtain e' es' where "es = e' # es'" "e' = entry_json (cl_crypto N) ?k (Some e)"
      using set by (cases es) auto
    then show ?thesis
      using run call r es Some hex
      by (cases e) (auto simp: cln_node_ops_def cln_lookup_preimage_def cln_call_def azoom_def
          abind_run amap_err_def known_preimages_def entry_json_def split: if_splits)
  qed
  then show ?thesis
    using same by (simp add: known_preimages_def fun_eq_iff)
qed

lemma cln_preimages_lawful:
  assumes "datastore_ok N content" and "upsert_ok N content" and "preimages_flat N content"
  shows "preimage_store (cln_node_ops N) (known_preimages N content)"
  by unfold_locales (use assms in \<open>auto simp: datastore_ok_def intro: cln_keeps_preimage dest: cln_finds_preimage [OF assms(1,3)]\<close>)

text \<open>
  C33. Preimages are safe in the datastore: over a datastore that behaves as documented, a preimage that
  was stored is what a later lookup returns for its hash, other preimages stay as they were, and a
  lookup changes none, which is the contract under which the channel logic settles HTLCs.
\<close>

theorem cln_preimages_refine_contract:
  assumes "datastore_ok N content" and "upsert_ok N content" and "preimages_flat N content"
  shows "preimage_store (cln_node_ops N) (known_preimages N content)"
  using assms by (rule cln_preimages_lawful)

theorem cln_preimages_refine_contract_witness:
  "preimage_store (cln_node_ops model_node) (known_preimages model_node ds_content)"
proof (rule cln_preimages_refine_contract)
  show "datastore_ok model_node ds_content"
    using model_datastore_ok datastore_ok_cong [of model_cln model_node ds_content] by simp
  show "upsert_ok model_node ds_content"
    by (auto simp: upsert_ok_def model_datastore_def split: if_splits)
  show "preimages_flat model_node ds_content"
  proof -
    have "j = preimage_key model_crypto h"
      if "ds_content st j \<noteq> None" and pre: "take 3 j = preimage_key model_crypto h" for st h j
    proof -
      have "storable j" using that(1) by (simp add: ds_content_def split: if_splits)
      moreover have "take 2 j = [''canopus'', ''preimages'']"
        using arg_cong [OF pre, of "take 2"] by (simp add: min_def preimage_key_def)
      ultimately have "length j = 3" by (simp add: storable_def)
      then show ?thesis using pre by simp
    qed
    then show ?thesis unfolding preimages_flat_def by simp
  qed
qed

end
