(* ===== verification/Spec2Isabelle.thy ===== *)
theory Spec2Isabelle
  imports Production Host_Runs Subtree Contract Gossip Config Channel_Id Onion Scanner Keys Htlc Cln_Node
begin

text \<open>
  Canopus is a Core Lightning plugin that hosts channels: the host keeps, for each client, a last
  cross-signed state (LCSS) that both have signed instead of an on-chain channel, and forwards the
  client's HTLCs between hosted channels and the Lightning network.

  \<^bold>\<open>The program and the theories.\<close> Sources are under \<^verbatim>\<open>src/src/\<close>; every theory opens with what it holds.

  \<^item> Shared: \<open>Prelude\<close> has Rust's results, checked and saturating words, byte order, decimal strings and
    UTF-8; \<open>Action\<close> the state-and-error monad of the handlers with its invariant rules (\<open>maintains\<close>);
    \<open>External\<close> the crates for hashing, signing and hexadecimal as a record of functions; \<open>Json\<close> the
    values of \<^verbatim>\<open>serde_json\<close>.
  \<^item> Wire format: \<open>Codecs\<close> (\<^verbatim>\<open>wire/codecs.rs\<close>), \<open>Lcss\<close> (\<^verbatim>\<open>wire/lcss.rs\<close>) and \<open>Wire\<close> (\<^verbatim>\<open>wire/mod.rs\<close>). Readers are
    functions from the input to a value and a rest or an error.
  \<^item> Channel logic: \<open>State\<close> (\<^verbatim>\<open>state.rs\<close>) folds uncommitted updates into the next state. \<open>Controller\<close>,
    \<open>Forwarding\<close> and \<open>Channel\<close> are \<^verbatim>\<open>channel.rs\<close>: the controller with its collaborators, status and
    persistence; offering, resolving, recovering and timing out HTLCs; the message handlers and the
    operations of the administrator. A handler is an action on a \<open>world\<close>: the store, the outside
    node, the peer tables, and a history that no code reads. It notes the saved channels, the messages sent, the
    preimages handed to the node, the payments sent to the network and the forwards failed.
  \<^item> Collaborators: \<open>Store\<close> (\<^verbatim>\<open>store.rs\<close>) with the contract of a key-value store with generations and the
    in-memory store, \<open>Cln_Store\<close> (\<^verbatim>\<open>cln_store.rs\<close>) its implementation on lightningd's datastore, \<open>Subtree\<close> the removal of a subtree
    and uninstalling; \<open>Node\<close>
    (\<^verbatim>\<open>node.rs\<close>) and \<open>Cln_Node\<close> (\<^verbatim>\<open>cln_node.rs\<close>); \<open>Ledger\<close> (\<^verbatim>\<open>ledger.rs\<close>), \<open>Gossip\<close> (\<^verbatim>\<open>gossip.rs\<close>), \<open>Config\<close>
    (\<^verbatim>\<open>config.rs\<close>), \<open>Channel_Id\<close> (\<^verbatim>\<open>channel_id.rs\<close>), \<open>Keys\<close> (\<^verbatim>\<open>keys.rs\<close>), \<open>Scanner\<close> (\<^verbatim>\<open>scanner.rs\<close>), \<open>Htlc\<close>
    (\<^verbatim>\<open>htlc.rs\<close>, the manager that the library exports and the plugin does not use), \<open>Sphinx\<close>
    (\<^verbatim>\<open>sphinx.rs\<close>) with its properties in \<open>Onion\<close>.
  \<^item> Persistence: \<open>Serde\<close> is the JSON form of every persisted record, as the serde attributes and adapters
    in \<^verbatim>\<open>store.rs\<close>, \<^verbatim>\<open>config.rs\<close>, \<^verbatim>\<open>ledger.rs\<close> and \<^verbatim>\<open>wire/\<close> declare it; \<open>Production\<close> puts the controller, the
    datastore adapter and these forms together as \<^verbatim>\<open>main.rs\<close> does.
  \<^item> The plugin, \<^verbatim>\<open>main.rs\<close>: \<open>Plugin\<close> has the dispatch of custom messages, the policy command and the
    entry points of the controller; \<open>Requests\<close> the reading of JSON arguments, the start of the plugin
    and its lock; \<open>Hooks\<close> and \<open>Commands\<close> the notifications, hooks and commands as lightningd calls
    them, and \<open>serve\<close>, all of them together.

  \<^bold>\<open>How the proofs are organised.\<close> The contracts between components are locales. \<open>keyed_store\<close> states
  what the store trait promises; the in-memory store and the datastore adapter are interpreted, also in
  \<open>deleting_store\<close>, which adds what a failed deletion says.
  \<open>host_env\<close> adds faithful serialisation and hexadecimal keys. \<open>host\<close> (\<open>Host_Inv\<close>) is a host with a
  property of stored channels, policies and secrets that the bookkeeping fields do not matter for:
  inside it every operation that leaves the cross-signed state alone keeps the property, on error
  paths too. \<open>host_rules\<close> (\<open>Host_Rules\<close>) has one law for each place where a cross-signed state is
  created, replaced or proposed, under the conditions the code checks there. \<open>durable_host\<close> (\<open>Ordering\<close>)
  is a host whose failed writes leave the store alone; inside it every event of the history is \<open>justified\<close> by the
  events before it: a promise by a saved channel that has it, a saved fulfilment by its stored preimage, a
  payment by an HTLC of a saved state, a failed forward by the release of the client's HTLC. There too a run of the
  deadlines (\<open>Deadlines\<close>) leaves no overdue channel active. \<open>Admission\<close> has the
  checks that stand before an offer. \<open>request_inv\<close> (\<open>Service\<close>) carries such invariants over every request, task and waiting
  round. Three properties discharge the laws: the
  money invariant (\<open>Balance\<close>), the cross-signatures (\<open>Signatures\<close>), and the refinement of the
  abstract protocol \<open>contract_step\<close> (\<open>Contract\<close>). \<open>Host_Model\<close> is a host on the in-memory store and
  the recording node in which channels are requested and opened; it shows that the hypotheses
  hold together. \<open>Host_Runs\<close> leads it from the empty store, by messages, hooks and timers, to a revealed preimage, a payment
  and a failed forward. \<open>json_form\<close> and \<open>hex_crate\<close> are the contracts of a serialiser and of the hexadecimal
  crate. Codecs share the locales \<open>body_codec\<close>, \<open>prefix_codec\<close> and \<open>fixed_codec\<close>; \<open>preimage_store\<close>,
  \<open>block_source\<close> and \<open>sphinx_laws\<close> are the contracts of the node's preimages, its blocks and the
  cryptography of the onion.

  \<^bold>\<open>What is shown.\<close> Of the whole plugin: money is conserved in every reachable world, established
  channels are cross-signed, a channel changes only as the protocol allows and the client's side of
  it only to what the client has signed, every promise to a peer was stored before it was sent, a preimage was kept
  before its fulfilment counts, a payment is covered by the client's HTLC, a forward is failed only when the client has
  no claim to it, an HTLC is
  offered only within every limit, overdue HTLCs put their channel into the error state, a
  plugin that starts over a lawful datastore meets the contracts all this assumes, uninstalling ends and removes exactly the plugin's entries, secrets pay out once, a locked plugin does nothing and only
  the passphrase unlocks it. Of the state manager: conservation, ownership by preimage, agreement of
  both parties, absence of overflow. Of the codecs: round trips, canonical integers, exactness of
  the TLV validator, what a signature binds, that everything decoded is well formed. Of the persisted
  records: they are read back as written, and records of older versions load. Of the onion: construction and peeling of one and two
  hops, authenticity. Of the adapters: refinement of the store and preimage contracts, genuine
  payment results. Of keys, scanner, ledger, configuration and gossip: the properties stated there.
  Some theorems prove defects: the misread legacy fulfil, the panic in the payload parser, the HTLC
  direction that no signature binds, the wrapped balance of an unfunded secret, the stale channel that
  overwrites a newer one.

  \<^bold>\<open>Bounds, loops and panics.\<close> Machine integers are words of their width, and wrap where the source does
  not check. Loops over data are structural recursion; the compare-and-swap helper tries ten times as
  the source does; \<open>derive_secret\<close> ends after at most \<open>2^32\<close> counters; the walk of \<open>delete_subtree\<close> is a
  partial function whose \<open>None\<close> is not returning, and \<open>Subtree\<close> shows by a multiset of ranks that over a
  lawful store with finitely many entries it returns. A waiting hook is a value, and a round of its loop a
  step: 600 rounds for a payment, no bound for an HTLC, as in the source. A Rust panic is an error
  value that no handler catches.

  \<^bold>\<open>What is not modelled.\<close> \<^verbatim>\<open>lib.rs\<close> only declares modules. Logging, sleeping and the zeroing of memory
  change no state. Awaits within one handler are sequential: an interleaving of two handlers at a
  store call is not considered, apart from the theorem on stale saves. Of serde the text layer
  (\<^verbatim>\<open>serde_json\<close>) and the text of error values are parameters; the meaning of the attributes is the
  documented one, and forms that serde reads and the plugin never writes (structs as arrays, variants
  by number) are left out. Cryptography, the block parser, invoices, sockets and
  files are code of other crates or of the system and are parameters too.
\<close>

section \<open>Money\<close>



text \<open>
  C2. Every established channel is cross-signed. In every world the plugin reaches in which no resize
  has been applied, the state of an established channel carries a valid signature of the peer and a
  valid signature of the host, and a proposed override carries the signature of the host.
\<close>

theorem established_channels_are_cross_signed:
  assumes "signing_host E view" and "plugin_run P E view (unresized E view) w"
    and "stored_channel E view w p = Some d"
  shows "(cd_established d \<longrightarrow> verify_remote_sig (c_crypto E) (cd_lcss d) p \<and>
      verify_remote_sig (c_crypto E) (reverse (cd_lcss d)) (c_node_public E)) \<and>
    (\<forall>n. cd_proposed_override d = Some n \<longrightarrow> verify_remote_sig (c_crypto E) (reverse n) (c_node_public E))"
  using signing_host.reachable_channels_signed [OF assms]
  by (auto simp: cross_signed_def host_signed_def)

theorem established_channels_are_cross_signed_witness:
  "\<exists>w. host_reachable model_host mem_view (unresized model_host mem_view) w \<and>
     stored_channel model_host mem_view w peer_pk = Some opened \<and> cd_established opened \<and>
     verify_remote_sig model_sphinx (cd_lcss opened) peer_pk \<and>
     verify_remote_sig model_sphinx (reverse (cd_lcss opened)) host_pk"
proof -
  have "\<exists>w. host_reachable model_host mem_view (unresized model_host mem_view) w \<and>
      stored_channel model_host mem_view w peer_pk = Some opened"
    by (rule reach_opened) (auto simp: unresized_def no_resize_def)
  then obtain w where w: "host_reachable model_host mem_view (unresized model_host mem_view) w"
    "stored_channel model_host mem_view w peer_pk = Some opened" by blast
  have "cd_established opened" by (simp add: opened_def)
  then show ?thesis
    using w established_channels_are_cross_signed [OF mem_signing.signing_host_axioms host_reachable_run [OF w(1)] w(2)] by auto
qed

section \<open>The protocol\<close>

text \<open>
  C3. The host refines the protocol. Whatever the host handles - a message of any peer, a request of
  lightningd with any JSON in it, a timer or a command - the contract of a stored channel changes by steps of the
  abstract protocol only: it is established, committed, overridden, adopted, resized or renewed
  under the conditions that \<open>contract_step\<close> states, and by nothing else.
\<close>

theorem host_refines_contract:
  assumes "host_env E view"
    and "host_step E sound w w' \<or> pl_runtime S = Unlocked E \<and> serve P m v S w = Some (r, S', w')"
    and "stored_channel E view w p = Some d" and "stored_channel E view w' p = Some d'"
  shows "(contract_step (c_crypto E) (c_node_secret E) (c_node_public E) p)\<^sup>*\<^sup>* (contract_of d) (contract_of d')"
  using host_env.one_step_contract [OF assms] by (simp add: evolved_def)

theorem host_refines_contract_witness:
  "\<exists>w w'. host_step model_host (\<lambda>_ _. True) w w' \<and>
     stored_channel model_host mem_view w peer_pk = Some requested \<and>
     stored_channel model_host mem_view w' peer_pk = Some opened \<and>
     (contract_step model_sphinx host_secret host_pk peer_pk)\<^sup>*\<^sup>* (contract_of requested) (contract_of opened)"
proof -
  obtain w w' where w: "stored_channel model_host mem_view w peer_pk = Some requested"
    "host_step model_host (\<lambda>_ _. True) w w'" "stored_channel model_host mem_view w' peer_pk = Some opened"
    using opening_step [of "\<lambda>_ _. True"] by auto
  show ?thesis
    using w host_refines_contract [OF mem_funded.host_env_axioms disjI1 [OF w(2)] w(1,3)] by auto
qed

text \<open>
  C4. The client's side of an established channel is what the client has signed. In one step of the
  host, whatever it is, the client's balance, the HTLCs and both update counters of an established
  channel that is not suspended stay as they were, or become those of a state that carries a valid
  signature of the client; the channel stays established.
\<close>

theorem client_side_needs_signature:
  assumes "host_env E view"
    and "host_step E sound w w' \<or> pl_runtime S = Unlocked E \<and> serve P m v S w = Some (r, S', w')"
    and "stored_channel E view w p = Some d" and "stored_channel E view w' p = Some d'"
    and "cd_established d" and "\<not> cd_suspended d"
  shows "cd_established d' \<and> (\<exists>s. (s = cd_lcss d \<or> verify_remote_sig (c_crypto E) s p) \<and>
    remote_balance_msat (cd_lcss d') = remote_balance_msat s \<and>
    incoming_htlcs (cd_lcss d') = incoming_htlcs s \<and> outgoing_htlcs (cd_lcss d') = outgoing_htlcs s \<and>
    local_updates (cd_lcss d') = local_updates s \<and> remote_updates (cd_lcss d') = remote_updates s)"
  using steps_client_side host_env.one_step_contract [OF assms(1-4)] assms(5,6)
  by (fastforce simp: evolved_def client_side_def)

theorem client_side_needs_signature_witness:
  "\<exists>w w' d'. host_step model_host (\<lambda>_ _. True) w w' \<and>
     stored_channel model_host mem_view w peer_pk = Some opened \<and>
     stored_channel model_host mem_view w' peer_pk = Some d' \<and> cd_established d'"
proof -
  obtain w where w: "stored_channel model_host mem_view w peer_pk = Some opened"
    using opening_step [of "\<lambda>_ _. True"] by auto
  let ?w = "run_entry model_host (Disconnected peer_pk) w"
  have step: "host_step model_host (\<lambda>_ _. True) w ?w" by (rule host_step.entry) simp
  have w': "stored_channel model_host mem_view ?w peer_pk = Some opened"
    using w by (simp add: stored_channel_def plugin_handle_disconnect_def handle_disconnect_def
        note_peer_connection_def abind_run)
  have "cd_established opened" "\<not> cd_suspended opened"
    by (simp_all add: opened_def requested_def new_channel_data_def)
  from client_side_needs_signature [OF mem_funded.host_env_axioms disjI1 [OF step] w w' this]
  show ?thesis using step w w' by blast
qed

section \<open>Durability\<close>



text \<open>
  C6. A preimage is kept before it counts. In every run of the plugin, a channel in which the fulfilment of
  a client waits for the next state was saved only after its preimage had been handed to the node's
  store under its hash: the claim on the upstream HTLC cannot be lost once the client's balance can
  grow by it.
\<close>

theorem preimage_before_credit:
  assumes "durable_host E view" and "plugin_run P E view sound w"
    and "w_trace w = before @ Saved p d # after" and "Remote (Fulfill c i x) \<in> set (cd_uncommitted d)"
  shows "Kept (sha256 (c_crypto E) x) x \<in> set before"
  using durable_host.run_justified [OF assms(1-3)] assms(4) by (auto simp: revealed_def)

theorem preimage_before_credit_witness:
  "\<exists>w before d. host_reachable model_host mem_view (\<lambda>_ _. True) w \<and> w_trace w = before @ [Saved peer_pk d] \<and>
     cd_uncommitted d = [Remote (Fulfill (replicate 32 0) 1 revealed_preimage)] \<and>
     Kept (model_digest revealed_preimage) revealed_preimage \<in> set before"
proof -
  obtain w where w: "stage [peer_key \<mapsto> (2, VChannel owing)] w" using stage_owing by blast
  let ?w = "snd (dispatch_message model_host peer_pk (UpdateFulfillHtlc claim) (heard w))"
  have reach: "host_reachable model_host mem_view (\<lambda>_ _. True) ?w"
    by (rule message_reached [OF w claim_wf])
  obtain d before where tr: "w_trace ?w = before @ [Saved peer_pk d]"
    "cd_uncommitted d = [Remote (Fulfill (replicate 32 0) 1 revealed_preimage)]"
    using claim_accepted [OF w] by blast
  have "Kept (model_digest revealed_preimage) revealed_preimage \<in> set before"
    using preimage_before_credit [OF mem_durable.durable_host_axioms host_reachable_run [OF reach] tr(1)] tr(2) by simp
  then show ?thesis using reach tr by blast
qed

text \<open>
  C40. Saving does not notice a concurrent change. A handler that loaded a channel and saves it without a
  generation, as every handler does, succeeds after another handler has stored a newer channel in
  between and overwrites it; with the generation it had loaded, the save would fail and leave the
  newer channel.
\<close>

theorem stale_save_wins:
  assumes "mem_view (w_store w) (channel_key model_host p) = Some (g, VChannel d0)"
    and "save_channel model_host p newer None w = (r, w')"
  shows "load_channel model_host p w = (Inr (Some d0), w) \<and> r = Inr () \<and>
    stored_channel model_host mem_view w' p = Some newer \<and>
    (\<exists>w''. save_channel model_host p stale None w' = (Inr (), w'') \<and>
      stored_channel model_host mem_view w'' p = Some stale) \<and>
    (\<exists>e. save_channel model_host p stale (Some g) w' = (Inl e, w'))"
proof -
  have w': "r = Inr ()" "w' = put_channel p (g + 1) newer w"
    using assms(2) save_run(2) [OF assms(1)] by simp_all
  have now: "mem_view (w_store w') (channel_key model_host p) = Some (g + 1, VChannel newer)"
    by (simp add: w'(2) put_channel_def mem_view_upd)
  show ?thesis
    using now save_run(2) [OF now, of stale] load_run(2) [OF assms(1)] save_conflict [OF now, of g stale]
    by (simp add: w'(1)) (simp add: w'(2))
qed

theorem stale_save_wins_witness:
  "\<exists>w r w'. save_channel model_host peer_pk opened None w = (r, w') \<and>
     stored_channel model_host mem_view w peer_pk = Some requested \<and>
     (\<exists>w''. save_channel model_host peer_pk requested None w' = (Inr (), w'') \<and>
        stored_channel model_host mem_view w'' peer_pk = Some requested)"
proof -
  let ?w = "put_channel peer_pk 0 requested empty_world"
  have now: "mem_view (w_store ?w) (channel_key model_host peer_pk) = Some (0, VChannel requested)"
    by (simp add: put_channel_def mem_view_upd)
  obtain r w' where run: "save_channel model_host peer_pk opened None ?w = (r, w')" by fastforce
  show ?thesis
    using run stale_save_wins [OF now run, of requested] put_channel_stored by blast
qed

section \<open>Forwarding\<close>





text \<open>
  C7. The host pays with the client's money. In every run of the plugin, a payment is sent to the network
  on behalf of a client only when a channel of that client had been saved whose cross-signed state holds
  an HTLC of the client with the same number and payment hash and at least the amount that is sent.
\<close>

theorem payouts_are_covered:
  assumes "durable_host E view" and "plugin_run P E view sound w" and "w_trace w = before @ PaidOut p params # after"
  shows "\<exists>d. Saved p d \<in> set before \<and> (\<exists>h \<in> set (incoming_htlcs (cd_lcss d)).
    htlc_id h = sop_part_id params \<and> htlc_payment_hash h = sop_payment_hash params \<and>
    sop_first_amount_msat params \<le> htlc_amount_msat h)"
  using durable_host.run_justified [OF assms] by (simp add: covered_def)

theorem payouts_are_covered_witness:
  "\<exists>w before params d. host_reachable model_host mem_view (\<lambda>_ _. True) w \<and> w_trace w = before @ [PaidOut peer_pk params] \<and>
     sop_first_amount_msat params = 4000 \<and> Saved peer_pk d \<in> set before \<and>
     (\<exists>h \<in> set (incoming_htlcs (cd_lcss d)). htlc_payment_hash h = pay_hash \<and> 4000 \<le> htlc_amount_msat h)"
proof -
  obtain w0 where "stage [peer_key \<mapsto> (2, VChannel paying)] w0" using stage_paying by blast
  then have w: "stage [peer_key \<mapsto> (2, VChannel paying)] (w0\<lparr>w_node := MockNode_new 1440 host_pk ''regtest''\<rparr>)"
    by (rule stage_outside)
  then obtain params where sent: "w_trace (run_entry model_host (Connected peer_pk) (w0\<lparr>w_node := MockNode_new 1440 host_pk ''regtest''\<rparr>)) =
      w_trace w0 @ PaidOut peer_pk params # []"
    "sop_first_amount_msat params = 4000" "sop_payment_hash params = pay_hash"
    using payment_sent by fastforce
  note reach = entry_reached [OF w, of "Connected peer_pk"]
  show ?thesis
    using payouts_are_covered [OF mem_durable.durable_host_axioms host_reachable_run [OF reach] sent(1)] sent reach by metis
qed



lemma refused_fulfill_is_ignored:
  assumes "host_env E view" and "stored_channel E view w p = Some d" and "refuses_fulfill d"
  shows "w_trace (snd (handle_update_fulfill E p m w)) = w_trace w"
proof -
  obtain x w1 where load: "require_channel E p w = (x, w1)" by fastforce
  have "x = Inr d" if "x = Inr d'" for d'
    using host_env.require_stored [OF assms(1)] load that assms(2) by fastforce
  then show ?thesis
    using assms(3) load require_records_nothing [OF load]
    by (cases x) (auto simp: handle_update_fulfill_def abind_run refuses_fulfill_def)
qed

section \<open>Secrets\<close>

text \<open>
  C17. A provisioning secret pays out once. When consuming a secret gives a policy, a live secret was
  stored under it and the policy has exactly its capacity and initial balance; afterwards the secret
  is gone, and consuming it again gives no policy, whatever the store answers.
\<close>

theorem secrets_pay_once:
  assumes "host_env E view" and "consume_secret E x w = (Inr (Some q), w')"
  shows "(\<exists>s g v. view (w_store w) (secret_key E x) = Some (g, v) \<and> from_slice (c_secret E) v = Inr s \<and>
      \<not> sec_consumed s \<and> pol_channel_capacity_msat q = sec_capacity_msat s \<and>
      pol_initial_client_balance_msat q = sec_initial_balance_msat s) \<and>
    view (w_store w') (secret_key E x) = None \<and> fst (consume_secret E x w') \<noteq> Inr (Some q')"
  using host_env.consume_secret_spec [OF assms] host_env.secret_gone [OF assms(1)] by blast

theorem secrets_pay_once_witness:
  "\<exists>q w'. consume_secret model_host sample_secret invited = (Inr (Some q), w') \<and>
     fst (consume_secret model_host sample_secret w') \<noteq> Inr (Some q)"
proof -
  obtain q w' where run: "consume_secret model_host sample_secret invited = (Inr (Some q), w')"
    using invited_consumes by blast
  show ?thesis using run secrets_pay_once [OF mem_funded.host_env_axioms run] by blast
qed

text \<open>
  C39. A policy whose initial balance exceeds its capacity, which a secret may bring, opens a channel
  with money that is not there: the host's balance wraps around, and what the new state holds is the
  capacity and \<open>2^64\<close> more.
\<close>

theorem unfunded_secret_wraps:
  assumes "pol_channel_capacity_msat q < pol_initial_client_balance_msat q"
  shows "unat (local_balance_msat (cd_lcss (new_channel_data q r))) +
      unat (remote_balance_msat (cd_lcss (new_channel_data q r))) =
    unat (ihc_channel_capacity_msat (init_hosted_channel (cd_lcss (new_channel_data q r)))) + 2 ^ 64"
proof -
  have "unat (pol_initial_client_balance_msat q) < 2 ^ 64"
    using unsigned_less [of "pol_initial_client_balance_msat q"] by simp
  then show ?thesis
    using assms by (simp add: new_channel_data_def init_of_policy_def unat_sub_if' word_less_nat_alt word_le_nat_alt)
qed

theorem unfunded_secret_wraps_witness:
  "unat (local_balance_msat (cd_lcss (new_channel_data
      (ChannelPolicy_default\<lparr>pol_channel_capacity_msat := 5, pol_initial_client_balance_msat := 7\<rparr>) []))) + 7 =
    5 + 2 ^ 64"
  using unfunded_secret_wraps [of "ChannelPolicy_default\<lparr>pol_channel_capacity_msat := 5,
      pol_initial_client_balance_msat := 7\<rparr>" "[]"]
  by (simp add: new_channel_data_def init_of_policy_def)

text \<open>
  The listing of secrets is documented as redacted; it gives every stored secret in clear, since the
  name of its entry is the secret itself in hexadecimal.
\<close>

lemma listed_secrets_are_clear:
  assumes "host_env E view" and "view (w_store w) (secret_key E x) \<noteq> None"
    and "list_secrets E w = (Inr names, w')"
  shows "hex_encode (c_crypto E) x \<in> set names"
  by (rule host_env.secret_listed [OF assms])

text \<open>
  Integer options are cast to unsigned words: a capacity of \<open>-1\<close> is accepted and becomes the largest
  64-bit number.
\<close>

lemma negative_capacity_accepted:
  "config_from_options P (\<lambda>name. Inr (if name = ''canopus-capacity-msat'' then Some (OInteger (-1)) else None)) =
     Inr (Config_default\<lparr>cfg_policy := ChannelPolicy_default\<lparr>pol_channel_capacity_msat := 2 ^ 64 - 1\<rparr>\<rparr>)"
  by (simp add: config_from_options_def config_setters_def opt_def on_integer_def Config_default_def
      Config_validate_def ChannelPolicy_default_def)

section \<open>Payments\<close>

text \<open>
  A payment notification settles the forward it belongs to: when lightningd reports success for a
  payment with the label under which a forward was sent, the unlocked plugin resolves exactly that
  forward, with the preimage reported; a failure report fails exactly that forward.
\<close>

theorem forward_label_roundtrip:
  assumes "pl_runtime S = Unlocked E" and "hex_ok (c_crypto (pe_host P))" and "length preimage = 32"
    and "label = dec_nat (unat scid) @ ''/'' @ dec_nat (unat hid)"
  shows "on_sendpay_success P S (JObject [(''sendpay_success'', JObject [(''label'', JString label),
        (''payment_preimage'', JString (hex_encode (c_crypto (pe_host P)) preimage))])]) =
      amap_err FromController (handle_outgoing_payment_result E scid hid (Succeeded preimage)) \<and>
    on_sendpay_failure P S (JObject [(''sendpay_failure'', JObject [(''data'',
        JObject [(''label'', JString label), (''failcode'', JNumber (PosInt code))])])]) =
      amap_err FromController (handle_outgoing_payment_result E scid hid
        (Failed (write_u16 (if unat code < 2 ^ 16 then ucast code else 0x1007))))"
  using assms forward_label_parses [of "json_label P" scid hid]
  by (auto simp: on_sendpay_success_def on_sendpay_failure_def nested_def plugin_controller_def
      parse_32_hex_def hex_ok_def sendpay_failure_payload_def or_else_def Let_def abind_alift_Inr)

theorem forward_label_roundtrip_witness:
  "\<forall>P. on_sendpay_success (P\<lparr>pe_host := model_host\<rparr>)
       \<lparr>pl_runtime = Unlocked model_host, pl_config = Config_default, pl_rpc_path = [], pl_hsm_secret_path = []\<rparr>
       (JObject [(''sendpay_success'', JObject [(''label'', JString (dec_nat 42 @ ''/'' @ dec_nat 7)),
         (''payment_preimage'', JString (hex_encode (c_crypto model_host) (replicate 32 9)))])]) =
     amap_err FromController (handle_outgoing_payment_result model_host 42 7 (Succeeded (replicate 32 9)))"
proof
  fix P :: "(stored MemoryStore, stored, MockNode, 'm) plugin_env"
  have hex: "hex_ok (c_crypto (pe_host (P\<lparr>pe_host := model_host\<rparr>)))"
    using mem_funded.hex_law by simp
  show "on_sendpay_success (P\<lparr>pe_host := model_host\<rparr>)
       \<lparr>pl_runtime = Unlocked model_host, pl_config = Config_default, pl_rpc_path = [], pl_hsm_secret_path = []\<rparr>
       (JObject [(''sendpay_success'', JObject [(''label'', JString (dec_nat 42 @ ''/'' @ dec_nat 7)),
         (''payment_preimage'', JString (hex_encode (c_crypto model_host) (replicate 32 9)))])]) =
     amap_err FromController (handle_outgoing_payment_result model_host 42 7 (Succeeded (replicate 32 9)))"
    using forward_label_roundtrip [OF _ hex, of
        "\<lparr>pl_runtime = Unlocked model_host, pl_config = Config_default, pl_rpc_path = [], pl_hsm_secret_path = []\<rparr>"
        model_host "replicate 32 9" "dec_nat 42 @ ''/'' @ dec_nat 7" 42 7]
    by simp
qed

end
